(* ===== verification/Prelude.thy ===== *)
theory Prelude
  imports Main "HOL-Library.Char_ord" "HOL-Library.List_Lexorder" "HOL-Library.Word"
begin

text \<open>
  What every component of the development shares: the order of \<open>std::string\<close>, the two
  standard string operations the sources use (\<open>c_str()\<close> and \<open>find\<close>), erasing and inserting
  in a vector at an iterator position, and the collections of simplification rules that the
  component theories extend.

  A \<open>std::string\<close> is a \<^typ>\<open>string\<close>, a list of bytes. Its \<open>operator <\<close> compares
  lexicographically, bytes read as unsigned: this is the order that the library theories
  List_Lexorder and Char_ord give to \<^typ>\<open>string\<close>. A \<open>std::vector\<close> is a list, an
  iterator into it a position; \<open>end()\<close> is the position \<open>length\<close>.
\<close>

named_theorems om_defs "definitions of the operations of the sorted object container"
named_theorems effect_simps "what a handler appends to the trace of effects"

subsection \<open>Vectors\<close>

definition vec_insert :: "nat \<Rightarrow> 'a \<Rightarrow> 'a list \<Rightarrow> 'a list" where
  "vec_insert i x xs = take i xs @ x # drop i xs"

definition vec_erase :: "nat \<Rightarrow> 'a list \<Rightarrow> 'a list" where
  "vec_erase i xs = take i xs @ drop (Suc i) xs"

lemma length_vec_insert [simp]: "i \<le> length xs \<Longrightarrow> length (vec_insert i x xs) = Suc (length xs)"
  by (simp add: vec_insert_def)

lemma length_vec_erase [simp]: "i < length xs \<Longrightarrow> length (vec_erase i xs) = length xs - 1"
  by (simp add: vec_erase_def)

lemma vec_erase_append [simp]: "vec_erase (length ys) (ys @ x # zs) = ys @ zs"
  by (simp add: vec_erase_def)

lemma vec_insert_append [simp]: "vec_insert (length ys) x (ys @ zs) = ys @ x # zs"
  by (simp add: vec_insert_def)

subsection \<open>Strings\<close>

text \<open>
  \<open>c_str()\<close> seen through a function that reads up to the terminator: the bytes before the
  first NUL.
\<close>

definition c_str :: "string \<Rightarrow> string" where
  "c_str s = takeWhile (\<lambda>c. c \<noteq> CHR 0x00) s"

lemma c_str_id: "CHR 0x00 \<notin> set s \<Longrightarrow> c_str s = s"
  by (auto simp: c_str_def takeWhile_eq_all_conv)

text \<open>
  \<open>std::string::find (d, pos)\<close>: the least position \<open>i \<ge> pos\<close> where \<open>d\<close> stands in \<open>s\<close>;
  \<^const>\<open>None\<close> is \<open>npos\<close>. An empty \<open>d\<close> is found at \<open>pos\<close> when \<open>pos \<le> size()\<close>.
\<close>

definition occurs_at :: "string \<Rightarrow> string \<Rightarrow> nat \<Rightarrow> bool" where
  "occurs_at s d i \<longleftrightarrow> i + length d \<le> length s \<and> take (length d) (drop i s) = d"

definition str_find :: "string \<Rightarrow> string \<Rightarrow> nat \<Rightarrow> nat option" where
  "str_find s d pos = List.find (occurs_at s d) [pos..<Suc (length s)]"

text \<open>\<open>std::string (src.begin () + i, src.begin () + j)\<close> for \<open>i \<le> j \<le> size()\<close>.\<close>

definition substr :: "string \<Rightarrow> nat \<Rightarrow> nat \<Rightarrow> string" where
  "substr s i j = take (j - i) (drop i s)"

lemma str_find_Some:
  assumes "str_find s d pos = Some i"
  shows "pos \<le> i" and "i + length d \<le> length s" and "occurs_at s d i"
proof -
  have "i \<in> set [pos..<Suc (length s)] \<and> occurs_at s d i"
    using assms unfolding str_find_def find_Some_iff by (metis nth_mem)
  then show "pos \<le> i" and "i + length d \<le> length s" and "occurs_at s d i"
    by (auto simp: occurs_at_def)
qed

text \<open>Searching for one character, as in \<open>find (".")\<close> and \<open>find (" ")\<close>.\<close>

lemma occurs_at_single: "occurs_at s [c] i \<longleftrightarrow> i < length s \<and> s ! i = c"
  by (auto simp: occurs_at_def take_Suc_conv_app_nth Suc_le_eq hd_drop_conv_nth
      intro!: nth_equalityI)

lemma str_find_single_hit:
  assumes "c \<notin> set u"
  shows "str_find (w @ u @ c # v) [c] (length w) = Some (length w + length u)"
proof -
  let ?s = "w @ u @ c # v"
  let ?is = "[length w..<Suc (length ?s)]"
  have miss: "\<not> occurs_at ?s [c] (?is ! j)" if "j < length u" for j
  proof -
    from that have "?is ! j = length w + j" by (simp add: nth_upt del: upt_Suc)
    moreover from that have "?s ! (length w + j) = u ! j" by (simp add: nth_append)
    moreover from that have "u ! j \<in> set u" by simp
    ultimately show ?thesis using assms by (auto simp: occurs_at_single)
  qed
  have at: "?is ! length u = length w + length u" by (simp add: nth_upt del: upt_Suc)
  have hit: "occurs_at ?s [c] (length w + length u)"
    by (simp add: occurs_at_single nth_append)
  have "length u < length ?is" by (simp del: upt_Suc)
  then show ?thesis
    unfolding str_find_def find_Some_iff using miss at hit by metis
qed

lemma str_find_single_miss:
  assumes "c \<notin> set u"
  shows "str_find (w @ u) [c] (length w) = None"
proof -
  have "\<not> occurs_at (w @ u) [c] i" if "length w \<le> i" for i
  proof
    assume "occurs_at (w @ u) [c] i"
    then have "i < length (w @ u)" and eq: "(w @ u) ! i = c" by (auto simp: occurs_at_single)
    with that have "i - length w < length u" and "(w @ u) ! i = u ! (i - length w)"
      by (auto simp: nth_append)
    then have "(w @ u) ! i \<in> set u" by simp
    with eq assms show False by simp
  qed
  then show ?thesis by (auto simp: str_find_def find_None_iff)
qed

end
