(* ===== verification/Common_Utils.thy ===== *)
theory Common_Utils
  imports Prelude
begin

text \<open>
  The string utilities of \<open>utils/utils.cpp\<close> (class \<open>CommonUtils\<close>) that cut and join
  strings.
\<close>

section \<open>DelimitString\<close>

text \<open>
  The loop of \<open>DelimitString\<close> from a position \<open>begin\<close> with the parts collected so far. It
  searches for \<open>delimit.c_str ()\<close> but skips \<open>delimit.size ()\<close> characters; with an empty
  delimiter the search succeeds at \<open>begin\<close> for ever, so the loop is a partial function and
  \<^const>\<open>None\<close> is "does not return".
\<close>

partial_function (option) DelimitString_loop ::
    "string \<Rightarrow> string \<Rightarrow> nat \<Rightarrow> string list \<Rightarrow> (nat \<times> string list) option" where
  "DelimitString_loop src delimit beg dest =
     (case str_find src (c_str delimit) beg of
        None \<Rightarrow> Some (beg, dest)
      | Some pos \<Rightarrow>
          DelimitString_loop src delimit (pos + length delimit)
            (if beg \<noteq> pos then dest @ [substr src beg pos] else dest))"

declare DelimitString_loop.simps [code]

text \<open>
  After the loop, \<open>begin != src.size () - 1\<close> is compared in \<open>size_t\<close>: for an empty source the
  right side wraps to the largest value, so the comparison is \<open>begin + 1 \<noteq> size ()\<close>. A
  \<open>begin\<close> beyond the end (a delimiter with an embedded NUL) would build a string from an
  invalid iterator range, which has no result either.
\<close>

definition DelimitString :: "string \<Rightarrow> string \<Rightarrow> string list option" where
  "DelimitString src delimit =
     (case DelimitString_loop src delimit 0 [] of
        None \<Rightarrow> None
      | Some (beg, dest) \<Rightarrow>
          if length src < beg then None
          else if Suc beg \<noteq> length src then Some (dest @ [substr src beg (length src)])
          else Some dest)"

text \<open>The reference: cut at every occurrence of one character, keeping empty parts.\<close>

fun split_on :: "char \<Rightarrow> string \<Rightarrow> string list" where
  "split_on c [] = [[]]"
| "split_on c (x # xs) =
     (if x = c then [] # split_on c xs
      else (case split_on c xs of [] \<Rightarrow> [[x]] | p # ps \<Rightarrow> (x # p) # ps))"

lemma split_on_nonempty [simp]: "split_on c s \<noteq> []"
  by (cases s) (auto split: list.splits)

lemma split_on_free: "c \<notin> set s \<Longrightarrow> split_on c s = [s]"
  by (induction s) auto

lemma split_on_append:
  "c \<notin> set u \<Longrightarrow> split_on c (u @ c # v) = u # split_on c v"
  by (induction u) auto

lemma split_first:
  assumes "c \<in> set s"
  obtains u v where "s = u @ c # v" and "c \<notin> set u"
  using split_list_first [OF assms] by blast

lemma split_on_suffix: "\<exists>p. s = p @ last (split_on c s)"
proof (induction "length s" arbitrary: s rule: less_induct)
  case less
  show ?case
  proof (cases "c \<in> set s")
    case True
    then obtain u v where s: "s = u @ c # v" "c \<notin> set u" by (rule split_first)
    moreover from s less [of v] obtain p where "v = p @ last (split_on c v)" by auto
    ultimately have "s = (u @ c # p) @ last (split_on c s)" by (simp add: split_on_append)
    then show ?thesis by blast
  qed (simp add: split_on_free)
qed

lemma length_last_split_on: "length (last (split_on c s)) \<le> length s"
  by (metis split_on_suffix length_append le_add2)

lemma DelimitString_loop_single:
  assumes "c \<noteq> CHR 0x00"
  shows "DelimitString_loop (w @ u) [c] (length w) dest
    = Some (length w + (length u - length (last (split_on c u))),
            dest @ filter (\<lambda>p. p \<noteq> []) (butlast (split_on c u)))"
proof (induction "length u" arbitrary: w u dest rule: less_induct)
  case less
  have c: "c_str [c] = [c]" using assms by (simp add: c_str_def)
  show ?case
  proof (cases "c \<in> set u")
    case True
    then obtain u1 u2 where u: "u = u1 @ c # u2" "c \<notin> set u1" by (rule split_first)
    let ?w = "w @ u1 @ [c]" and ?dest = "if u1 \<noteq> [] then dest @ [u1] else dest"
    have find: "str_find (w @ u) [c] (length w) = Some (length w + length u1)"
      using str_find_single_hit u by simp
    have sub: "substr (w @ u) (length w) (length w + length u1) = u1"
      using u by (simp add: substr_def)
    have "DelimitString_loop (w @ u) [c] (length w) dest
        = DelimitString_loop (?w @ u2) [c] (length ?w) ?dest"
      by (subst DelimitString_loop.simps) (use u find sub c in simp)
    also have "\<dots> = Some (length ?w + (length u2 - length (last (split_on c u2))),
            ?dest @ filter (\<lambda>p. p \<noteq> []) (butlast (split_on c u2)))"
      by (rule less) (simp add: u)
    finally show ?thesis
      using length_last_split_on [of c u2] u by (auto simp: split_on_append Suc_diff_le)
  next
    case False
    then have "str_find (w @ u) [c] (length w) = None" by (rule str_find_single_miss)
    then show ?thesis
      by (subst DelimitString_loop.simps) (simp add: c split_on_free False)
  qed
qed

text \<open>
  Against the reference: empty parts are dropped except the last, and a last part of exactly
  one character is dropped as well.
\<close>

lemma DelimitString_single:
  assumes "c \<noteq> CHR 0x00"
  shows "DelimitString s [c] = Some (filter (\<lambda>p. p \<noteq> []) (butlast (split_on c s)) @
     (if length (last (split_on c s)) = 1 then [] else [last (split_on c s)]))"
proof -
  let ?l = "last (split_on c s)"
  obtain p where s: "s = p @ ?l" using split_on_suffix by blast
  then have "length s - length ?l = length p" by (metis diff_add_inverse2 length_append)
  moreover have "substr s (length p) (length s) = ?l"
    using s by (metis append_eq_conv_conj diff_add_inverse le_refl length_append substr_def take_all)
  moreover have "length p \<le> length s" and "Suc (length p) = length s \<longleftrightarrow> length ?l = 1"
    using arg_cong [OF s, of length] by auto
  ultimately show ?thesis
    using DelimitString_loop_single [OF assms, of "[]" s "[]"] by (simp add: DelimitString_def)
qed

text \<open>The loop returns for every delimiter that makes progress.\<close>

lemma DelimitString_loop_returns:
  assumes "delimit \<noteq> []" and "CHR 0x00 \<notin> set delimit"
  shows "\<exists>b d. DelimitString_loop src delimit beg dest = Some (b, d) \<and> (beg \<le> length src \<longrightarrow> b \<le> length src)"
proof (induction "Suc (length src) - beg" arbitrary: beg dest rule: less_induct)
  case less
  show ?case
  proof (cases "str_find src (c_str delimit) beg")
    case None
    then show ?thesis by (subst DelimitString_loop.simps) simp
  next
    case (Some pos)
    then have pos: "beg \<le> pos" "pos + length delimit \<le> length src"
      using str_find_Some assms(2) by (auto simp: c_str_id)
    with assms(1) have "Suc (length src) - (pos + length delimit) < Suc (length src) - beg"
      by (cases delimit) auto
    from less [OF this, of "if beg \<noteq> pos then dest @ [substr src beg pos] else dest"] pos(2)
    show ?thesis by (subst DelimitString_loop.simps) (auto simp: Some split: if_splits)
  qed
qed

text \<open>With the empty delimiter every search succeeds where it starts, and nothing moves.\<close>

lemma str_find_empty: "beg \<le> length s \<Longrightarrow> str_find s [] beg = Some beg"
  by (simp add: str_find_def occurs_at_def upt_rec del: upt_Suc)

lemma DelimitString_loop_empty_aux:
  "DelimitString_loop src delimit beg dest = Some r \<Longrightarrow> delimit = [] \<longrightarrow> \<not> beg \<le> length src"
proof (erule DelimitString_loop.raw_induct [rotated])
  fix f :: "string \<Rightarrow> string \<Rightarrow> nat \<Rightarrow> string list \<Rightarrow> (nat \<times> string list) option"
    and src delimit beg dest r
  assume IH: "\<And>s dl bg ds r. f s dl bg ds = Some r \<Longrightarrow> dl = [] \<longrightarrow> \<not> bg \<le> length (s::string)"
  assume eq: "(case str_find src (c_str delimit) beg of
        None \<Rightarrow> Some (beg, dest)
      | Some pos \<Rightarrow>
          f src delimit (pos + length delimit)
            (if beg \<noteq> pos then dest @ [substr src beg pos] else dest)) = Some r"
  show "delimit = [] \<longrightarrow> \<not> beg \<le> length src"
    using eq IH [of src delimit _ _ r] by (auto simp: c_str_id str_find_empty)
qed

lemma DelimitString_loop_empty: "DelimitString_loop src [] 0 dest = None"
  using DelimitString_loop_empty_aux [of src "[]" 0 dest] by (cases "DelimitString_loop src [] 0 dest") auto

section \<open>ConcatString\<close>

text \<open>Both \<open>append\<close> calls go through \<open>c_str ()\<close>.\<close>

fun ConcatString_loop :: "bool \<Rightarrow> string list \<Rightarrow> string \<Rightarrow> string \<Rightarrow> string" where
  "ConcatString_loop first [] delimit dest = dest"
| "ConcatString_loop first (s # ss) delimit dest =
     ConcatString_loop False ss delimit ((if first then dest else dest @ c_str delimit) @ c_str s)"

definition ConcatString :: "string list \<Rightarrow> string \<Rightarrow> string" where
  "ConcatString src delimit = ConcatString_loop True src delimit []"

lemma ConcatString_loop_False:
  "ConcatString_loop False ss d dest = dest @ concat (map (\<lambda>s. c_str d @ c_str s) ss)"
  by (induction ss arbitrary: dest) auto

lemma ConcatString_Cons:
  "ConcatString (s # ss) d = c_str s @ concat (map (\<lambda>s. c_str d @ c_str s) ss)"
  by (simp add: ConcatString_def ConcatString_loop_False)

lemma ConcatString_Cons2:
  "ConcatString (s # t # ss) d = c_str s @ c_str d @ ConcatString (t # ss) d"
  by (simp add: ConcatString_Cons)

lemma split_on_ConcatString:
  assumes "ss \<noteq> []" and "\<forall>s \<in> set ss. c \<notin> set s \<and> CHR 0x00 \<notin> set s" and "c \<noteq> CHR 0x00"
  shows "split_on c (ConcatString ss [c]) = ss"
  using assms(1,2)
proof (induction ss rule: induct_list012)
  case (2 s)
  then show ?case by (simp add: ConcatString_Cons c_str_id split_on_free)
next
  case (3 s t ss)
  have "c_str [c] = [c]" using assms(3) by (simp add: c_str_id)
  with 3 show ?case by (simp add: ConcatString_Cons2 c_str_id split_on_append)
qed simp

section \<open>Properties\<close>

text \<open>
  C26: \<open>DelimitString\<close> by one character is the reference splitter with the empty parts dropped,
  except that the last part is always kept when empty and always dropped when it is a single
  character.
\<close>

theorem DelimitString_reference:
  assumes "c \<noteq> CHR 0x00"
  shows "DelimitString s [c] = Some (filter (\<lambda>p. p \<noteq> []) (butlast (split_on c s)) @
     (if length (last (split_on c s)) = 1 then [] else [last (split_on c s)]))"
  using assms by (rule DelimitString_single)

theorem DelimitString_reference_witness:
  "DelimitString ''one..two.x'' ''.'' = Some [''one'', ''two'']"
  using DelimitString_reference [of "CHR ''.''" "''one..two.x''"] by simp

text \<open>
  \<open>DelimitString\<close> returns for every delimiter that is not empty and holds no NUL, and for
  the empty delimiter it returns on no source at all.
\<close>

lemma DelimitString_returns_iff:
  assumes "CHR 0x00 \<notin> set delimit"
  shows "DelimitString src delimit \<noteq> None \<longleftrightarrow> delimit \<noteq> []"
proof (cases "delimit = []")
  case True
  then show ?thesis using DelimitString_loop_empty [of src "[]"] by (simp add: DelimitString_def)
next
  case False
  with DelimitString_loop_returns [OF False assms, of src 0 "[]"]
  show ?thesis by (auto simp: DelimitString_def)
qed

text \<open>
  \<open>ConcatString\<close> is inverse to cutting at the separator, for parts without it.
\<close>

lemma ConcatString_split:
  assumes "ss \<noteq> []" and "\<forall>s \<in> set ss. c \<notin> set s \<and> CHR 0x00 \<notin> set s" and "c \<noteq> CHR 0x00"
  shows "split_on c (ConcatString ss [c]) = ss"
  using assms by (rule split_on_ConcatString)

end
