(* ===== verification/Object_Name.thy ===== *)
theory Object_Name
  imports Common_Utils
begin

text \<open>
  The names of modules, \<open>ipc_lib/module/ipc_object_name.cpp\<close>. An \<open>IPCObjectName\<close> is the
  protobuf message \<open>IPCName\<close> (a module name, an optional host name and an optional connection
  id; an accessor of an unset optional string returns the empty string, so unset and empty
  agree) with comparison operators, a printer and a parser. The cached field
  \<open>m_moduleNameString\<close> is written by the constructors and never read; it is left out.
\<close>

datatype ipc_name = IPCName (mod_name: string) (host_name: string) (conn_id: string)

definition IPCObjectName_eq :: "ipc_name \<Rightarrow> ipc_name \<Rightarrow> bool" where
  "IPCObjectName_eq a b \<longleftrightarrow>
     mod_name a = mod_name b \<and> host_name a = host_name b \<and> conn_id a = conn_id b"

definition IPCObjectName_lt :: "ipc_name \<Rightarrow> ipc_name \<Rightarrow> bool" where
  "IPCObjectName_lt a b \<longleftrightarrow>
     mod_name a < mod_name b \<or>
     mod_name a = mod_name b \<and> host_name a < host_name b \<or>
     mod_name a = mod_name b \<and> host_name a = host_name b \<and> conn_id a < conn_id b"

text \<open>The order of the library's type classes on names is the code's \<open>operator <\<close>.\<close>

instantiation ipc_name :: linorder
begin

definition less_ipc_name :: "ipc_name \<Rightarrow> ipc_name \<Rightarrow> bool" where
  "less_ipc_name a b \<longleftrightarrow> IPCObjectName_lt a b"

definition less_eq_ipc_name :: "ipc_name \<Rightarrow> ipc_name \<Rightarrow> bool" where
  "less_eq_ipc_name a b \<longleftrightarrow> IPCObjectName_lt a b \<or> a = b"

instance
  by standard
    (auto simp: less_ipc_name_def less_eq_ipc_name_def IPCObjectName_lt_def intro: ipc_name.expand)

end

lemma IPCObjectName_eq_iff [simp]: "IPCObjectName_eq a b \<longleftrightarrow> a = b"
  by (auto simp: IPCObjectName_eq_def intro: ipc_name.expand)

lemma IPCObjectName_lt_iff [simp]: "IPCObjectName_lt a b \<longleftrightarrow> a < b"
  by (simp add: less_ipc_name_def)

section \<open>Printing and parsing\<close>

definition GetModuleNameString :: "ipc_name \<Rightarrow> string" where
  "GetModuleNameString n =
     (let s = mod_name n;
          s = (if host_name n \<noteq> [] then s @ ''.'' @ host_name n else s)
      in if conn_id n \<noteq> [] then s @ ''.'' @ conn_id n else s)"

text \<open>
  \<open>DelimitString (ipcName, ".")\<close> always returns (see \<open>GetIPCName_returns\<close> below), so the
  parser takes its result with \<^const>\<open>the\<close>.
\<close>

definition GetIPCName :: "string \<Rightarrow> ipc_name" where
  "GetIPCName s =
     (let strings = the (DelimitString s ''.'');
          name = IPCName [] [] [];
          name = (if strings \<noteq> [] then IPCName (strings ! 0) (host_name name) (conn_id name) else name);
          name = (if 1 < length strings then IPCName (mod_name name) (strings ! 1) (conn_id name) else name)
      in if 2 < length strings then IPCName (mod_name name) (host_name name) (strings ! 2) else name)"

lemma GetIPCName_returns: "DelimitString s ''.'' \<noteq> None"
  by (simp add: DelimitString_single)

text \<open>The parser on the parts of a dotted string.\<close>

definition name_of_parts :: "string list \<Rightarrow> ipc_name" where
  "name_of_parts ps = IPCName (if ps \<noteq> [] then ps ! 0 else []) (if 1 < length ps then ps ! 1 else [])
     (if 2 < length ps then ps ! 2 else [])"

lemma GetIPCName_parts: "GetIPCName s = name_of_parts (the (DelimitString s ''.''))"
  by (auto simp: GetIPCName_def name_of_parts_def Let_def)

lemma GetIPCName_split:
  "GetIPCName s = name_of_parts (filter (\<lambda>p. p \<noteq> []) (butlast (split_on CHR ''.'' s)) @
     (if length (last (split_on CHR ''.'' s)) = 1 then [] else [last (split_on CHR ''.'' s)]))"
  by (simp add: GetIPCName_parts DelimitString_single)

definition dot_free :: "string \<Rightarrow> bool" where
  "dot_free s \<longleftrightarrow> CHR ''.'' \<notin> set s"

text \<open>
  The names that survive printing and parsing: no dot in a component, no gap (a connection
  id only after a host name, a host name only after a module name), and a last component that
  is not a single character.
\<close>

definition printable_name :: "ipc_name \<Rightarrow> bool" where
  "printable_name n \<longleftrightarrow>
     dot_free (mod_name n) \<and> dot_free (host_name n) \<and> dot_free (conn_id n) \<and>
     (host_name n \<noteq> [] \<longrightarrow> mod_name n \<noteq> []) \<and> (conn_id n \<noteq> [] \<longrightarrow> host_name n \<noteq> []) \<and>
     length (if conn_id n \<noteq> [] then conn_id n else if host_name n \<noteq> [] then host_name n else mod_name n) \<noteq> 1"

definition name_parts :: "ipc_name \<Rightarrow> string list" where
  "name_parts n = mod_name n # (if host_name n \<noteq> [] then [host_name n] else [])
     @ (if conn_id n \<noteq> [] then [conn_id n] else [])"

lemma split_GetModuleNameString:
  assumes "dot_free (mod_name n)" and "dot_free (host_name n)" and "dot_free (conn_id n)"
  shows "split_on CHR ''.'' (GetModuleNameString n) = name_parts n"
  using assms by (simp add: GetModuleNameString_def name_parts_def dot_free_def Let_def
      split_on_append split_on_free)

lemma GetIPCName_GetModuleNameString:
  assumes "printable_name n"
  shows "GetIPCName (GetModuleNameString n) = n"
proof (cases n)
  case (IPCName m h c)
  with assms have "split_on CHR ''.'' (GetModuleNameString n) = name_parts n"
    by (simp add: split_GetModuleNameString printable_name_def)
  with assms IPCName show ?thesis
    by (auto simp: GetIPCName_split name_parts_def name_of_parts_def printable_name_def)
qed

lemma GetModuleNameString_inj:
  "printable_name a \<Longrightarrow> printable_name b \<Longrightarrow> GetModuleNameString a = GetModuleNameString b \<Longrightarrow> a = b"
  by (metis GetIPCName_GetModuleNameString)

text \<open>A module name alone (a local module).\<close>

abbreviation local_name :: "string \<Rightarrow> ipc_name" where
  "local_name s \<equiv> IPCName s [] []"

lemma GetModuleNameString_local [simp]: "GetModuleNameString (local_name s) = s"
  by (simp add: GetModuleNameString_def)

text \<open>
  A module's printed name is parsed back to the same name, for every printable name.
\<close>

lemma module_name_roundtrip:
  assumes "printable_name n"
  shows "GetIPCName (GetModuleNameString n) = n"
  using assms by (rule GetIPCName_GetModuleNameString)

end
