(* ===== verification/Object_Manager.thy ===== *)
theory Object_Manager
  imports Prelude
begin

text \<open>
  The container template \<open>ObjectManager\<close> of \<open>include/object_manager.h\<close>: a vector kept
  sorted by the element type's \<open>operator <\<close>, without duplicates. Every operation is one
  critical section, so one step of the model.

  The template parameter's operators are the arguments \<open>lt\<close> and \<open>eq\<close>; every element type of
  the repository defines \<open>operator !=\<close> as the negation of \<open>operator ==\<close>, so \<open>*it != object\<close>
  is \<open>\<not> eq (xs ! it) x\<close>. The locale \<open>ordered_object\<close> is what the container needs of its
  elements (both operators compare one key), and \<open>keyed_store\<close> is what it promises in return:
  a finite map from keys to objects. The first gives the second by a \<open>sublocale\<close>; the
  component theories interpret \<open>ordered_object\<close> for each element type.
\<close>

section \<open>The operations\<close>

text \<open>
  \<open>std::lower_bound (begin (), end (), x)\<close> on a vector partitioned by \<open>lt _ x\<close>: the first
  position whose element is not less than \<open>x\<close>, \<open>end ()\<close> if there is none.
\<close>

definition lower_bound :: "('o \<Rightarrow> 'o \<Rightarrow> bool) \<Rightarrow> 'o list \<Rightarrow> 'o \<Rightarrow> nat" where
  "lower_bound lt xs x = length (takeWhile (\<lambda>e. lt e x) xs)"

definition AddObject ::
    "('o \<Rightarrow> 'o \<Rightarrow> bool) \<Rightarrow> ('o \<Rightarrow> 'o \<Rightarrow> bool) \<Rightarrow> 'o \<Rightarrow> 'o list \<Rightarrow> 'o list \<times> bool" where
  [om_defs]: "AddObject lt eq x xs =
     (let it = lower_bound lt xs x
      in if it \<noteq> length xs \<and> \<not> eq (xs ! it) x then (vec_insert it x xs, True)
         else if it = length xs then (xs @ [x], True)
         else (xs, False))"

definition RemoveObject ::
    "('o \<Rightarrow> 'o \<Rightarrow> bool) \<Rightarrow> ('o \<Rightarrow> 'o \<Rightarrow> bool) \<Rightarrow> 'o \<Rightarrow> 'o list \<Rightarrow> 'o list \<times> bool" where
  [om_defs]: "RemoveObject lt eq x xs =
     (let it = lower_bound lt xs x
      in if it \<noteq> length xs \<and> eq (xs ! it) x then (vec_erase it xs, True)
         else (xs, False))"

text \<open>
  \<open>DestroyObject\<close> runs \<open>func\<close> on the stored element before erasing it; the effect of
  \<open>func\<close> on the rest of the program is the state transformer \<open>f\<close>.
\<close>

definition DestroyObject ::
    "('o \<Rightarrow> 'o \<Rightarrow> bool) \<Rightarrow> ('o \<Rightarrow> 'o \<Rightarrow> bool) \<Rightarrow> ('o \<Rightarrow> 's \<Rightarrow> 's) \<Rightarrow> 'o \<Rightarrow> 'o list \<Rightarrow> 's
     \<Rightarrow> 'o list \<times> 's \<times> bool" where
  [om_defs]: "DestroyObject lt eq f x xs s =
     (let it = lower_bound lt xs x
      in if it \<noteq> length xs \<and> eq (xs ! it) x then (vec_erase it xs, f (xs ! it) s, True)
         else (xs, s, False))"

text \<open>\<open>GetObject\<close> writes the element it finds through its pointer argument: \<^const>\<open>Some\<close>.\<close>

definition GetObject ::
    "('o \<Rightarrow> 'o \<Rightarrow> bool) \<Rightarrow> ('o \<Rightarrow> 'o \<Rightarrow> bool) \<Rightarrow> 'o \<Rightarrow> 'o list \<Rightarrow> 'o option" where
  [om_defs]: "GetObject lt eq x xs =
     (let it = lower_bound lt xs x
      in if it \<noteq> length xs \<and> eq (xs ! it) x then Some (xs ! it) else None)"

definition UpdateObject ::
    "('o \<Rightarrow> 'o \<Rightarrow> bool) \<Rightarrow> ('o \<Rightarrow> 'o \<Rightarrow> bool) \<Rightarrow> 'o \<Rightarrow> 'o list \<Rightarrow> 'o list \<times> bool" where
  [om_defs]: "UpdateObject lt eq x xs =
     (let it = lower_bound lt xs x
      in if it \<noteq> length xs \<and> eq (xs ! it) x then (xs[it := x], True) else (xs, False))"

text \<open>
  \<open>CheckObjects\<close> walks the vector by index and erases in place; after an erasure \<open>i--\<close>
  cancels the loop's \<open>i++\<close>. The functor may change state of its own (it usually collects the
  erased elements), which is \<open>s\<close>.
\<close>

function CheckObjects_loop ::
    "('o \<Rightarrow> 's \<Rightarrow> bool \<times> 's) \<Rightarrow> nat \<Rightarrow> 'o list \<Rightarrow> 's \<Rightarrow> 'o list \<times> 's" where
  "CheckObjects_loop f i xs s =
     (if i < length xs then
        (case f (xs ! i) s of (erase, s') \<Rightarrow>
           if erase then CheckObjects_loop f i (vec_erase i xs) s'
           else CheckObjects_loop f (Suc i) xs s')
      else (xs, s))"
  by pat_completeness auto
termination
  by (relation "measure (\<lambda>(f, i, xs, s). length xs - i)") auto

declare CheckObjects_loop.simps [simp del]

definition CheckObjects :: "('o \<Rightarrow> 's \<Rightarrow> bool \<times> 's) \<Rightarrow> 'o list \<Rightarrow> 's \<Rightarrow> 'o list \<times> 's" where
  "CheckObjects f xs s = CheckObjects_loop f 0 xs s"

text \<open>\<open>ProcessingObjects\<close> calls the functor on each element in order.\<close>

primrec ProcessingObjects :: "('o \<Rightarrow> 's \<Rightarrow> 's) \<Rightarrow> 'o list \<Rightarrow> 's \<Rightarrow> 's" where
  "ProcessingObjects f [] s = s"
| "ProcessingObjects f (x # xs) s = ProcessingObjects f xs (f x s)"

section \<open>CheckObjects is one filtering pass\<close>

text \<open>The reference: one structural pass that threads the functor's state.\<close>

fun filter_pass :: "('o \<Rightarrow> 's \<Rightarrow> bool \<times> 's) \<Rightarrow> 'o list \<Rightarrow> 's \<Rightarrow> 'o list \<times> 's" where
  "filter_pass f [] s = ([], s)"
| "filter_pass f (x # xs) s =
     (case f x s of (erase, s') \<Rightarrow>
        case filter_pass f xs s' of (ys, s'') \<Rightarrow> (if erase then ys else x # ys, s''))"

lemma CheckObjects_loop_filter_pass:
  "CheckObjects_loop f (length ys) (ys @ xs) s = (case filter_pass f xs s of (zs, s') \<Rightarrow> (ys @ zs, s'))"
proof (induction xs arbitrary: ys s)
  case Nil
  then show ?case by (simp add: CheckObjects_loop.simps)
next
  case (Cons x xs)
  obtain erase s' where f: "f x s = (erase, s')" by fastforce
  have kept: "CheckObjects_loop f (Suc (length ys)) (ys @ x # xs) s'
      = (case filter_pass f xs s' of (zs, t) \<Rightarrow> (ys @ x # zs, t))"
    using Cons.IH [of "ys @ [x]" s'] by (simp split: prod.splits)
  show ?case
    by (subst CheckObjects_loop.simps)
      (simp add: f kept Cons.IH split: prod.splits)
qed

lemma CheckObjects_eq_filter_pass: "CheckObjects f xs s = filter_pass f xs s"
  using CheckObjects_loop_filter_pass [of f "[]" xs s]
  by (simp add: CheckObjects_def split: prod.splits)

lemma filter_pass_pure: "filter_pass (\<lambda>x s. (p x, s)) xs s = (filter (\<lambda>x. \<not> p x) xs, s)"
  by (induction xs) auto

lemma CheckObjects_pure:
  "CheckObjects (\<lambda>x s. (p x, s)) xs s = (filter (\<lambda>x. \<not> p x) xs, s)"
  by (simp add: CheckObjects_eq_filter_pass filter_pass_pure)

text \<open>A functor that decides by \<open>p\<close> and collects what it has erased, in order.\<close>

lemma filter_pass_collect:
  "filter_pass (\<lambda>x s. (p x, if p x then s @ [g x] else s)) xs s
   = (filter (\<lambda>x. \<not> p x) xs, s @ map g (filter p xs))"
  by (induction xs arbitrary: s) auto

lemma CheckObjects_collect:
  "CheckObjects (\<lambda>x s. (p x, if p x then s @ [g x] else s)) xs s
   = (filter (\<lambda>x. \<not> p x) xs, s @ map g (filter p xs))"
  by (simp add: CheckObjects_eq_filter_pass filter_pass_collect)

text \<open>What the operations leave in the vector, whatever the order.\<close>

lemma lower_bound_le: "lower_bound lt xs x \<le> length xs"
  by (simp add: lower_bound_def length_takeWhile_le)

lemma set_vec_erase: "set (vec_erase i xs) \<subseteq> set xs"
  by (auto simp: vec_erase_def dest: in_set_takeD in_set_dropD)

lemma set_AddObject: "set (fst (AddObject lt eq x xs)) \<subseteq> insert x (set xs)"
  by (auto simp: om_defs Let_def vec_insert_def dest: in_set_takeD in_set_dropD)

lemma set_RemoveObject: "set (fst (RemoveObject lt eq x xs)) \<subseteq> set xs"
  by (simp add: om_defs Let_def set_vec_erase)

lemma set_UpdateObject: "set (fst (UpdateObject lt eq x xs)) \<subseteq> insert x (set xs)"
  by (simp add: om_defs Let_def set_update_subset_insert subset_insertI)

lemma GetObject_in_set: "GetObject lt eq x xs = Some y \<Longrightarrow> y \<in> set xs"
  using lower_bound_le [of lt xs x] by (auto simp: om_defs Let_def split: if_splits)

lemmas om_set_subset = set_AddObject set_RemoveObject set_UpdateObject

section \<open>The contract\<close>

text \<open>The invariant and the abstraction: keys strictly increase; a map from keys to objects.\<close>

definition om_inv :: "('o \<Rightarrow> 'k::linorder) \<Rightarrow> 'o list \<Rightarrow> bool" where
  "om_inv key xs \<longleftrightarrow> sorted_wrt (<) (map key xs)"

definition om_lookup :: "('o \<Rightarrow> 'k) \<Rightarrow> 'o list \<Rightarrow> 'k \<Rightarrow> 'o option" where
  "om_lookup key xs = map_of (map (\<lambda>x. (key x, x)) xs)"

lemma om_inv_Nil [simp]: "om_inv key []"
  by (simp add: om_inv_def)

lemma om_inv_distinct: "om_inv key xs \<Longrightarrow> distinct (map key xs)"
  by (simp add: om_inv_def strict_sorted_iff)

lemma om_inv_filter [intro]: "om_inv key xs \<Longrightarrow> om_inv key (filter p xs)"
  by (induction xs) (auto simp: om_inv_def)

lemma om_lookup_Nil [simp]: "om_lookup key [] = Map.empty"
  by (simp add: om_lookup_def)

lemma om_lookup_Cons [simp]:
  "om_lookup key (x # xs) k = (if key x = k then Some x else om_lookup key xs k)"
  by (simp add: om_lookup_def)

lemma om_lookup_append:
  "om_lookup key (ys @ zs) k
   = (case om_lookup key ys k of None \<Rightarrow> om_lookup key zs k | Some y \<Rightarrow> Some y)"
  by (induction ys) auto

lemma om_lookup_Some_iff:
  assumes "om_inv key xs"
  shows "om_lookup key xs k = Some x \<longleftrightarrow> x \<in> set xs \<and> key x = k"
proof -
  have "distinct (map fst (map (\<lambda>x. (key x, x)) xs))"
    using om_inv_distinct [OF assms] by (simp add: comp_def)
  then show ?thesis by (auto simp: om_lookup_def)
qed

lemma om_lookup_None_iff: "om_lookup key xs k = None \<longleftrightarrow> k \<notin> key ` set xs"
  by (auto simp: om_lookup_def map_of_eq_None_iff image_image)

lemma om_lookup_key: "om_lookup key xs k = Some x \<Longrightarrow> key x = k"
  by (auto simp: om_lookup_def dest!: map_of_SomeD)

lemma om_lookup_ext:
  assumes "om_inv key xs" and "\<And>x. key x = k \<Longrightarrow> x \<in> set xs \<longleftrightarrow> m = Some x"
    and "\<And>x. m = Some x \<Longrightarrow> key x = k"
  shows "om_lookup key xs k = m"
proof (cases m)
  case None
  then show ?thesis using assms(2) by (auto simp: om_lookup_None_iff)
next
  case (Some x)
  then show ?thesis using assms by (simp add: om_lookup_Some_iff)
qed

lemma om_inv_unique:
  assumes "om_inv key xs" and "x \<in> set xs" and "y \<in> set xs" and "key x = key y"
  shows "x = y"
  using om_inv_distinct [OF assms(1)] assms(2-4) by (auto simp: distinct_map dest: inj_onD)

lemma om_lookup_filter:
  assumes "om_inv key xs"
  shows "om_lookup key (filter p xs) k
    = (case om_lookup key xs k of None \<Rightarrow> None | Some x \<Rightarrow> if p x then Some x else None)"
proof (cases "om_lookup key xs k")
  case None
  then have "om_lookup key (filter p xs) k = None" by (auto simp: om_lookup_None_iff)
  with None show ?thesis by simp
next
  case (Some x)
  then have x: "x \<in> set xs" "key x = k"
    using assms by (auto simp: om_lookup_Some_iff)
  show ?thesis
  proof (cases "p x")
    case True
    with x Some om_inv_filter [OF assms] show ?thesis by (simp add: om_lookup_Some_iff)
  next
    case False
    have "k \<notin> key ` set (filter p xs)"
      using om_inv_unique [OF assms] x False by fastforce
    with False Some show ?thesis by (simp add: om_lookup_None_iff)
  qed
qed

subsection \<open>What the container promises\<close>

locale keyed_store =
  fixes add :: "'o \<Rightarrow> 's \<Rightarrow> 's \<times> bool"
    and remove :: "'o \<Rightarrow> 's \<Rightarrow> 's \<times> bool"
    and get :: "'o \<Rightarrow> 's \<Rightarrow> 'o option"
    and update :: "'o \<Rightarrow> 's \<Rightarrow> 's \<times> bool"
    and key :: "'o \<Rightarrow> 'k"
    and lookup :: "'s \<Rightarrow> 'k \<Rightarrow> 'o option"
    and inv :: "'s \<Rightarrow> bool"
  assumes add_lookup: "inv s \<Longrightarrow> lookup (fst (add x s))
        = (if lookup s (key x) = None then (lookup s)(key x \<mapsto> x) else lookup s)"
    and add_result: "inv s \<Longrightarrow> snd (add x s) \<longleftrightarrow> lookup s (key x) = None"
    and add_inv: "inv s \<Longrightarrow> inv (fst (add x s))"
    and remove_lookup: "inv s \<Longrightarrow> lookup (fst (remove x s)) = (lookup s)(key x := None)"
    and remove_result: "inv s \<Longrightarrow> snd (remove x s) \<longleftrightarrow> lookup s (key x) \<noteq> None"
    and remove_inv: "inv s \<Longrightarrow> inv (fst (remove x s))"
    and get_lookup: "inv s \<Longrightarrow> get x s = lookup s (key x)"
    and update_lookup: "inv s \<Longrightarrow> lookup (fst (update x s))
        = (if lookup s (key x) = None then lookup s else (lookup s)(key x \<mapsto> x))"
    and update_result: "inv s \<Longrightarrow> snd (update x s) \<longleftrightarrow> lookup s (key x) \<noteq> None"
    and update_inv: "inv s \<Longrightarrow> inv (fst (update x s))"
    and lookup_key: "inv s \<Longrightarrow> lookup s k = Some x \<Longrightarrow> key x = k"
begin

lemmas store_lookup = add_lookup remove_lookup update_lookup get_lookup
lemmas store_result = add_result remove_result update_result
lemmas store_inv = add_inv remove_inv update_inv

lemma get_after_add: "inv s \<Longrightarrow> get x (fst (add x s)) = (case lookup s (key x) of None \<Rightarrow> Some x | Some y \<Rightarrow> Some y)"
  by (simp add: get_lookup add_inv add_lookup split: option.splits)

lemma add_present: "inv s \<Longrightarrow> lookup s (key x) = Some y \<Longrightarrow> lookup (fst (add x s)) = lookup s"
  by (simp add: add_lookup)

lemma remove_after_add:
  "inv s \<Longrightarrow> lookup s (key x) = None \<Longrightarrow> lookup (fst (remove x (fst (add x s)))) = lookup s"
  by (auto simp: remove_lookup add_inv add_lookup)

text \<open>
  The idiom \<open>if (!objects.AddObject (x)) objects.UpdateObject (x)\<close>, which several handlers
  use to overwrite, binds the key to \<open>x\<close> whatever was there.
\<close>

lemma add_or_update_lookup:
  assumes "inv s"
  shows "lookup (if snd (add x s) then fst (add x s) else fst (update x (fst (add x s))))
    = (lookup s)(key x \<mapsto> x)"
  using assms by (cases "lookup s (key x)") (simp_all add: store_lookup store_result store_inv)

lemma add_or_update_inv:
  "inv s \<Longrightarrow> inv (if snd (add x s) then fst (add x s) else fst (update x (fst (add x s))))"
  by (simp add: store_inv)

end

subsection \<open>What the container needs of its elements\<close>

locale ordered_object =
  fixes lt :: "'o \<Rightarrow> 'o \<Rightarrow> bool"
    and eq :: "'o \<Rightarrow> 'o \<Rightarrow> bool"
    and key :: "'o \<Rightarrow> 'k::linorder"
  assumes lt_key: "lt x y \<longleftrightarrow> key x < key y"
    and eq_key: "eq x y \<longleftrightarrow> key x = key y"
begin

lemma lower_bound_split:
  assumes "om_inv key xs"
  obtains ys zs where "xs = ys @ zs" and "lower_bound lt xs x = length ys"
    and "\<forall>y \<in> set ys. key y < key x" and "\<forall>z \<in> set zs. key x \<le> key z"
proof -
  let ?p = "\<lambda>e. lt e x"
  let ?ys = "takeWhile ?p xs" and ?zs = "dropWhile ?p xs"
  have "xs = ?ys @ ?zs" by simp
  moreover have "lower_bound lt xs x = length ?ys" by (simp add: lower_bound_def)
  moreover have "\<forall>y \<in> set ?ys. key y < key x"
    by (auto simp: lt_key dest: set_takeWhileD)
  moreover have "\<forall>z \<in> set ?zs. key x \<le> key z"
  proof (cases ?zs)
    case Nil
    show ?thesis unfolding Nil by simp
  next
    case (Cons z zs)
    then have "\<not> lt z x" by (metis dropWhile_eq_Cons_conv)
    moreover have "om_inv key (?ys @ z # zs)" using assms Cons by (metis takeWhile_dropWhile_id)
    then have "\<forall>w \<in> set zs. key z < key w" by (simp add: om_inv_def sorted_wrt_append)
    ultimately show ?thesis using Cons by (auto simp: lt_key)
  qed
  ultimately show ?thesis by (rule that)
qed

text \<open>Where the search stops, in one case analysis: the key is absent, or at that position.\<close>

lemma lower_bound_cases:
  assumes "om_inv key xs"
  obtains (absent) ys zs where "xs = ys @ zs" and "lower_bound lt xs x = length ys"
      and "\<forall>y \<in> set ys. key y < key x" and "\<forall>z \<in> set zs. key x < key z"
      and "om_lookup key xs (key x) = None"
      and "lower_bound lt xs x = length xs \<or> \<not> eq (xs ! lower_bound lt xs x) x"
  | (present) ys y zs where "xs = ys @ y # zs" and "lower_bound lt xs x = length ys"
      and "key y = key x" and "om_lookup key xs (key x) = Some y"
proof -
  obtain ys zs where split: "xs = ys @ zs" "lower_bound lt xs x = length ys"
    and less: "\<forall>y \<in> set ys. key y < key x" and ge: "\<forall>z \<in> set zs. key x \<le> key z"
    using lower_bound_split [OF assms] by blast
  show thesis
  proof (cases "zs \<noteq> [] \<and> key (hd zs) = key x")
    case True
    then obtain y zs' where zs: "zs = y # zs'" and y: "key y = key x" by (cases zs) auto
    have "om_lookup key xs (key x) = Some y"
      using assms split zs y by (simp add: om_lookup_Some_iff)
    then show thesis using present split zs y by blast
  next
    case False
    have gt: "\<forall>z \<in> set zs. key x < key z"
    proof (cases zs)
      case (Cons z zs')
      with False ge have "key x < key z" by force
      moreover have "\<forall>w \<in> set zs'. key z < key w"
        using assms split Cons by (simp add: om_inv_def sorted_wrt_append)
      ultimately show ?thesis using Cons by auto
    qed simp
    moreover have "om_lookup key xs (key x) = None"
      using split less gt by (force simp: om_lookup_None_iff)
    moreover have "lower_bound lt xs x = length xs \<or> \<not> eq (xs ! lower_bound lt xs x) x"
      using False split by (cases zs) (auto simp: eq_key)
    ultimately show thesis using absent split less by blast
  qed
qed

text \<open>The operations on the abstraction.\<close>

lemma AddObject_absent:
  assumes "om_inv key xs" and "om_lookup key xs (key x) = None"
  obtains ys zs where "xs = ys @ zs" and "AddObject lt eq x xs = (ys @ x # zs, True)"
    and "\<forall>y \<in> set ys. key y < key x" and "\<forall>z \<in> set zs. key x < key z"
  using assms(1)
proof (cases rule: lower_bound_cases [where x = x])
  case (absent ys zs)
  then have "AddObject lt eq x xs = (ys @ x # zs, True)"
    by (cases zs) (auto simp: om_defs Let_def)
  with absent that show thesis by blast
next
  case present
  with assms(2) show thesis by simp
qed

lemma AddObject_present:
  assumes "om_inv key xs" and "om_lookup key xs (key x) \<noteq> None"
  shows "AddObject lt eq x xs = (xs, False)"
  using assms(1)
  by (cases rule: lower_bound_cases [where x = x])
    (use assms(2) in \<open>auto simp: om_defs Let_def eq_key nth_append\<close>)

lemma RemoveObject_absent:
  assumes "om_inv key xs" and "om_lookup key xs (key x) = None"
  shows "RemoveObject lt eq x xs = (xs, False)" and "GetObject lt eq x xs = None"
    and "UpdateObject lt eq x xs = (xs, False)" and "DestroyObject lt eq f x xs s = (xs, s, False)"
  using assms(1)
  by (cases rule: lower_bound_cases [where x = x], use assms(2) in \<open>auto simp: om_defs Let_def\<close>)+

lemma RemoveObject_present:
  assumes "om_inv key xs" and "om_lookup key xs (key x) = Some y"
  obtains ys zs where "xs = ys @ y # zs" and "key y = key x"
    and "RemoveObject lt eq x xs = (ys @ zs, True)" and "GetObject lt eq x xs = Some y"
    and "UpdateObject lt eq x xs = (ys @ x # zs, True)"
    and "DestroyObject lt eq f x xs s = (ys @ zs, f y s, True)"
  using assms(1)
proof (cases rule: lower_bound_cases [where x = x])
  case absent
  with assms(2) show thesis by simp
next
  case (present ys y' zs)
  with assms(2) have "y' = y" by simp
  with present that [of ys zs] show thesis
    by (simp add: om_defs Let_def eq_key nth_append)
qed

lemma om_inv_replace:
  "om_inv key (ys @ y # zs) \<Longrightarrow> key y = key x \<Longrightarrow> om_inv key (ys @ x # zs)"
  by (simp add: om_inv_def)

lemma om_inv_drop: "om_inv key (ys @ y # zs) \<Longrightarrow> om_inv key (ys @ zs)"
  by (simp add: om_inv_def sorted_wrt_append)

lemma om_inv_middle:
  assumes "om_inv key (ys @ y # zs)"
  shows "om_lookup key ys (key y) = None" and "om_lookup key zs (key y) = None"
  using assms by (fastforce simp: om_lookup_None_iff om_inv_def sorted_wrt_append)+

lemma om_lookup_replace:
  "om_inv key (ys @ y # zs) \<Longrightarrow> key y = key x \<Longrightarrow>
     om_lookup key (ys @ x # zs) = (om_lookup key (ys @ y # zs))(key x \<mapsto> x)"
  using om_inv_middle [of ys y zs]
  by (auto simp: om_lookup_append fun_eq_iff split: option.splits)

lemma om_lookup_drop:
  "om_inv key (ys @ y # zs) \<Longrightarrow> key y = key x \<Longrightarrow>
     om_lookup key (ys @ zs) = (om_lookup key (ys @ y # zs))(key x := None)"
  using om_inv_middle [of ys y zs]
  by (auto simp: om_lookup_append fun_eq_iff split: option.splits)

lemma om_lookup_insert:
  "om_lookup key (ys @ zs) (key x) = None \<Longrightarrow>
     om_lookup key (ys @ x # zs) = (om_lookup key (ys @ zs))(key x \<mapsto> x)"
  by (auto simp: om_lookup_append fun_eq_iff split: option.splits)

lemma AddObject_lookup:
  assumes inv: "om_inv key xs"
  shows "om_lookup key (fst (AddObject lt eq x xs))
      = (if om_lookup key xs (key x) = None then (om_lookup key xs)(key x \<mapsto> x) else om_lookup key xs)"
proof (cases "om_lookup key xs (key x)")
  case None
  then obtain ys zs where "xs = ys @ zs" "AddObject lt eq x xs = (ys @ x # zs, True)"
    using AddObject_absent [OF inv] by metis
  with None show ?thesis using om_lookup_insert [of ys zs x] by simp
next
  case (Some y)
  then show ?thesis by (simp add: AddObject_present inv)
qed

lemma RemoveObject_lookup:
  assumes inv: "om_inv key xs"
  shows "om_lookup key (fst (RemoveObject lt eq x xs)) = (om_lookup key xs)(key x := None)"
proof (cases "om_lookup key xs (key x)")
  case None
  then show ?thesis by (auto simp: RemoveObject_absent inv)
next
  case (Some y)
  then obtain ys zs where "xs = ys @ y # zs" "key y = key x" "RemoveObject lt eq x xs = (ys @ zs, True)"
    using RemoveObject_present [OF inv] by metis
  then show ?thesis using inv om_lookup_drop [of ys y zs x] by simp
qed

lemma UpdateObject_lookup:
  assumes inv: "om_inv key xs"
  shows "om_lookup key (fst (UpdateObject lt eq x xs))
      = (if om_lookup key xs (key x) = None then om_lookup key xs else (om_lookup key xs)(key x \<mapsto> x))"
proof (cases "om_lookup key xs (key x)")
  case None
  then show ?thesis by (simp add: RemoveObject_absent inv)
next
  case (Some y)
  then obtain ys zs where "xs = ys @ y # zs" "key y = key x" "UpdateObject lt eq x xs = (ys @ x # zs, True)"
    using RemoveObject_present [OF inv] by metis
  then show ?thesis using inv Some om_lookup_replace [of ys y zs x] by simp
qed

end

text \<open>The container over ordered elements keeps the contract.\<close>

sublocale ordered_object \<subseteq> keyed_store "AddObject lt eq" "RemoveObject lt eq" "GetObject lt eq"
    "UpdateObject lt eq" key "om_lookup key" "om_inv key"
proof
  fix xs :: "'o list" and x y :: 'o and k :: 'k
  assume inv: "om_inv key xs"
  show "om_lookup key (fst (AddObject lt eq x xs))
      = (if om_lookup key xs (key x) = None then (om_lookup key xs)(key x \<mapsto> x) else om_lookup key xs)"
    and "om_lookup key (fst (RemoveObject lt eq x xs)) = (om_lookup key xs)(key x := None)"
    and "om_lookup key (fst (UpdateObject lt eq x xs))
      = (if om_lookup key xs (key x) = None then om_lookup key xs else (om_lookup key xs)(key x \<mapsto> x))"
    using inv by (rule AddObject_lookup RemoveObject_lookup UpdateObject_lookup)+
  show "snd (AddObject lt eq x xs) \<longleftrightarrow> om_lookup key xs (key x) = None"
    by (cases "om_lookup key xs (key x) = None")
      (auto simp: AddObject_present [OF inv] elim!: AddObject_absent [OF inv])
  show "om_inv key (fst (AddObject lt eq x xs))"
  proof (cases "om_lookup key xs (key x) = None")
    case True
    then obtain ys zs where "xs = ys @ zs" "AddObject lt eq x xs = (ys @ x # zs, True)"
      "\<forall>y \<in> set ys. key y < key x" "\<forall>z \<in> set zs. key x < key z"
      using AddObject_absent [OF inv] by metis
    with inv show ?thesis by (fastforce simp: om_inv_def sorted_wrt_append)
  qed (simp add: AddObject_present inv)
  show "om_lookup key xs k = Some y \<Longrightarrow> key y = k" by (rule om_lookup_key)
  show "GetObject lt eq x xs = om_lookup key xs (key x)"
    and "snd (RemoveObject lt eq x xs) \<longleftrightarrow> om_lookup key xs (key x) \<noteq> None"
    and "snd (UpdateObject lt eq x xs) \<longleftrightarrow> om_lookup key xs (key x) \<noteq> None"
    by (cases "om_lookup key xs (key x)";
        auto simp: RemoveObject_absent inv elim!: RemoveObject_present [OF inv])+
  show "om_inv key (fst (RemoveObject lt eq x xs))" and "om_inv key (fst (UpdateObject lt eq x xs))"
    using inv
    by (cases "om_lookup key xs (key x)";
        auto simp: RemoveObject_absent inv elim!: RemoveObject_present [OF inv]
          intro: om_inv_drop om_inv_replace)+
qed

section \<open>The container as a map\<close>

context ordered_object
begin

lemma object_manager_map:
  assumes "om_inv key xs"
  shows "om_inv key (fst (AddObject lt eq x xs))" "om_inv key (fst (RemoveObject lt eq x xs))"
    "om_inv key (fst (UpdateObject lt eq x xs))"
    "om_lookup key (fst (AddObject lt eq x xs))
      = (if om_lookup key xs (key x) = None then (om_lookup key xs)(key x \<mapsto> x) else om_lookup key xs)"
    "snd (AddObject lt eq x xs) = (om_lookup key xs (key x) = None)"
    "om_lookup key (fst (RemoveObject lt eq x xs)) = (om_lookup key xs)(key x := None)"
    "om_lookup key (fst (UpdateObject lt eq x xs))
      = (if om_lookup key xs (key x) = None then om_lookup key xs else (om_lookup key xs)(key x \<mapsto> x))"
    "GetObject lt eq x xs = om_lookup key xs (key x)"
  by (rule store_inv [OF assms] store_lookup [OF assms] store_result [OF assms])+

end



end
