(* ===== verification/Ipc_Types.thy ===== *)
theory Ipc_Types
  imports Object_Name Object_Manager
begin

text \<open>
  The data of the IPC layer: the records that \<open>IPCModule\<close> keeps in its containers
  (\<open>ipc_lib/module/ipc_module.h\<close>), the messages its handlers take (\<open>messages/ipc.proto\<close>,
  \<open>messages/interconn.proto\<close>), the addresses it hands to connection threads
  (\<open>connector_lib/thread/address.h\<close>), and the effects: every call that leaves the module
  (threads started, virtual callbacks, signals) is appended to a trace, in program order.
\<close>

section \<open>Constants\<close>

text \<open>The coordinator's ports, \<open>common/common.h\<close>.\<close>

definition g_ipcCoordinatorPorts :: "int list" where
  "g_ipcCoordinatorPorts = [2041]"

definition g_ipcCoordinatorPortCount :: nat where
  "g_ipcCoordinatorPortCount = 1"

text \<open>Reading \<open>g_ipcCoordinatorPorts[i]\<close>: \<^const>\<open>None\<close> is a read outside the array.\<close>

definition coordinatorPort :: "nat \<Rightarrow> int option" where
  "coordinatorPort i = (if i < length g_ipcCoordinatorPorts then Some (g_ipcCoordinatorPorts ! i) else None)"

definition m_coordinatorIPCName :: string where
  "m_coordinatorIPCName = ''IPCCoordinator''"

definition m_baseAccessId :: string where
  "m_baseAccessId = ''Coordinator''"

definition m_internalAccessId :: string where
  "m_internalAccessId = ''Internal''"

definition m_maxTryConnectCount :: int where
  "m_maxTryConnectCount = 10"

definition m_connectTimeout :: int where
  "m_connectTimeout = 10"

lemmas ipc_constants = g_ipcCoordinatorPorts_def g_ipcCoordinatorPortCount_def coordinatorPort_def
  m_coordinatorIPCName_def m_baseAccessId_def m_internalAccessId_def m_maxTryConnectCount_def
  m_connectTimeout_def

section \<open>IPCObject and TryConnectCounter\<close>

record ipc_object =
  m_ipcName :: ipc_name
  m_ip :: string
  m_port :: int
  m_accessId :: string

text \<open>The constructor's default arguments.\<close>

definition IPCObject :: "ipc_name \<Rightarrow> ipc_object" where
  "IPCObject n = \<lparr>m_ipcName = n, m_ip = ''127.0.0.1'', m_port = 0, m_accessId = m_baseAccessId\<rparr>"

definition IPCObject_eq :: "ipc_object \<Rightarrow> ipc_object \<Rightarrow> bool" where
  "IPCObject_eq a b \<longleftrightarrow> IPCObjectName_eq (m_ipcName a) (m_ipcName b)"

definition IPCObject_lt :: "ipc_object \<Rightarrow> ipc_object \<Rightarrow> bool" where
  "IPCObject_lt a b \<longleftrightarrow> IPCObjectName_lt (m_ipcName a) (m_ipcName b)"

record try_connect_counter =
  m_count :: int
  tcc_moduleName :: string

definition TryConnectCounter :: "string \<Rightarrow> try_connect_counter" where
  "TryConnectCounter s = \<lparr>m_count = 0, tcc_moduleName = s\<rparr>"

definition TryConnectCounter_eq :: "try_connect_counter \<Rightarrow> try_connect_counter \<Rightarrow> bool" where
  "TryConnectCounter_eq a b \<longleftrightarrow> tcc_moduleName a = tcc_moduleName b"

definition TryConnectCounter_lt :: "try_connect_counter \<Rightarrow> try_connect_counter \<Rightarrow> bool" where
  "TryConnectCounter_lt a b \<longleftrightarrow> tcc_moduleName a < tcc_moduleName b"

text \<open>Both element types meet the container's interface, so their containers are maps.\<close>

interpretation objs: ordered_object IPCObject_lt IPCObject_eq m_ipcName
  by unfold_locales (simp_all add: IPCObject_lt_def IPCObject_eq_def)

interpretation tccs: ordered_object TryConnectCounter_lt TryConnectCounter_eq tcc_moduleName
  by unfold_locales (simp_all add: TryConnectCounter_lt_def TryConnectCounter_eq_def)

abbreviation obj_add :: "ipc_object \<Rightarrow> ipc_object list \<Rightarrow> ipc_object list \<times> bool" where
  "obj_add \<equiv> AddObject IPCObject_lt IPCObject_eq"

abbreviation obj_remove :: "ipc_object \<Rightarrow> ipc_object list \<Rightarrow> ipc_object list \<times> bool" where
  "obj_remove \<equiv> RemoveObject IPCObject_lt IPCObject_eq"

abbreviation obj_get :: "ipc_object \<Rightarrow> ipc_object list \<Rightarrow> ipc_object option" where
  "obj_get \<equiv> GetObject IPCObject_lt IPCObject_eq"

abbreviation tcc_add :: "try_connect_counter \<Rightarrow> try_connect_counter list \<Rightarrow> try_connect_counter list \<times> bool" where
  "tcc_add \<equiv> AddObject TryConnectCounter_lt TryConnectCounter_eq"

abbreviation tcc_remove :: "try_connect_counter \<Rightarrow> try_connect_counter list \<Rightarrow> try_connect_counter list \<times> bool" where
  "tcc_remove \<equiv> RemoveObject TryConnectCounter_lt TryConnectCounter_eq"

abbreviation tcc_get :: "try_connect_counter \<Rightarrow> try_connect_counter list \<Rightarrow> try_connect_counter option" where
  "tcc_get \<equiv> GetObject TryConnectCounter_lt TryConnectCounter_eq"

abbreviation tcc_update :: "try_connect_counter \<Rightarrow> try_connect_counter list \<Rightarrow> try_connect_counter list \<times> bool" where
  "tcc_update \<equiv> UpdateObject TryConnectCounter_lt TryConnectCounter_eq"

abbreviation obj_lookup :: "ipc_object list \<Rightarrow> ipc_name \<Rightarrow> ipc_object option" where
  "obj_lookup \<equiv> om_lookup m_ipcName"

abbreviation tcc_lookup :: "try_connect_counter list \<Rightarrow> string \<Rightarrow> try_connect_counter option" where
  "tcc_lookup \<equiv> om_lookup tcc_moduleName"

lemma IPCObject_sel [simp]:
  "m_ipcName (IPCObject n) = n" "m_ip (IPCObject n) = ''127.0.0.1''"
  "m_port (IPCObject n) = 0" "m_accessId (IPCObject n) = m_baseAccessId"
  by (simp_all add: IPCObject_def)

lemma TryConnectCounter_sel [simp]:
  "m_count (TryConnectCounter s) = 0" "tcc_moduleName (TryConnectCounter s) = s"
  by (simp_all add: TryConnectCounter_def)

section \<open>Messages\<close>

record ipc_message =
  "message_name" :: string
  ipc_path :: "ipc_name list"
  ipc_sender :: "ipc_name list"
  message :: string

record module_name_message =
  mn_ipc_name :: ipc_name
  mn_ip :: string
  mn_port :: int
  mn_access_id :: string
  mn_is_exist :: bool
  mn_conn_id :: string

record add_ipc_object =
  ao_ipc_name :: ipc_name
  ao_ip :: string
  ao_port :: int
  ao_access_id :: string

record ipc_object_list_message =
  ol_ipc_object :: "add_ipc_object list"
  ol_access_id :: string

text \<open>\<open>ListenerParamMessage\<close>: a question to the module whose answer is written into it.\<close>

record listener_param =
  lp_ip :: string
  lp_port :: int
  lp_moduleName :: string
  lp_isCoordinator :: bool

datatype connection_status = CONN_OPEN | CONN_CLOSE | CONN_FAILED | CONN_EXIST | CONN_INIT

section \<open>Addresses and effects\<close>

record listen_address =
  la_id :: string
  la_localIP :: string
  la_localPort :: "int option"
  la_acceptCount :: "32 word"

record connect_address =
  ca_localIP :: string
  ca_localPort :: int
  ca_id :: string
  ca_moduleName :: string
  ca_ip :: string
  ca_port :: "int option"

datatype effect =
    ListenStart listen_address
  | ListenStop listen_address
  | ThreadManaged "listen_address option"
  | ConnectStart connect_address
  | StopConnection string
  | ManagerStopped
  | ConnectorAdded nat string ipc_name
  | ConnectorDeleted nat
  | OnNewConnector nat
  | OnConnected string
  | OnConnectFailed string
  | OnFireConnector string
  | OnMessage string "string list" string
  | OnInternalConnection string connection_status int
  | OnIPCObjectsChanged
  | ModuleCreationFailed
  | SignalChangeIPCName ipc_name
  | SignalIPCMessage ipc_message
  | SignalInitInternalConnection ipc_name string int

end
