(* ===== verification/Ipc_Module.thy ===== *)
theory Ipc_Module
  imports Ipc_Types
begin

text \<open>
  The class \<open>IPCModule\<close> (\<open>ipc_lib/module/ipc_module.cpp\<close>) and the handlers its connections
  and threads call (\<open>ipc_lib/module/ipc_signal_handler.cpp\<close>). A handler is a function from
  the module's state to its next state; what it calls outside the module is appended to
  \<open>m_trace\<close> in order. The user's name, a fresh GUID and the time are arguments where the code
  asks the system for them. Logging is left out. Virtual functions that answer a question
  (\<open>CheckFireConnector\<close>, \<open>FillIPCObjectList\<close>) are arguments, with the base class's
  versions defined here; virtual callbacks are effects.
\<close>

section \<open>State\<close>

record ipc_module =
  m_listenThread :: "listen_address option"
  m_moduleName :: ipc_name
  m_ipcObject :: "ipc_object list"
  m_modules :: "ipc_object list"
  m_isCoordinator :: bool
  m_coordinatorName :: string
  m_isExit :: bool
  m_isStop :: bool
  m_countListener :: nat
  m_countConnect :: nat
  m_tryConnectCounters :: "try_connect_counter list"
  m_connectors :: "string \<rightharpoonup> string list"
  m_bConnectToCoordinatorRequest :: bool
  m_requestCreated :: int
  m_trace :: "effect list"

definition emit :: "effect \<Rightarrow> ipc_module \<Rightarrow> ipc_module" where
  "emit e m = m\<lparr>m_trace := m_trace m @ [e]\<rparr>"

text \<open>The constructor; \<open>m_isStop\<close> is the base class \<open>DynamicManager\<close>'s flag.\<close>

definition IPCModule :: "ipc_name \<Rightarrow> ipc_module" where
  "IPCModule n = \<lparr>m_listenThread = None, m_moduleName = n, m_ipcObject = [], m_modules = [],
     m_isCoordinator = False, m_coordinatorName = [], m_isExit = False, m_isStop = False,
     m_countListener = 0, m_countConnect = 0, m_tryConnectCounters = [],
     m_connectors = Map.empty, m_bConnectToCoordinatorRequest = False, m_requestCreated = 0,
     m_trace = []\<rparr>"

section \<open>Starting and stopping\<close>

definition StartOn :: "string \<Rightarrow> int option \<Rightarrow> ipc_module \<Rightarrow> ipc_module" where
  "StartOn ip port m =
     (let m = (case m_listenThread m of
                 None \<Rightarrow> m
               | Some t \<Rightarrow> (emit (ThreadManaged (Some t)) (emit (ListenStop t) m))\<lparr>m_listenThread := None\<rparr>);
          address = \<lparr>la_id = GetModuleNameString (m_moduleName m), la_localIP = ip,
                     la_localPort = port, la_acceptCount = -1\<rparr>
      in emit (ListenStart address) (m\<lparr>m_listenThread := Some address\<rparr>))"

definition Start :: "ipc_module \<Rightarrow> ipc_module" where
  "Start m = StartOn ''localhost'' (Some 0) (m\<lparr>m_isCoordinator := False\<rparr>)"

definition StartAsCoordinator :: "ipc_module \<Rightarrow> ipc_module" where
  "StartAsCoordinator m =
     (let m = m\<lparr>m_isCoordinator := True, m_coordinatorName := GetModuleNameString (m_moduleName m)\<rparr>
      in StartOn ''localhost'' (coordinatorPort (m_countListener m)) m)"

text \<open>The destructor stops the listening thread.\<close>

definition IPCModule_destroy :: "ipc_module \<Rightarrow> ipc_module" where
  "IPCModule_destroy m =
     (let m = m\<lparr>m_isExit := True\<rparr>
      in case m_listenThread m of
           None \<Rightarrow> m
         | Some t \<Rightarrow> (emit (ThreadManaged (Some t)) (emit (ListenStop t) m))\<lparr>m_listenThread := None\<rparr>)"

definition Exit :: "ipc_module \<Rightarrow> ipc_module" where
  "Exit m = m\<lparr>m_isExit := True, m_isStop := True\<rparr>"

definition ManagerStop :: "ipc_module \<Rightarrow> ipc_module" where
  "ManagerStop m = emit ManagerStopped m"

section \<open>Connecting\<close>

definition ConnectTo :: "ipc_name \<Rightarrow> ipc_module \<Rightarrow> ipc_module" where
  "ConnectTo moduleName m =
     (let name = GetModuleNameString moduleName;
          counter = TryConnectCounter name
      in if m_isExit m \<or> tcc_get counter (m_tryConnectCounters m) \<noteq> None
         then emit (OnConnectFailed name) m
         else
           (case obj_get (IPCObject moduleName) (m_ipcObject m) of
              None \<Rightarrow> emit (OnConnectFailed name) m
            | Some object \<Rightarrow>
                if obj_get object (m_modules m) \<noteq> None then emit (OnConnectFailed name) m
                else
                  let mid = GetModuleNameString (m_ipcName object);
                      address = \<lparr>ca_localIP = ''localhost'', ca_localPort = 0, ca_id = mid,
                                 ca_moduleName = mid, ca_ip = ''localhost'', ca_port = Some (m_port object)\<rparr>;
                      m = m\<lparr>m_tryConnectCounters := fst (tcc_add counter (m_tryConnectCounters m))\<rparr>
                  in emit (ConnectStart address) m))"

definition DisconnectModule :: "ipc_name \<Rightarrow> ipc_module \<Rightarrow> ipc_module" where
  "DisconnectModule moduleName m = emit (StopConnection (GetModuleNameString moduleName)) m"

definition ConnectToCoordinator :: "ipc_module \<Rightarrow> ipc_module" where
  "ConnectToCoordinator m =
     (if m_isExit m then m
      else emit (ConnectStart \<lparr>ca_localIP = ''localhost'', ca_localPort = 0,
                   ca_id = m_coordinatorIPCName, ca_moduleName = m_coordinatorIPCName,
                   ca_ip = ''localhost'', ca_port = coordinatorPort (m_countConnect m)\<rparr>) m)"

definition ManagerFunc :: "int \<Rightarrow> ipc_module \<Rightarrow> ipc_module" where
  "ManagerFunc t m =
     (if m_bConnectToCoordinatorRequest m \<and> t - m_requestCreated m \<ge> m_connectTimeout
      then (ConnectToCoordinator m)\<lparr>m_bConnectToCoordinatorRequest := False\<rparr>
      else m)"

text \<open>
  \<open>AddConnector\<close>: \<open>isIpc\<close> says whether the cast to \<open>IPCConnector\<close> succeeds; the
  connector \<open>c\<close> is given the module's name and a fresh connection id, subscribed, and handed
  to the connection manager.
\<close>

definition AddConnector :: "nat \<Rightarrow> bool \<Rightarrow> string \<Rightarrow> ipc_module \<Rightarrow> ipc_module" where
  "AddConnector c isIpc guid m =
     (if isIpc \<and> \<not> m_isExit m
      then emit (ConnectorAdded c guid (m_moduleName m)) (emit (OnNewConnector c) m)
      else emit (ConnectorDeleted c) m)"

section \<open>Queries\<close>

definition GetIPCObjects :: "ipc_module \<Rightarrow> ipc_name list" where
  "GetIPCObjects m = map m_ipcName (m_ipcObject m)"

definition GetConnectedModules :: "ipc_module \<Rightarrow> ipc_name list" where
  "GetConnectedModules m = map m_ipcName (m_modules m)"

definition GetInternalConnections :: "ipc_module \<Rightarrow> ipc_name list" where
  "GetInternalConnections m = map m_ipcName (filter (\<lambda>it. conn_id (m_ipcName it) \<noteq> []) (m_modules m))"

text \<open>The two loops of \<open>GetTargetPath\<close>: is the target connected; else, which objects relay.\<close>

fun target_connected :: "ipc_name \<Rightarrow> ipc_object list \<Rightarrow> bool" where
  "target_connected target [] = False"
| "target_connected target (it # its) =
     (if IPCObjectName_eq target (m_ipcName it) then True else target_connected target its)"

fun relay_path :: "bool \<Rightarrow> ipc_name \<Rightarrow> ipc_object list \<Rightarrow> ipc_name list \<Rightarrow> ipc_name list" where
  "relay_path through target [] retpath = retpath"
| "relay_path through target (it # its) retpath =
     (if conn_id (m_ipcName it) \<noteq> [] then relay_path through target its retpath
      else if through \<and> m_accessId it = m_baseAccessId
      then relay_path through target its (retpath @ [m_ipcName it] @ [target])
      else relay_path through target its retpath)"

definition GetTargetPath :: "ipc_name \<Rightarrow> ipc_module \<Rightarrow> ipc_name list" where
  "GetTargetPath target m =
     (if IPCObjectName_eq (m_moduleName m) target then []
      else if target_connected target (m_modules m) then [target]
      else relay_path (host_name target = []) target (m_ipcObject m) [])"

section \<open>Internal connections and messages\<close>

definition CreateInternalConnection :: "ipc_name \<Rightarrow> string \<Rightarrow> int \<Rightarrow> ipc_module \<Rightarrow> ipc_module" where
  "CreateInternalConnection moduleName ip port m =
     (if obj_get (IPCObject moduleName) (m_modules m) = None
      then emit (SignalInitInternalConnection moduleName ip port) m
      else emit (OnInternalConnection (GetModuleNameString moduleName) CONN_EXIST 0) m)"

definition SendMsg :: "ipc_message \<Rightarrow> ipc_module \<Rightarrow> ipc_module" where
  "SendMsg msg m = emit (SignalIPCMessage msg) m"

section \<open>Handlers of the listening and connecting threads\<close>

definition onCreatedListener :: "string \<Rightarrow> string \<Rightarrow> string \<Rightarrow> int \<Rightarrow> ipc_module \<Rightarrow> ipc_module" where
  "onCreatedListener user mid ip port m =
     (let object = \<lparr>m_ipcName = GetIPCName mid, m_ip = ip, m_port = port,
                    m_accessId = (if m_isCoordinator m then m_baseAccessId else user)\<rparr>;
          m = emit OnIPCObjectsChanged (m\<lparr>m_ipcObject := fst (obj_add object (m_ipcObject m))\<rparr>)
      in if \<not> m_isCoordinator m then ConnectToCoordinator m else m)"

definition onErrorListener :: "ipc_module \<Rightarrow> ipc_module" where
  "onErrorListener m =
     (if m_isCoordinator m \<and> m_countListener m + 1 < g_ipcCoordinatorPortCount
      then StartAsCoordinator (m\<lparr>m_countListener := m_countListener m + 1\<rparr>)
      else emit ModuleCreationFailed
             ((emit (ThreadManaged (m_listenThread m)) m)\<lparr>m_listenThread := None, m_isExit := True\<rparr>))"

text \<open>Both handlers that lose the coordinator move to its next port and ask for a reconnect.\<close>

definition nextCountConnect :: "ipc_module \<Rightarrow> ipc_module" where
  "nextCountConnect m =
     (if m_countConnect m + 1 = g_ipcCoordinatorPortCount then m\<lparr>m_countConnect := 0\<rparr>
      else m\<lparr>m_countConnect := m_countConnect m + 1\<rparr>)"

definition requestReconnect :: "int \<Rightarrow> ipc_module \<Rightarrow> ipc_module" where
  "requestReconnect now m = m\<lparr>m_bConnectToCoordinatorRequest := True, m_requestCreated := now\<rparr>"

text \<open>A failed connection to another module is retried while its counter is below the limit.\<close>

definition retryConnect :: "string \<Rightarrow> try_connect_counter \<Rightarrow> ipc_module \<Rightarrow> ipc_module" where
  "retryConnect name counter m =
     (if m_count counter < m_maxTryConnectCount \<and> \<not> m_isExit m
      then let m = ConnectTo (GetIPCName name) m;
               counter = counter\<lparr>m_count := m_count counter + 1\<rparr>
           in m\<lparr>m_tryConnectCounters := fst (tcc_update counter (m_tryConnectCounters m))\<rparr>
      else let m = emit (OnConnectFailed name) m
           in m\<lparr>m_tryConnectCounters := fst (tcc_remove counter (m_tryConnectCounters m))\<rparr>)"

definition onErrorConnect :: "int \<Rightarrow> string \<Rightarrow> ipc_module \<Rightarrow> ipc_module" where
  "onErrorConnect now name m =
     (if name = m_coordinatorIPCName \<and> \<not> m_isExit m
      then requestReconnect now (nextCountConnect m)
      else
        (case tcc_get (TryConnectCounter name) (m_tryConnectCounters m) of
           None \<Rightarrow> retryConnect name (TryConnectCounter name) (emit (OnConnectFailed name) m)
         | Some counter \<Rightarrow> retryConnect name counter m))"

section \<open>Handlers of the connectors\<close>

text \<open>The log line of \<open>onConnected\<close> is all that stands between its two calls.\<close>

definition onConnected :: "string \<Rightarrow> bool \<Rightarrow> ipc_module \<Rightarrow> ipc_module" where
  "onConnected mid withCoordinator m =
     (let m = emit (OnConnected mid) m
      in if withCoordinator then m\<lparr>m_coordinatorName := mid\<rparr> else m)"

definition onInternalConnectionStatusMessage ::
    "ipc_name \<Rightarrow> connection_status \<Rightarrow> int \<Rightarrow> ipc_module \<Rightarrow> ipc_module" where
  "onInternalConnectionStatusMessage target status port m =
     (let object = \<lparr>m_ipcName = target, m_ip = ''127.0.0.1'', m_port = port, m_accessId = m_internalAccessId\<rparr>;
          m = (if status = CONN_OPEN
               then m\<lparr>m_modules := fst (obj_add object (m_modules m)),
                      m_ipcObject := fst (obj_add object (m_ipcObject m))\<rparr> else m);
          m = (if status = CONN_CLOSE
               then m\<lparr>m_modules := fst (obj_remove object (m_modules m)),
                      m_ipcObject := fst (obj_remove object (m_ipcObject m))\<rparr> else m)
      in emit (OnInternalConnection (GetModuleNameString target) status port) (emit OnIPCObjectsChanged m))"

definition onIPCMessageProto :: "ipc_message \<Rightarrow> ipc_module \<Rightarrow> ipc_module" where
  "onIPCMessageProto msg m =
     emit (OnMessage (message_name msg) (map GetModuleNameString (ipc_sender msg)) (message msg)) m"

text \<open>
  The signal's path is rewritten in place; \<open>msg.ipc_path (0)\<close> of an empty path is an access
  out of range, \<^const>\<open>None\<close>.
\<close>

definition onIPCMessageSignal :: "ipc_message \<Rightarrow> ipc_module \<Rightarrow> (ipc_module \<times> ipc_message) option" where
  "onIPCMessageSignal msg m =
     (case ipc_path msg of
        [] \<Rightarrow> None
      | newPath # _ \<Rightarrow>
          let path = GetTargetPath newPath m
          in if 1 < length path then Some (m, msg\<lparr>ipc_path := path\<rparr>)
             else if length path = 0 \<and> IPCObjectName_eq (m_moduleName m) newPath
             then Some (onIPCMessageProto msg m, msg)
             else Some (m, msg))"

definition onAddIPCObject :: "add_ipc_object \<Rightarrow> ipc_module \<Rightarrow> ipc_module" where
  "onAddIPCObject msg m =
     (let object = \<lparr>m_ipcName = ao_ipc_name msg, m_ip = ao_ip msg, m_port = ao_port msg,
                    m_accessId = ao_access_id msg\<rparr>
      in emit OnIPCObjectsChanged (m\<lparr>m_ipcObject := fst (obj_add object (m_ipcObject m))\<rparr>))"

text \<open>\<open>std::map::insert\<close> keeps an entry that is already there.\<close>

definition rename_connectors ::
    "string \<Rightarrow> string \<Rightarrow> (string \<rightharpoonup> string list) \<Rightarrow> (string \<rightharpoonup> string list)" where
  "rename_connectors old new cm =
     (case cm old of
        None \<Rightarrow> cm
      | Some connectors \<Rightarrow>
          let cm = cm(old := None) in if cm new = None then cm(new \<mapsto> connectors) else cm)"

definition rename_counter :: "string \<Rightarrow> string \<Rightarrow> try_connect_counter list \<Rightarrow> try_connect_counter list" where
  "rename_counter old new cs =
     (case tcc_get (TryConnectCounter old) cs of
        None \<Rightarrow> cs
      | Some counter \<Rightarrow> fst (tcc_add (counter\<lparr>tcc_moduleName := new\<rparr>) (fst (tcc_remove counter cs))))"

definition onUpdateIPCObject :: "ipc_name \<Rightarrow> ipc_name \<Rightarrow> ipc_module \<Rightarrow> ipc_module" where
  "onUpdateIPCObject old new m =
     (let object = (case obj_get (IPCObject old) (m_ipcObject m) of None \<Rightarrow> IPCObject old | Some o' \<Rightarrow> o');
          m = m\<lparr>m_ipcObject := fst (obj_remove object (m_ipcObject m))\<rparr>;
          update = snd (obj_remove object (m_modules m));
          m = m\<lparr>m_modules := fst (obj_remove object (m_modules m))\<rparr>;
          oldName = GetModuleNameString (m_ipcName object);
          m = m\<lparr>m_connectors := rename_connectors oldName (GetModuleNameString new) (m_connectors m)\<rparr>;
          m = m\<lparr>m_tryConnectCounters := rename_counter oldName (GetModuleNameString new) (m_tryConnectCounters m)\<rparr>;
          object = object\<lparr>m_ipcName := new\<rparr>;
          m = m\<lparr>m_ipcObject := fst (obj_add object (m_ipcObject m))\<rparr>;
          m = (if update then m\<lparr>m_modules := fst (obj_add object (m_modules m))\<rparr> else m)
      in emit OnIPCObjectsChanged m)"

definition UpdateModuleName :: "ipc_name \<Rightarrow> ipc_module \<Rightarrow> ipc_module" where
  "UpdateModuleName moduleName m =
     (let m = onUpdateIPCObject (m_moduleName m) moduleName m;
          m = m\<lparr>m_moduleName := moduleName\<rparr>
      in emit (SignalChangeIPCName (m_moduleName m)) m)"

definition onRemoveIPCObject :: "string \<Rightarrow> ipc_module \<Rightarrow> ipc_module" where
  "onRemoveIPCObject name m =
     emit OnIPCObjectsChanged
       (m\<lparr>m_ipcObject := fst (obj_remove (IPCObject (GetIPCName name)) (m_ipcObject m))\<rparr>)"

text \<open>
  \<open>onModuleName\<close> answers through \<open>is_exist\<close>. \<open>m_connectors[name].push_back\<close> creates
  the entry when there is none.
\<close>

definition onModuleName :: "module_name_message \<Rightarrow> ipc_module \<Rightarrow> ipc_module \<times> module_name_message" where
  "onModuleName msg m =
     (let module = \<lparr>m_ipcName = mn_ipc_name msg, m_ip = mn_ip msg, m_port = mn_port msg,
                    m_accessId = mn_access_id msg\<rparr>;
          added = obj_add module (m_modules m);
          msg = msg\<lparr>mn_is_exist := \<not> snd added\<rparr>;
          name = GetModuleNameString (m_ipcName module);
          connectors = (case m_connectors m name of None \<Rightarrow> [] | Some cs \<Rightarrow> cs);
          m = m\<lparr>m_modules := fst added, m_connectors := (m_connectors m)(name \<mapsto> connectors @ [mn_conn_id msg])\<rparr>
      in (m\<lparr>m_tryConnectCounters := fst (tcc_remove (TryConnectCounter name) (m_tryConnectCounters m))\<rparr>, msg))"

definition CheckIPCObject :: "ipc_object \<Rightarrow> bool" where
  "CheckIPCObject o' \<longleftrightarrow> host_name (m_ipcName o') = []"

definition ipc_CheckFireConnector :: "string \<Rightarrow> bool" where
  "ipc_CheckFireConnector name = False"

text \<open>
  The first block of \<open>onDisconnected\<close>: forget one connection of a module; the result says
  whether it was the module's last.
\<close>

definition forget_connection :: "string \<Rightarrow> string \<Rightarrow> (string \<rightharpoonup> string list) \<Rightarrow> (string \<rightharpoonup> string list) \<times> bool" where
  "forget_connection mid connId cm =
     (case cm mid of
        None \<Rightarrow> (cm, False)
      | Some cs \<Rightarrow>
          let cs = remove1 connId cs
          in if cs = [] then (cm(mid := None), True) else (cm(mid \<mapsto> cs), False))"

definition onDisconnected :: "(string \<Rightarrow> bool) \<Rightarrow> int \<Rightarrow> string \<Rightarrow> string \<Rightarrow> ipc_module \<Rightarrow> ipc_module" where
  "onDisconnected checkFire now mid connId m =
     (let (connectors, isModuleDelete) = forget_connection mid connId (m_connectors m);
          m = m\<lparr>m_connectors := connectors\<rparr>
      in if \<not> isModuleDelete \<and> \<not> checkFire mid then m
         else
           let m = m\<lparr>m_modules := fst (obj_remove (IPCObject (GetIPCName mid)) (m_modules m))\<rparr>;
               m = (if mid = m_coordinatorIPCName \<or> (m_coordinatorName m \<noteq> [] \<and> mid = m_coordinatorName m)
                    then
                      let m = m\<lparr>m_ipcObject := fst (CheckObjects (\<lambda>x s. (CheckIPCObject x, s)) (m_ipcObject m) ())\<rparr>
                      in requestReconnect now (nextCountConnect (emit OnIPCObjectsChanged m))
                    else m)
           in if mid \<noteq> m_coordinatorIPCName then emit (OnFireConnector mid) m else m)"

definition getListenPort :: "listener_param \<Rightarrow> ipc_module \<Rightarrow> listener_param" where
  "getListenPort msg m =
     (let object = (case obj_get (IPCObject (GetIPCName (lp_moduleName msg))) (m_ipcObject m) of
                      Some o' \<Rightarrow> o'
                    | None \<Rightarrow> (case obj_get (IPCObject (m_moduleName m)) (m_ipcObject m) of
                                Some o' \<Rightarrow> o' | None \<Rightarrow> IPCObject (m_moduleName m)))
      in \<lparr>lp_ip = m_ip object, lp_port = m_port object,
          lp_moduleName = GetModuleNameString (m_ipcName object),
          lp_isCoordinator = (GetModuleNameString (m_ipcName object) = m_coordinatorName m)\<rparr>)"

definition ipc_FillIPCObjectList :: "ipc_object list \<Rightarrow> ipc_object list" where
  "ipc_FillIPCObjectList xs = xs"

fun fill_list :: "string \<Rightarrow> ipc_object list \<Rightarrow> add_ipc_object list \<Rightarrow> add_ipc_object list" where
  "fill_list accessId [] acc = acc"
| "fill_list accessId (it # its) acc =
     (if m_accessId it \<noteq> accessId then fill_list accessId its acc
      else fill_list accessId its
        (acc @ [\<lparr>ao_ipc_name = m_ipcName it, ao_ip = m_ip it, ao_port = m_port it, ao_access_id = m_accessId it\<rparr>]))"

definition onIPCObjectList ::
    "(ipc_object list \<Rightarrow> ipc_object list) \<Rightarrow> ipc_object_list_message \<Rightarrow> ipc_module \<Rightarrow> ipc_object_list_message" where
  "onIPCObjectList fill msg m =
     msg\<lparr>ol_ipc_object := fill_list (ol_access_id msg) (fill (m_ipcObject m)) (ol_ipc_object msg)\<rparr>"

end
