(* ===== verification/Ipc_Connector.thy ===== *)
theory Ipc_Connector
  imports Ipc_Module
begin

text \<open>
  A connection between two modules, seen from one side: the class \<open>IPCConnector\<close>
  (\<open>ipc_lib/connector/ipc_connector.cpp\<close>) and the handlers of the messages that arrive on it
  (\<open>ipc_lib/connector/ipc_handler.cpp\<close>). A handler works on a node: the connector itself, the
  module that owns it, which \<open>onSignal\<close> calls directly, and the module's other connectors,
  which \<open>onIPCSignal\<close> reaches. What leaves the node (messages to the remote side, threads,
  the closing of the socket) is appended to the connector's trace. The user's name is an
  argument. Logging is left out.
\<close>

section \<open>Messages on a connection\<close>

record module_state =
  ms_exist :: bool
  ms_rndVal :: string
  ms_id :: string

record init_internal_connection =
  ii_target :: ipc_name
  ii_ip :: string
  ii_port :: int

record internal_connection_status =
  is_target :: ipc_name
  is_status :: connection_status
  is_port :: int

datatype proto_msg =
    M_ModuleName module_name_message
  | M_ModuleState module_state
  | M_AddIPCObject add_ipc_object
  | M_RemoveIPCObject string
  | M_IPCMessage ipc_message
  | M_IPCObjectList ipc_object_list_message
  | M_ChangeIPCName ipc_name
  | M_UpdateIPCObject ipc_name ipc_name
  | M_Ping
  | M_InitInternalConnection init_internal_connection
  | M_InternalConnectionStatus internal_connection_status
  | M_InternalConnectionData string string

datatype conn_effect =
    ToMessage proto_msg
  | StopSocket
  | CheckerStart
  | CheckerStop
  | InternalListenStart listen_address
  | InternalConnectStart connect_address
  | InternalThreadStop string
  | InternalConnectionAdded string
  | InternalConnectorDeleted string
  | InternalStopConnection string
  | InternalManagerStop
  | InternalData string string
  | OnAddIPCObject string
  | OnUpdateIPCObject string string

section \<open>Internal connections\<close>

text \<open>\<open>m_thread\<close> is the listening thread of the connection, or null.\<close>

record internal_connection =
  ic_id :: string
  ic_status :: connection_status
  ic_thread :: bool

definition InternalConnection :: "string \<Rightarrow> internal_connection" where
  "InternalConnection i = \<lparr>ic_id = i, ic_status = CONN_INIT, ic_thread = False\<rparr>"

definition InternalConnection_eq :: "internal_connection \<Rightarrow> internal_connection \<Rightarrow> bool" where
  "InternalConnection_eq a b \<longleftrightarrow> ic_id a = ic_id b"

definition InternalConnection_lt :: "internal_connection \<Rightarrow> internal_connection \<Rightarrow> bool" where
  "InternalConnection_lt a b \<longleftrightarrow> ic_id a < ic_id b"

interpretation ics: ordered_object InternalConnection_lt InternalConnection_eq ic_id
  by unfold_locales (simp_all add: InternalConnection_lt_def InternalConnection_eq_def)

abbreviation ic_add :: "internal_connection \<Rightarrow> internal_connection list \<Rightarrow> internal_connection list \<times> bool" where
  "ic_add \<equiv> AddObject InternalConnection_lt InternalConnection_eq"

abbreviation ic_get :: "internal_connection \<Rightarrow> internal_connection list \<Rightarrow> internal_connection option" where
  "ic_get \<equiv> GetObject InternalConnection_lt InternalConnection_eq"

abbreviation ic_update :: "internal_connection \<Rightarrow> internal_connection list \<Rightarrow> internal_connection list \<times> bool" where
  "ic_update \<equiv> UpdateObject InternalConnection_lt InternalConnection_eq"

text \<open>\<open>InternalConnection conn (id); GetObject (conn, &conn);\<close> leaves \<open>conn\<close> as made when there is none.\<close>

definition ic_find :: "string \<Rightarrow> internal_connection list \<Rightarrow> internal_connection" where
  "ic_find i xs = (case ic_get (InternalConnection i) xs of None \<Rightarrow> InternalConnection i | Some conn \<Rightarrow> conn)"

section \<open>The connector and its node\<close>

record ipc_connector =
  c_id :: string
  c_connectorId :: string
  c_accessId :: string
  c_moduleName :: ipc_name
  c_checker :: bool
  c_bConnected :: bool
  c_isNotifyRemove :: bool
  c_isSendIPCObjects :: bool
  c_isCoordinator :: bool
  c_isExist :: bool
  c_rand :: string
  c_internalConnections :: "internal_connection list"
  c_trace :: "conn_effect list"

text \<open>\<open>IPCConnector\<close>: \<open>m_rand\<close> is a fresh GUID; the id was set by the thread that made the connector.\<close>

definition IPCConnector :: "string \<Rightarrow> ipc_name \<Rightarrow> string \<Rightarrow> ipc_connector" where
  "IPCConnector i moduleName guid = \<lparr>c_id = i, c_connectorId = [], c_accessId = [], c_moduleName = moduleName,
     c_checker = False, c_bConnected = False, c_isNotifyRemove = True, c_isSendIPCObjects = False,
     c_isCoordinator = False, c_isExist = False, c_rand = guid, c_internalConnections = [], c_trace = []\<rparr>"

definition c_emit :: "conn_effect \<Rightarrow> ipc_connector \<Rightarrow> ipc_connector" where
  "c_emit e c = c\<lparr>c_trace := c_trace c @ [e]\<rparr>"

abbreviation to_message :: "proto_msg \<Rightarrow> ipc_connector \<Rightarrow> ipc_connector" where
  "to_message msg \<equiv> c_emit (ToMessage msg)"

record node =
  nd_self :: ipc_connector
  nd_module :: ipc_module
  nd_peers :: "ipc_connector list"

definition self :: "(ipc_connector \<Rightarrow> ipc_connector) \<Rightarrow> node \<Rightarrow> node" where
  "self f n = n\<lparr>nd_self := f (nd_self n)\<rparr>"

definition onSignal :: "(ipc_module \<Rightarrow> ipc_module) \<Rightarrow> node \<Rightarrow> node" where
  "onSignal f n = n\<lparr>nd_module := f (nd_module n)\<rparr>"

definition onIPCSignal :: "(ipc_connector \<Rightarrow> ipc_connector) \<Rightarrow> node \<Rightarrow> node" where
  "onIPCSignal f n = n\<lparr>nd_peers := map f (nd_peers n)\<rparr>"

section \<open>Signals from the other connectors and the module\<close>

definition onIPCMessage :: "ipc_message \<Rightarrow> ipc_connector \<Rightarrow> ipc_connector" where
  "onIPCMessage msg c =
     (case ipc_path msg of
        [] \<Rightarrow> c
      | p # _ \<Rightarrow> if GetModuleNameString p = c_id c then to_message (M_IPCMessage msg) c else c)"

definition onIPCMessageOfModule :: "ipc_message \<Rightarrow> ipc_connector \<Rightarrow> ipc_connector" where
  "onIPCMessageOfModule msg c =
     (let ipcName = (case ipc_path msg of [] \<Rightarrow> local_name [] | p # _ \<Rightarrow> p)
      in if length (ipc_path msg) = 0 \<or> IPCObjectName_eq ipcName (GetIPCName (c_id c))
         then to_message (M_IPCMessage msg) c else c)"

definition onUpdateIPCObjectMessage :: "ipc_name \<Rightarrow> ipc_name \<Rightarrow> ipc_connector \<Rightarrow> ipc_connector" where
  "onUpdateIPCObjectMessage old new = to_message (M_UpdateIPCObject old new)"

definition SetModuleName :: "ipc_name \<Rightarrow> ipc_connector \<Rightarrow> ipc_connector \<times> bool" where
  "SetModuleName moduleName c = (c\<lparr>c_moduleName := moduleName\<rparr>, True)"

definition onChangeIPCNameMessage :: "ipc_name \<Rightarrow> ipc_connector \<Rightarrow> ipc_connector" where
  "onChangeIPCNameMessage name c =
     (case SetModuleName name c of (c, ok) \<Rightarrow> if ok then to_message (M_ChangeIPCName name) c else c)"

definition onRemoveIPCObjectMessage :: "string \<Rightarrow> ipc_connector \<Rightarrow> ipc_connector" where
  "onRemoveIPCObjectMessage name = to_message (M_RemoveIPCObject name)"

definition onModuleNameMessage :: "module_name_message \<Rightarrow> ipc_connector \<Rightarrow> ipc_connector" where
  "onModuleNameMessage msg c =
     (if IPCObjectName_eq (c_moduleName c) (mn_ipc_name msg) then c
      else to_message (M_AddIPCObject \<lparr>ao_ipc_name = mn_ipc_name msg, ao_ip = mn_ip msg,
             ao_port = mn_port msg, ao_access_id = mn_access_id msg\<rparr>) c)"

text \<open>This one answers in the message.\<close>

definition onModuleStateMessage :: "ipc_connector \<Rightarrow> module_state \<Rightarrow> module_state" where
  "onModuleStateMessage c msg =
     (if ms_id msg = c_id c
      then let msg = msg\<lparr>ms_exist := True\<rparr>
           in if c_rand c < ms_rndVal msg then msg\<lparr>ms_rndVal := c_rand c\<rparr> else msg
      else msg)"

section \<open>Start, connection and stop\<close>

definition OnConnected_connector :: "node \<Rightarrow> node" where
  "OnConnected_connector n =
     (let n = self (\<lambda>c. c\<lparr>c_bConnected := True\<rparr>) n
      in onSignal (onConnected (c_id (nd_self n)) (\<not> c_isCoordinator (nd_self n))) n)"

definition OnStart :: "string \<Rightarrow> node \<Rightarrow> node" where
  "OnStart user n =
     (let n = self (\<lambda>c. c_emit CheckerStart (c\<lparr>c_checker := True\<rparr>)) n;
          msg = getListenPort \<lparr>lp_ip = ''127.0.0.1'', lp_port = 0,
                  lp_moduleName = GetModuleNameString (c_moduleName (nd_self n)), lp_isCoordinator = False\<rparr> (nd_module n)
      in self (\<lambda>c.
           let c = c\<lparr>c_moduleName := GetIPCName (lp_moduleName msg), c_isCoordinator := lp_isCoordinator msg,
                     c_isNotifyRemove := lp_isCoordinator msg, c_isSendIPCObjects := lp_isCoordinator msg,
                     c_accessId := user\<rparr>
           in to_message (M_ModuleName \<lparr>mn_ipc_name = c_moduleName c, mn_ip = lp_ip msg, mn_port = lp_port msg,
                mn_access_id = c_accessId c, mn_is_exist = False, mn_conn_id = []\<rparr>) c) n)"

text \<open>
  \<open>InternalDestroyNotify\<close> runs on a connection that is being removed. An unset port reads 0.
\<close>

definition internal_name :: "ipc_name \<Rightarrow> string \<Rightarrow> ipc_name" where
  "internal_name n i = IPCName (mod_name n) (host_name n) i"

definition status_message :: "ipc_name \<Rightarrow> connection_status \<Rightarrow> proto_msg" where
  "status_message target status = M_InternalConnectionStatus \<lparr>is_target = target, is_status = status, is_port = 0\<rparr>"

definition InternalDestroyNotify :: "internal_connection \<Rightarrow> node \<Rightarrow> node" where
  "InternalDestroyNotify conn n =
     (let n = (if ic_thread conn then self (c_emit (InternalThreadStop (ic_id conn))) n else n)
      in onSignal (onInternalConnectionStatusMessage (internal_name (GetIPCName (c_id (nd_self n))) (ic_id conn))
           (if ic_status conn = CONN_OPEN then CONN_CLOSE else CONN_FAILED) 0) n)"

definition ic_destroy :: "string \<Rightarrow> node \<Rightarrow> node" where
  "ic_destroy i n =
     (case DestroyObject InternalConnection_lt InternalConnection_eq InternalDestroyNotify
             (InternalConnection i) (c_internalConnections (nd_self n)) n of
        (xs, n, _) \<Rightarrow> self (\<lambda>c. c\<lparr>c_internalConnections := xs\<rparr>) n)"

definition OnStop :: "node \<Rightarrow> node" where
  "OnStop n =
     (let n = (if c_bConnected (nd_self n) then self (\<lambda>c. c\<lparr>c_bConnected := False\<rparr>) n else n);
          i = c_id (nd_self n);
          n = (if c_isNotifyRemove (nd_self n)
               then onIPCSignal (onRemoveIPCObjectMessage i) (onSignal (onRemoveIPCObject i) n) else n);
          n = (if c_checker (nd_self n) then self (\<lambda>c. c_emit CheckerStop (c\<lparr>c_checker := False\<rparr>)) n else n);
          (xs, n) = CheckObjects (\<lambda>conn n. (True, InternalDestroyNotify conn n)) (c_internalConnections (nd_self n)) n
      in self (\<lambda>c. c_emit InternalManagerStop (c\<lparr>c_internalConnections := xs\<rparr>)) n)"

section \<open>Messages from the remote side\<close>

text \<open>
  \<open>onMessage (ModuleName)\<close> in its three parts: who is at the other side and whether it may
  connect; telling the module; answering. An access that is denied closes the socket and goes on.
\<close>

definition check_access :: "module_name_message \<Rightarrow> node \<Rightarrow> node" where
  "check_access msg n =
     (let n = (if c_checker (nd_self n) then self (\<lambda>c. c_emit CheckerStop (c\<lparr>c_checker := False\<rparr>)) n else n);
          isCoordinatorAccess = (c_isCoordinator (nd_self n) \<or> c_id (nd_self n) = m_coordinatorIPCName);
          n = (if isCoordinatorAccess then self (\<lambda>c. c\<lparr>c_accessId := m_baseAccessId\<rparr>) n else n);
          n = (if \<not> isCoordinatorAccess \<and> c_accessId (nd_self n) \<noteq> mn_access_id msg then self (c_emit StopSocket) n else n)
      in self (\<lambda>c. c\<lparr>c_id := GetModuleNameString (mn_ipc_name msg)\<rparr>) n)"

definition register_module :: "module_name_message \<Rightarrow> node \<Rightarrow> node \<times> module_name_message" where
  "register_module msg n =
     (let access = (if c_isCoordinator (nd_self n) then mn_access_id msg else c_accessId (nd_self n));
          n = onSignal (onAddIPCObject \<lparr>ao_ipc_name = mn_ipc_name msg, ao_ip = mn_ip msg, ao_port = mn_port msg,
                ao_access_id = access\<rparr>) n;
          mnMsg = msg\<lparr>mn_is_exist := False, mn_conn_id := c_connectorId (nd_self n), mn_access_id := access\<rparr>;
          mnMsg' = snd (onModuleName mnMsg (nd_module n));
          n = onSignal (\<lambda>m. fst (onModuleName mnMsg m)) n
      in (self (\<lambda>c. c\<lparr>c_isExist := mn_is_exist mnMsg'\<rparr>) n, mnMsg'))"

definition answer_module ::
    "(ipc_object list \<Rightarrow> ipc_object list) \<Rightarrow> module_name_message \<Rightarrow> node \<Rightarrow> node" where
  "answer_module fill msg n =
     (let n = self (\<lambda>c. to_message (M_ModuleState \<lparr>ms_exist = c_isExist c, ms_rndVal = c_rand c, ms_id = []\<rparr>) c) n
      in if c_isSendIPCObjects (nd_self n)
         then self (to_message (M_IPCObjectList (onIPCObjectList fill
                \<lparr>ol_ipc_object = [], ol_access_id = mn_access_id msg\<rparr> (nd_module n)))) n
         else n)"

text \<open>\<open>onConn\<close> is the connector's virtual \<open>OnConnected\<close>.\<close>

definition handle_ModuleName ::
    "(node \<Rightarrow> node) \<Rightarrow> (ipc_object list \<Rightarrow> ipc_object list) \<Rightarrow> module_name_message \<Rightarrow> node \<Rightarrow> node" where
  "handle_ModuleName onConn fill msg n =
     (let (n, mnMsg) = register_module msg (check_access msg n);
          n = answer_module fill msg n
      in if c_isExist (nd_self n) then n
         else onConn (if c_isSendIPCObjects (nd_self n) then onIPCSignal (onModuleNameMessage mnMsg) n else n))"

definition onMessage_ModuleName ::
    "(ipc_object list \<Rightarrow> ipc_object list) \<Rightarrow> module_name_message \<Rightarrow> node \<Rightarrow> node" where
  "onMessage_ModuleName = handle_ModuleName OnConnected_connector"

definition handle_ModuleState :: "(node \<Rightarrow> node) \<Rightarrow> module_state \<Rightarrow> node \<Rightarrow> node" where
  "handle_ModuleState onConn msg n =
     (if ms_exist msg \<and> c_isExist (nd_self n) then self (c_emit StopSocket) n
      else if ms_exist msg \<and> \<not> c_isExist (nd_self n)
      then
        let msMsg = fold onModuleStateMessage (nd_peers n) (msg\<lparr>ms_exist := False, ms_id := c_id (nd_self n)\<rparr>)
        in if ms_exist msMsg \<and> c_rand (nd_self n) > ms_rndVal msMsg \<or> \<not> ms_exist msMsg then self (c_emit StopSocket) n
           else if ms_exist msMsg \<and> c_rand (nd_self n) = ms_rndVal msMsg then n
           else onConn n
      else n)"

definition onMessage_ModuleState :: "module_state \<Rightarrow> node \<Rightarrow> node" where
  "onMessage_ModuleState = handle_ModuleState OnConnected_connector"

definition onMessage_AddIPCObject :: "add_ipc_object \<Rightarrow> node \<Rightarrow> node" where
  "onMessage_AddIPCObject msg n =
     self (c_emit (OnAddIPCObject (GetModuleNameString (ao_ipc_name msg)))) (onSignal (onAddIPCObject msg) n)"

definition onMessage_RemoveIPCObject :: "string \<Rightarrow> node \<Rightarrow> node" where
  "onMessage_RemoveIPCObject name n = onSignal (onRemoveIPCObject name) n"

definition onMessage_IPCObjectList :: "ipc_object_list_message \<Rightarrow> node \<Rightarrow> node" where
  "onMessage_IPCObjectList msg n = fold onMessage_AddIPCObject (ol_ipc_object msg) n"

definition onMessage_ChangeIPCName :: "ipc_name \<Rightarrow> node \<Rightarrow> node" where
  "onMessage_ChangeIPCName name n =
     (let old = GetIPCName (c_id (nd_self n));
          n = onSignal (onUpdateIPCObject old name) n;
          n = (if c_isCoordinator (nd_self n) then onIPCSignal (onUpdateIPCObjectMessage old name) n else n)
      in self (\<lambda>c. c\<lparr>c_id := GetModuleNameString name\<rparr>) n)"

definition onMessage_UpdateIPCObject :: "ipc_name \<Rightarrow> ipc_name \<Rightarrow> node \<Rightarrow> node" where
  "onMessage_UpdateIPCObject old new n =
     self (c_emit (OnUpdateIPCObject (GetModuleNameString old) (GetModuleNameString new)))
       (onSignal (onUpdateIPCObject old new) n)"

definition onMessage_Ping :: "node \<Rightarrow> node" where
  "onMessage_Ping n = n"

text \<open>
  \<open>onMessage (IPCMessage)\<close>. The payload may be a message the connector itself knows:
  \<open>dispatch name data\<close> is the connector's table applied to it, \<^const>\<open>None\<close> for a name that is
  not in the table. \<open>c_GetIPCName\<close> is the virtual name of the sender's side.
\<close>

definition GetIPCName_connector :: "ipc_connector \<Rightarrow> ipc_name" where
  "GetIPCName_connector c = GetIPCName (c_id c)"

definition relay_IPCMessage :: "ipc_message \<Rightarrow> node \<Rightarrow> node" where
  "relay_IPCMessage newMsg n =
     (case onIPCMessageSignal newMsg (nd_module n) of
        None \<Rightarrow> n
      | Some (m, sigMsg) \<Rightarrow> onIPCSignal (onIPCMessage sigMsg) (onSignal (\<lambda>_. m) n))"

definition onMessage_IPCMessage ::
    "(string \<Rightarrow> string \<Rightarrow> (node \<Rightarrow> node) option) \<Rightarrow> (ipc_connector \<Rightarrow> ipc_name) \<Rightarrow> ipc_message \<Rightarrow> node \<Rightarrow> node" where
  "onMessage_IPCMessage dispatch c_GetIPCName msg n =
     (if \<not> c_bConnected (nd_self n) then n
      else
        let name = c_moduleName (nd_self n);
            newMsg = msg\<lparr>ipc_path := [], ipc_sender := ipc_sender msg @ [c_GetIPCName (nd_self n)]\<rparr>;
            (newMsg, isTarget) =
              (case ipc_path msg of
                 [] \<Rightarrow> (newMsg, True)
               | newPath # rest \<Rightarrow>
                   let newMsg = (if IPCObjectName_eq newPath name then newMsg\<lparr>ipc_path := rest\<rparr> else newMsg)
                   in (newMsg, IPCObjectName_eq newPath name \<and> ipc_path newMsg = []));
            handled = (if isTarget then dispatch (message_name msg) (message msg) else None)
        in (case handled of
              Some h \<Rightarrow> (if ipc_path newMsg \<noteq> [] then relay_IPCMessage newMsg (h n) else h n)
            | None \<Rightarrow>
                if isTarget then onSignal (onIPCMessageProto newMsg) n
                else if ipc_path newMsg \<noteq> [] then relay_IPCMessage newMsg n
                else n))"

section \<open>Internal connections: the protocol\<close>

definition onMessage_InitInternalConnection :: "init_internal_connection \<Rightarrow> node \<Rightarrow> node" where
  "onMessage_InitInternalConnection msg n =
     (let i = conn_id (ii_target msg); target = internal_name (c_moduleName (nd_self n)) i
      in if c_isCoordinator (nd_self n) then self (to_message (status_message target CONN_FAILED)) n
         else
           case ic_add (InternalConnection i) (c_internalConnections (nd_self n)) of
             (xs, added) \<Rightarrow>
               let n = self (\<lambda>c. c\<lparr>c_internalConnections := xs\<rparr>) n
               in if added
                  then self (c_emit (InternalConnectStart \<lparr>ca_localIP = [], ca_localPort = 0, ca_id = i,
                         ca_moduleName = i, ca_ip = ii_ip msg, ca_port = Some (ii_port msg)\<rparr>)) n
                  else self (to_message (status_message target CONN_EXIST)) n)"

definition onMessage_InternalConnectionStatus :: "internal_connection_status \<Rightarrow> node \<Rightarrow> node" where
  "onMessage_InternalConnectionStatus msg n =
     (let i = conn_id (is_target msg);
          conn = ic_find i (c_internalConnections (nd_self n));
          notify = onSignal (onInternalConnectionStatusMessage
            (internal_name (GetIPCName (c_id (nd_self n))) i) (is_status msg) (is_port msg))
      in case is_status msg of
           CONN_OPEN \<Rightarrow>
             self (\<lambda>c. c_emit (InternalListenStart \<lparr>la_id = i, la_localIP = ''127.0.0.1'', la_localPort = Some 0,
                          la_acceptCount = 1\<rparr>)
                  (c\<lparr>c_internalConnections := fst (ic_update (conn\<lparr>ic_thread := True\<rparr>) (c_internalConnections c))\<rparr>)) n
         | CONN_CLOSE \<Rightarrow> self (c_emit (InternalStopConnection i)) (ic_destroy i n)
         | CONN_EXIST \<Rightarrow> notify (ic_destroy i n)
         | CONN_FAILED \<Rightarrow> notify (ic_destroy i n)
         | CONN_INIT \<Rightarrow> notify n)"

definition onMessage_InternalConnectionData :: "string \<Rightarrow> string \<Rightarrow> node \<Rightarrow> node" where
  "onMessage_InternalConnectionData i data n = self (c_emit (InternalData i data)) n"

definition onDisconnectedInternal :: "string \<Rightarrow> node \<Rightarrow> node" where
  "onDisconnectedInternal i n =
     ic_destroy i (self (\<lambda>c. to_message (status_message (internal_name (c_moduleName c) i) CONN_CLOSE) c) n)"

definition onCreatedListenerInternal :: "int \<Rightarrow> string \<Rightarrow> node \<Rightarrow> node" where
  "onCreatedListenerInternal port i n =
     (let conn = (ic_find i (c_internalConnections (nd_self n)))\<lparr>ic_status := CONN_OPEN\<rparr>;
          n = self (\<lambda>c. c\<lparr>c_internalConnections := fst (ic_update conn (c_internalConnections c))\<rparr>) n
      in onSignal (onInternalConnectionStatusMessage (internal_name (GetIPCName (c_id (nd_self n))) i) CONN_OPEN port) n)"

definition onErrorListenerInternal :: "string \<Rightarrow> node \<Rightarrow> node" where
  "onErrorListenerInternal i n =
     (let n = self (\<lambda>c. to_message (status_message (internal_name (c_moduleName c) i) CONN_CLOSE) c) n;
          n = onSignal (onInternalConnectionStatusMessage (internal_name (GetIPCName (c_id (nd_self n))) i) CONN_FAILED 0) n
      in ic_destroy i n)"

definition onErrorConnectInternal :: "string \<Rightarrow> node \<Rightarrow> node" where
  "onErrorConnectInternal i n =
     ic_destroy i (self (\<lambda>c. to_message (status_message (internal_name (c_moduleName c) i) CONN_FAILED) c) n)"

definition onAddConnectorInternal :: "string \<Rightarrow> bool \<Rightarrow> node \<Rightarrow> node" where
  "onAddConnectorInternal i isInternal n =
     (let conn = ic_find i (c_internalConnections (nd_self n));
          (conn, n) =
            (if ic_thread conn then (conn\<lparr>ic_thread := False\<rparr>, self (c_emit (InternalThreadStop i)) n)
             else
               let n = onSignal (onInternalConnectionStatusMessage
                         (internal_name (GetIPCName (c_id (nd_self n))) i) CONN_OPEN 0) n;
                   n = self (\<lambda>c. to_message (status_message (internal_name (c_moduleName c) i) CONN_OPEN) c) n
               in (conn\<lparr>ic_status := CONN_OPEN\<rparr>, n));
          n = self (\<lambda>c. c\<lparr>c_internalConnections := fst (ic_update conn (c_internalConnections c))\<rparr>) n
      in if isInternal then self (c_emit (InternalConnectionAdded i)) n
         else self (c_emit (InternalConnectorDeleted i)) n)"

text \<open>The message's target is rewritten before it is sent on.\<close>

definition onInitInternalConnectionMessage :: "init_internal_connection \<Rightarrow> node \<Rightarrow> node" where
  "onInitInternalConnectionMessage msg n =
     (let t = ii_target msg; c = nd_self n
      in if GetModuleNameString (IPCName (mod_name t) (host_name t) []) \<noteq> c_id c then n
         else if c_isCoordinator c \<or> conn_id t = []
         then onSignal (onInternalConnectionStatusMessage t CONN_FAILED 0) n
         else
           case ic_add (InternalConnection (conn_id t)) (c_internalConnections c) of
             (xs, added) \<Rightarrow>
               let n = self (\<lambda>c. c\<lparr>c_internalConnections := xs\<rparr>) n
               in if added
                  then self (to_message (M_InitInternalConnection (msg\<lparr>ii_target := internal_name (c_moduleName c) (conn_id t)\<rparr>))) n
                  else onSignal (onInternalConnectionStatusMessage t CONN_EXIST 0) n)"

definition onInternalConnectionDataSignal :: "string \<Rightarrow> string \<Rightarrow> node \<Rightarrow> node" where
  "onInternalConnectionDataSignal i data n = self (to_message (M_InternalConnectionData i data)) n"

section \<open>The checker\<close>

text \<open>
  \<open>IPCCheckerThread\<close> gives the peer fifty ticks to introduce itself. \<open>stop\<close> is \<open>IsStop ()\<close>;
  the result is the count and whether the connector is stopped.
\<close>

definition IPCChecker_ManagerFunc :: "bool \<Rightarrow> int \<Rightarrow> int \<times> bool" where
  "IPCChecker_ManagerFunc stop k =
     (let k = k - 1
      in if k > 0 \<or> stop then (k, False) else if k = 0 then (k, True) else (k, False))"

end
