(* ===== verification/Ipc_Invariant.thy ===== *)
theory Ipc_Invariant
  imports Ipc_Module
begin

text \<open>
  The module's well-formedness, the step relation of everything that can happen to a module,
  and the invariant: the containers stay sorted and without duplicates, the port counters stay
  inside the coordinator's port table, so no connection or listener is started on a port read
  outside it, no module keeps an empty list of connections, and no retry counter leaves its
  bounds.
\<close>

lemma emit_sel [simp]:
  "m_listenThread (emit e m) = m_listenThread m" "m_moduleName (emit e m) = m_moduleName m"
  "m_ipcObject (emit e m) = m_ipcObject m" "m_modules (emit e m) = m_modules m"
  "m_isCoordinator (emit e m) = m_isCoordinator m" "m_coordinatorName (emit e m) = m_coordinatorName m"
  "m_isExit (emit e m) = m_isExit m" "m_isStop (emit e m) = m_isStop m"
  "m_countListener (emit e m) = m_countListener m" "m_countConnect (emit e m) = m_countConnect m"
  "m_tryConnectCounters (emit e m) = m_tryConnectCounters m" "m_connectors (emit e m) = m_connectors m"
  "m_bConnectToCoordinatorRequest (emit e m) = m_bConnectToCoordinatorRequest m"
  "m_requestCreated (emit e m) = m_requestCreated m" "m_trace (emit e m) = m_trace m @ [e]"
  by (simp_all add: emit_def)

section \<open>The invariant\<close>

definition ports_known :: "effect \<Rightarrow> bool" where
  "ports_known e = (case e of ListenStart a \<Rightarrow> la_localPort a \<noteq> None
     | ConnectStart a \<Rightarrow> ca_port a \<noteq> None | _ \<Rightarrow> True)"

definition counter_ok :: "try_connect_counter \<Rightarrow> bool" where
  "counter_ok c \<longleftrightarrow> 0 \<le> m_count c \<and> m_count c \<le> m_maxTryConnectCount"

definition counters_inv :: "try_connect_counter list \<Rightarrow> bool" where
  "counters_inv cs \<longleftrightarrow> om_inv tcc_moduleName cs \<and> (\<forall>c \<in> set cs. counter_ok c)"

definition ipc_inv :: "ipc_module \<Rightarrow> bool" where
  "ipc_inv m \<longleftrightarrow>
     om_inv m_ipcName (m_ipcObject m) \<and> om_inv m_ipcName (m_modules m) \<and>
     counters_inv (m_tryConnectCounters m) \<and>
     m_countListener m < g_ipcCoordinatorPortCount \<and> m_countConnect m < g_ipcCoordinatorPortCount \<and>
     (\<forall>k. m_connectors m k \<noteq> Some []) \<and>
     (\<forall>e \<in> set (m_trace m). ports_known e)"

lemma ports_known_simps [simp]:
  "ports_known (ListenStart a) \<longleftrightarrow> la_localPort a \<noteq> None"
  "ports_known (ConnectStart b) \<longleftrightarrow> ca_port b \<noteq> None"
  "ports_known (ListenStop a)" "ports_known (ThreadManaged t)" "ports_known (StopConnection s)"
  "ports_known ManagerStopped" "ports_known (ConnectorAdded c g n)" "ports_known (ConnectorDeleted c)"
  "ports_known (OnNewConnector c)" "ports_known (OnConnected s)" "ports_known (OnConnectFailed s)"
  "ports_known (OnFireConnector s)" "ports_known (OnMessage s p d)"
  "ports_known (OnInternalConnection s cs i)" "ports_known OnIPCObjectsChanged"
  "ports_known ModuleCreationFailed" "ports_known (SignalChangeIPCName n)"
  "ports_known (SignalIPCMessage im)" "ports_known (SignalInitInternalConnection n s i)"
  by (simp_all add: ports_known_def)

lemma ipc_inv_emit [simp]: "ipc_inv (emit e m) \<longleftrightarrow> ipc_inv m \<and> ports_known e"
  by (auto simp: ipc_inv_def)

text \<open>Writing a field keeps the invariant when the field's own part is kept.\<close>

lemma ipc_inv_update [simp]:
  "ipc_inv (m\<lparr>m_listenThread := t\<rparr>) = ipc_inv m"
  "ipc_inv (m\<lparr>m_moduleName := n\<rparr>) = ipc_inv m"
  "ipc_inv (m\<lparr>m_isCoordinator := b\<rparr>) = ipc_inv m"
  "ipc_inv (m\<lparr>m_coordinatorName := s\<rparr>) = ipc_inv m"
  "ipc_inv (m\<lparr>m_isExit := b\<rparr>) = ipc_inv m"
  "ipc_inv (m\<lparr>m_isStop := b\<rparr>) = ipc_inv m"
  "ipc_inv (m\<lparr>m_bConnectToCoordinatorRequest := b\<rparr>) = ipc_inv m"
  "ipc_inv (m\<lparr>m_requestCreated := i\<rparr>) = ipc_inv m"
  by (simp_all add: ipc_inv_def)

lemma ipc_inv_objects: "ipc_inv m \<Longrightarrow> om_inv m_ipcName xs \<Longrightarrow> ipc_inv (m\<lparr>m_ipcObject := xs\<rparr>)"
  and ipc_inv_modules: "ipc_inv m \<Longrightarrow> om_inv m_ipcName xs \<Longrightarrow> ipc_inv (m\<lparr>m_modules := xs\<rparr>)"
  and ipc_inv_counters: "ipc_inv m \<Longrightarrow> counters_inv cs \<Longrightarrow> ipc_inv (m\<lparr>m_tryConnectCounters := cs\<rparr>)"
  and ipc_inv_connectors: "ipc_inv m \<Longrightarrow> \<forall>k. cm k \<noteq> Some [] \<Longrightarrow> ipc_inv (m\<lparr>m_connectors := cm\<rparr>)"
  and ipc_inv_countListener: "ipc_inv m \<Longrightarrow> i < g_ipcCoordinatorPortCount \<Longrightarrow> ipc_inv (m\<lparr>m_countListener := i\<rparr>)"
  and ipc_inv_countConnect: "ipc_inv m \<Longrightarrow> i < g_ipcCoordinatorPortCount \<Longrightarrow> ipc_inv (m\<lparr>m_countConnect := i\<rparr>)"
  by (simp_all add: ipc_inv_def)

lemma ipc_invD:
  assumes "ipc_inv m"
  shows "om_inv m_ipcName (m_ipcObject m)" and "om_inv m_ipcName (m_modules m)"
    and "counters_inv (m_tryConnectCounters m)"
    and "m_countListener m < g_ipcCoordinatorPortCount"
    and "m_countConnect m < g_ipcCoordinatorPortCount"
    and "m_connectors m k \<noteq> Some []"
    and "e \<in> set (m_trace m) \<Longrightarrow> ports_known e"
  using assms by (auto simp: ipc_inv_def)

lemmas ipc_inv_intros = ipc_inv_objects ipc_inv_modules ipc_inv_counters ipc_inv_connectors
  ipc_inv_countListener ipc_inv_countConnect objs.store_inv ipc_invD(1-3)

lemma coordinatorPort_known: "i < g_ipcCoordinatorPortCount \<Longrightarrow> coordinatorPort i \<noteq> None"
  by (simp add: ipc_constants)

lemma counter_ok_new [simp]: "counter_ok (TryConnectCounter s)"
  by (simp add: counter_ok_def ipc_constants)

lemma counter_ok_rename [simp]: "counter_ok (c\<lparr>tcc_moduleName := s\<rparr>) = counter_ok c"
  by (simp add: counter_ok_def)

text \<open>Counter lists: what the container operations keep.\<close>

lemma counters_inv_add: "counters_inv cs \<Longrightarrow> counter_ok c \<Longrightarrow> counters_inv (fst (tcc_add c cs))"
  and counters_inv_remove: "counters_inv cs \<Longrightarrow> counters_inv (fst (tcc_remove d cs))"
  and counters_inv_update: "counters_inv cs \<Longrightarrow> counter_ok c \<Longrightarrow> counters_inv (fst (tcc_update c cs))"
  using om_set_subset unfolding counters_inv_def by (fast intro: tccs.store_inv)+

lemmas counters_inv_intros = counters_inv_add counters_inv_remove counters_inv_update

lemma counters_inv_get: "counters_inv cs \<Longrightarrow> tcc_get d cs = Some c \<Longrightarrow> counter_ok c"
  by (auto simp: counters_inv_def dest: GetObject_in_set)

section \<open>Every operation keeps the invariant\<close>

lemma IPCModule_inv: "ipc_inv (IPCModule n)"
  by (simp add: ipc_inv_def IPCModule_def counters_inv_def g_ipcCoordinatorPortCount_def)

lemma StartOn_inv: "ipc_inv m \<Longrightarrow> port \<noteq> None \<Longrightarrow> ipc_inv (StartOn ip port m)"
  by (simp add: StartOn_def Let_def split: option.split)

lemma Start_inv: "ipc_inv m \<Longrightarrow> ipc_inv (Start m)"
  by (simp add: Start_def StartOn_inv)

lemma StartAsCoordinator_inv: "ipc_inv m \<Longrightarrow> ipc_inv (StartAsCoordinator m)"
  using coordinatorPort_known ipc_invD(4) by (simp add: StartAsCoordinator_def Let_def StartOn_inv)

lemma IPCModule_destroy_inv: "ipc_inv m \<Longrightarrow> ipc_inv (IPCModule_destroy m)"
  by (simp add: IPCModule_destroy_def Let_def split: option.split)

lemma Exit_inv: "ipc_inv m \<Longrightarrow> ipc_inv (Exit m)"
  by (simp add: Exit_def)

lemma ConnectTo_inv: "ipc_inv m \<Longrightarrow> ipc_inv (ConnectTo n m)"
  by (auto simp: ConnectTo_def Let_def split: option.split
      intro!: ipc_inv_intros counters_inv_intros)

lemma ConnectToCoordinator_inv: "ipc_inv m \<Longrightarrow> ipc_inv (ConnectToCoordinator m)"
  using coordinatorPort_known ipc_invD(5) by (simp add: ConnectToCoordinator_def)

lemma ManagerFunc_inv: "ipc_inv m \<Longrightarrow> ipc_inv (ManagerFunc t m)"
  by (simp add: ManagerFunc_def ConnectToCoordinator_inv)

lemma effect_only_inv:
  "ipc_inv m \<Longrightarrow> ipc_inv (ManagerStop m)" "ipc_inv m \<Longrightarrow> ipc_inv (DisconnectModule n m)"
  "ipc_inv m \<Longrightarrow> ipc_inv (AddConnector c b g m)" "ipc_inv m \<Longrightarrow> ipc_inv (CreateInternalConnection n ip port m)"
  "ipc_inv m \<Longrightarrow> ipc_inv (SendMsg im m)" "ipc_inv m \<Longrightarrow> ipc_inv (onIPCMessageProto im m)"
  "ipc_inv m \<Longrightarrow> ipc_inv (onConnected s b m)"
  by (simp_all add: ManagerStop_def DisconnectModule_def AddConnector_def CreateInternalConnection_def
      SendMsg_def onIPCMessageProto_def onConnected_def Let_def)

lemma onIPCMessageSignal_inv: "ipc_inv m \<Longrightarrow> onIPCMessageSignal im m = Some (m', im') \<Longrightarrow> ipc_inv m'"
  by (auto simp: onIPCMessageSignal_def Let_def effect_only_inv split: list.splits if_splits)

lemma onCreatedListener_inv: "ipc_inv m \<Longrightarrow> ipc_inv (onCreatedListener u i ip port m)"
  by (auto simp: onCreatedListener_def Let_def intro!: ConnectToCoordinator_inv ipc_inv_intros)

lemma onErrorListener_inv: "ipc_inv m \<Longrightarrow> ipc_inv (onErrorListener m)"
  by (auto simp: onErrorListener_def intro!: StartAsCoordinator_inv ipc_inv_intros)

lemma nextCountConnect_inv: "ipc_inv m \<Longrightarrow> ipc_inv (nextCountConnect m)"
  using ipc_invD(5) [of m]
  by (auto simp: nextCountConnect_def g_ipcCoordinatorPortCount_def intro!: ipc_inv_intros)

lemma requestReconnect_inv: "ipc_inv m \<Longrightarrow> ipc_inv (requestReconnect now m)"
  by (simp add: requestReconnect_def)

lemma retryConnect_inv: "ipc_inv m \<Longrightarrow> counter_ok c \<Longrightarrow> ipc_inv (retryConnect name c m)"
  by (auto simp: retryConnect_def Let_def counter_ok_def
      intro!: ipc_inv_intros counters_inv_intros ConnectTo_inv)

lemma onErrorConnect_inv: "ipc_inv m \<Longrightarrow> ipc_inv (onErrorConnect now name m)"
  by (auto simp: onErrorConnect_def split: option.split dest: counters_inv_get [OF ipc_invD(3)]
      intro!: requestReconnect_inv nextCountConnect_inv retryConnect_inv)

lemma onInternalConnectionStatusMessage_inv:
  "ipc_inv m \<Longrightarrow> ipc_inv (onInternalConnectionStatusMessage t s port m)"
  by (auto simp: onInternalConnectionStatusMessage_def Let_def intro!: ipc_inv_intros)

lemma onAddIPCObject_inv: "ipc_inv m \<Longrightarrow> ipc_inv (onAddIPCObject msg m)"
  by (auto simp: onAddIPCObject_def Let_def intro!: ipc_inv_intros)

lemma onRemoveIPCObject_inv: "ipc_inv m \<Longrightarrow> ipc_inv (onRemoveIPCObject s m)"
  by (auto simp: onRemoveIPCObject_def intro!: ipc_inv_intros)

lemma rename_connectors_inv:
  "\<forall>k. cm k \<noteq> Some [] \<Longrightarrow> \<forall>k. rename_connectors a b cm k \<noteq> Some []"
  by (auto simp: rename_connectors_def Let_def split: option.split)

lemma rename_counter_inv: "counters_inv cs \<Longrightarrow> counters_inv (rename_counter a b cs)"
  by (auto simp: rename_counter_def dest: counters_inv_get intro!: counters_inv_intros split: option.split)

lemma onUpdateIPCObject_inv: "ipc_inv m \<Longrightarrow> ipc_inv (onUpdateIPCObject old new m)"
  by (auto simp: onUpdateIPCObject_def Let_def simp del: not_Some_eq
      intro!: ipc_inv_intros rename_connectors_inv rename_counter_inv ipc_invD(6))

lemma UpdateModuleName_inv: "ipc_inv m \<Longrightarrow> ipc_inv (UpdateModuleName n m)"
  by (simp add: UpdateModuleName_def Let_def onUpdateIPCObject_inv)

lemma onModuleName_inv: "ipc_inv m \<Longrightarrow> ipc_inv (fst (onModuleName msg m))"
  by (auto simp: onModuleName_def Let_def ipc_invD(6) split: if_splits
      intro!: ipc_inv_intros counters_inv_intros)

lemma forget_connection_inv:
  "\<forall>k. cm k \<noteq> Some [] \<Longrightarrow> \<forall>k. fst (forget_connection s c cm) k \<noteq> Some []"
  by (auto simp: forget_connection_def Let_def split: option.split)

lemma onDisconnected_inv:
  assumes "ipc_inv m"
  shows "ipc_inv (onDisconnected checkFire now s c m)"
proof -
  obtain cm b where f: "forget_connection s c (m_connectors m) = (cm, b)" by fastforce
  with forget_connection_inv [of "m_connectors m" s c] ipc_invD(6) [OF assms]
  have "\<forall>k. cm k \<noteq> Some []" by simp
  with assms show ?thesis
    by (auto simp: onDisconnected_def f Let_def CheckObjects_pure
        intro!: ipc_inv_intros requestReconnect_inv nextCountConnect_inv)
qed

lemmas ipc_operations_inv = Start_inv StartAsCoordinator_inv IPCModule_destroy_inv Exit_inv
  ConnectTo_inv ManagerFunc_inv effect_only_inv onIPCMessageSignal_inv onCreatedListener_inv
  onErrorListener_inv onErrorConnect_inv onInternalConnectionStatusMessage_inv onAddIPCObject_inv
  onRemoveIPCObject_inv onUpdateIPCObject_inv UpdateModuleName_inv onModuleName_inv onDisconnected_inv

section \<open>The step relation\<close>

text \<open>
  Everything that can happen to a module whose virtual \<open>CheckFireConnector\<close> is \<open>checkFire\<close>:
  a call of its interface, a signal from a connector or a thread, a tick of the manager thread.
\<close>

inductive ipc_step :: "(string \<Rightarrow> bool) \<Rightarrow> ipc_module \<Rightarrow> ipc_module \<Rightarrow> bool" for checkFire where
  step_Start: "ipc_step checkFire m (Start m)"
| step_StartAsCoordinator: "ipc_step checkFire m (StartAsCoordinator m)"
| step_destroy: "ipc_step checkFire m (IPCModule_destroy m)"
| step_Exit: "ipc_step checkFire m (Exit m)"
| step_ConnectTo: "ipc_step checkFire m (ConnectTo n m)"
| step_DisconnectModule: "ipc_step checkFire m (DisconnectModule n m)"
| step_ManagerFunc: "ipc_step checkFire m (ManagerFunc t m)"
| step_ManagerStop: "ipc_step checkFire m (ManagerStop m)"
| step_AddConnector: "ipc_step checkFire m (AddConnector c isIpc guid m)"
| step_CreateInternalConnection: "ipc_step checkFire m (CreateInternalConnection n ip port m)"
| step_SendMsg: "ipc_step checkFire m (SendMsg im m)"
| step_UpdateModuleName: "ipc_step checkFire m (UpdateModuleName n m)"
| step_onCreatedListener: "ipc_step checkFire m (onCreatedListener user s ip port m)"
| step_onErrorListener: "ipc_step checkFire m (onErrorListener m)"
| step_onErrorConnect: "ipc_step checkFire m (onErrorConnect now s m)"
| step_onConnected: "ipc_step checkFire m (onConnected s withCoordinator m)"
| step_onInternalConnectionStatus:
    "ipc_step checkFire m (onInternalConnectionStatusMessage n status port m)"
| step_onIPCMessageProto: "ipc_step checkFire m (onIPCMessageProto im m)"
| step_onIPCMessageSignal:
    "onIPCMessageSignal im m = Some (m', im') \<Longrightarrow> ipc_step checkFire m m'"
| step_onAddIPCObject: "ipc_step checkFire m (onAddIPCObject ao m)"
| step_onUpdateIPCObject: "ipc_step checkFire m (onUpdateIPCObject old new m)"
| step_onRemoveIPCObject: "ipc_step checkFire m (onRemoveIPCObject s m)"
| step_onModuleName: "ipc_step checkFire m (fst (onModuleName mn m))"
| step_onDisconnected: "ipc_step checkFire m (onDisconnected checkFire now s connId m)"

inductive ipc_reachable :: "(string \<Rightarrow> bool) \<Rightarrow> ipc_module \<Rightarrow> bool" for checkFire where
  reach_new: "ipc_reachable checkFire (IPCModule n)"
| reach_step: "ipc_reachable checkFire m \<Longrightarrow> ipc_step checkFire m m' \<Longrightarrow> ipc_reachable checkFire m'"

lemma ipc_step_inv: "ipc_step checkFire m m' \<Longrightarrow> ipc_inv m \<Longrightarrow> ipc_inv m'"
  by (induction rule: ipc_step.induct) (auto intro: ipc_operations_inv)

lemma ipc_reachable_inv: "ipc_reachable checkFire m \<Longrightarrow> ipc_inv m"
  by (induction rule: ipc_reachable.induct) (auto intro: IPCModule_inv ipc_step_inv)

text \<open>
  C1: in every reachable state of a module the containers are sorted without duplicates, the
  port counters index the coordinator's port table and no connection or listener has been
  started on a port read outside it, no module has an empty list of connections, and the retry
  counters stay between 0 and the limit.
\<close>

theorem ipc_module_invariant:
  assumes "ipc_reachable checkFire m"
  shows "om_inv m_ipcName (m_ipcObject m) \<and> om_inv m_ipcName (m_modules m) \<and>
    om_inv tcc_moduleName (m_tryConnectCounters m) \<and>
    m_countListener m < g_ipcCoordinatorPortCount \<and> m_countConnect m < g_ipcCoordinatorPortCount \<and>
    (\<forall>e \<in> set (m_trace m). ports_known e) \<and>
    (\<forall>k. m_connectors m k \<noteq> Some []) \<and>
    (\<forall>c \<in> set (m_tryConnectCounters m). 0 \<le> m_count c \<and> m_count c \<le> 10)"
  using ipc_reachable_inv [OF assms]
  by (auto simp: ipc_inv_def counters_inv_def counter_ok_def m_maxTryConnectCount_def)

theorem ipc_module_invariant_witness:
  "om_inv m_ipcName (m_ipcObject (Start (IPCModule (local_name ''console''))))"
  using ipc_module_invariant [OF reach_step [OF reach_new step_Start]] by simp

end
