(* ===== verification/Ipc_Properties.thy ===== *)
theory Ipc_Properties
  imports Ipc_Invariant "HOL-Library.Multiset"
begin

text \<open>
  What the IPC module does, operation by operation, stated over the maps its containers stand
  for (\<open>obj_lookup\<close>, \<open>tcc_lookup\<close>) and over the trace of effects.
\<close>

section \<open>Concrete modules\<close>

text \<open>Two modules on which the properties below are evaluated: a new one, and one that has been told of another module of this host.\<close>

definition new_module :: ipc_module where
  "new_module = IPCModule (local_name ''console'')"

definition informed_module :: ipc_module where
  "informed_module = onAddIPCObject \<lparr>ao_ipc_name = local_name ''server'', ao_ip = ''127.0.0.1'', ao_port = 5050,
     ao_access_id = m_baseAccessId\<rparr> new_module"

lemma new_module_reachable: "ipc_reachable checkFire new_module"
  by (simp add: new_module_def reach_new)

lemma informed_module_reachable: "ipc_reachable checkFire informed_module"
  unfolding informed_module_def by (rule reach_step [OF new_module_reachable step_onAddIPCObject])

lemma demo_name_printable [simp]: "printable_name (local_name ''server'')" "printable_name (local_name ''backup'')"
  by (simp_all add: printable_name_def dot_free_def)

text \<open>The state of both modules, field by field.\<close>

lemma new_module_sel [simp]:
  "m_ipcObject new_module = []" "m_modules new_module = []" "m_tryConnectCounters new_module = []"
  "m_connectors new_module = Map.empty" "m_isExit new_module = False" "m_trace new_module = []"
  "m_moduleName new_module = local_name ''console''"
  by (simp_all add: new_module_def IPCModule_def)

lemma informed_module_sel [simp]:
  "m_ipcObject informed_module = [\<lparr>m_ipcName = local_name ''server'', m_ip = ''127.0.0.1'', m_port = 5050,
     m_accessId = m_baseAccessId\<rparr>]"
  "m_modules informed_module = []" "m_tryConnectCounters informed_module = []"
  "m_connectors informed_module = Map.empty" "m_isExit informed_module = False"
  "m_trace informed_module = [OnIPCObjectsChanged]" "m_moduleName informed_module = local_name ''console''"
  by (simp_all add: informed_module_def onAddIPCObject_def om_defs lower_bound_def emit_def)

section \<open>Routing\<close>

lemma target_connected_iff: "target_connected target xs \<longleftrightarrow> target \<in> m_ipcName ` set xs"
  by (induction xs) auto

text \<open>The objects a message may be relayed through: coordinators, not internal connections.\<close>

definition relays :: "ipc_object list \<Rightarrow> ipc_name list" where
  "relays xs = map m_ipcName (filter (\<lambda>it. conn_id (m_ipcName it) = [] \<and> m_accessId it = m_baseAccessId) xs)"

lemma relay_path_eq:
  "relay_path through target xs acc
   = acc @ (if through then concat (map (\<lambda>n. [n, target]) (relays xs)) else [])"
  by (induction xs arbitrary: acc) (auto simp: relays_def)

lemma GetTargetPath_eq:
  "GetTargetPath target m =
     (if m_moduleName m = target then []
      else if target \<in> m_ipcName ` set (m_modules m) then [target]
      else if host_name target = [] then concat (map (\<lambda>n. [n, target]) (relays (m_ipcObject m)))
      else [])"
  by (simp add: GetTargetPath_def target_connected_iff relay_path_eq)

text \<open>
  The path of a message. To the module itself it is empty and to a connected module it is
  that module alone; a module of this host that is not connected is reached through the
  coordinators the module knows of, and a module of another host is not reached.
\<close>

lemma GetTargetPath_correct:
  "(m_moduleName m = target \<longrightarrow> GetTargetPath target m = []) \<and>
   (m_moduleName m \<noteq> target \<and> target \<in> set (GetConnectedModules m) \<longrightarrow> GetTargetPath target m = [target]) \<and>
   (m_moduleName m \<noteq> target \<and> target \<notin> set (GetConnectedModules m) \<longrightarrow>
      GetTargetPath target m = (if host_name target = [] then concat (map (\<lambda>n. [n, target]) (relays (m_ipcObject m))) else []))"
  by (auto simp: GetTargetPath_eq GetConnectedModules_def)

section \<open>Sharing the object list\<close>

lemma fill_list_eq:
  "fill_list a xs acc = acc @ map (\<lambda>it. \<lparr>ao_ipc_name = m_ipcName it, ao_ip = m_ip it, ao_port = m_port it,
     ao_access_id = m_accessId it\<rparr>) (filter (\<lambda>it. m_accessId it = a) xs)"
  by (induction xs arbitrary: acc) auto

text \<open>
  The list a module sends to a peer holds, in order, exactly the objects that carry the
  peer's access id, after what the message already held.
\<close>

lemma onIPCObjectList_filters_by_access:
  "ol_ipc_object (onIPCObjectList ipc_FillIPCObjectList msg m) = ol_ipc_object msg @
     map (\<lambda>it. \<lparr>ao_ipc_name = m_ipcName it, ao_ip = m_ip it, ao_port = m_port it, ao_access_id = m_accessId it\<rparr>)
       (filter (\<lambda>it. m_accessId it = ol_access_id msg) (m_ipcObject m))"
  by (simp add: onIPCObjectList_def ipc_FillIPCObjectList_def fill_list_eq)

section \<open>Connecting and failing to connect\<close>

text \<open>The three ways \<open>ConnectTo\<close> can go, over the maps.\<close>

lemma ConnectTo_starts:
  assumes "ipc_inv m" and "\<not> m_isExit m" and "tcc_lookup (m_tryConnectCounters m) (GetModuleNameString n) = None"
    and "obj_lookup (m_ipcObject m) n = Some ob" and "obj_lookup (m_modules m) n = None"
  shows "ConnectTo n m = emit (ConnectStart \<lparr>ca_localIP = ''localhost'', ca_localPort = 0,
       ca_id = GetModuleNameString n, ca_moduleName = GetModuleNameString n,
       ca_ip = ''localhost'', ca_port = Some (m_port ob)\<rparr>)
     (m\<lparr>m_tryConnectCounters := fst (tcc_add (TryConnectCounter (GetModuleNameString n)) (m_tryConnectCounters m))\<rparr>)"
proof -
  have "m_ipcName ob = n" using assms(4) by (rule om_lookup_key)
  with assms show ?thesis
    by (simp add: ConnectTo_def Let_def tccs.get_lookup objs.get_lookup ipc_inv_def counters_inv_def)
qed

lemma ConnectTo_pending:
  assumes "ipc_inv m" and "tcc_lookup (m_tryConnectCounters m) (GetModuleNameString n) \<noteq> None"
  shows "ConnectTo n m = emit (OnConnectFailed (GetModuleNameString n)) m"
  using assms by (simp add: ConnectTo_def Let_def tccs.get_lookup ipc_inv_def counters_inv_def)

lemma onErrorConnect_pending:
  assumes inv: "ipc_inv m" and "printable_name n" and name: "GetModuleNameString n \<noteq> m_coordinatorIPCName"
    and exit: "\<not> m_isExit m"
    and c: "tcc_lookup (m_tryConnectCounters m) (GetModuleNameString n) = Some c" "m_count c < m_maxTryConnectCount"
  shows "m_trace (onErrorConnect now (GetModuleNameString n) m)
      = m_trace m @ [OnConnectFailed (GetModuleNameString n)]"
    and "tcc_lookup (m_tryConnectCounters (onErrorConnect now (GetModuleNameString n) m)) (GetModuleNameString n)
      = Some (c\<lparr>m_count := m_count c + 1\<rparr>)"
    and "ipc_inv (onErrorConnect now (GetModuleNameString n) m)"
proof -
  let ?s = "GetModuleNameString n"
  have cs: "om_inv tcc_moduleName (m_tryConnectCounters m)"
    using inv by (simp add: ipc_inv_def counters_inv_def)
  have key: "tcc_moduleName c = ?s" using c(1) by (rule om_lookup_key)
  have "onErrorConnect now ?s m = (emit (OnConnectFailed ?s) m)\<lparr>m_tryConnectCounters
      := fst (tcc_update (c\<lparr>m_count := m_count c + 1\<rparr>) (m_tryConnectCounters m))\<rparr>"
    using assms cs by (simp add: onErrorConnect_def retryConnect_def Let_def tccs.get_lookup
        GetIPCName_GetModuleNameString ConnectTo_pending)
  then show "m_trace (onErrorConnect now ?s m) = m_trace m @ [OnConnectFailed ?s]"
    and "tcc_lookup (m_tryConnectCounters (onErrorConnect now ?s m)) ?s = Some (c\<lparr>m_count := m_count c + 1\<rparr>)"
    using cs c(1) key by (simp_all add: tccs.update_lookup)
  show "ipc_inv (onErrorConnect now ?s m)" using inv by (rule onErrorConnect_inv)
qed

text \<open>
  C3: a connection attempt that fails is not retried. \<open>ConnectTo\<close> starts one connection
  and records a counter; when the connection fails, \<open>onErrorConnect\<close> calls \<open>ConnectTo\<close>
  again, which sees the counter, reports a failure and starts nothing; and the counter stays,
  so a later \<open>ConnectTo\<close> of the same module fails at once too.
\<close>

theorem failed_connect_is_final:
  assumes "ipc_reachable checkFire m" and "printable_name n"
    and "GetModuleNameString n \<noteq> m_coordinatorIPCName" and "\<not> m_isExit m"
    and "tcc_lookup (m_tryConnectCounters m) (GetModuleNameString n) = None"
    and "obj_lookup (m_ipcObject m) n = Some ob" and "obj_lookup (m_modules m) n = None"
  defines "m1 \<equiv> ConnectTo n m" and "s \<equiv> GetModuleNameString n"
  shows "(\<exists>a. m_trace m1 = m_trace m @ [ConnectStart a]) \<and>
    m_trace (onErrorConnect now s m1) = m_trace m1 @ [OnConnectFailed s] \<and>
    ConnectTo n (onErrorConnect now s m1) = emit (OnConnectFailed s) (onErrorConnect now s m1)"
proof -
  have inv: "ipc_inv m" using assms(1) by (rule ipc_reachable_inv)
  have cs: "om_inv tcc_moduleName (m_tryConnectCounters m)"
    using inv by (simp add: ipc_inv_def counters_inv_def)
  note m1 = ConnectTo_starts [OF inv assms(4-7)]
  have inv1: "ipc_inv m1" unfolding m1_def using inv by (rule ConnectTo_inv)
  have c1: "tcc_lookup (m_tryConnectCounters m1) s = Some (TryConnectCounter s)"
    using assms(5) cs by (simp add: m1_def s_def m1 tccs.add_lookup)
  have "\<not> m_isExit m1" and trace: "\<exists>a. m_trace m1 = m_trace m @ [ConnectStart a]"
    using assms(4) by (auto simp: m1_def m1)
  then have "m_trace (onErrorConnect now s m1) = m_trace m1 @ [OnConnectFailed s]"
    and "tcc_lookup (m_tryConnectCounters (onErrorConnect now s m1)) s \<noteq> None"
    and "ipc_inv (onErrorConnect now s m1)"
    using onErrorConnect_pending [OF inv1 assms(2,3)] c1 by (simp_all add: s_def m_maxTryConnectCount_def)
  with trace show ?thesis using ConnectTo_pending by (simp add: s_def)
qed

theorem failed_connect_is_final_witness:
  "ConnectTo (local_name ''server'') (onErrorConnect 5 ''server'' (ConnectTo (local_name ''server'') informed_module))
   = emit (OnConnectFailed ''server'') (onErrorConnect 5 ''server'' (ConnectTo (local_name ''server'') informed_module))"
  using failed_connect_is_final [OF informed_module_reachable, where n = "local_name ''server''" and now = 5]
  by (simp add: m_coordinatorIPCName_def)

section \<open>Losing the coordinator\<close>

text \<open>
  When the connection to the coordinator fails, the module waits: the manager thread does
  nothing for ten seconds, then starts exactly one new connection, to the coordinator's port on
  this host, and does nothing again.
\<close>

lemma reconnect_after_timeout:
  fixes now :: int
  assumes "ipc_reachable checkFire m" and "\<not> m_isExit m"
  defines "m1 \<equiv> onErrorConnect now m_coordinatorIPCName m"
  shows "(\<forall>t. t - now < 10 \<longrightarrow> ManagerFunc t m1 = m1) \<and>
    (\<forall>t. 10 \<le> t - now \<longrightarrow>
       m_trace (ManagerFunc t m1) = m_trace m1 @ [ConnectStart \<lparr>ca_localIP = ''localhost'', ca_localPort = 0,
           ca_id = ''IPCCoordinator'', ca_moduleName = ''IPCCoordinator'', ca_ip = ''localhost'', ca_port = Some 2041\<rparr>] \<and>
       (\<forall>u. ManagerFunc u (ManagerFunc t m1) = ManagerFunc t m1))"
proof -
  have "ipc_inv m" using assms(1) by (rule ipc_reachable_inv)
  then have "m_countConnect (nextCountConnect m) = 0"
    using ipc_invD(5) by (fastforce simp: nextCountConnect_def g_ipcCoordinatorPortCount_def)
  moreover have "\<not> m_isExit (nextCountConnect m)" using assms(2) by (simp add: nextCountConnect_def)
  ultimately show ?thesis using assms(2)
    by (simp add: m1_def onErrorConnect_def requestReconnect_def ManagerFunc_def ConnectToCoordinator_def ipc_constants)
qed

section \<open>The connections of a module\<close>

text \<open>
  Several connections can lead to one module (both sides may connect at the same time). A
  module is entered with its first connection and removed with its last.
\<close>

lemma onModuleName_sel [simp]:
  "m_trace (fst (onModuleName msg m)) = m_trace m" "m_coordinatorName (fst (onModuleName msg m)) = m_coordinatorName m"
  by (simp_all add: onModuleName_def Let_def)

lemma onModuleName_connectors:
  "m_connectors (fst (onModuleName msg m)) = (m_connectors m)(GetModuleNameString (mn_ipc_name msg) \<mapsto>
     (case m_connectors m (GetModuleNameString (mn_ipc_name msg)) of None \<Rightarrow> [] | Some cs \<Rightarrow> cs) @ [mn_conn_id msg])"
  by (simp add: onModuleName_def Let_def)

lemma onModuleName_modules:
  assumes "ipc_inv m"
  shows "obj_lookup (m_modules (fst (onModuleName msg m))) (mn_ipc_name msg) \<noteq> None"
  using assms by (simp add: onModuleName_def Let_def objs.add_lookup ipc_invD)

lemma onDisconnected_not_last:
  assumes "m_connectors m s = Some cs" and "remove1 c cs \<noteq> []" and "\<not> checkFire s"
  shows "onDisconnected checkFire now s c m = m\<lparr>m_connectors := (m_connectors m)(s \<mapsto> remove1 c cs)\<rparr>"
  using assms by (simp add: onDisconnected_def forget_connection_def)

lemma onDisconnected_last:
  assumes "ipc_inv m" and "m_connectors m s = Some cs" and "remove1 c cs = []"
  shows "obj_lookup (m_modules (onDisconnected checkFire now s c m))
      = (obj_lookup (m_modules m))(GetIPCName s := None)"
    and "m_connectors (onDisconnected checkFire now s c m) = (m_connectors m)(s := None)"
  using assms by (simp_all add: onDisconnected_def forget_connection_def Let_def objs.remove_lookup
      ipc_invD requestReconnect_def nextCountConnect_def)

text \<open>Connections \<open>cs\<close> of one module arrive; connections \<open>ds\<close> of it go.\<close>

fun connect_all :: "ipc_name \<Rightarrow> string list \<Rightarrow> ipc_module \<Rightarrow> ipc_module" where
  "connect_all n [] m = m"
| "connect_all n (c # cs) m = connect_all n cs (fst (onModuleName
     \<lparr>mn_ipc_name = n, mn_ip = [], mn_port = 0, mn_access_id = [], mn_is_exist = False, mn_conn_id = c\<rparr> m))"

fun disconnect_all :: "int \<Rightarrow> ipc_name \<Rightarrow> string list \<Rightarrow> ipc_module \<Rightarrow> ipc_module" where
  "disconnect_all now n [] m = m"
| "disconnect_all now n (d # ds) m =
     disconnect_all now n ds (onDisconnected ipc_CheckFireConnector now (GetModuleNameString n) d m)"

lemma connect_all_inv: "ipc_inv m \<Longrightarrow> ipc_inv (connect_all n cs m)"
  by (induction cs arbitrary: m) (auto intro: onModuleName_inv)

lemma connect_all_connectors:
  "cs \<noteq> [] \<Longrightarrow> m_connectors (connect_all n cs m) (GetModuleNameString n)
     = Some ((case m_connectors m (GetModuleNameString n) of None \<Rightarrow> [] | Some xs \<Rightarrow> xs) @ cs)"
proof (induction cs arbitrary: m)
  case (Cons c cs)
  then show ?case by (cases "cs = []") (simp_all add: onModuleName_connectors)
qed simp

lemma connect_all_modules:
  "ipc_inv m \<Longrightarrow> cs \<noteq> [] \<Longrightarrow> obj_lookup (m_modules (connect_all n cs m)) n \<noteq> None"
proof (induction cs arbitrary: m)
  case (Cons c cs)
  then show ?case
    using onModuleName_modules [of m "\<lparr>mn_ipc_name = n, mn_ip = [], mn_port = 0, mn_access_id = [],
      mn_is_exist = False, mn_conn_id = c\<rparr>"]
    by (cases "cs = []") (auto intro: onModuleName_inv)
qed simp

lemma disconnect_all_inv: "ipc_inv m \<Longrightarrow> ipc_inv (disconnect_all now n ds m)"
  by (induction ds arbitrary: m) (auto intro: onDisconnected_inv)

lemma disconnect_all_snoc:
  "disconnect_all now n (ds @ [d]) m
   = onDisconnected ipc_CheckFireConnector now (GetModuleNameString n) d (disconnect_all now n ds m)"
  by (induction ds arbitrary: m) auto

lemma disconnect_all_not_last:
  assumes "m_connectors m (GetModuleNameString n) = Some xs" and "mset ds \<subset># mset xs"
  shows "m_modules (disconnect_all now n ds m) = m_modules m \<and>
    (\<exists>ys. m_connectors (disconnect_all now n ds m) (GetModuleNameString n) = Some ys \<and> mset ys = mset xs - mset ds)"
  using assms
proof (induction ds arbitrary: m xs)
  case (Cons d ds)
  let ?s = "GetModuleNameString n"
  from Cons.prems(2) have d: "d \<in># mset xs"
    by (auto dest: mset_subset_insertD)
  then have "add_mset d (mset ds) \<subset># add_mset d (mset xs - {#d#})"
    using Cons.prems(2) by (simp only: insert_DiffM mset.simps)
  then have lt: "mset ds \<subset># mset (remove1 d xs)" by simp
  have ne: "remove1 d xs \<noteq> []" using lt by (metis mset.simps(1) mset_subset_of_empty)
  let ?m = "onDisconnected ipc_CheckFireConnector now ?s d m"
  have m: "?m = m\<lparr>m_connectors := (m_connectors m)(?s \<mapsto> remove1 d xs)\<rparr>"
    using onDisconnected_not_last [OF Cons.prems(1) ne] by (simp add: ipc_CheckFireConnector_def)
  from Cons.IH [of ?m "remove1 d xs"] lt show ?case by (simp add: m)
qed simp

text \<open>
  C2: a module stays in the list of connected modules exactly as long as one of its
  connections is open. After connections \<open>cs\<close> of it have come (whatever was there before is
  \<open>m\<close>, which has none) and some of them have gone, in any order, it is still there; when all
  have gone, it is not.
\<close>

theorem connected_until_last_connection:
  assumes "ipc_reachable ipc_CheckFireConnector m" and "printable_name n"
    and "m_connectors m (GetModuleNameString n) = None" and "cs \<noteq> []"
  shows "(mset ds \<subset># mset cs \<longrightarrow> n \<in> set (GetConnectedModules (disconnect_all now n ds (connect_all n cs m)))) \<and>
    (mset ds = mset cs \<longrightarrow> n \<notin> set (GetConnectedModules (disconnect_all now n ds (connect_all n cs m))))"
proof -
  let ?s = "GetModuleNameString n" and ?m = "connect_all n cs m"
  have inv: "ipc_inv ?m" using assms(1) by (intro connect_all_inv ipc_reachable_inv)
  have cs: "m_connectors ?m ?s = Some cs" using assms(3,4) by (simp add: connect_all_connectors)
  have here: "obj_lookup (m_modules ?m) n \<noteq> None"
    using ipc_reachable_inv [OF assms(1)] assms(4) by (rule connect_all_modules)
  have keep: "n \<in> set (GetConnectedModules (disconnect_all now n ds ?m))" if "mset ds \<subset># mset cs"
    using disconnect_all_not_last [OF cs that] here
    by (auto simp: GetConnectedModules_def om_lookup_None_iff)
  have gone: "n \<notin> set (GetConnectedModules (disconnect_all now n ds ?m))" if eq: "mset ds = mset cs"
  proof -
    obtain es d where ds: "ds = es @ [d]" using eq assms(4) by (cases ds rule: rev_cases) auto
    then have es: "mset es \<subset># mset cs" and rest: "mset cs - mset es = {#d#}"
      using eq [symmetric] by auto
    let ?m' = "disconnect_all now n es ?m"
    obtain ys where ys: "m_connectors ?m' ?s = Some ys" "mset ys = {#d#}"
      using disconnect_all_not_last [OF cs es] rest by auto
    moreover have "ipc_inv ?m'" using inv by (rule disconnect_all_inv)
    moreover have "remove1 d ys = []" using ys(2) by simp
    ultimately have "obj_lookup (m_modules (disconnect_all now n ds ?m)) n = None"
      using onDisconnected_last assms(2)
      by (simp add: ds disconnect_all_snoc GetIPCName_GetModuleNameString)
    then show ?thesis by (simp add: GetConnectedModules_def om_lookup_None_iff)
  qed
  show ?thesis using keep gone by blast
qed

theorem connected_until_last_connection_witness:
  "local_name ''server'' \<in> set (GetConnectedModules (disconnect_all 0 (local_name ''server'') [''b''] (connect_all (local_name ''server'') [''a'', ''b''] new_module))) \<and>
   local_name ''server'' \<notin> set (GetConnectedModules (disconnect_all 0 (local_name ''server'') [''b'', ''a''] (connect_all (local_name ''server'') [''a'', ''b''] new_module)))"
  using connected_until_last_connection [OF new_module_reachable, of "local_name ''server''" "[''a'', ''b'']" "[''b'']" 0]
    connected_until_last_connection [OF new_module_reachable, of "local_name ''server''" "[''a'', ''b'']" "[''b'', ''a'']" 0]
  by (simp del: disconnect_all.simps connect_all.simps)

section \<open>Renaming\<close>

lemma rename_connectors_moves:
  assumes "old \<noteq> new" and "cm new = None"
  shows "rename_connectors old new cm = cm(old := None, new := cm old)"
  using assms by (auto simp: rename_connectors_def Let_def fun_eq_iff split: option.split)

lemma rename_counter_moves:
  assumes "counters_inv cs" and "old \<noteq> new" and "tcc_lookup cs new = None"
  shows "tcc_lookup (rename_counter old new cs)
    = (tcc_lookup cs)(old := None, new := map_option (\<lambda>c. c\<lparr>tcc_moduleName := new\<rparr>) (tcc_lookup cs old))"
proof -
  have cs: "om_inv tcc_moduleName cs" using assms(1) by (simp add: counters_inv_def)
  show ?thesis
  proof (cases "tcc_lookup cs old")
    case None
    then show ?thesis using assms(3) cs by (auto simp: rename_counter_def tccs.get_lookup fun_eq_iff)
  next
    case (Some c)
    moreover from this have "tcc_moduleName c = old" by (rule om_lookup_key)
    ultimately show ?thesis
      using assms cs by (simp add: rename_counter_def tccs.store_lookup tccs.store_inv)
  qed
qed

text \<open>
  Renaming an object moves everything that is known of it from the old name to the new one:
  the entry in the list of available modules, the entry in the list of connected modules (which
  takes over the available entry's data), its connections and its retry counter; nothing else
  changes. The new name must be free.
\<close>

lemma onUpdateIPCObject_moves:
  assumes "ipc_reachable checkFire m" and "GetModuleNameString old \<noteq> GetModuleNameString new"
    and "obj_lookup (m_ipcObject m) old = Some ob" and "obj_lookup (m_ipcObject m) new = None"
    and "obj_lookup (m_modules m) new = None" and "m_connectors m (GetModuleNameString new) = None"
    and "tcc_lookup (m_tryConnectCounters m) (GetModuleNameString new) = None"
  defines "m' \<equiv> onUpdateIPCObject old new m"
  shows "obj_lookup (m_ipcObject m') = (obj_lookup (m_ipcObject m))(old := None, new \<mapsto> ob\<lparr>m_ipcName := new\<rparr>) \<and>
    obj_lookup (m_modules m') = (obj_lookup (m_modules m))(old := None,
      new := map_option (\<lambda>_. ob\<lparr>m_ipcName := new\<rparr>) (obj_lookup (m_modules m) old)) \<and>
    m_connectors m' = (m_connectors m)(GetModuleNameString old := None,
      GetModuleNameString new := m_connectors m (GetModuleNameString old)) \<and>
    tcc_lookup (m_tryConnectCounters m') = (tcc_lookup (m_tryConnectCounters m))(GetModuleNameString old := None,
      GetModuleNameString new := map_option (\<lambda>c. c\<lparr>tcc_moduleName := GetModuleNameString new\<rparr>)
        (tcc_lookup (m_tryConnectCounters m) (GetModuleNameString old)))"
proof -
  have inv: "ipc_inv m" using assms(1) by (rule ipc_reachable_inv)
  note om = ipc_invD(1,2) [OF inv]
  have ob: "m_ipcName ob = old" using assms(3) by (rule om_lookup_key)
  have get: "obj_get (IPCObject old) (m_ipcObject m) = Some ob"
    using om assms(3) by (simp add: objs.get_lookup)
  have neq: "old \<noteq> new" using assms(2) by auto
  show ?thesis
    using om assms(4,5) ob neq
    by (auto simp: m'_def onUpdateIPCObject_def Let_def get objs.store_lookup objs.store_result objs.store_inv
        rename_connectors_moves [where cm = "m_connectors m", OF assms(2,6)] rename_counter_moves [OF ipc_invD(3) [OF inv] assms(2,7)])
qed

section \<open>Leaving\<close>

text \<open>Effects that make or accept a connection.\<close>

definition opens_connection :: "effect \<Rightarrow> bool" where
  "opens_connection e = (case e of ConnectStart _ \<Rightarrow> True | ConnectorAdded _ _ _ \<Rightarrow> True | _ \<Rightarrow> False)"

definition quiet_from :: "ipc_module \<Rightarrow> ipc_module \<Rightarrow> bool" where
  "quiet_from m m' \<longleftrightarrow>
     m_isExit m' \<and> (\<exists>es. m_trace m' = m_trace m @ es \<and> (\<forall>e \<in> set es. \<not> opens_connection e))"

lemma quiet_refl [simp, intro]: "m_isExit m \<Longrightarrow> quiet_from m m"
  by (simp add: quiet_from_def)

lemma quiet_emit [simp]: "\<not> opens_connection e \<Longrightarrow> quiet_from m m' \<Longrightarrow> quiet_from m (emit e m')"
  by (auto simp: quiet_from_def)

lemma quiet_update [simp]:
  "quiet_from m (m'\<lparr>m_listenThread := t\<rparr>) = quiet_from m m'"
  "quiet_from m (m'\<lparr>m_moduleName := n\<rparr>) = quiet_from m m'"
  "quiet_from m (m'\<lparr>m_ipcObject := xs\<rparr>) = quiet_from m m'"
  "quiet_from m (m'\<lparr>m_modules := xs\<rparr>) = quiet_from m m'"
  "quiet_from m (m'\<lparr>m_isCoordinator := b\<rparr>) = quiet_from m m'"
  "quiet_from m (m'\<lparr>m_coordinatorName := s\<rparr>) = quiet_from m m'"
  "quiet_from m (m'\<lparr>m_isStop := b\<rparr>) = quiet_from m m'"
  "quiet_from m (m'\<lparr>m_countListener := i\<rparr>) = quiet_from m m'"
  "quiet_from m (m'\<lparr>m_countConnect := i\<rparr>) = quiet_from m m'"
  "quiet_from m (m'\<lparr>m_tryConnectCounters := cs\<rparr>) = quiet_from m m'"
  "quiet_from m (m'\<lparr>m_connectors := cm\<rparr>) = quiet_from m m'"
  "quiet_from m (m'\<lparr>m_bConnectToCoordinatorRequest := b\<rparr>) = quiet_from m m'"
  "quiet_from m (m'\<lparr>m_requestCreated := now\<rparr>) = quiet_from m m'"
  by (simp_all add: quiet_from_def)

lemma quiet_set_exit [simp]: "quiet_from m m' \<Longrightarrow> quiet_from m (m'\<lparr>m_isExit := True\<rparr>)"
  by (simp add: quiet_from_def)

lemma opens_connection_simps [simp]:
  "\<not> opens_connection (ListenStart a)" "\<not> opens_connection (ListenStop a)"
  "\<not> opens_connection (ThreadManaged t)" "\<not> opens_connection (StopConnection s)"
  "\<not> opens_connection ManagerStopped" "\<not> opens_connection (ConnectorDeleted c)"
  "\<not> opens_connection (OnNewConnector c)" "\<not> opens_connection (OnConnected s)"
  "\<not> opens_connection (OnConnectFailed s)" "\<not> opens_connection (OnFireConnector s)"
  "\<not> opens_connection (OnMessage s p d)" "\<not> opens_connection (OnInternalConnection s cs i)"
  "\<not> opens_connection OnIPCObjectsChanged" "\<not> opens_connection ModuleCreationFailed"
  "\<not> opens_connection (SignalChangeIPCName n)" "\<not> opens_connection (SignalIPCMessage im)"
  "\<not> opens_connection (SignalInitInternalConnection n s i)"
  by (simp_all add: opens_connection_def)

lemma quiet_StartOn: "quiet_from m m' \<Longrightarrow> quiet_from m (StartOn ip port m')"
  by (simp add: StartOn_def Let_def split: option.split)

lemma quiet_ConnectTo: "quiet_from m m' \<Longrightarrow> quiet_from m (ConnectTo n m')"
  by (simp add: ConnectTo_def Let_def) (simp add: quiet_from_def)

lemma quiet_ConnectToCoordinator: "quiet_from m m' \<Longrightarrow> quiet_from m (ConnectToCoordinator m')"
  by (simp add: ConnectToCoordinator_def) (simp add: quiet_from_def)

lemma quiet_StartAsCoordinator: "quiet_from m m' \<Longrightarrow> quiet_from m (StartAsCoordinator m')"
  by (simp add: StartAsCoordinator_def Let_def quiet_StartOn)

lemma quiet_onUpdateIPCObject: "quiet_from m m' \<Longrightarrow> quiet_from m (onUpdateIPCObject old new m')"
  by (simp add: onUpdateIPCObject_def Let_def)

lemmas quiet_operations = quiet_StartOn quiet_ConnectTo quiet_ConnectToCoordinator
  quiet_StartAsCoordinator quiet_onUpdateIPCObject

lemma quiet_onErrorConnect: "m_isExit m \<Longrightarrow> quiet_from m (onErrorConnect now s m)"
  by (auto simp: onErrorConnect_def retryConnect_def Let_def split: option.split)

lemma quiet_onDisconnected: "m_isExit m \<Longrightarrow> quiet_from m (onDisconnected checkFire now s c m)"
  by (simp add: onDisconnected_def Let_def requestReconnect_def nextCountConnect_def split: prod.split)

lemma quiet_onIPCMessageSignal:
  "onIPCMessageSignal im m = Some (m', im') \<Longrightarrow> m_isExit m \<Longrightarrow> quiet_from m m'"
  by (auto simp: onIPCMessageSignal_def onIPCMessageProto_def Let_def split: list.splits if_splits)

lemma ipc_step_quiet: "ipc_step checkFire m m' \<Longrightarrow> m_isExit m \<Longrightarrow> quiet_from m m'"
  by (induction rule: ipc_step.induct)
    (simp_all add: quiet_operations quiet_onErrorConnect quiet_onDisconnected quiet_onIPCMessageSignal
      Start_def IPCModule_destroy_def Exit_def DisconnectModule_def ManagerFunc_def ManagerStop_def
      AddConnector_def CreateInternalConnection_def SendMsg_def UpdateModuleName_def onCreatedListener_def
      onErrorListener_def onConnected_def onInternalConnectionStatusMessage_def onIPCMessageProto_def
      onAddIPCObject_def onRemoveIPCObject_def onModuleName_def Let_def split: option.split)

text \<open>
  Once a module has been told to exit it stays so, and whatever happens afterwards it starts
  no connection and accepts none.
\<close>

lemma exit_is_final:
  assumes "ipc_step checkFire m m'" and "m_isExit m"
  shows "m_isExit m' \<and> (\<exists>es. m_trace m' = m_trace m @ es \<and> (\<forall>e \<in> set es. \<not> opens_connection e))"
  using ipc_step_quiet [OF assms] by (simp add: quiet_from_def)

text \<open>
  A listener that cannot be created ends the module. There is one coordinator port, so no
  other port is tried: the module leaves, gives its thread up and reports the failure.
\<close>

lemma listener_error_is_final:
  assumes "ipc_reachable checkFire m"
  shows "onErrorListener m = m\<lparr>m_listenThread := None, m_isExit := True,
     m_trace := m_trace m @ [ThreadManaged (m_listenThread m), ModuleCreationFailed]\<rparr>"
proof -
  have "\<not> m_countListener m + 1 < g_ipcCoordinatorPortCount"
    using ipc_invD(4) [OF ipc_reachable_inv [OF assms]] by (simp add: g_ipcCoordinatorPortCount_def)
  then show ?thesis by (simp add: onErrorListener_def emit_def)
qed

end
