(* ===== verification/Ipc_Connection.thy ===== *)
theory Ipc_Connection
  imports Ipc_Connector Ipc_Properties
begin

text \<open>
  What the connectors of a module do to it and to each other: every handler of
  \<open>Ipc_Connector\<close> drives the module through steps of \<open>Ipc_Invariant\<close> only, the outcome of the
  handshake, of two modules connecting to each other at the same time, and of the internal
  connections.
\<close>

section \<open>Handlers are steps of the module\<close>

lemma node_sel [simp]:
  "nd_self (self f n) = f (nd_self n)" "nd_module (self f n) = nd_module n" "nd_peers (self f n) = nd_peers n"
  "nd_self (onSignal g n) = nd_self n" "nd_module (onSignal g n) = g (nd_module n)" "nd_peers (onSignal g n) = nd_peers n"
  "nd_self (onIPCSignal f n) = nd_self n" "nd_module (onIPCSignal f n) = nd_module n"
  "nd_peers (onIPCSignal f n) = map f (nd_peers n)"
  by (simp_all add: self_def onSignal_def onIPCSignal_def)

lemma c_emit_sel [simp]:
  "c_id (c_emit e c) = c_id c" "c_connectorId (c_emit e c) = c_connectorId c" "c_accessId (c_emit e c) = c_accessId c"
  "c_moduleName (c_emit e c) = c_moduleName c" "c_checker (c_emit e c) = c_checker c"
  "c_bConnected (c_emit e c) = c_bConnected c" "c_isNotifyRemove (c_emit e c) = c_isNotifyRemove c"
  "c_isSendIPCObjects (c_emit e c) = c_isSendIPCObjects c" "c_isCoordinator (c_emit e c) = c_isCoordinator c"
  "c_isExist (c_emit e c) = c_isExist c" "c_rand (c_emit e c) = c_rand c"
  "c_internalConnections (c_emit e c) = c_internalConnections c" "c_trace (c_emit e c) = c_trace c @ [e]"
  by (simp_all add: c_emit_def)

definition node_inv :: "(string \<Rightarrow> bool) \<Rightarrow> node \<Rightarrow> bool" where
  "node_inv checkFire n \<longleftrightarrow>
     ipc_reachable checkFire (nd_module n) \<and> om_inv ic_id (c_internalConnections (nd_self n))"

lemma reachable_steps [intro]:
  assumes "ipc_reachable checkFire m"
  shows "ipc_reachable checkFire (onConnected s b m)" "ipc_reachable checkFire (onAddIPCObject ao m)"
    "ipc_reachable checkFire (onRemoveIPCObject s m)" "ipc_reachable checkFire (onUpdateIPCObject old new m)"
    "ipc_reachable checkFire (fst (onModuleName mn m))" "ipc_reachable checkFire (onIPCMessageProto im m)"
    "ipc_reachable checkFire (onInternalConnectionStatusMessage target status port m)"
  using assms by (auto intro: reach_step ipc_step.intros)

lemma reachable_IPCMessageSignal:
  "ipc_reachable checkFire m \<Longrightarrow> onIPCMessageSignal im m = Some (m', im') \<Longrightarrow> ipc_reachable checkFire m'"
  by (rule reach_step [OF _ step_onIPCMessageSignal])

lemma node_invI [intro]:
  "ipc_reachable checkFire (nd_module n) \<Longrightarrow> om_inv ic_id (c_internalConnections (nd_self n)) \<Longrightarrow> node_inv checkFire n"
  by (simp add: node_inv_def)

lemma node_inv_update [simp]:
  "node_inv checkFire (self (c_emit e) n) = node_inv checkFire n"
  "node_inv checkFire (onIPCSignal f n) = node_inv checkFire n"
  by (simp_all add: node_inv_def)

lemma InternalDestroyNotify_sel [simp]:
  "c_internalConnections (nd_self (InternalDestroyNotify conn n)) = c_internalConnections (nd_self n)"
  "c_id (nd_self (InternalDestroyNotify conn n)) = c_id (nd_self n)"
  "nd_peers (InternalDestroyNotify conn n) = nd_peers n"
  by (simp_all add: InternalDestroyNotify_def Let_def)

lemma InternalDestroyNotify_inv: "node_inv checkFire n \<Longrightarrow> node_inv checkFire (InternalDestroyNotify conn n)"
  by (auto simp: InternalDestroyNotify_def Let_def node_inv_def)

lemma ic_destroy_inv: "node_inv checkFire n \<Longrightarrow> node_inv checkFire (ic_destroy i n)"
proof -
  assume n: "node_inv checkFire n"
  have "om_inv ic_id (fst (RemoveObject InternalConnection_lt InternalConnection_eq (InternalConnection i)
      (c_internalConnections (nd_self n))))"
    using n by (intro ics.remove_inv) (simp add: node_inv_def)
  with n InternalDestroyNotify_inv [OF n] show ?thesis
    by (auto simp: ic_destroy_def om_defs Let_def node_inv_def split: if_splits)
qed

lemma OnConnected_inv: "node_inv checkFire n \<Longrightarrow> node_inv checkFire (OnConnected_connector n)"
  by (auto simp: OnConnected_connector_def Let_def node_inv_def)

lemma OnStart_inv: "node_inv checkFire n \<Longrightarrow> node_inv checkFire (OnStart user n)"
  by (simp add: OnStart_def Let_def node_inv_def)

lemma CheckObjects_all: "CheckObjects (\<lambda>x s. (True, g x s)) xs s = ([], fold g xs s)"
  unfolding CheckObjects_eq_filter_pass by (induction xs arbitrary: s) auto

lemma fold_inv: "(\<And>x s. P s \<Longrightarrow> P (g x s)) \<Longrightarrow> P s \<Longrightarrow> P (fold g xs s)"
  by (induction xs arbitrary: s) auto

lemma self_inv:
  "node_inv checkFire n \<Longrightarrow> (\<And>c. c_internalConnections (f c) = c_internalConnections c) \<Longrightarrow> node_inv checkFire (self f n)"
  by (simp add: node_inv_def)

lemma onSignal_inv:
  "node_inv checkFire n \<Longrightarrow> (\<And>m. ipc_reachable checkFire m \<Longrightarrow> ipc_reachable checkFire (g m)) \<Longrightarrow> node_inv checkFire (onSignal g n)"
  by (simp add: node_inv_def)

lemma OnStop_inv: "node_inv checkFire n \<Longrightarrow> node_inv checkFire (OnStop n)"
proof -
  assume n: "node_inv checkFire n"
  define n1 where "n1 = (if c_bConnected (nd_self n) then self (\<lambda>c. c\<lparr>c_bConnected := False\<rparr>) n else n)"
  define n2 where "n2 = (if c_isNotifyRemove (nd_self n1)
      then onIPCSignal (onRemoveIPCObjectMessage (c_id (nd_self n1))) (onSignal (onRemoveIPCObject (c_id (nd_self n1))) n1) else n1)"
  define n3 where "n3 = (if c_checker (nd_self n2) then self (\<lambda>c. c_emit CheckerStop (c\<lparr>c_checker := False\<rparr>)) n2 else n2)"
  have "node_inv checkFire n1" using n by (simp add: n1_def self_inv)
  then have "node_inv checkFire n2" by (auto simp: n2_def intro: onSignal_inv)
  then have "node_inv checkFire n3" by (simp add: n3_def self_inv)
  then have "node_inv checkFire (fold InternalDestroyNotify (c_internalConnections (nd_self n3)) n3)"
    by (intro fold_inv [where P = "node_inv checkFire"] InternalDestroyNotify_inv)
  moreover have "OnStop n = self (\<lambda>c. c_emit InternalManagerStop (c\<lparr>c_internalConnections := []\<rparr>))
      (fold InternalDestroyNotify (c_internalConnections (nd_self n3)) n3)"
    unfolding OnStop_def Let_def CheckObjects_all n3_def n2_def n1_def by simp
  ultimately show ?thesis by (simp add: node_inv_def)
qed

lemma check_access_inv: "node_inv checkFire n \<Longrightarrow> node_inv checkFire (check_access msg n)"
  by (simp add: check_access_def Let_def self_inv)

lemma register_module_inv: "node_inv checkFire n \<Longrightarrow> node_inv checkFire (fst (register_module msg n))"
  unfolding register_module_def Let_def fst_conv by (intro self_inv onSignal_inv) auto

lemma answer_module_inv: "node_inv checkFire n \<Longrightarrow> node_inv checkFire (answer_module fill msg n)"
  by (simp add: answer_module_def Let_def self_inv)

lemma onMessage_ModuleName_inv: "node_inv checkFire n \<Longrightarrow> node_inv checkFire (onMessage_ModuleName fill msg n)"
  by (simp add: onMessage_ModuleName_def handle_ModuleName_def Let_def case_prod_beta OnConnected_inv answer_module_inv
      register_module_inv check_access_inv)

lemma onMessage_ModuleState_inv: "node_inv checkFire n \<Longrightarrow> node_inv checkFire (onMessage_ModuleState msg n)"
  by (simp add: onMessage_ModuleState_def handle_ModuleState_def Let_def OnConnected_inv)

lemma onMessage_AddIPCObject_inv: "node_inv checkFire n \<Longrightarrow> node_inv checkFire (onMessage_AddIPCObject msg n)"
  by (auto simp: onMessage_AddIPCObject_def node_inv_def)

lemma onMessage_RemoveIPCObject_inv: "node_inv checkFire n \<Longrightarrow> node_inv checkFire (onMessage_RemoveIPCObject s n)"
  by (auto simp: onMessage_RemoveIPCObject_def node_inv_def)

lemma onMessage_IPCObjectList_inv: "node_inv checkFire n \<Longrightarrow> node_inv checkFire (onMessage_IPCObjectList msg n)"
  unfolding onMessage_IPCObjectList_def by (rule fold_inv) (auto intro: onMessage_AddIPCObject_inv)

lemma onMessage_ChangeIPCName_inv: "node_inv checkFire n \<Longrightarrow> node_inv checkFire (onMessage_ChangeIPCName name n)"
  by (auto simp: onMessage_ChangeIPCName_def Let_def node_inv_def)

lemma onMessage_UpdateIPCObject_inv: "node_inv checkFire n \<Longrightarrow> node_inv checkFire (onMessage_UpdateIPCObject old new n)"
  by (auto simp: onMessage_UpdateIPCObject_def node_inv_def)

lemma relay_IPCMessage_inv: "node_inv checkFire n \<Longrightarrow> node_inv checkFire (relay_IPCMessage msg n)"
  by (auto simp: relay_IPCMessage_def node_inv_def intro: reachable_IPCMessageSignal split: option.split)

lemma onMessage_IPCMessage_inv:
  assumes "node_inv checkFire n" and "\<And>name data h. dispatch name data = Some h \<Longrightarrow> node_inv checkFire (h n)"
  shows "node_inv checkFire (onMessage_IPCMessage dispatch c_GetIPCName msg n)"
  using assms(1) assms(2) [of "message_name msg" "message msg"]
  by (cases "ipc_path msg"; cases "dispatch (message_name msg) (message msg)")
    (auto simp: onMessage_IPCMessage_def Let_def intro!: relay_IPCMessage_inv onSignal_inv)

lemma ic_add_inv:
  "node_inv checkFire n \<Longrightarrow> node_inv checkFire (self (\<lambda>c. c\<lparr>c_internalConnections := fst (ic_add x (c_internalConnections (nd_self n)))\<rparr>) n)"
  by (simp add: node_inv_def ics.add_inv)

lemma ic_update_inv:
  "node_inv checkFire n \<Longrightarrow> node_inv checkFire (self (\<lambda>c. c\<lparr>c_internalConnections := fst (ic_update x (c_internalConnections c))\<rparr>) n)"
  by (simp add: node_inv_def ics.update_inv)

lemma signal_status_inv:
  "node_inv checkFire n \<Longrightarrow> node_inv checkFire (onSignal (onInternalConnectionStatusMessage t s p) n)"
  by (auto simp: node_inv_def)

lemma onMessage_InitInternalConnection_inv:
  "node_inv checkFire n \<Longrightarrow> node_inv checkFire (onMessage_InitInternalConnection msg n)"
  by (simp add: onMessage_InitInternalConnection_def Let_def case_prod_beta ic_add_inv)

lemma onMessage_InternalConnectionStatus_inv:
  "node_inv checkFire n \<Longrightarrow> node_inv checkFire (onMessage_InternalConnectionStatus msg n)"
  by (simp add: onMessage_InternalConnectionStatus_def Let_def ic_destroy_inv signal_status_inv split: connection_status.split)
    (simp add: node_inv_def ics.update_inv)

lemma onDisconnectedInternal_inv: "node_inv checkFire n \<Longrightarrow> node_inv checkFire (onDisconnectedInternal i n)"
  by (simp add: onDisconnectedInternal_def) (intro ic_destroy_inv, simp add: node_inv_def)

lemma onErrorConnectInternal_inv: "node_inv checkFire n \<Longrightarrow> node_inv checkFire (onErrorConnectInternal i n)"
  by (simp add: onErrorConnectInternal_def) (intro ic_destroy_inv, simp add: node_inv_def)

lemma onCreatedListenerInternal_inv: "node_inv checkFire n \<Longrightarrow> node_inv checkFire (onCreatedListenerInternal port i n)"
  by (simp add: onCreatedListenerInternal_def Let_def signal_status_inv ic_update_inv)

lemma onErrorListenerInternal_inv: "node_inv checkFire n \<Longrightarrow> node_inv checkFire (onErrorListenerInternal i n)"
  by (simp add: onErrorListenerInternal_def Let_def) (intro ic_destroy_inv signal_status_inv, simp add: node_inv_def)

lemma onAddConnectorInternal_inv: "node_inv checkFire n \<Longrightarrow> node_inv checkFire (onAddConnectorInternal i b n)"
  by (auto simp: onAddConnectorInternal_def Let_def case_prod_beta node_inv_def intro!: ics.update_inv)

lemma onInitInternalConnectionMessage_inv:
  "node_inv checkFire n \<Longrightarrow> node_inv checkFire (onInitInternalConnectionMessage msg n)"
  by (simp add: onInitInternalConnectionMessage_def Let_def case_prod_beta ic_add_inv signal_status_inv)

text \<open>Everything that can happen at a connector.\<close>

inductive node_step :: "(string \<Rightarrow> bool) \<Rightarrow> node \<Rightarrow> node \<Rightarrow> bool" for checkFire where
  ns_OnStart: "node_step checkFire n (OnStart user n)"
| ns_OnStop: "node_step checkFire n (OnStop n)"
| ns_ModuleName: "node_step checkFire n (onMessage_ModuleName fill mn n)"
| ns_ModuleState: "node_step checkFire n (onMessage_ModuleState st n)"
| ns_AddIPCObject: "node_step checkFire n (onMessage_AddIPCObject ao n)"
| ns_RemoveIPCObject: "node_step checkFire n (onMessage_RemoveIPCObject s n)"
| ns_IPCObjectList: "node_step checkFire n (onMessage_IPCObjectList ol n)"
| ns_ChangeIPCName: "node_step checkFire n (onMessage_ChangeIPCName name n)"
| ns_UpdateIPCObject: "node_step checkFire n (onMessage_UpdateIPCObject old new n)"
| ns_Ping: "node_step checkFire n (onMessage_Ping n)"
| ns_IPCMessage: "(\<And>name data h. dispatch name data = Some h \<Longrightarrow> node_step checkFire n (h n)) \<Longrightarrow>
    node_step checkFire n (onMessage_IPCMessage dispatch c_GetIPCName im n)"
| ns_InitInternalConnection: "node_step checkFire n (onMessage_InitInternalConnection ii n)"
| ns_InternalConnectionStatus: "node_step checkFire n (onMessage_InternalConnectionStatus st' n)"
| ns_InternalConnectionData: "node_step checkFire n (onMessage_InternalConnectionData i d n)"
| ns_Disconnected: "node_step checkFire n (onDisconnectedInternal i n)"
| ns_CreatedListener: "node_step checkFire n (onCreatedListenerInternal port i n)"
| ns_ErrorListener: "node_step checkFire n (onErrorListenerInternal i n)"
| ns_ErrorConnect: "node_step checkFire n (onErrorConnectInternal i n)"
| ns_AddConnector: "node_step checkFire n (onAddConnectorInternal i b n)"
| ns_InitInternalConnectionMessage: "node_step checkFire n (onInitInternalConnectionMessage ii n)"
| ns_InternalConnectionDataSignal: "node_step checkFire n (onInternalConnectionDataSignal i d n)"
| ns_module: "ipc_step checkFire (nd_module n) m \<Longrightarrow> node_step checkFire n (n\<lparr>nd_module := m\<rparr>)"


section \<open>The handshake\<close>

lemma onAddIPCObject_sel [simp]:
  "m_modules (onAddIPCObject ao m) = m_modules m" "m_connectors (onAddIPCObject ao m) = m_connectors m"
  by (simp_all add: onAddIPCObject_def)

lemma onConnected_sel [simp]:
  "m_modules (onConnected s b m) = m_modules m" "m_connectors (onConnected s b m) = m_connectors m"
  "m_ipcObject (onConnected s b m) = m_ipcObject m"
  by (simp_all add: onConnected_def Let_def)

lemma onModuleName_result:
  assumes "ipc_inv m"
  shows "mn_is_exist (snd (onModuleName msg m)) \<longleftrightarrow> obj_lookup (m_modules m) (mn_ipc_name msg) \<noteq> None"
  using assms by (simp add: onModuleName_def Let_def objs.add_result ipc_invD)

lemma check_access_sel [simp]:
  "nd_module (check_access msg n) = nd_module n" "nd_peers (check_access msg n) = nd_peers n"
  "c_id (nd_self (check_access msg n)) = GetModuleNameString (mn_ipc_name msg)"
  "c_connectorId (nd_self (check_access msg n)) = c_connectorId (nd_self n)"
  "c_isCoordinator (nd_self (check_access msg n)) = c_isCoordinator (nd_self n)"
  "c_isSendIPCObjects (nd_self (check_access msg n)) = c_isSendIPCObjects (nd_self n)"
  "c_bConnected (nd_self (check_access msg n)) = c_bConnected (nd_self n)"
  "c_rand (nd_self (check_access msg n)) = c_rand (nd_self n)"
  by (simp_all add: check_access_def Let_def)

text \<open>A peer is denied when neither side is the coordinator and it shows another user's access id.\<close>

definition access_denied :: "module_name_message \<Rightarrow> node \<Rightarrow> bool" where
  "access_denied msg n \<longleftrightarrow> \<not> c_isCoordinator (nd_self n) \<and> c_id (nd_self n) \<noteq> m_coordinatorIPCName \<and>
     c_accessId (nd_self n) \<noteq> mn_access_id msg"

lemma check_access_trace:
  "c_trace (nd_self (check_access msg n)) = c_trace (nd_self n)
     @ (if c_checker (nd_self n) then [CheckerStop] else []) @ (if access_denied msg n then [StopSocket] else [])"
  by (simp add: check_access_def Let_def access_denied_def)

lemma register_module_sel:
  fixes msg :: module_name_message
  assumes "ipc_inv (nd_module n)"
  defines "n' \<equiv> fst (register_module msg n)"
  shows "c_trace (nd_self n') = c_trace (nd_self n)" "c_id (nd_self n') = c_id (nd_self n)"
    "c_bConnected (nd_self n') = c_bConnected (nd_self n)" "c_rand (nd_self n') = c_rand (nd_self n)"
    "c_isSendIPCObjects (nd_self n') = c_isSendIPCObjects (nd_self n)"
    "c_isExist (nd_self n') = (obj_lookup (m_modules (nd_module n)) (mn_ipc_name msg) \<noteq> None)"
    "obj_lookup (m_modules (nd_module n')) (mn_ipc_name msg) \<noteq> None"
    "m_connectors (nd_module n') = (m_connectors (nd_module n))(GetModuleNameString (mn_ipc_name msg) \<mapsto>
       (case m_connectors (nd_module n) (GetModuleNameString (mn_ipc_name msg)) of None \<Rightarrow> [] | Some cs \<Rightarrow> cs)
        @ [c_connectorId (nd_self n)])"
proof -
  have inv: "ipc_inv (onAddIPCObject ao (nd_module n))" for ao using assms(1) by (rule onAddIPCObject_inv)
  note simps = n'_def register_module_def Let_def
  show "c_trace (nd_self n') = c_trace (nd_self n)" "c_id (nd_self n') = c_id (nd_self n)"
    "c_bConnected (nd_self n') = c_bConnected (nd_self n)" "c_rand (nd_self n') = c_rand (nd_self n)"
    "c_isSendIPCObjects (nd_self n') = c_isSendIPCObjects (nd_self n)"
    "c_isExist (nd_self n') = (obj_lookup (m_modules (nd_module n)) (mn_ipc_name msg) \<noteq> None)"
    "m_connectors (nd_module n') = (m_connectors (nd_module n))(GetModuleNameString (mn_ipc_name msg) \<mapsto>
       (case m_connectors (nd_module n) (GetModuleNameString (mn_ipc_name msg)) of None \<Rightarrow> [] | Some cs \<Rightarrow> cs)
        @ [c_connectorId (nd_self n)])"
    by (simp_all add: simps onModuleName_result [OF inv] onModuleName_connectors)
  show "obj_lookup (m_modules (nd_module n')) (mn_ipc_name msg) \<noteq> None"
    using onModuleName_modules [OF inv, where msg = "msg\<lparr>mn_is_exist := False, mn_conn_id := c_connectorId (nd_self n),
      mn_access_id := (if c_isCoordinator (nd_self n) then mn_access_id msg else c_accessId (nd_self n))\<rparr>"]
    by (simp add: simps)
qed

lemma answer_module_sel [simp]:
  "nd_module (answer_module fill msg n) = nd_module n" "c_id (nd_self (answer_module fill msg n)) = c_id (nd_self n)"
  "c_bConnected (nd_self (answer_module fill msg n)) = c_bConnected (nd_self n)"
  "c_isExist (nd_self (answer_module fill msg n)) = c_isExist (nd_self n)"
  "c_trace (nd_self (answer_module fill msg n)) = c_trace (nd_self n)
     @ [ToMessage (M_ModuleState \<lparr>ms_exist = c_isExist (nd_self n), ms_rndVal = c_rand (nd_self n), ms_id = []\<rparr>)]
     @ (if c_isSendIPCObjects (nd_self n)
        then [ToMessage (M_IPCObjectList (onIPCObjectList fill \<lparr>ol_ipc_object = [], ol_access_id = mn_access_id msg\<rparr> (nd_module n)))]
        else [])"
  by (simp_all add: answer_module_def Let_def)

lemma OnConnected_sel [simp]:
  "c_bConnected (nd_self (OnConnected_connector n))" "c_id (nd_self (OnConnected_connector n)) = c_id (nd_self n)"
  "c_trace (nd_self (OnConnected_connector n)) = c_trace (nd_self n)"
  "c_isExist (nd_self (OnConnected_connector n)) = c_isExist (nd_self n)"
  "m_modules (nd_module (OnConnected_connector n)) = m_modules (nd_module n)"
  "m_connectors (nd_module (OnConnected_connector n)) = m_connectors (nd_module n)"
  by (simp_all add: OnConnected_connector_def Let_def)

text \<open>
  The outcome of the peer's \<open>ModuleName\<close>. The module has the peer in its list of connected
  modules, with this connection's id recorded last among its connections; the peer is told
  whether it was known before; and the connection counts as connected exactly if it was not
  (or already did).
\<close>

lemma handshake_outcome:
  fixes msg :: module_name_message and fill :: "ipc_object list \<Rightarrow> ipc_object list"
  assumes "ipc_reachable checkFire (nd_module n)"
  defines "n' \<equiv> onMessage_ModuleName fill msg n" and "known \<equiv> mn_ipc_name msg \<in> set (GetConnectedModules (nd_module n))"
    and "s \<equiv> GetModuleNameString (mn_ipc_name msg)"
  shows "mn_ipc_name msg \<in> set (GetConnectedModules (nd_module n')) \<and>
    m_connectors (nd_module n') s
      = Some ((case m_connectors (nd_module n) s of None \<Rightarrow> [] | Some cs \<Rightarrow> cs) @ [c_connectorId (nd_self n)]) \<and>
    c_id (nd_self n') = s \<and> c_isExist (nd_self n') = known \<and>
    c_bConnected (nd_self n') = (c_bConnected (nd_self n) \<or> \<not> known) \<and>
    ToMessage (M_ModuleState \<lparr>ms_exist = known, ms_rndVal = c_rand (nd_self n), ms_id = []\<rparr>) \<in> set (c_trace (nd_self n'))"
proof -
  let ?r = "register_module msg (check_access msg n)"
  have inv: "ipc_inv (nd_module (check_access msg n))" using assms(1) by (simp add: ipc_reachable_inv)
  have known: "known \<longleftrightarrow> obj_lookup (m_modules (nd_module n)) (mn_ipc_name msg) \<noteq> None"
    by (simp add: known_def GetConnectedModules_def om_lookup_None_iff)
  note r = register_module_sel [OF inv, of msg]
  have here: "mn_ipc_name msg \<in> m_ipcName ` set (m_modules (nd_module (fst ?r)))"
    using r(7) by (simp add: om_lookup_None_iff)
  show ?thesis
    using here by (auto simp: n'_def onMessage_ModuleName_def handle_ModuleName_def Let_def case_prod_beta r s_def known GetConnectedModules_def)
qed

text \<open>
  A denied peer. The socket is closed, but the handler goes on: the peer is answered and
  enters the list of connected modules all the same, until the connection's end is noticed.
\<close>

lemma denied_peer_is_registered:
  assumes "ipc_reachable checkFire (nd_module n)" and "access_denied msg n"
  shows "StopSocket \<in> set (c_trace (nd_self (onMessage_ModuleName fill msg n))) \<and>
    mn_ipc_name msg \<in> set (GetConnectedModules (nd_module (onMessage_ModuleName fill msg n)))"
proof -
  have inv: "ipc_inv (nd_module (check_access msg n))" using assms(1) by (simp add: ipc_reachable_inv)
  have "mn_ipc_name msg \<in> m_ipcName ` set (m_modules (nd_module (fst (register_module msg (check_access msg n)))))"
    using register_module_sel(7) [OF inv, of msg] by (simp add: om_lookup_None_iff)
  then show ?thesis
    using assms(2) by (simp add: onMessage_ModuleName_def handle_ModuleName_def Let_def case_prod_beta register_module_sel [OF inv]
        check_access_trace GetConnectedModules_def)
qed

text \<open>A new connector of \<open>informed_module\<close>, of a user ``ann'', and the name of a module of another user.\<close>

definition demo_node :: node where
  "demo_node = \<lparr>nd_self = (IPCConnector ''server'' (local_name ''console'') ''r1'')\<lparr>c_accessId := ''ann'', c_connectorId := ''k1''\<rparr>,
     nd_module = informed_module, nd_peers = []\<rparr>"

definition demo_name :: module_name_message where
  "demo_name = \<lparr>mn_ipc_name = local_name ''server'', mn_ip = ''127.0.0.1'', mn_port = 5050, mn_access_id = ''bob'',
     mn_is_exist = False, mn_conn_id = []\<rparr>"

lemma demo_node_reachable: "ipc_reachable checkFire (nd_module demo_node)"
  by (simp add: demo_node_def informed_module_reachable)


section \<open>Two modules that connect to each other at the same time\<close>

lemma fold_onModuleStateMessage_none:
  "\<forall>p \<in> set ps. c_id p \<noteq> ms_id msg \<Longrightarrow> fold onModuleStateMessage ps msg = msg"
  by (induction ps arbitrary: msg) (auto simp: onModuleStateMessage_def)

lemma onModuleStateMessage_sel [simp]: "ms_id (onModuleStateMessage c msg) = ms_id msg"
  by (simp add: onModuleStateMessage_def Let_def)

lemma ask_peers:
  assumes "\<forall>p \<in> set (ps @ qs). c_id p \<noteq> ms_id msg" and "c_id y = ms_id msg"
  shows "fold onModuleStateMessage (ps @ [y] @ qs) msg = msg\<lparr>ms_exist := True, ms_rndVal := min (ms_rndVal msg) (c_rand y)\<rparr>"
proof -
  have "fold onModuleStateMessage ps msg = msg"
    using assms(1) by (intro fold_onModuleStateMessage_none) simp
  moreover have "fold onModuleStateMessage qs (onModuleStateMessage y msg) = onModuleStateMessage y msg"
    using assms(1) by (intro fold_onModuleStateMessage_none) simp
  moreover have "onModuleStateMessage y msg = msg\<lparr>ms_exist := True, ms_rndVal := min (ms_rndVal msg) (c_rand y)\<rparr>"
    using assms(2) by (auto simp: onModuleStateMessage_def Let_def min_def)
  ultimately show ?thesis by simp
qed

text \<open>
  The tie-break. A connector that was the first of its peer here, but is told that the peer
  had another one first, and whose module has exactly one other connector to that peer, compares
  its own random value with the smaller of the remote one and the other connector's: it closes
  if its own is greater, and counts as connected if it is smaller.
\<close>

lemma tie_break_decision:
  assumes "ms_exist msg" and "\<not> c_isExist (nd_self n)" and "nd_peers n = ps @ [y] @ qs"
    and "c_id y = c_id (nd_self n)" and "\<forall>p \<in> set (ps @ qs). c_id p \<noteq> c_id (nd_self n)"
  shows "onMessage_ModuleState msg n =
    (if c_rand (nd_self n) > min (ms_rndVal msg) (c_rand y) then self (c_emit StopSocket) n
     else if c_rand (nd_self n) = min (ms_rndVal msg) (c_rand y) then n
     else OnConnected_connector n)"
proof -
  let ?m = "msg\<lparr>ms_exist := False, ms_id := c_id (nd_self n)\<rparr>"
  have "fold onModuleStateMessage (nd_peers n) ?m = ?m\<lparr>ms_exist := True, ms_rndVal := min (ms_rndVal ?m) (c_rand y)\<rparr>"
    unfolding assms(3) using assms(4,5) by (intro ask_peers) simp_all
  then show ?thesis using assms(1,2) by (simp add: onMessage_ModuleState_def handle_ModuleState_def)
qed

definition two_connectors :: "string \<Rightarrow> string \<Rightarrow> string \<Rightarrow> node" where
  "two_connectors peer r1 r2 = \<lparr>nd_self = IPCConnector peer (local_name ''here'') r1,
     nd_module = new_module, nd_peers = [IPCConnector peer (local_name ''here'') r2]\<rparr>"

text \<open>
  C14: modules A and B connect to each other at once, over connections X (first at A) and Y
  (first at B). The two sides decide on X and Y from different pairs of random values, and when
  A's value of Y or B's value of X is the smallest of the four, both connections are closed;
  when both are greater than A's value of X and B's of Y, both stay.
\<close>

theorem simultaneous_connections:
  assumes "\<not> c_isExist (nd_self a)" and "nd_peers a = [ay]" and "c_id ay = c_id (nd_self a)"
    and "\<not> c_isExist (nd_self b)" and "nd_peers b = [bx]" and "c_id bx = c_id (nd_self b)"
  defines "a' \<equiv> onMessage_ModuleState \<lparr>ms_exist = True, ms_rndVal = c_rand bx, ms_id = []\<rparr> a"
    and "b' \<equiv> onMessage_ModuleState \<lparr>ms_exist = True, ms_rndVal = c_rand ay, ms_id = []\<rparr> b"
  shows "(min (c_rand ay) (c_rand bx) < min (c_rand (nd_self a)) (c_rand (nd_self b)) \<longrightarrow>
      a' = self (c_emit StopSocket) a \<and> b' = self (c_emit StopSocket) b) \<and>
    (max (c_rand (nd_self a)) (c_rand (nd_self b)) < min (c_rand ay) (c_rand bx) \<longrightarrow>
      a' = OnConnected_connector a \<and> b' = OnConnected_connector b)"
proof -
  have a: "a' = (if c_rand (nd_self a) > min (c_rand bx) (c_rand ay) then self (c_emit StopSocket) a
      else if c_rand (nd_self a) = min (c_rand bx) (c_rand ay) then a else OnConnected_connector a)"
    using tie_break_decision [of "\<lparr>ms_exist = True, ms_rndVal = c_rand bx, ms_id = []\<rparr>" a "[]" ay "[]"] assms(1-3)
    by (simp add: a'_def)
  have b: "b' = (if c_rand (nd_self b) > min (c_rand ay) (c_rand bx) then self (c_emit StopSocket) b
      else if c_rand (nd_self b) = min (c_rand ay) (c_rand bx) then b else OnConnected_connector b)"
    using tie_break_decision [of "\<lparr>ms_exist = True, ms_rndVal = c_rand ay, ms_id = []\<rparr>" b "[]" bx "[]"] assms(4-6)
    by (simp add: b'_def)
  show ?thesis unfolding a b by (auto simp: min_def max_def)
qed

theorem simultaneous_connections_witness:
  "onMessage_ModuleState \<lparr>ms_exist = True, ms_rndVal = ''b'', ms_id = []\<rparr> (two_connectors ''B'' ''c'' ''a'')
     = self (c_emit StopSocket) (two_connectors ''B'' ''c'' ''a'') \<and>
   onMessage_ModuleState \<lparr>ms_exist = True, ms_rndVal = ''a'', ms_id = []\<rparr> (two_connectors ''A'' ''d'' ''b'')
     = self (c_emit StopSocket) (two_connectors ''A'' ''d'' ''b'')"
  using simultaneous_connections [of "two_connectors ''B'' ''c'' ''a''" "IPCConnector ''B'' (local_name ''here'') ''a''"
      "two_connectors ''A'' ''d'' ''b''" "IPCConnector ''A'' (local_name ''here'') ''b''"]
  by (simp add: two_connectors_def IPCConnector_def min_def)

section \<open>Messages at a node\<close>

lemma GetTargetPath_connected:
  "t \<noteq> m_moduleName m \<Longrightarrow> t \<in> set (GetConnectedModules m) \<Longrightarrow> GetTargetPath t m = [t]"
  by (simp add: GetTargetPath_eq GetConnectedModules_def)

text \<open>
  A message that names this module last is given to the module with the sender's side added
  to its path of senders, and goes nowhere else; one that goes on to a connected module is
  given, with that module as its path, to the connectors of that module and to no other; one
  whose next hop is another module, or that arrives before the handshake is over, is dropped.
\<close>

lemma message_routing:
  fixes n :: node and msg :: ipc_message and f :: "ipc_connector \<Rightarrow> ipc_name"
    and dispatch :: "string \<Rightarrow> string \<Rightarrow> (node \<Rightarrow> node) option"
  assumes "\<forall>name data. dispatch name data = None"
  defines "sent \<equiv> ipc_sender msg @ [f (nd_self n)]" and "here \<equiv> c_moduleName (nd_self n)"
    and "n' \<equiv> onMessage_IPCMessage dispatch f msg n"
  shows "(c_bConnected (nd_self n) \<and> (ipc_path msg = [] \<or> ipc_path msg = [here]) \<longrightarrow>
      n' = onSignal (emit (OnMessage (message_name msg) (map GetModuleNameString sent) (message msg))) n) \<and>
    (c_bConnected (nd_self n) \<and> ipc_path msg = [here, t] \<and> t \<noteq> m_moduleName (nd_module n) \<and>
       t \<in> set (GetConnectedModules (nd_module n)) \<longrightarrow>
      n' = onIPCSignal (\<lambda>c. if GetModuleNameString t = c_id c
             then to_message (M_IPCMessage (msg\<lparr>ipc_path := [t], ipc_sender := sent\<rparr>)) c else c) n) \<and>
    (\<not> c_bConnected (nd_self n) \<or> (\<exists>p rest. ipc_path msg = p # rest \<and> p \<noteq> here) \<longrightarrow> n' = n)"
proof (intro conjI impI)
  assume "c_bConnected (nd_self n) \<and> (ipc_path msg = [] \<or> ipc_path msg = [here])"
  then show "n' = onSignal (emit (OnMessage (message_name msg) (map GetModuleNameString sent) (message msg))) n"
    using assms(1) by (auto simp: n'_def onMessage_IPCMessage_def Let_def here_def sent_def onIPCMessageProto_def fun_eq_iff onSignal_def)
next
  assume t: "c_bConnected (nd_self n) \<and> ipc_path msg = [here, t] \<and> t \<noteq> m_moduleName (nd_module n) \<and>
       t \<in> set (GetConnectedModules (nd_module n))"
  then have "GetTargetPath t (nd_module n) = [t]" by (simp add: GetTargetPath_connected)
  with t assms(1) show "n' = onIPCSignal (\<lambda>c. if GetModuleNameString t = c_id c
             then to_message (M_IPCMessage (msg\<lparr>ipc_path := [t], ipc_sender := sent\<rparr>)) c else c) n"
    by (simp add: n'_def onMessage_IPCMessage_def Let_def here_def sent_def relay_IPCMessage_def
        onIPCMessageSignal_def onIPCMessage_def [abs_def] onSignal_def onIPCSignal_def)
next
  assume "\<not> c_bConnected (nd_self n) \<or> (\<exists>p rest. ipc_path msg = p # rest \<and> p \<noteq> here)"
  then show "n' = n" by (auto simp: n'_def onMessage_IPCMessage_def Let_def here_def)
qed

section \<open>Internal connections end once\<close>

lemma status_sel [simp]:
  "m_trace (onInternalConnectionStatusMessage t s p m)
   = m_trace m @ [OnIPCObjectsChanged, OnInternalConnection (GetModuleNameString t) s p]"
  by (simp add: onInternalConnectionStatusMessage_def Let_def emit_def)

text \<open>What the module is told when the connection \<open>conn\<close> of the peer called \<open>s\<close> ends.\<close>

definition ended :: "string \<Rightarrow> internal_connection \<Rightarrow> effect list" where
  "ended s conn = [OnIPCObjectsChanged, OnInternalConnection (GetModuleNameString (internal_name (GetIPCName s) (ic_id conn)))
     (if ic_status conn = CONN_OPEN then CONN_CLOSE else CONN_FAILED) 0]"

lemma InternalDestroyNotify_trace:
  "m_trace (nd_module (InternalDestroyNotify conn n)) = m_trace (nd_module n) @ ended (c_id (nd_self n)) conn"
  by (simp add: InternalDestroyNotify_def Let_def ended_def)

lemma fold_InternalDestroyNotify:
  "m_trace (nd_module (fold InternalDestroyNotify xs n)) = m_trace (nd_module n) @ concat (map (ended (c_id (nd_self n))) xs) \<and>
   nd_peers (fold InternalDestroyNotify xs n) = nd_peers n"
  by (induction xs arbitrary: n) (auto simp: InternalDestroyNotify_trace)

text \<open>
  When a connector stops, every internal connection over it ends, and the module is told so
  once for each of them, in the order of their ids: as closed if it was open, as failed if not.
\<close>

lemma OnStop_ends_internal_connections:
  "c_internalConnections (nd_self (OnStop n)) = [] \<and> \<not> c_bConnected (nd_self (OnStop n)) \<and>
   m_trace (nd_module (OnStop n)) = m_trace (nd_module n) @ (if c_isNotifyRemove (nd_self n) then [OnIPCObjectsChanged] else [])
     @ concat (map (ended (c_id (nd_self n))) (c_internalConnections (nd_self n)))"
proof -
  define n1 where "n1 = (if c_bConnected (nd_self n) then self (\<lambda>c. c\<lparr>c_bConnected := False\<rparr>) n else n)"
  define n2 where "n2 = (if c_isNotifyRemove (nd_self n1)
      then onIPCSignal (onRemoveIPCObjectMessage (c_id (nd_self n1))) (onSignal (onRemoveIPCObject (c_id (nd_self n1))) n1) else n1)"
  define n3 where "n3 = (if c_checker (nd_self n2) then self (\<lambda>c. c_emit CheckerStop (c\<lparr>c_checker := False\<rparr>)) n2 else n2)"
  have stop: "OnStop n = self (\<lambda>c. c_emit InternalManagerStop (c\<lparr>c_internalConnections := []\<rparr>))
      (fold InternalDestroyNotify (c_internalConnections (nd_self n3)) n3)"
    unfolding OnStop_def Let_def CheckObjects_all n3_def n2_def n1_def by simp
  have n3: "c_internalConnections (nd_self n3) = c_internalConnections (nd_self n)" "c_id (nd_self n3) = c_id (nd_self n)"
    "\<not> c_bConnected (nd_self n3)"
    "m_trace (nd_module n3) = m_trace (nd_module n) @ (if c_isNotifyRemove (nd_self n) then [OnIPCObjectsChanged] else [])"
    by (auto simp: n3_def n2_def n1_def onRemoveIPCObject_def)
  have "\<not> c_bConnected (nd_self (fold InternalDestroyNotify xs n3))" for xs
    using n3(3) by (intro fold_inv [where P = "\<lambda>k. \<not> c_bConnected (nd_self k)"]) (auto simp: InternalDestroyNotify_def Let_def)
  then show ?thesis by (simp add: stop fold_InternalDestroyNotify n3)
qed

text \<open>
  A refused internal connection is reported twice. When the remote side answers that the
  connection exists or has failed, the module is told once by the removal of the waiting
  connection and once more by the handler; the connection is gone.
\<close>

lemma refused_connection_reported_twice:
  assumes "om_inv ic_id (c_internalConnections (nd_self n))" and "is_status msg = CONN_FAILED \<or> is_status msg = CONN_EXIST"
    and "om_lookup ic_id (c_internalConnections (nd_self n)) (conn_id (is_target msg)) = Some conn"
  defines "n' \<equiv> onMessage_InternalConnectionStatus msg n"
    and "s \<equiv> GetModuleNameString (internal_name (GetIPCName (c_id (nd_self n))) (conn_id (is_target msg)))"
  shows "om_lookup ic_id (c_internalConnections (nd_self n'))
      = (om_lookup ic_id (c_internalConnections (nd_self n)))(conn_id (is_target msg) := None) \<and>
    m_trace (nd_module n') = m_trace (nd_module n) @
      [OnIPCObjectsChanged, OnInternalConnection s (if ic_status conn = CONN_OPEN then CONN_CLOSE else CONN_FAILED) 0,
       OnIPCObjectsChanged, OnInternalConnection s (is_status msg) (is_port msg)]"
proof -
  let ?i = "conn_id (is_target msg)" and ?xs = "c_internalConnections (nd_self n)"
  have get: "ic_get (InternalConnection ?i) ?xs = Some conn" and key: "ic_id conn = ?i"
    using assms(1,3) om_lookup_key by (force simp: ics.get_lookup InternalConnection_def)+
  have destroy: "ic_destroy ?i n = self (\<lambda>c. c\<lparr>c_internalConnections
      := fst (RemoveObject InternalConnection_lt InternalConnection_eq (InternalConnection ?i) ?xs)\<rparr>) (InternalDestroyNotify conn n)"
    using get by (simp add: ic_destroy_def om_defs Let_def split: if_splits)
  have lookup: "om_lookup ic_id (fst (RemoveObject InternalConnection_lt InternalConnection_eq (InternalConnection ?i) ?xs))
      = (om_lookup ic_id ?xs)(?i := None)"
    using assms(1) by (simp add: ics.remove_lookup InternalConnection_def)
  show ?thesis using assms(2) key
    by (auto simp: n'_def s_def onMessage_InternalConnectionStatus_def Let_def destroy lookup
        InternalDestroyNotify_trace ended_def)
qed

definition waiting_node :: node where
  "waiting_node = self (\<lambda>c. c\<lparr>c_internalConnections := [InternalConnection ''t1'']\<rparr>) demo_node"

section \<open>The checker\<close>

fun checker_ticks :: "bool list \<Rightarrow> int \<Rightarrow> bool list" where
  "checker_ticks [] k = []"
| "checker_ticks (s # ss) k =
     (case IPCChecker_ManagerFunc s k of (k, fired) \<Rightarrow> fired # checker_ticks ss k)"

lemma checker_ticks_nth:
  "i < length ss \<Longrightarrow> checker_ticks ss k ! i \<longleftrightarrow> k = int i + 1 \<and> \<not> ss ! i"
proof (induction ss arbitrary: k i)
  case (Cons s ss)
  then show ?case
    by (cases i) (auto simp: IPCChecker_ManagerFunc_def Let_def)
qed simp

lemma length_checker_ticks [simp]: "length (checker_ticks ss k) = length ss"
  by (induction ss arbitrary: k) (auto split: prod.split)

text \<open>
  The checker stops the connector at its fiftieth tick, unless it has been told to stop by
  then, and at no other tick.
\<close>

lemma checker_fires_once: "i < length ss \<longrightarrow> (checker_ticks ss 50 ! i \<longleftrightarrow> i = 49 \<and> \<not> ss ! i)"
  using checker_ticks_nth [of i ss 50] by auto

end
