(* ===== verification/Framing.thy ===== *)
theory Framing
  imports Prelude
begin

text \<open>
  How messages become bytes and bytes become messages: the socket loops
  (\<open>connector_lib/socket/tcp_socket.cpp\<close>), the type header of
  \<open>connector_lib/handler/message_handler.cpp\<close>, the two-pass serialisers of
  \<open>ipc_lib/connector/proto_message.h\<close>, and the length-prefixed frames of
  \<open>ipc_lib/connector/ipc_connector.cpp\<close>. Bytes are characters. A read or write outside a
  buffer and an uncaught exception are values of \<open>fault\<close>.
\<close>

section \<open>Integers in memory\<close>

text \<open>\<open>memcpy (data, &i, sizeof (int))\<close> on a little-endian machine, and back.\<close>

definition int_bytes :: "32 word \<Rightarrow> string" where
  "int_bytes w = [char_of (unat w), char_of (unat w div 256), char_of (unat w div 65536), char_of (unat w div 16777216)]"

definition bytes_int :: "string \<Rightarrow> 32 word" where
  "bytes_int s = word_of_nat (of_char (s ! 0) + 256 * of_char (s ! 1) + 65536 * of_char (s ! 2)
     + 16777216 * of_char (s ! 3))"

lemma length_int_bytes [simp]: "length (int_bytes w) = 4"
  by (simp add: int_bytes_def)

lemma four_digits:
  fixes n a b c r0 r1 r2 :: nat
  assumes "n = 256 * a + r0" and "a = 256 * b + r1" and "b = 256 * c + r2"
  shows "r0 + 256 * r1 + 65536 * r2 + 16777216 * c = n"
  using assms by simp

lemma nat_four_bytes:
  fixes n :: nat
  assumes "n < 4294967296"
  shows "n mod 256 + 256 * (n div 256 mod 256) + 65536 * (n div 65536 mod 256) + 16777216 * (n div 16777216 mod 256) = n"
proof -
  have c: "n div 16777216 mod 256 = n div 16777216" using assms by (simp add: div_less_iff_less_mult)
  have d: "n div 65536 = n div 256 div 256" "n div 16777216 = n div 256 div 256 div 256"
    by (simp_all flip: div_mult2_eq)
  show ?thesis unfolding c unfolding d by (rule four_digits [OF mult_div_mod_eq [symmetric]
    mult_div_mod_eq [symmetric] mult_div_mod_eq [symmetric]])
qed

lemma bytes_int_bytes [simp]: "bytes_int (int_bytes w @ s) = w"
proof -
  have "unat w < 4294967296" using unsigned_less [where 'a = nat, of w] by simp
  then show ?thesis
    using nat_four_bytes [of "unat w"]
    by (simp add: bytes_int_def int_bytes_def nth_append)
qed

text \<open>Copying into a buffer: \<^const>\<open>None\<close> is a write outside it.\<close>

definition put :: "nat \<Rightarrow> string \<Rightarrow> string \<Rightarrow> string option" where
  "put off bytes buf =
     (if off + length bytes \<le> length buf then Some (take off buf @ bytes @ drop (off + length bytes) buf) else None)"

datatype fault = OverRead | LengthError

section \<open>The socket loops\<close>

text \<open>
  \<open>TCPSocket::Send\<close>: \<open>send\<close> is the system call on the operating system's state; it is given
  the bytes that remain and returns how many it took, or a number that is not positive. The
  wire collects what was taken.
\<close>

function TCPSocket_Send_loop ::
    "(string \<Rightarrow> 'k \<Rightarrow> int \<times> 'k) \<Rightarrow> string \<Rightarrow> int \<Rightarrow> 'k \<Rightarrow> bool \<times> 'k" where
  "TCPSocket_Send_loop send data sendlen k =
     (if sendlen > 0 then
        (case send (drop (length data - nat sendlen) data) k of
           (res, k') \<Rightarrow> if res \<le> 0 then (False, k') else TCPSocket_Send_loop send data (sendlen - res) k')
      else (True, k))"
  by pat_completeness auto
termination
  by (relation "measure (\<lambda>(send, data, sendlen, k). nat sendlen)") auto

declare TCPSocket_Send_loop.simps [simp del]

definition TCPSocket_Send :: "(string \<Rightarrow> 'k \<Rightarrow> int \<times> 'k) \<Rightarrow> bool \<Rightarrow> string \<Rightarrow> 'k \<Rightarrow> bool \<times> 'k" where
  "TCPSocket_Send send invalid data k =
     (if invalid then (False, k) else TCPSocket_Send_loop send data (int (length data)) k)"

text \<open>
  \<open>TCPSocket::Recv\<close> into a buffer of \<open>len\<close> bytes: \<open>recv\<close> is given the room that is left and
  returns the bytes it delivered (none on an error or at the end of the stream); the bytes
  collected so far are \<open>got\<close>.
\<close>

function TCPSocket_Recv_loop ::
    "(nat \<Rightarrow> 'k \<Rightarrow> string \<times> 'k) \<Rightarrow> int \<Rightarrow> string \<Rightarrow> 'k \<Rightarrow> string option \<times> 'k" where
  "TCPSocket_Recv_loop recv recvlen got k =
     (if recvlen > 0 then
        (case recv (nat recvlen) k of
           (bytes, k') \<Rightarrow> if bytes = [] then (None, k')
                          else TCPSocket_Recv_loop recv (recvlen - int (length bytes)) (got @ bytes) k')
      else (Some got, k))"
  by pat_completeness auto
termination
  by (relation "measure (\<lambda>(recv, recvlen, got, k). nat recvlen)") auto

declare TCPSocket_Recv_loop.simps [simp del]

definition TCPSocket_Recv :: "(nat \<Rightarrow> 'k \<Rightarrow> string \<times> 'k) \<Rightarrow> bool \<Rightarrow> int \<Rightarrow> 'k \<Rightarrow> string option \<times> 'k" where
  "TCPSocket_Recv recv invalid len k =
     (if invalid then (None, k) else TCPSocket_Recv_loop recv len [] k)"

section \<open>Message types\<close>

text \<open>
  The table of \<open>MessageHandler\<close>. A second message of the same name takes the place of the
  first. Handling a message is: which entry of the table is given which bytes.
\<close>

definition addMessage :: "string \<Rightarrow> 'h \<Rightarrow> (string \<rightharpoonup> 'h) \<Rightarrow> (string \<rightharpoonup> 'h)" where
  "addMessage name msg messages =
     (if messages name \<noteq> None then messages(name \<mapsto> msg) else messages(name \<mapsto> msg))"

definition onData_type :: "(string \<rightharpoonup> 'h) \<Rightarrow> string \<Rightarrow> string \<Rightarrow> int \<Rightarrow> ('h \<times> string) option" where
  "onData_type messages type data len =
     (case messages type of
        None \<Rightarrow> None
      | Some it \<Rightarrow> if len \<ge> 0 then Some (it, take (nat len) data) else None)"

text \<open>
  \<open>onData\<close>: \<open>mem\<close> is the memory that may be read from \<open>data\<close> on. \<open>sizeof (int) + typeLen\<close> is
  computed in \<open>size_t\<close> and stored in an \<open>int\<close>, which wraps at 32 bits; a negative \<open>typeLen\<close> given
  to the string constructor is a length beyond \<open>max_size ()\<close>. What that constructor copies is
  overwritten by the next line.
\<close>

definition onData :: "(string \<rightharpoonup> 'h) \<Rightarrow> string \<Rightarrow> int \<Rightarrow> fault + ('h \<times> string) option" where
  "onData messages mem len =
     (if length mem < 4 then Inl OverRead
      else
        let typeLen = bytes_int mem; headerLen = 4 + typeLen
        in if typeLen \<noteq> 0 \<and> len \<ge> sint headerLen
           then (if sint typeLen < 0 then Inl LengthError
                 else if length mem < 4 + unat typeLen then Inl OverRead
                 else Inr (onData_type messages (take (unat typeLen) (drop 4 mem))
                             (drop (nat (sint headerLen)) mem) (len - sint headerLen)))
           else Inr None)"

section \<open>Serialising\<close>

text \<open>
  A \<open>DataMessage\<close> seen from its sender: its type name and its \<open>deserialize (data, len)\<close>,
  which is given the room and returns whether it succeeded, what it wrote, and the new \<open>len\<close>.
\<close>

record data_message =
  dm_name :: string
  dm_deserialize :: "int \<Rightarrow> bool \<times> string \<times> int"

text \<open>
  \<open>ProtoMessage::deserialize\<close>: \<open>bytes\<close> is the protobuf encoding (of \<open>ByteSize ()\<close> bytes) and
  \<open>ok\<close> what \<open>SerializeToArray\<close> returns.
\<close>

definition proto_deserialize :: "bool \<Rightarrow> string \<Rightarrow> int \<Rightarrow> bool \<times> string \<times> int" where
  "proto_deserialize ok bytes len =
     (let size = int (length bytes) in if size > len then (False, [], size) else (ok, bytes, size))"

definition ProtoMessage :: "string \<Rightarrow> bool \<Rightarrow> string \<Rightarrow> data_message" where
  "ProtoMessage name ok bytes = \<lparr>dm_name = name, dm_deserialize = proto_deserialize ok bytes\<rparr>"

text \<open>\<open>ClientSendMessage::deserialize\<close> copies the payload of an IPC message.\<close>

definition client_send_deserialize :: "string \<Rightarrow> int \<Rightarrow> bool \<times> string \<times> int" where
  "client_send_deserialize payload len =
     (let size = int (length payload) in if size > len then (False, [], size) else (True, payload, size))"

definition ClientSendMessage :: "string \<Rightarrow> string \<Rightarrow> data_message" where
  "ClientSendMessage ipcType payload = \<lparr>dm_name = ipcType, dm_deserialize = client_send_deserialize payload\<rparr>"

text \<open>
  \<open>MessageHandler::deserialize\<close>: \<^const>\<open>None\<close> for \<open>data\<close> is the null pointer of the first pass;
  the result \<^const>\<open>None\<close> is a write outside the buffer.
\<close>

definition deserialize :: "data_message \<Rightarrow> string option \<Rightarrow> int \<Rightarrow> (bool \<times> string option \<times> int) option" where
  "deserialize msg data len =
     (let type = dm_name msg; typeLen = length type; headerLen = 4 + typeLen;
          msgBodyLen = (if len > int headerLen then len - int headerLen else 0);
          (res, body, msgBodyLen) = dm_deserialize msg msgBodyLen;
          len = int headerLen + msgBodyLen
      in case data of
           None \<Rightarrow> if body = [] then Some (res, None, len) else None
         | Some buf \<Rightarrow>
             (case put headerLen body buf of
                None \<Rightarrow> None
              | Some buf \<Rightarrow>
                  if \<not> res then Some (res, Some buf, len)
                  else (case put 0 (int_bytes (word_of_nat typeLen)) buf of
                          None \<Rightarrow> None
                        | Some buf \<Rightarrow> (case put 4 type buf of
                                         None \<Rightarrow> None | Some buf \<Rightarrow> Some (res, Some buf, len)))))"

text \<open>\<open>IPCConnector::SendData\<close> puts the length in front; the bytes it hands to the socket.\<close>

definition IPCConnector_SendData :: "string \<Rightarrow> string" where
  "IPCConnector_SendData data = int_bytes (word_of_nat (length data)) @ data"

text \<open>
  \<open>MessageHandler::toMessage\<close>: \<open>alloc n\<close> is the memory \<open>new char[n]\<close> returns, \<open>sendData\<close> the
  bytes that \<open>SendData\<close> puts on the wire. The outer \<^const>\<open>None\<close> is a memory fault, the inner one
  a message that was not sent.
\<close>

definition toMessage :: "(int \<Rightarrow> string) \<Rightarrow> (string \<Rightarrow> string) \<Rightarrow> data_message \<Rightarrow> string option option" where
  "toMessage alloc sendData msg =
     (case deserialize msg None 0 of
        None \<Rightarrow> None
      | Some (_, _, len) \<Rightarrow>
          (case deserialize msg (Some (alloc len)) len of
             None \<Rightarrow> None
           | Some (res, data, len) \<Rightarrow>
               Some (if res then Some (sendData (take (nat len) (case data of None \<Rightarrow> [] | Some buf \<Rightarrow> buf))) else None)))"

section \<open>Frames\<close>

definition MAX_DATA_LEN :: int where
  "MAX_DATA_LEN = 1024 * 1024"

text \<open>
  \<open>IPCConnector::ThreadFunc\<close> on all the bytes the peer sends before the connection closes:
  \<open>Recv\<close> of \<open>n\<close> bytes fails when fewer are left. A dispatched message acts on the program's
  state by \<open>run\<close>; \<open>stop\<close> is \<open>IsStop ()\<close>. The buffer is a string of \<open>len\<close> bytes and the
  terminating NUL. The result is the final state and the bytes that were not read, or a fault.
\<close>

function IPCConnector_ThreadFunc ::
    "(string \<rightharpoonup> 'h) \<Rightarrow> ('h \<Rightarrow> string \<Rightarrow> 's \<Rightarrow> 's) \<Rightarrow> ('s \<Rightarrow> bool) \<Rightarrow> string \<Rightarrow> 's \<Rightarrow> fault + 's \<times> string" where
  "IPCConnector_ThreadFunc messages run stop wire s =
     (if stop s then Inr (s, wire)
      else if length wire < 4 then Inr (s, [])
      else
        let len = sint (bytes_int wire); rest = drop 4 wire
        in if len < 0 \<or> len > MAX_DATA_LEN then Inr (s, rest)
           else if int (length rest) < len then Inr (s, [])
           else (case onData messages (take (nat len) rest @ [CHR 0x00]) len of
                   Inl f \<Rightarrow> Inl f
                 | Inr None \<Rightarrow> IPCConnector_ThreadFunc messages run stop (drop (nat len) rest) s
                 | Inr (Some (h, body)) \<Rightarrow>
                     IPCConnector_ThreadFunc messages run stop (drop (nat len) rest) (run h body s)))"
  by pat_completeness auto
termination
  by (relation "measure (\<lambda>(messages, run, stop, wire, s). length wire)") auto

declare IPCConnector_ThreadFunc.simps [simp del]

section \<open>Signed 32-bit arithmetic\<close>

lemma sint_cases:
  fixes w :: "32 word"
  shows "sint w = (if uint w < 2147483648 then uint w else uint w - 4294967296)"
proof -
  have w: "uint w < 4294967296" "0 \<le> uint w" using unsigned_less [where 'a = int, of w] by simp_all
  then have "uint w div 2147483648 = (if uint w < 2147483648 then 0 else 1)" by (simp add: div_pos_geq)
  with w show ?thesis
    by (simp add: sint_uint signed_take_bit_eq_take_bit_minus bit_iff_odd take_bit_eq_mod)
qed

lemma uint_add4:
  fixes w :: "32 word"
  shows "uint (4 + w) = (if uint w < 4294967292 then uint w + 4 else uint w - 4294967292)"
proof -
  have w: "uint w < 4294967296" "0 \<le> uint w" using unsigned_less [where 'a = int, of w] by simp_all
  have "(4 + uint w) mod 4294967296 = uint w - 4294967292" if "\<not> uint w < 4294967292"
    using w that by (simp add: mod_pos_geq)
  with w show ?thesis by (auto simp: uint_word_ariths)
qed

lemma sint_header:
  fixes w :: "32 word"
  shows "sint (4 + w) = (if sint w < 2147483644 then sint w + 4 else sint w - 4294967292)"
  using unsigned_less [where 'a = int, of w] by (auto simp: sint_cases uint_add4)

lemma unat_of_sint: "sint (w::32 word) \<ge> 0 \<Longrightarrow> unat w = nat (sint w)"
  using unsigned_less [where 'a = int, of w] by (auto simp: sint_cases split: if_splits)

lemma uint_of_length: "n < 4294967296 \<Longrightarrow> uint (word_of_nat n :: 32 word) = int n"
  by (simp add: unsigned_of_nat take_bit_nat_eq_self)

lemma sint_of_length: "n < 2147483648 \<Longrightarrow> sint (word_of_nat n :: 32 word) = int n"
  by (simp add: sint_cases uint_of_length)

section \<open>Serialising gives header and body\<close>

lemma put_end: "length buf = n + length bytes \<Longrightarrow> put n bytes buf = Some (take n buf @ bytes)"
  by (simp add: put_def)

lemma put_mid: "length u = n \<Longrightarrow> length v = length bytes \<Longrightarrow> put n bytes (u @ v @ w) = Some (u @ bytes @ w)"
  by (simp add: put_def)

locale serializer =
  fixes des :: "int \<Rightarrow> bool \<times> string \<times> int" and body :: string and ok :: bool
  assumes des: "des cap = (if int (length body) > cap then (False, [], int (length body)) else (ok, body, int (length body)))"
begin

lemma first_pass: "deserialize \<lparr>dm_name = n, dm_deserialize = des\<rparr> None 0
   = Some (ok \<and> body = [], None, 4 + int (length n) + int (length body))"
  by (auto simp: deserialize_def des Let_def)

lemma second_pass:
  assumes "length buf = 4 + length n + length body"
  shows "deserialize \<lparr>dm_name = n, dm_deserialize = des\<rparr> (Some buf) (int (length buf))
    = Some (ok, Some ((if ok then int_bytes (word_of_nat (length n)) @ n else take (4 + length n) buf) @ body), int (length buf))"
proof -
  have len: "length (take (4 + length n) buf) = 4 + length n" using assms by simp
  then obtain u v where uv: "take (4 + length n) buf = u @ v" "length u = 4" "length v = length n"
    by (metis append_take_drop_id length_append length_take add_left_cancel min.absorb2 le_add1)
  have body: "put (4 + length n) body buf = Some ((u @ v) @ body)"
    using assms put_end [of buf "4 + length n" body] uv(1) by simp
  have "put 0 (int_bytes i) (u @ v @ body) = Some (int_bytes i @ v @ body)" for i
    using put_mid [of "[]" 0 u "int_bytes i" "v @ body"] uv(2) by simp
  moreover have "put 4 n (int_bytes i @ v @ body) = Some (int_bytes i @ n @ body)" for i
    using put_mid [of "int_bytes i" 4 v n body] uv(3) by simp
  ultimately show ?thesis
    using assms body uv(1) by (simp add: deserialize_def des Let_def)
qed

lemma toMessage_frame:
  assumes "\<And>m. 0 \<le> m \<Longrightarrow> length (alloc m) = nat m"
  shows "toMessage alloc sendData \<lparr>dm_name = n, dm_deserialize = des\<rparr>
    = Some (if ok then Some (sendData (int_bytes (word_of_nat (length n)) @ n @ body)) else None)"
proof -
  let ?len = "4 + int (length n) + int (length body)"
  have buf: "length (alloc ?len) = 4 + length n + length body" by (simp add: assms nat_add_distrib)
  then have "int (length (alloc ?len)) = ?len" by simp
  then show ?thesis using second_pass [OF buf] by (simp add: toMessage_def first_pass)
qed

end

interpretation proto: serializer "proto_deserialize ok bytes" bytes ok for ok bytes
  by unfold_locales (simp add: proto_deserialize_def Let_def)

interpretation client_send: serializer "client_send_deserialize payload" payload True for payload
  by unfold_locales (simp add: client_send_deserialize_def Let_def)

section \<open>Receiving\<close>

lemma onData_frame:
  assumes "n \<noteq> []" and "4 + length n + length body \<le> 1048576"
  shows "onData messages (int_bytes (word_of_nat (length n)) @ n @ body @ r) (int (4 + length n + length body))
    = Inr (case messages n of None \<Rightarrow> None | Some h \<Rightarrow> Some (h, body))"
proof -
  let ?t = "word_of_nat (length n) :: 32 word"
  have t: "sint ?t = int (length n)" "unat ?t = length n" "?t \<noteq> 0"
    using assms unat_of_sint [of ?t] sint_of_length [of "length n"] by auto
  have h: "sint (4 + ?t) = 4 + int (length n)" using assms t by (simp add: sint_header)
  show ?thesis using assms
    by (simp add: onData_def Let_def t h onData_type_def nat_add_distrib split: option.split)
qed

definition apply_dispatch :: "(string \<rightharpoonup> 'h) \<Rightarrow> ('h \<Rightarrow> string \<Rightarrow> 's \<Rightarrow> 's) \<Rightarrow> string \<times> string \<Rightarrow> 's \<Rightarrow> 's" where
  "apply_dispatch messages run m s = (case messages (fst m) of None \<Rightarrow> s | Some h \<Rightarrow> run h (snd m) s)"

definition frame :: "string \<times> string \<Rightarrow> string" where
  "frame m = IPCConnector_SendData (int_bytes (word_of_nat (length (fst m))) @ fst m @ snd m)"

definition sendable :: "string \<times> string \<Rightarrow> bool" where
  "sendable m \<longleftrightarrow> fst m \<noteq> [] \<and> 4 + length (fst m) + length (snd m) \<le> 1048576"

lemma ThreadFunc_frame:
  assumes "sendable m" and "\<not> stop s"
  shows "IPCConnector_ThreadFunc messages run stop (frame m @ tail_bytes) s
    = IPCConnector_ThreadFunc messages run stop tail_bytes (apply_dispatch messages run m s)"
proof -
  obtain n body where m: "m = (n, body)" by (cases m)
  let ?data = "int_bytes (word_of_nat (length n)) @ n @ body" and ?l = "4 + length n + length body"
  have l: "?l \<le> 1048576" "n \<noteq> []" using assms(1) by (simp_all add: sendable_def m)
  have len: "sint (word_of_nat ?l :: 32 word) = int ?l" using l by (intro sint_of_length) simp
  have data: "length ?data = ?l" by simp
  have "onData messages (?data @ [CHR 0x00]) (int ?l) = Inr (case messages n of None \<Rightarrow> None | Some h \<Rightarrow> Some (h, body))"
    using onData_frame [OF l(2,1), of messages "[CHR 0x00]"] by simp
  moreover have "frame m @ tail_bytes = int_bytes (word_of_nat ?l) @ ?data @ tail_bytes"
    using data by (simp add: frame_def m IPCConnector_SendData_def add.assoc del: of_nat_add)
  ultimately show ?thesis
    using assms(2) l(1) data
    by (subst IPCConnector_ThreadFunc.simps)
      (simp add: Let_def len MAX_DATA_LEN_def apply_dispatch_def m del: of_nat_add split: option.split)
qed

text \<open>What a receiver should do with the messages: hand them over one by one until it is stopped.\<close>

fun handle_until :: "(string \<rightharpoonup> 'h) \<Rightarrow> ('h \<Rightarrow> string \<Rightarrow> 's \<Rightarrow> 's) \<Rightarrow> ('s \<Rightarrow> bool)
    \<Rightarrow> (string \<times> string) list \<Rightarrow> 's \<Rightarrow> 's \<times> (string \<times> string) list" where
  "handle_until messages run stop [] s = (s, [])"
| "handle_until messages run stop (m # ms) s =
     (if stop s then (s, m # ms) else handle_until messages run stop ms (apply_dispatch messages run m s))"

lemma ThreadFunc_frames:
  "\<forall>m \<in> set ms. sendable m \<Longrightarrow> IPCConnector_ThreadFunc messages run stop (concat (map frame ms)) s
    = (case handle_until messages run stop ms s of (s', rest) \<Rightarrow> Inr (s', concat (map frame rest)))"
proof (induction ms arbitrary: s)
  case Nil
  then show ?case by (subst IPCConnector_ThreadFunc.simps) simp
next
  case (Cons m ms)
  show ?case
  proof (cases "stop s")
    case True
    then show ?thesis by (subst IPCConnector_ThreadFunc.simps) simp
  next
    case False
    with Cons show ?thesis by (simp add: ThreadFunc_frame)
  qed
qed

lemma toMessage_is_frame:
  assumes "\<And>k. 0 \<le> k \<Longrightarrow> length (alloc k) = nat k"
  shows "toMessage alloc IPCConnector_SendData (ProtoMessage n True body) = Some (Some (frame (n, body)))"
  using proto.toMessage_frame [where alloc = alloc, OF assms] by (simp add: ProtoMessage_def frame_def)

section \<open>Properties\<close>

text \<open>
  C12: what is sent is received. The bytes that \<open>toMessage\<close> puts on the wire for a list of
  messages, one after the other, make the receiving thread hand over exactly these messages, in
  order and with their bodies, to the entries of its table, until it is told to stop; a message
  whose type it does not know is skipped.
\<close>

theorem frames_roundtrip:
  assumes "\<forall>k \<ge> 0. length (alloc k) = nat k"
    and "list_all2 (\<lambda>(n, body) w. toMessage alloc IPCConnector_SendData (ProtoMessage n True body) = Some (Some w)) ms ws"
    and "\<forall>m \<in> set ms. sendable m"
  shows "IPCConnector_ThreadFunc messages run stop (concat ws) s
    = (case handle_until messages run stop ms s of (s', rest) \<Rightarrow> Inr (s', concat (map frame rest)))"
proof -
  have "ws = map frame ms"
    using assms(2) by (induction rule: list_all2_induct) (auto simp: toMessage_is_frame assms(1))
  then show ?thesis using assms(3) by (simp add: ThreadFunc_frames)
qed

theorem frames_roundtrip_witness:
  "IPCConnector_ThreadFunc [''ipc.Ping'' \<mapsto> 1, ''ipc.ModuleState'' \<mapsto> 2] (\<lambda>h b s. s @ [(h::nat, b)]) (\<lambda>_. False)
     (concat [frame (''ipc.ModuleState'', ''x''), frame (''ipc.Unknown'', ''y''), frame (''ipc.Ping'', [])]) []
   = Inr ([(2, ''x''), (1, [])], [])"
  using frames_roundtrip [of "\<lambda>k. replicate (nat k) CHR 0x00"
      "[(''ipc.ModuleState'', ''x''), (''ipc.Unknown'', ''y''), (''ipc.Ping'', [])]"
      "[frame (''ipc.ModuleState'', ''x''), frame (''ipc.Unknown'', ''y''), frame (''ipc.Ping'', [])]"
      "[''ipc.Ping'' \<mapsto> 1, ''ipc.ModuleState'' \<mapsto> 2]" "\<lambda>h b s. s @ [(h::nat, b)]" "\<lambda>_. False" "[]"]
  by (simp add: toMessage_is_frame sendable_def apply_dispatch_def)

text \<open>
  The sender does not know the receiver's limit. A message of more than
  \<open>MAX_DATA_LEN\<close> bytes is sent, and it ends the receiving thread before anything of it is read.
\<close>

lemma oversized_message_ends_connection:
  assumes "MAX_DATA_LEN < int (length data)" and "length data < 2147483648" and "\<not> stop s"
  shows "IPCConnector_ThreadFunc messages run stop (IPCConnector_SendData data @ tail_bytes) s = Inr (s, data @ tail_bytes)"
proof -
  have "sint (word_of_nat (length data) :: 32 word) = int (length data)" using assms(2) by (rule sint_of_length)
  then show ?thesis using assms
    by (subst IPCConnector_ThreadFunc.simps) (simp add: IPCConnector_SendData_def Let_def)
qed



section \<open>The socket loops deliver the stream\<close>

text \<open>
  What the code relies on of \<open>send\<close>: given some bytes, it takes at most those, from the front,
  onto the wire; a result that is not positive took none.
\<close>

definition send_contract :: "(string \<Rightarrow> 'k \<Rightarrow> int \<times> 'k) \<Rightarrow> ('k \<Rightarrow> string) \<Rightarrow> bool" where
  "send_contract send wire \<longleftrightarrow> (\<forall>bytes k. fst (send bytes k) \<le> int (length bytes) \<and>
     wire (snd (send bytes k)) = wire k @ take (nat (fst (send bytes k))) bytes)"

text \<open>And of \<open>recv\<close>: it delivers the next bytes of the stream, at most as many as there is room for, none only at its end.\<close>

definition recv_contract :: "(nat \<Rightarrow> 'k \<Rightarrow> string \<times> 'k) \<Rightarrow> ('k \<Rightarrow> string) \<Rightarrow> bool" where
  "recv_contract recv stream \<longleftrightarrow> (\<forall>n k. length (fst (recv n k)) \<le> n \<and>
     stream k = fst (recv n k) @ stream (snd (recv n k)) \<and> (0 < n \<and> fst (recv n k) = [] \<longrightarrow> stream k = []))"

lemma send_contractD:
  assumes "send_contract send wire" and "send bytes k = (res, k')"
  shows "res \<le> int (length bytes)" and "wire k' = wire k @ take (nat res) bytes"
  using assms(1) [unfolded send_contract_def, rule_format, of bytes k] assms(2) by simp_all

lemma recv_contractD:
  assumes "recv_contract recv stream" and "recv n k = (bytes, k')"
  shows "length bytes \<le> n" and "stream k = bytes @ stream k'" and "0 < n \<Longrightarrow> bytes = [] \<Longrightarrow> stream k = []"
  using assms(1) [unfolded recv_contract_def, rule_format, of n k] assms(2) by auto

lemma Send_loop_wire:
  "send_contract send wire \<Longrightarrow> sendlen \<le> int (length data) \<Longrightarrow> TCPSocket_Send_loop send data sendlen k = (ok, k') \<Longrightarrow>
    \<exists>n \<le> nat sendlen. (ok \<longleftrightarrow> n = nat sendlen) \<and>
      wire k' = wire k @ take n (drop (length data - nat sendlen) data)"
proof (induction send data sendlen k rule: TCPSocket_Send_loop.induct)
  case (1 send data sendlen k)
  show ?case
  proof (cases "sendlen > 0")
    case False
    with "1.prems" show ?thesis by (subst (asm) TCPSocket_Send_loop.simps) auto
  next
    case True
    let ?rest = "drop (length data - nat sendlen) data"
    obtain res k1 where res: "send ?rest k = (res, k1)" by fastforce
    have rest: "length ?rest = nat sendlen" using "1.prems"(2) by simp
    have c: "res \<le> sendlen" "wire k1 = wire k @ take (nat res) ?rest"
      using send_contractD [OF "1.prems"(1) res] rest True by simp_all
    show ?thesis
    proof (cases "res \<le> 0")
      case True
      with "1.prems" res c \<open>sendlen > 0\<close> show ?thesis by (subst (asm) TCPSocket_Send_loop.simps) auto
    next
      case False
      then have "TCPSocket_Send_loop send data (sendlen - res) k1 = (ok, k')"
        using "1.prems"(3) True res by (subst (asm) TCPSocket_Send_loop.simps) simp
      then obtain n where n: "n \<le> nat (sendlen - res)" "ok \<longleftrightarrow> n = nat (sendlen - res)"
        "wire k' = wire k1 @ take n (drop (length data - nat (sendlen - res)) data)"
        using "1.IH" [OF True res [symmetric] False "1.prems"(1)] "1.prems"(2) False by auto
      have "drop (length data - nat (sendlen - res)) data = drop (nat res) ?rest"
        using False c(1) "1.prems"(2) by (subst drop_drop, intro arg_cong2 [of _ _ _ _ drop]) auto
      then have "wire k' = wire k @ take (nat res + n) ?rest"
        using n(3) c(2) by (simp add: take_add)
      moreover have "nat res + n \<le> nat sendlen" "ok \<longleftrightarrow> nat res + n = nat sendlen"
        using n(1,2) False c(1) by (auto simp: nat_diff_distrib)
      ultimately show ?thesis by blast
    qed
  qed
qed

lemma Recv_loop_stream:
  "recv_contract recv stream \<Longrightarrow> TCPSocket_Recv_loop recv recvlen got k = (r, k') \<Longrightarrow> 0 \<le> recvlen \<Longrightarrow>
    (if int (length (stream k)) < recvlen then r = None
     else r = Some (got @ take (nat recvlen) (stream k)) \<and> stream k' = drop (nat recvlen) (stream k))"
proof (induction recv recvlen got k rule: TCPSocket_Recv_loop.induct)
  case (1 recv recvlen got k)
  show ?case
  proof (cases "recvlen > 0")
    case False
    with "1.prems" show ?thesis by (subst (asm) TCPSocket_Recv_loop.simps) auto
  next
    case True
    obtain bytes k1 where bytes: "recv (nat recvlen) k = (bytes, k1)" by fastforce
    have c: "length bytes \<le> nat recvlen" "stream k = bytes @ stream k1" "bytes = [] \<longrightarrow> stream k = []"
      using recv_contractD [OF "1.prems"(1) bytes] True by simp_all
    show ?thesis
    proof (cases "bytes = []")
      case True
      with "1.prems" bytes c \<open>recvlen > 0\<close> show ?thesis by (subst (asm) TCPSocket_Recv_loop.simps) auto
    next
      case False
      then have "TCPSocket_Recv_loop recv (recvlen - int (length bytes)) (got @ bytes) k1 = (r, k')"
        using "1.prems"(2) True bytes by (subst (asm) TCPSocket_Recv_loop.simps) simp
      from "1.IH" [OF True bytes [symmetric] False "1.prems"(1) this] c(1) True
      show ?thesis by (auto simp: c(2) nat_diff_distrib split: if_splits)
    qed
  qed
qed

text \<open>
  \<open>Send\<close> hands over all of the data in order, however the operating system cuts it up, or
  fails having handed over a proper prefix.
\<close>

lemma Send_all_or_prefix:
  assumes "send_contract send wire" and "TCPSocket_Send send False data k = (ok, k')"
  shows "if ok then wire k' = wire k @ data else \<exists>n < length data. wire k' = wire k @ take n data"
proof -
  obtain n where "n \<le> length data" "ok \<longleftrightarrow> n = length data" "wire k' = wire k @ take n data"
    using Send_loop_wire [OF assms(1), of "int (length data)" data k ok k'] assms(2)
    by (auto simp: TCPSocket_Send_def)
  then show ?thesis by (cases "n = length data") (auto intro!: exI [of _ n])
qed

text \<open>A system call that takes two bytes at a time.\<close>

definition two_at_a_time :: "string \<Rightarrow> string \<Rightarrow> int \<times> string" where
  "two_at_a_time bytes k = (int (min 2 (length bytes)), k @ take 2 bytes)"

lemma two_at_a_time_contract: "send_contract two_at_a_time (\<lambda>k. k)"
  by (auto simp: send_contract_def two_at_a_time_def min_def)

text \<open>
  \<open>Recv\<close> of \<open>len\<close> bytes gives exactly the next \<open>len\<close> bytes of the stream, and fails only
  when the stream ends before.
\<close>

lemma Recv_exact:
  assumes "recv_contract recv stream" and "0 \<le> len" and "TCPSocket_Recv recv False len k = (r, k')"
  shows "if int (length (stream k)) < len then r = None
    else r = Some (take (nat len) (stream k)) \<and> stream k' = drop (nat len) (stream k)"
  using Recv_loop_stream [OF assms(1) _ assms(2), of "[]" k r k'] assms(3)
  by (auto simp: TCPSocket_Recv_def)

definition one_at_a_time :: "nat \<Rightarrow> string \<Rightarrow> string \<times> string" where
  "one_at_a_time n k = (take (min 1 n) k, drop (min 1 n) k)"

lemma one_at_a_time_contract: "recv_contract one_at_a_time (\<lambda>k. k)"
  by (auto simp: recv_contract_def one_at_a_time_def)

end
