(* ===== verification/Client_Server_Module.thy ===== *)
theory Client_Server_Module
  imports Ipc_Module
begin

text \<open>
  The class \<open>ClientServerModule\<close> (\<open>client_server_lib/module/client_server_module.cpp\<close>) and its
  signal handler (\<open>client_server_signal_handler.cpp\<close>): an \<open>IPCModule\<close> that is a client of
  another module over the network, or serves such clients. The state holds the base class's
  state; what the module does outside itself is appended to \<open>cs_trace\<close>. Logging is left out.
\<close>

section \<open>Users\<close>

record user_password =
  up_userName :: string
  up_password :: string

definition UserPassword :: "string \<Rightarrow> string \<Rightarrow> user_password" where
  "UserPassword u p = \<lparr>up_userName = u, up_password = p\<rparr>"

definition UserPassword_eq :: "user_password \<Rightarrow> user_password \<Rightarrow> bool" where
  "UserPassword_eq a b \<longleftrightarrow> up_userName a = up_userName b"

definition UserPassword_lt :: "user_password \<Rightarrow> user_password \<Rightarrow> bool" where
  "UserPassword_lt a b \<longleftrightarrow> up_userName a < up_userName b"

interpretation ups: ordered_object UserPassword_lt UserPassword_eq up_userName
  by unfold_locales (simp_all add: UserPassword_lt_def UserPassword_eq_def)

abbreviation up_add :: "user_password \<Rightarrow> user_password list \<Rightarrow> user_password list \<times> bool" where
  "up_add \<equiv> AddObject UserPassword_lt UserPassword_eq"

abbreviation up_update :: "user_password \<Rightarrow> user_password list \<Rightarrow> user_password list \<times> bool" where
  "up_update \<equiv> UpdateObject UserPassword_lt UserPassword_eq"

abbreviation up_remove :: "user_password \<Rightarrow> user_password list \<Rightarrow> user_password list \<times> bool" where
  "up_remove \<equiv> RemoveObject UserPassword_lt UserPassword_eq"

abbreviation up_get :: "user_password \<Rightarrow> user_password list \<Rightarrow> user_password option" where
  "up_get \<equiv> GetObject UserPassword_lt UserPassword_eq"

section \<open>State\<close>

definition m_serverIPCName :: string where
  "m_serverIPCName = ''Server''"

definition m_clientIPCName :: string where
  "m_clientIPCName = ''Client''"

datatype cs_effect =
    ServerConnectStart "(string \<times> int \<times> user_password) option" connect_address
  | ServerListenStart listen_address
  | ServerListenStop listen_address
  | ServerThreadManaged "listen_address option"
  | ServerStopConnection string
  | OnServerConnected string
  | OnClientConnector string
  | OnAuthFailed
  | ServerCreationFailed
  | ClientOnConnectFailed string
  | ClientOnIPCObjectsChanged

record cs_module =
  cs_base :: ipc_module
  cs_ownSessionId :: string
  cs_ip :: string
  cs_port :: int
  cs_isUseProxy :: bool
  cs_proxyIp :: string
  cs_proxyPort :: int
  cs_proxyUserPassword :: user_password
  cs_isStopConnect :: bool
  cs_userPassword :: user_password
  cs_serverThread :: "listen_address option"
  cs_userPasswords :: "user_password list"
  cs_bConnectToServerRequest :: bool
  cs_requestServerCreated :: int
  cs_trace :: "cs_effect list"

definition cs_emit :: "cs_effect \<Rightarrow> cs_module \<Rightarrow> cs_module" where
  "cs_emit e m = m\<lparr>cs_trace := cs_trace m @ [e]\<rparr>"

definition on_base :: "(ipc_module \<Rightarrow> ipc_module) \<Rightarrow> cs_module \<Rightarrow> cs_module" where
  "on_base f m = m\<lparr>cs_base := f (cs_base m)\<rparr>"

text \<open>The constructor leaves \<open>m_port\<close>, \<open>m_proxyPort\<close> and \<open>m_requestServerCreated\<close> unset; nothing reads them before they are set.\<close>

definition ClientServerModule :: "ipc_name \<Rightarrow> cs_module" where
  "ClientServerModule n = \<lparr>cs_base = IPCModule n, cs_ownSessionId = [], cs_ip = [], cs_port = 0,
     cs_isUseProxy = False, cs_proxyIp = [], cs_proxyPort = 0, cs_proxyUserPassword = UserPassword [] [],
     cs_isStopConnect = True, cs_userPassword = UserPassword [] [], cs_serverThread = None,
     cs_userPasswords = [], cs_bConnectToServerRequest = False, cs_requestServerCreated = 0, cs_trace = []\<rparr>"

section \<open>The client\<close>

definition Connect :: "string \<Rightarrow> int \<Rightarrow> cs_module \<Rightarrow> cs_module" where
  "Connect ip port m =
     (if m_isExit (cs_base m) then m
      else
        let m = m\<lparr>cs_isStopConnect := False, cs_ip := ip, cs_port := port\<rparr>;
            factory = (if cs_isUseProxy m then Some (cs_proxyIp m, cs_proxyPort m, cs_proxyUserPassword m) else None)
        in cs_emit (ServerConnectStart factory \<lparr>ca_localIP = [], ca_localPort = 0, ca_id = m_serverIPCName,
             ca_moduleName = m_serverIPCName, ca_ip = ip, ca_port = Some port\<rparr>) m)"

definition Disconnect :: "cs_module \<Rightarrow> cs_module" where
  "Disconnect m =
     (let ipcName = IPCName m_serverIPCName (cs_ownSessionId m) []
      in (cs_emit (ServerStopConnection (GetModuleNameString ipcName)) m)\<lparr>cs_isStopConnect := True\<rparr>)"

definition SetUserName :: "string \<Rightarrow> cs_module \<Rightarrow> cs_module" where
  "SetUserName userName m = m\<lparr>cs_userPassword := (cs_userPassword m)\<lparr>up_userName := userName\<rparr>\<rparr>"

definition SetPassword :: "string \<Rightarrow> cs_module \<Rightarrow> cs_module" where
  "SetPassword password m = m\<lparr>cs_userPassword := (cs_userPassword m)\<lparr>up_password := password\<rparr>\<rparr>"

definition UseStandartConnections :: "cs_module \<Rightarrow> cs_module" where
  "UseStandartConnections m = m\<lparr>cs_isUseProxy := False\<rparr>"

definition UseProxy :: "string \<Rightarrow> int \<Rightarrow> cs_module \<Rightarrow> cs_module" where
  "UseProxy ip port m = m\<lparr>cs_isUseProxy := True, cs_proxyPort := port, cs_proxyIp := ip\<rparr>"

definition SetProxyUserName :: "string \<Rightarrow> cs_module \<Rightarrow> cs_module" where
  "SetProxyUserName userName m = m\<lparr>cs_proxyUserPassword := (cs_proxyUserPassword m)\<lparr>up_userName := userName\<rparr>\<rparr>"

definition SetProxyPassword :: "string \<Rightarrow> cs_module \<Rightarrow> cs_module" where
  "SetProxyPassword password m = m\<lparr>cs_proxyUserPassword := (cs_proxyUserPassword m)\<lparr>up_password := password\<rparr>\<rparr>"

text \<open>Logged in to the server, losing it: ask for a reconnect. The result says whether it did.\<close>

definition OnFireConnector_cs :: "int \<Rightarrow> string \<Rightarrow> cs_module \<Rightarrow> cs_module \<times> bool" where
  "OnFireConnector_cs now moduleName m =
     (let n = GetIPCName moduleName
      in if mod_name n = m_serverIPCName \<and> host_name n = cs_ownSessionId m \<and> \<not> cs_isStopConnect m \<and> \<not> m_isExit (cs_base m)
         then (m\<lparr>cs_ownSessionId := [], cs_bConnectToServerRequest := True, cs_requestServerCreated := now\<rparr>, True)
         else (m, False))"

definition CheckFireConnector_cs :: "string \<Rightarrow> bool" where
  "CheckFireConnector_cs moduleName \<longleftrightarrow>
     mod_name (GetIPCName moduleName) = m_serverIPCName \<or> mod_name (GetIPCName moduleName) = m_clientIPCName"

definition ManagerFunc_cs :: "int \<Rightarrow> cs_module \<Rightarrow> cs_module" where
  "ManagerFunc_cs t m =
     (let m = on_base (ManagerFunc t) m
      in if cs_bConnectToServerRequest m \<and> t - cs_requestServerCreated m \<ge> m_connectTimeout
         then (Connect (cs_ip m) (cs_port m) m)\<lparr>cs_bConnectToServerRequest := False\<rparr>
         else m)"

section \<open>The server\<close>

definition AddUser :: "string \<Rightarrow> string \<Rightarrow> cs_module \<Rightarrow> cs_module" where
  "AddUser userName password m =
     (let user = UserPassword userName password; added = up_add user (cs_userPasswords m)
      in if snd added then m\<lparr>cs_userPasswords := fst added\<rparr>
         else m\<lparr>cs_userPasswords := fst (up_update user (fst added))\<rparr>)"

definition RemoveUser :: "string \<Rightarrow> string \<Rightarrow> cs_module \<Rightarrow> cs_module" where
  "RemoveUser userName password m =
     m\<lparr>cs_userPasswords := fst (up_remove (UserPassword userName password) (cs_userPasswords m))\<rparr>"

definition ClearUsers :: "cs_module \<Rightarrow> cs_module" where
  "ClearUsers m = m\<lparr>cs_userPasswords := []\<rparr>"

definition StopServer :: "cs_module \<Rightarrow> cs_module" where
  "StopServer m =
     (case cs_serverThread m of
        None \<Rightarrow> m
      | Some t \<Rightarrow> (cs_emit (ServerThreadManaged (Some t)) (cs_emit (ServerListenStop t) m))\<lparr>cs_serverThread := None\<rparr>)"

definition IsStopServer :: "cs_module \<Rightarrow> bool" where
  "IsStopServer m \<longleftrightarrow> cs_serverThread m = None"

definition StartServer :: "int \<Rightarrow> bool \<Rightarrow> cs_module \<Rightarrow> cs_module" where
  "StartServer port local m =
     (let m = (case cs_serverThread m of
                 None \<Rightarrow> m
               | Some t \<Rightarrow> (cs_emit (ServerThreadManaged (Some t)) (cs_emit (ServerListenStop t) m))\<lparr>cs_serverThread := None\<rparr>);
          address = \<lparr>la_id = m_clientIPCName, la_localIP = (if local then ''localhost'' else []),
                     la_localPort = Some port, la_acceptCount = -1\<rparr>
      in cs_emit (ServerListenStart address) (m\<lparr>cs_serverThread := Some address\<rparr>))"

definition ClientServerModule_destroy :: "cs_module \<Rightarrow> cs_module" where
  "ClientServerModule_destroy m =
     (let m = m\<lparr>cs_isStopConnect := True\<rparr>
      in case cs_serverThread m of
           None \<Rightarrow> m
         | Some t \<Rightarrow> (cs_emit (ServerThreadManaged (Some t)) (cs_emit (ServerListenStop t) m))\<lparr>cs_serverThread := None\<rparr>)"

text \<open>
  The loop erases while it iterates; the erased iterator is the copy of the one that has moved
  on, which \<open>erase\<close> then invalidates: \<^const>\<open>None\<close>. Its condition asks one name to be two.
\<close>

fun fill_cs_loop :: "ipc_object list \<Rightarrow> ipc_object list option" where
  "fill_cs_loop [] = Some []"
| "fill_cs_loop (it # its) =
     (if mod_name (m_ipcName it) = m_clientIPCName \<and> mod_name (m_ipcName it) = m_serverIPCName
      then None
      else map_option (Cons it) (fill_cs_loop its))"

definition FillIPCObjectList_cs :: "ipc_object list \<Rightarrow> ipc_object list option" where
  "FillIPCObjectList_cs ipcList = map_option ipc_FillIPCObjectList (fill_cs_loop ipcList)"

section \<open>Handlers\<close>

definition onErrorConnect_cs :: "int \<Rightarrow> string \<Rightarrow> cs_module \<Rightarrow> cs_module" where
  "onErrorConnect_cs now moduleName m =
     (if \<not> cs_isStopConnect m \<and> \<not> m_isExit (cs_base m)
      then m\<lparr>cs_bConnectToServerRequest := True, cs_requestServerCreated := now\<rparr>
      else cs_emit (ClientOnConnectFailed moduleName) m)"

definition onErrorListener_cs :: "cs_module \<Rightarrow> cs_module" where
  "onErrorListener_cs m =
     (let m = (cs_emit (ServerThreadManaged (cs_serverThread m)) m)\<lparr>cs_serverThread := None\<rparr>
      in cs_emit ServerCreationFailed (on_base (\<lambda>b. b\<lparr>m_isExit := True\<rparr>) m))"

datatype result_code = LOGIN_FAILURE | LOGIN_SUCCESS

record login_message =
  lg_name :: string
  lg_password :: string
  lg_login_result :: result_code

record login_result_message =
  lr_login_result :: result_code
  lr_own_session_id :: string

definition onLogin :: "login_message \<Rightarrow> cs_module \<Rightarrow> login_message" where
  "onLogin msg m =
     (case up_get (UserPassword (lg_name msg) []) (cs_userPasswords m) of
        Some user \<Rightarrow> if up_password user = lg_password msg then msg\<lparr>lg_login_result := LOGIN_SUCCESS\<rparr>
                     else msg\<lparr>lg_login_result := LOGIN_FAILURE\<rparr>
      | None \<Rightarrow> msg\<lparr>lg_login_result := LOGIN_FAILURE\<rparr>)"

definition onLoginResult :: "login_result_message \<Rightarrow> cs_module \<Rightarrow> cs_module" where
  "onLoginResult msg m =
     (if lr_login_result msg = LOGIN_FAILURE then (cs_emit OnAuthFailed m)\<lparr>cs_isStopConnect := True\<rparr>
      else if cs_ownSessionId m = [] then m\<lparr>cs_ownSessionId := lr_own_session_id msg\<rparr>
      else cs_emit (ServerStopConnection (GetModuleNameString (local_name m_serverIPCName))) m)"

definition onConnected_cs :: "string \<Rightarrow> cs_module \<Rightarrow> cs_module" where
  "onConnected_cs i m =
     (let idName = GetIPCName i
      in if mod_name idName = m_serverIPCName then cs_emit (OnServerConnected (cs_ownSessionId m)) m
         else if mod_name idName = m_clientIPCName then cs_emit (OnClientConnector (host_name idName)) m
         else m)"

definition CheckIPCObject_cs :: "string \<Rightarrow> ipc_object \<Rightarrow> bool" where
  "CheckIPCObject_cs accessId object \<longleftrightarrow> accessId = m_accessId object \<and> mod_name (m_ipcName object) = m_clientIPCName"

text \<open>
  The end of a connection, as the connection manager reports it to the base class's handler and
  then to this one's. The base calls the virtual \<open>OnFireConnector\<close> last, if at all.
\<close>

definition onDisconnected_handler :: "string \<Rightarrow> string \<Rightarrow> cs_module \<Rightarrow> cs_module" where
  "onDisconnected_handler i accessId m =
     (if mod_name (GetIPCName i) = m_serverIPCName
      then cs_emit ClientOnIPCObjectsChanged
             (on_base (\<lambda>b. b\<lparr>m_ipcObject := fst (CheckObjects (\<lambda>x s. (CheckIPCObject_cs accessId x, s)) (m_ipcObject b) ())\<rparr>) m)
      else m)"

definition onDisconnected_cs :: "int \<Rightarrow> string \<Rightarrow> string \<Rightarrow> string \<Rightarrow> cs_module \<Rightarrow> cs_module" where
  "onDisconnected_cs now i connId accessId m =
     (let b = cs_base m; b' = onDisconnected CheckFireConnector_cs now i connId b;
          m = m\<lparr>cs_base := b'\<rparr>;
          m = (if OnFireConnector i \<in> set (drop (length (m_trace b)) (m_trace b'))
               then fst (OnFireConnector_cs now i m) else m)
      in onDisconnected_handler i accessId m)"

section \<open>The shared object list\<close>

text \<open>
  Nothing is filtered: the loop's condition holds of no object, so its misuse of the erased
  iterator is never reached.
\<close>

lemma FillIPCObjectList_cs_id: "FillIPCObjectList_cs xs = Some xs"
proof -
  have "fill_cs_loop xs = Some xs"
    by (induction xs) (auto simp: m_clientIPCName_def m_serverIPCName_def)
  then show ?thesis by (simp add: FillIPCObjectList_cs_def ipc_FillIPCObjectList_def)
qed

end
