(* ===== verification/Client_Server_Connector.thy ===== *)
theory Client_Server_Connector
  imports Ipc_Connector Client_Server_Module
begin

text \<open>
  The class \<open>ClientServerConnector\<close> (\<open>client_server_lib/connector/client_server_connector.cpp\<close>),
  an \<open>IPCConnector\<close> between a client and its server: login, the module names the two sides
  then use, and the passing on of tunnel messages. A node is the connector, its module, and the
  module's other connectors, those of this kind and the plain ones. What the handlers of the
  base class do is in the base's trace, what this class sends and signals itself is in
  \<open>cc_trace\<close>. A fresh session id is an argument.
\<close>

section \<open>Messages\<close>

datatype tunnel_type = TUNNEL_ALL | TUNNEL_LOCAL_TCP | TUNNEL_LOCAL_UDP | TUNNEL_EXTERNAL
  | TUNNEL_RELAY_TCP | TUNNEL_RELAY_UDP

record tunnel_address =
  ta_ip :: string
  ta_port :: int

record init_tunnel =
  it_ext_session_id :: string
  it_own_session_id :: string
  it_type :: "tunnel_type option"
  it_address :: "tunnel_address option"

record try_connect_to =
  tc_ext_session_id :: string
  tc_own_session_id :: string
  tc_type :: tunnel_type
  tc_adresses :: "tunnel_address list"

record session_pair =
  sp_ext_session_id :: string
  sp_own_session_id :: string

record peer_data =
  pd_one_session_id :: string
  pd_two_session_id :: string
  pd_type :: "tunnel_type option"

record available_types =
  at_session_id :: string
  at_types :: "tunnel_type list"

datatype cs_msg =
    M_Login login_message
  | M_LoginResult login_result_message
  | M_InitTunnel init_tunnel
  | M_TryConnectTo try_connect_to
  | M_InitTunnelStarted session_pair
  | M_InitTunnelComplete session_pair
  | M_PeerData peer_data
  | M_AvailablePearTypes available_types
  | M_Ipc proto_msg

datatype cc_effect = Send cs_msg | Signal cs_msg | StopConnector

section \<open>State\<close>

record cs_connector =
  cc_base :: ipc_connector
  cc_userName :: string
  cc_password :: string
  cc_ownSessionId :: string
  cc_trace :: "cc_effect list"

record cs_node =
  cn_self :: cs_connector
  cn_module :: cs_module
  cn_ipc_peers :: "ipc_connector list"
  cn_cs_peers :: "cs_connector list"

definition ClientServerConnector :: "string \<Rightarrow> ipc_name \<Rightarrow> string \<Rightarrow> cs_connector" where
  "ClientServerConnector i moduleName guid = \<lparr>cc_base = IPCConnector i moduleName guid, cc_userName = [],
     cc_password = [], cc_ownSessionId = [], cc_trace = []\<rparr>"

definition cc_emit :: "cc_effect \<Rightarrow> cs_connector \<Rightarrow> cs_connector" where
  "cc_emit e c = c\<lparr>cc_trace := cc_trace c @ [e]\<rparr>"

abbreviation cc_id :: "cs_connector \<Rightarrow> string" where
  "cc_id c \<equiv> c_id (cc_base c)"

definition cc_set :: "(ipc_connector \<Rightarrow> ipc_connector) \<Rightarrow> cs_connector \<Rightarrow> cs_connector" where
  "cc_set f c = c\<lparr>cc_base := f (cc_base c)\<rparr>"

definition cn_on_self :: "(cs_connector \<Rightarrow> cs_connector) \<Rightarrow> cs_node \<Rightarrow> cs_node" where
  "cn_on_self f n = n\<lparr>cn_self := f (cn_self n)\<rparr>"

definition cn_on_module :: "(cs_module \<Rightarrow> cs_module) \<Rightarrow> cs_node \<Rightarrow> cs_node" where
  "cn_on_module f n = n\<lparr>cn_module := f (cn_module n)\<rparr>"

text \<open>The base class's handlers see the base parts of the node.\<close>

definition as_node :: "cs_node \<Rightarrow> node" where
  "as_node n = \<lparr>nd_self = cc_base (cn_self n), nd_module = cs_base (cn_module n), nd_peers = cn_ipc_peers n\<rparr>"

definition on_node :: "(node \<Rightarrow> node) \<Rightarrow> cs_node \<Rightarrow> cs_node" where
  "on_node f n =
     (let b = f (as_node n)
      in n\<lparr>cn_self := (cn_self n)\<lparr>cc_base := nd_self b\<rparr>, cn_module := (cn_module n)\<lparr>cs_base := nd_module b\<rparr>,
           cn_ipc_peers := nd_peers b\<rparr>)"

section \<open>Connector\<close>

definition SetUserName_cc :: "string \<Rightarrow> cs_connector \<Rightarrow> cs_connector" where
  "SetUserName_cc userName c = c\<lparr>cc_userName := userName\<rparr>"

definition SetPassword_cc :: "string \<Rightarrow> cs_connector \<Rightarrow> cs_connector" where
  "SetPassword_cc password c = c\<lparr>cc_password := password\<rparr>"

text \<open>\<open>ClientServerSignalHandler::onAddClientServerConnector\<close>, up to the call of \<open>AddConnector\<close>.\<close>

definition onAddClientServerConnector :: "cs_module \<Rightarrow> cs_connector \<Rightarrow> cs_connector" where
  "onAddClientServerConnector m c =
     SetPassword_cc (up_password (cs_userPassword m)) (SetUserName_cc (up_userName (cs_userPassword m)) c)"

definition OnStart_cc :: "cs_connector \<Rightarrow> cs_connector" where
  "OnStart_cc c =
     (if cc_id c = m_serverIPCName
      then cc_emit (Send (M_Login \<lparr>lg_name = cc_userName c, lg_password = cc_password c, lg_login_result = LOGIN_FAILURE\<rparr>)) c
      else c)"

definition SetModuleName_cc :: "ipc_name \<Rightarrow> cs_connector \<Rightarrow> cs_connector \<times> bool" where
  "SetModuleName_cc moduleName c = (c, False)"

definition GetIPCName_cc :: "cs_connector \<Rightarrow> ipc_name" where
  "GetIPCName_cc c =
     (let name = GetIPCName (cc_id c) in IPCName (mod_name name) (cc_ownSessionId c) (conn_id name))"

text \<open>\<open>Connector::SetId\<close> ignores the empty string.\<close>

definition SetId :: "string \<Rightarrow> ipc_connector \<Rightarrow> ipc_connector" where
  "SetId i c = (if i \<noteq> [] then c\<lparr>c_id := i\<rparr> else c)"

section \<open>Signals from the module and the other connectors\<close>

text \<open>\<open>msg.ipc_path (0)\<close> of an empty path is an access out of range.\<close>

definition onIPCMessage_cc :: "ipc_message \<Rightarrow> cs_connector \<Rightarrow> cs_connector option" where
  "onIPCMessage_cc msg c =
     (case ipc_path msg of
        [] \<Rightarrow> None
      | path # rest \<Rightarrow>
          if IPCObjectName_eq path (c_moduleName (cc_base c))
          then Some (cc_emit (Send (M_Ipc (M_IPCMessage (msg\<lparr>ipc_path := GetIPCName (cc_id c) # rest\<rparr>)))) c)
          else if GetModuleNameString path = cc_id c then Some (cc_emit (Send (M_Ipc (M_IPCMessage msg))) c)
          else Some c)"

abbreviation to_client :: "cs_connector \<Rightarrow> bool" where
  "to_client c \<equiv> mod_name (GetIPCName (cc_id c)) = m_clientIPCName"

abbreviation to_server :: "cs_connector \<Rightarrow> bool" where
  "to_server c \<equiv> mod_name (GetIPCName (cc_id c)) = m_serverIPCName"

definition onInitTunnelSignal :: "init_tunnel \<Rightarrow> cs_connector \<Rightarrow> cs_connector" where
  "onInitTunnelSignal msg c =
     (if (to_client c \<or> it_type msg = None \<and> to_server c) \<and> it_own_session_id msg = cc_ownSessionId c
      then cc_emit (Send (M_InitTunnel msg)) c else c)"

definition onInitTunnelCompleteSignal :: "session_pair \<Rightarrow> cs_connector \<Rightarrow> cs_connector" where
  "onInitTunnelCompleteSignal msg c =
     (if to_server c \<and> sp_own_session_id msg = cc_ownSessionId c then cc_emit (Send (M_InitTunnelComplete msg)) c else c)"

definition onInitTunnelStartedSignal :: "session_pair \<Rightarrow> cs_connector \<Rightarrow> cs_connector" where
  "onInitTunnelStartedSignal msg c =
     (if to_client c \<and> sp_own_session_id msg = cc_ownSessionId c then cc_emit (Send (M_InitTunnelStarted msg)) c else c)"

definition onTryConnectToMessage :: "try_connect_to \<Rightarrow> cs_connector \<Rightarrow> cs_connector" where
  "onTryConnectToMessage msg c =
     (if to_client c \<and> tc_own_session_id msg = cc_ownSessionId c then cc_emit (Send (M_TryConnectTo msg)) c else c)"

definition onTryConnectToSignal :: "try_connect_to \<Rightarrow> cs_connector \<Rightarrow> cs_connector" where
  "onTryConnectToSignal msg c =
     (if ((to_server c \<and> (tc_type msg = TUNNEL_LOCAL_TCP \<or> tc_type msg = TUNNEL_LOCAL_UDP))
          \<or> (to_client c \<and> tc_type msg = TUNNEL_EXTERNAL)) \<and> tc_own_session_id msg = cc_ownSessionId c
      then cc_emit (Send (M_TryConnectTo msg)) c else c)"

definition onPeerDataSignal :: "peer_data \<Rightarrow> cs_connector \<Rightarrow> cs_connector" where
  "onPeerDataSignal msg c =
     (if to_server c \<and> pd_one_session_id msg = cc_ownSessionId c then cc_emit (Send (M_PeerData msg)) c else c)"

definition onAvailablePearTypesSignal :: "available_types \<Rightarrow> cs_connector \<Rightarrow> cs_connector" where
  "onAvailablePearTypesSignal msg c =
     (if to_server c \<and> at_session_id msg = cc_ownSessionId c then cc_emit (Send (M_AvailablePearTypes msg)) c else c)"

definition onIPCObjectListMessage :: "cs_connector \<Rightarrow> ipc_object_list_message \<Rightarrow> ipc_object_list_message" where
  "onIPCObjectListMessage c msg =
     (if to_client c \<and> ol_access_id msg = c_accessId (cc_base c)
      then msg\<lparr>ol_ipc_object := ol_ipc_object msg @ [\<lparr>ao_ipc_name = GetIPCName (cc_id c), ao_ip = [], ao_port = 0,
             ao_access_id = c_accessId (cc_base c)\<rparr>]\<rparr>
      else msg)"

definition onAddIPCObjectMessage :: "add_ipc_object \<Rightarrow> cs_connector \<Rightarrow> cs_connector" where
  "onAddIPCObjectMessage msg c =
     (if to_client c \<and> ao_access_id msg = c_accessId (cc_base c) then cc_emit (Send (M_Ipc (M_AddIPCObject msg))) c else c)"

definition onRemoveIPCObjectMessage_cc :: "string \<Rightarrow> cs_connector \<Rightarrow> cs_connector" where
  "onRemoveIPCObjectMessage_cc name c = cc_set (onRemoveIPCObjectMessage name) c"

section \<open>Messages from the other side\<close>

text \<open>What both sides do once the session id is known: their ids, their names, and the handshake.\<close>

definition start_session :: "string \<Rightarrow> string \<Rightarrow> int \<Rightarrow> cs_connector \<Rightarrow> cs_connector" where
  "start_session sessionId accessId port c =
     (let c = c\<lparr>cc_ownSessionId := sessionId\<rparr>;
          c = cc_set (\<lambda>b. b\<lparr>c_accessId := accessId\<rparr>) c;
          name = IPCName (cc_id c) sessionId [];
          c = cc_set (SetId (GetModuleNameString name)) c;
          c = cc_set (\<lambda>b. fst (SetModuleName (IPCName (mod_name (c_moduleName b)) sessionId []) b)) c
      in cc_emit (Send (M_Ipc (M_ModuleName \<lparr>mn_ipc_name = c_moduleName (cc_base c), mn_ip = [], mn_port = port,
           mn_access_id = accessId, mn_is_exist = False, mn_conn_id = []\<rparr>))) c)"

abbreviation stop_checker :: "cs_node \<Rightarrow> cs_node" where
  "stop_checker n \<equiv> (if c_checker (cc_base (cn_self n))
     then cn_on_self (cc_set (\<lambda>b. c_emit CheckerStop (b\<lparr>c_checker := False\<rparr>))) n else n)"

definition onMessage_LoginResult :: "login_result_message \<Rightarrow> cs_node \<Rightarrow> cs_node" where
  "onMessage_LoginResult msg n =
     (let n = stop_checker n;
          n = cn_on_module (onLoginResult msg) n
      in if lr_login_result msg = LOGIN_FAILURE then cn_on_self (cc_emit StopConnector) n
         else cn_on_self (\<lambda>c. start_session (lr_own_session_id msg) (cc_userName c) 0 c) n)"

definition onMessage_Login :: "string \<Rightarrow> login_message \<Rightarrow> cs_node \<Rightarrow> cs_node" where
  "onMessage_Login guid msg n =
     (let n = stop_checker n;
          result = lg_login_result (onLogin msg (cn_module n));
          n = cn_on_self (cc_emit (Send (M_LoginResult \<lparr>lr_login_result = result, lr_own_session_id = guid\<rparr>))) n
      in if result = LOGIN_FAILURE then cn_on_self (cc_emit StopConnector) n
         else cn_on_self (start_session guid (lg_name msg) (-1)) n)"

definition onMessage_PeerData :: "peer_data \<Rightarrow> cs_node \<Rightarrow> cs_node" where
  "onMessage_PeerData msg n = cn_on_self (cc_emit (Signal (M_PeerData msg))) n"

definition onMessage_AvailablePearTypes :: "available_types \<Rightarrow> cs_node \<Rightarrow> cs_node" where
  "onMessage_AvailablePearTypes msg n = cn_on_self (cc_emit (Signal (M_AvailablePearTypes msg))) n"

definition onMessage_InitTunnelComplete :: "session_pair \<Rightarrow> cs_node \<Rightarrow> cs_node" where
  "onMessage_InitTunnelComplete msg n = cn_on_self (cc_emit (Signal (M_InitTunnelComplete msg))) n"

definition onMessage_InitTunnelStarted :: "session_pair \<Rightarrow> cs_node \<Rightarrow> cs_node" where
  "onMessage_InitTunnelStarted msg n = cn_on_self (cc_emit (Signal (M_InitTunnelStarted msg))) n"

definition onMessage_InitTunnel :: "init_tunnel \<Rightarrow> cs_node \<Rightarrow> cs_node" where
  "onMessage_InitTunnel msg n =
     (if to_client (cn_self n) then cn_on_self (cc_emit (Signal (M_InitTunnel msg))) n
      else if to_server (cn_self n) then cn_on_self (cc_emit (Signal (M_InitTunnel msg))) n
      else n)"

text \<open>The virtual \<open>OnConnected\<close> of this class; it is the last call of the base's handler.\<close>

definition OnConnected_cc :: "node \<Rightarrow> node" where
  "OnConnected_cc = self (\<lambda>c. c\<lparr>c_bConnected := True\<rparr>)"

definition onMessage_ModuleName_cc :: "module_name_message \<Rightarrow> cs_node \<Rightarrow> cs_node" where
  "onMessage_ModuleName_cc msg n =
     (let n = on_node (handle_ModuleName OnConnected_cc ipc_FillIPCObjectList msg) n;
          n = (if c_isExist (cc_base (cn_self n)) then n else cn_on_module (onConnected_cs (cc_id (cn_self n))) n)
      in if to_client (cn_self n)
         then
           let accessId = c_accessId (cc_base (cn_self n));
               ipcolMsg = fold onIPCObjectListMessage (cn_cs_peers n) \<lparr>ol_ipc_object = [], ol_access_id = accessId\<rparr>;
               n = cn_on_self (cc_emit (Send (M_Ipc (M_IPCObjectList ipcolMsg)))) n;
               aipcoMsg = \<lparr>ao_ipc_name = GetIPCName (cc_id (cn_self n)), ao_ip = [], ao_port = 0, ao_access_id = accessId\<rparr>
           in n\<lparr>cn_cs_peers := map (onAddIPCObjectMessage aipcoMsg) (cn_cs_peers n)\<rparr>
         else n)"

definition onMessage_TryConnectTo :: "try_connect_to \<Rightarrow> cs_node \<Rightarrow> cs_node" where
  "onMessage_TryConnectTo msg n =
     (if to_client (cn_self n)
      then
        let tctMsg = msg\<lparr>tc_own_session_id := tc_ext_session_id msg, tc_ext_session_id := tc_own_session_id msg\<rparr>
        in n\<lparr>cn_cs_peers := map (onTryConnectToMessage tctMsg) (cn_cs_peers n)\<rparr>
      else if to_server (cn_self n) then cn_on_self (cc_emit (Signal (M_TryConnectTo msg))) n
      else n)"

end
