(* ===== verification/Client_Server_Properties.thy ===== *)
theory Client_Server_Properties
  imports Client_Server_Module Ipc_Properties
begin

text \<open>
  What the client-server module does: who may log in, when a lost server is connected to again,
  and what an explicit disconnect leaves behind.
\<close>

section \<open>Users\<close>

lemma cs_emit_sel [simp]:
  "cs_base (cs_emit e m) = cs_base m" "cs_ownSessionId (cs_emit e m) = cs_ownSessionId m" "cs_ip (cs_emit e m) = cs_ip m"
  "cs_port (cs_emit e m) = cs_port m" "cs_isUseProxy (cs_emit e m) = cs_isUseProxy m"
  "cs_isStopConnect (cs_emit e m) = cs_isStopConnect m" "cs_userPasswords (cs_emit e m) = cs_userPasswords m"
  "cs_bConnectToServerRequest (cs_emit e m) = cs_bConnectToServerRequest m"
  "cs_requestServerCreated (cs_emit e m) = cs_requestServerCreated m" "cs_trace (cs_emit e m) = cs_trace m @ [e]"
  "cs_serverThread (cs_emit e m) = cs_serverThread m"
  by (simp_all add: cs_emit_def)

lemma on_base_sel [simp]:
  "cs_base (on_base f m) = f (cs_base m)" "cs_ownSessionId (on_base f m) = cs_ownSessionId m" "cs_ip (on_base f m) = cs_ip m"
  "cs_port (on_base f m) = cs_port m" "cs_isUseProxy (on_base f m) = cs_isUseProxy m"
  "cs_isStopConnect (on_base f m) = cs_isStopConnect m" "cs_userPasswords (on_base f m) = cs_userPasswords m"
  "cs_bConnectToServerRequest (on_base f m) = cs_bConnectToServerRequest m"
  "cs_requestServerCreated (on_base f m) = cs_requestServerCreated m" "cs_trace (on_base f m) = cs_trace m"
  by (simp_all add: on_base_def)

datatype user_op = OpAdd string string | OpRemove string string | OpClear

fun apply_user_op :: "user_op \<Rightarrow> cs_module \<Rightarrow> cs_module" where
  "apply_user_op (OpAdd u p) = AddUser u p"
| "apply_user_op (OpRemove u p) = RemoveUser u p"
| "apply_user_op OpClear = ClearUsers"

text \<open>The specification: a map from names to passwords.\<close>

fun credentials_op :: "user_op \<Rightarrow> (string \<rightharpoonup> string) \<Rightarrow> (string \<rightharpoonup> string)" where
  "credentials_op (OpAdd u p) c = c(u \<mapsto> p)"
| "credentials_op (OpRemove u p) c = c(u := None)"
| "credentials_op OpClear c = Map.empty"

definition passwords :: "cs_module \<Rightarrow> (string \<rightharpoonup> string)" where
  "passwords m u = map_option up_password (om_lookup up_userName (cs_userPasswords m) u)"

lemma UserPassword_sel [simp]: "up_userName (UserPassword u p) = u" "up_password (UserPassword u p) = p"
  by (simp_all add: UserPassword_def)

lemma apply_user_op_refines:
  assumes "om_inv up_userName (cs_userPasswords m)"
  shows "om_inv up_userName (cs_userPasswords (apply_user_op opn m)) \<and> passwords (apply_user_op opn m) = credentials_op opn (passwords m)"
proof (cases opn)
  case (OpAdd u p)
  then show ?thesis
    using assms ups.add_or_update_lookup [OF assms, of "UserPassword u p"] ups.add_or_update_inv [OF assms, of "UserPassword u p"]
    by (auto simp: AddUser_def Let_def passwords_def fun_eq_iff split: if_splits)
next
  case (OpRemove u p)
  then show ?thesis using assms by (auto simp: RemoveUser_def passwords_def ups.store_lookup ups.store_inv fun_eq_iff)
next
  case OpClear
  then show ?thesis by (simp add: ClearUsers_def passwords_def fun_eq_iff)
qed

lemma fold_user_ops_refines:
  "om_inv up_userName (cs_userPasswords m) \<Longrightarrow>
   om_inv up_userName (cs_userPasswords (fold apply_user_op ops m)) \<and>
   passwords (fold apply_user_op ops m) = fold credentials_op ops (passwords m)"
  by (induction ops arbitrary: m) (simp_all add: apply_user_op_refines)

lemma onLogin_passwords:
  "om_inv up_userName (cs_userPasswords m) \<Longrightarrow>
   lg_login_result (onLogin msg m) = LOGIN_SUCCESS \<longleftrightarrow> passwords m (lg_name msg) = Some (lg_password msg)"
  by (auto simp: onLogin_def passwords_def ups.get_lookup split: option.split)

text \<open>
  C23: a login succeeds exactly if, after all the calls of \<open>AddUser\<close>, \<open>RemoveUser\<close> and
  \<open>ClearUsers\<close> so far, the user is there with that password.
\<close>

theorem login_iff_credentials:
  "lg_login_result (onLogin msg (fold apply_user_op ops (ClientServerModule n))) = LOGIN_SUCCESS
   \<longleftrightarrow> fold credentials_op ops Map.empty (lg_name msg) = Some (lg_password msg)"
proof -
  let ?m = "ClientServerModule n"
  have "om_inv up_userName (cs_userPasswords ?m)" and "passwords ?m = Map.empty"
    by (auto simp: ClientServerModule_def passwords_def)
  then show ?thesis using fold_user_ops_refines [of ?m ops] by (simp add: onLogin_passwords)
qed

section \<open>Losing the server\<close>

lemma server_is_not_coordinator:
  "mod_name (GetIPCName i) = m_serverIPCName \<Longrightarrow> i \<noteq> m_coordinatorIPCName"
proof
  assume "mod_name (GetIPCName i) = m_serverIPCName" and "i = m_coordinatorIPCName"
  moreover have "GetIPCName m_coordinatorIPCName = local_name m_coordinatorIPCName"
    using GetIPCName_GetModuleNameString [of "local_name m_coordinatorIPCName"]
    by (simp add: printable_name_def dot_free_def m_coordinatorIPCName_def)
  ultimately show False by (simp add: m_coordinatorIPCName_def m_serverIPCName_def)
qed

lemma onDisconnected_exit [simp]: "m_isExit (onDisconnected cf now s c b) = m_isExit b"
  by (simp add: onDisconnected_def Let_def requestReconnect_def nextCountConnect_def split: prod.split)

lemma onDisconnected_fires:
  assumes "cf s" and "s \<noteq> m_coordinatorIPCName"
  shows "OnFireConnector s \<in> set (drop (length (m_trace b)) (m_trace (onDisconnected cf now s c b)))"
  using assms by (simp add: onDisconnected_def Let_def requestReconnect_def nextCountConnect_def split: prod.split)

lemma onDisconnected_handler_sel [simp]:
  "cs_ownSessionId (onDisconnected_handler i a m) = cs_ownSessionId m" "cs_ip (onDisconnected_handler i a m) = cs_ip m"
  "cs_port (onDisconnected_handler i a m) = cs_port m" "cs_isStopConnect (onDisconnected_handler i a m) = cs_isStopConnect m"
  "m_isExit (cs_base (onDisconnected_handler i a m)) = m_isExit (cs_base m)"
  "cs_bConnectToServerRequest (onDisconnected_handler i a m) = cs_bConnectToServerRequest m"
  "cs_requestServerCreated (onDisconnected_handler i a m) = cs_requestServerCreated m"
  by (simp_all add: onDisconnected_handler_def)

text \<open>Both sides of \<open>onDisconnected\<close> for the server's connection.\<close>

lemma onDisconnected_server:
  fixes now :: int and i connId accessId :: string and m :: cs_module
  assumes "mod_name (GetIPCName i) = m_serverIPCName"
  defines "m' \<equiv> onDisconnected_cs now i connId accessId m"
    and "again \<equiv> host_name (GetIPCName i) = cs_ownSessionId m \<and> \<not> cs_isStopConnect m \<and> \<not> m_isExit (cs_base m)"
  shows "cs_ownSessionId m' = (if again then [] else cs_ownSessionId m)" "cs_isStopConnect m' = cs_isStopConnect m"
    "m_isExit (cs_base m') = m_isExit (cs_base m)" "cs_ip m' = cs_ip m" "cs_port m' = cs_port m"
    "cs_bConnectToServerRequest m' = (again \<or> cs_bConnectToServerRequest m)"
    "again \<Longrightarrow> cs_requestServerCreated m' = now"
proof -
  have fire: "OnFireConnector i \<in> set (drop (length (m_trace b)) (m_trace (onDisconnected CheckFireConnector_cs now i connId b)))" for b
    using assms(1) server_is_not_coordinator by (intro onDisconnected_fires) (auto simp: CheckFireConnector_cs_def)
  show "cs_ownSessionId m' = (if again then [] else cs_ownSessionId m)" "cs_isStopConnect m' = cs_isStopConnect m"
    "m_isExit (cs_base m') = m_isExit (cs_base m)" "cs_ip m' = cs_ip m" "cs_port m' = cs_port m"
    "cs_bConnectToServerRequest m' = (again \<or> cs_bConnectToServerRequest m)"
    "again \<Longrightarrow> cs_requestServerCreated m' = now"
    using assms(1) fire by (auto simp: m'_def again_def onDisconnected_cs_def OnFireConnector_cs_def Let_def)
qed

lemma Connect_sel:
  "\<not> m_isExit (cs_base m) \<Longrightarrow> cs_isStopConnect (Connect ip port m) = False"
  "cs_ownSessionId (Connect ip port m) = cs_ownSessionId m" "cs_base (Connect ip port m) = cs_base m"
  by (simp_all add: Connect_def Let_def)

lemma ManagerFunc_exit [simp]: "m_isExit (ManagerFunc t b) = m_isExit b"
  by (simp add: ManagerFunc_def ConnectToCoordinator_def)

text \<open>
  A client that loses its server forgets the session, waits ten seconds, then starts exactly
  one connection to the address it was connected to.
\<close>

lemma server_loss_reconnects:
  fixes now :: int and i connId accessId :: string and m :: cs_module
  assumes "mod_name (GetIPCName i) = m_serverIPCName" and "host_name (GetIPCName i) = cs_ownSessionId m"
    and "\<not> cs_isStopConnect m" and "\<not> m_isExit (cs_base m)"
  defines "m1 \<equiv> onDisconnected_cs now i connId accessId m"
  shows "cs_ownSessionId m1 = [] \<and>
    (\<forall>t. t - now < 10 \<longrightarrow> cs_trace (ManagerFunc_cs t m1) = cs_trace m1) \<and>
    (\<forall>t. 10 \<le> t - now \<longrightarrow>
      (\<exists>factory. cs_trace (ManagerFunc_cs t m1) = cs_trace m1 @ [ServerConnectStart factory \<lparr>ca_localIP = [], ca_localPort = 0,
          ca_id = ''Server'', ca_moduleName = ''Server'', ca_ip = cs_ip m, ca_port = Some (cs_port m)\<rparr>]) \<and>
      (\<forall>u. cs_trace (ManagerFunc_cs u (ManagerFunc_cs t m1)) = cs_trace (ManagerFunc_cs t m1)))"
proof -
  note d = onDisconnected_server [OF assms(1), where now = now and connId = connId and accessId = accessId and m = m, folded m1_def]
  have "\<not> m_isExit (cs_base m1)" "cs_bConnectToServerRequest m1" "cs_requestServerCreated m1 = now"
    "cs_ip m1 = cs_ip m" "cs_port m1 = cs_port m" "cs_ownSessionId m1 = []"
    using d assms(2-4) by simp_all
  then show ?thesis
    by (simp add: ManagerFunc_cs_def Let_def Connect_def m_connectTimeout_def m_serverIPCName_def)
qed

text \<open>
  An explicit disconnect leaves the session id behind, so the next login is answered by
  closing the connection: after \<open>Disconnect\<close>, the end of the connection and a new
  \<open>Connect\<close>, a successful login result stops the connection to the server and keeps the old
  session id.
\<close>

lemma login_after_disconnect_is_dropped:
  fixes now port :: int and i connId accessId ip :: string and m :: cs_module
  assumes "mod_name (GetIPCName i) = m_serverIPCName" and "cs_ownSessionId m \<noteq> []" and "lr_login_result msg = LOGIN_SUCCESS"
  defines "m1 \<equiv> Connect ip port (onDisconnected_cs now i connId accessId (Disconnect m))"
  shows "cs_trace (onLoginResult msg m1) = cs_trace m1 @ [ServerStopConnection ''Server''] \<and>
    cs_ownSessionId (onLoginResult msg m1) = cs_ownSessionId m"
proof -
  have "cs_ownSessionId m1 = cs_ownSessionId m"
    using onDisconnected_server(1) [OF assms(1), where now = now and connId = connId and accessId = accessId and m = "Disconnect m"]
    by (simp add: m1_def Connect_sel Disconnect_def Let_def)
  then show ?thesis using assms(2,3) by (simp add: onLoginResult_def m_serverIPCName_def)
qed

section \<open>A logged-in client\<close>

definition logged_in :: cs_module where
  "logged_in = onLoginResult \<lparr>lr_login_result = LOGIN_SUCCESS, lr_own_session_id = ''s42''\<rparr>
     (Connect ''10.0.0.1'' 5000 (ClientServerModule (local_name ''console'')))"

lemma logged_in_sel [simp]:
  "cs_ownSessionId logged_in = ''s42''" "cs_isStopConnect logged_in = False" "m_isExit (cs_base logged_in) = False"
  "cs_ip logged_in = ''10.0.0.1''" "cs_port logged_in = 5000"
  by (simp_all add: logged_in_def onLoginResult_def Connect_def Let_def ClientServerModule_def IPCModule_def)

lemma server_s42 [simp]: "GetIPCName ''Server.s42'' = IPCName ''Server'' ''s42'' []"
  using GetIPCName_GetModuleNameString [of "IPCName ''Server'' ''s42'' []"]
  by (simp add: printable_name_def dot_free_def GetModuleNameString_def)

end
