(* ===== verification/Client_Server_Login.thy ===== *)
theory Client_Server_Login
  imports Client_Server_Connector Client_Server_Properties Ipc_Connection
begin

text \<open>
  Login over a client-server connection: what a successful login leaves on both sides, and what
  a peer can do that never logs in.
\<close>

section \<open>Selectors\<close>

lemma cn_sel [simp]:
  "cn_self (cn_on_self f n) = f (cn_self n)" "cn_module (cn_on_self f n) = cn_module n"
  "cn_self (cn_on_module g n) = cn_self n" "cn_module (cn_on_module g n) = g (cn_module n)"
  "cn_cs_peers (cn_on_self f n) = cn_cs_peers n" "cn_cs_peers (cn_on_module g n) = cn_cs_peers n"
  by (simp_all add: cn_on_self_def cn_on_module_def)

lemma cc_sel [simp]:
  "cc_base (cc_emit e c) = cc_base c" "cc_userName (cc_emit e c) = cc_userName c" "cc_password (cc_emit e c) = cc_password c"
  "cc_ownSessionId (cc_emit e c) = cc_ownSessionId c" "cc_trace (cc_emit e c) = cc_trace c @ [e]"
  "cc_base (cc_set f c) = f (cc_base c)" "cc_userName (cc_set f c) = cc_userName c" "cc_password (cc_set f c) = cc_password c"
  "cc_ownSessionId (cc_set f c) = cc_ownSessionId c" "cc_trace (cc_set f c) = cc_trace c"
  by (simp_all add: cc_emit_def cc_set_def)

lemma on_node_sel [simp]:
  "cc_base (cn_self (on_node f n)) = nd_self (f (as_node n))" "cs_base (cn_module (on_node f n)) = nd_module (f (as_node n))"
  "cn_cs_peers (on_node f n) = cn_cs_peers n" "cc_ownSessionId (cn_self (on_node f n)) = cc_ownSessionId (cn_self n)"
  "cs_trace (cn_module (on_node f n)) = cs_trace (cn_module n)"
  by (simp_all add: on_node_def Let_def)

lemma as_node_sel [simp]:
  "nd_self (as_node n) = cc_base (cn_self n)" "nd_module (as_node n) = cs_base (cn_module n)" "nd_peers (as_node n) = cn_ipc_peers n"
  by (simp_all add: as_node_def)

section \<open>A successful login\<close>

lemma start_session_sel:
  fixes c :: cs_connector and sid a :: string and port :: int
  defines "c' \<equiv> start_session sid a port c" and "n \<equiv> IPCName (mod_name (c_moduleName (cc_base c))) sid []"
  shows "cc_ownSessionId c' = sid" "c_accessId (cc_base c') = a" "c_moduleName (cc_base c') = n"
    "cc_id c \<noteq> [] \<Longrightarrow> cc_id c' = GetModuleNameString (IPCName (cc_id c) sid [])"
    "c_isCoordinator (cc_base c') = c_isCoordinator (cc_base c)"
    "cc_trace c' = cc_trace c @ [Send (M_Ipc (M_ModuleName \<lparr>mn_ipc_name = n, mn_ip = [], mn_port = port,
       mn_access_id = a, mn_is_exist = False, mn_conn_id = []\<rparr>))]"
  by (simp_all add: c'_def n_def start_session_def SetId_def SetModuleName_def Let_def GetModuleNameString_def)


definition demo_client :: cs_node where
  "demo_client = \<lparr>cn_self = (ClientServerConnector ''Server'' (local_name ''Client'') ''g1'')\<lparr>cc_userName := ''ann'', cc_password := ''pw''\<rparr>,
     cn_module = ClientServerModule (local_name ''console''), cn_ipc_peers = [], cn_cs_peers = []\<rparr>"

definition demo_server :: cs_node where
  "demo_server = \<lparr>cn_self = ClientServerConnector ''Client'' (local_name ''Server'') ''g2'',
     cn_module = AddUser ''ann'' ''pw'' (ClientServerModule (local_name ''main'')), cn_ipc_peers = [], cn_cs_peers = []\<rparr>"

lemma demo_server_users: "cs_userPasswords (cn_module demo_server) = [UserPassword ''ann'' ''pw'']"
  by (simp add: demo_server_def AddUser_def ClientServerModule_def Let_def om_defs lower_bound_def)

lemma demo_nodes [simp]:
  "cc_id (cn_self demo_client) = ''Server''" "c_moduleName (cc_base (cn_self demo_client)) = local_name ''Client''"
  "cc_id (cn_self demo_server) = ''Client''" "c_moduleName (cc_base (cn_self demo_server)) = local_name ''Server''"
  "c_isCoordinator (cc_base (cn_self demo_client)) = False" "c_isCoordinator (cc_base (cn_self demo_server)) = False"
  "cc_userName (cn_self demo_client) = ''ann''" "cc_password (cn_self demo_client) = ''pw''"
  "c_accessId (cc_base (cn_self demo_server)) = []" "c_connectorId (cc_base (cn_self demo_server)) = []"
  "c_bConnected (cc_base (cn_self demo_server)) = False" "c_trace (cc_base (cn_self demo_server)) = []"
  by (simp_all add: demo_client_def demo_server_def ClientServerConnector_def IPCConnector_def)


section \<open>Without a login\<close>

text \<open>
  Login is not enforced. A server's connector of which nobody has logged in has no access
  id; a peer that sends \<open>ModuleName\<close> with an empty access id is not denied: it is entered among
  the connected modules, the connection counts as connected, and the module is told of a new
  client.
\<close>

lemma unauthenticated_peer_connects:
  fixes n :: cs_node and msg :: module_name_message
  assumes "ipc_reachable checkFire (cs_base (cn_module n))" and "c_accessId (cc_base (cn_self n)) = []"
    and "\<not> c_isCoordinator (cc_base (cn_self n))" and "mn_access_id msg = []"
    and "printable_name (mn_ipc_name msg)" and "mod_name (mn_ipc_name msg) = ''Client''"
    and "mn_ipc_name msg \<notin> set (GetConnectedModules (cs_base (cn_module n)))"
  defines "n' \<equiv> onMessage_ModuleName_cc msg n"
  shows "c_bConnected (cc_base (cn_self n')) \<and> mn_ipc_name msg \<in> set (GetConnectedModules (cs_base (cn_module n'))) \<and>
    cs_trace (cn_module n') = cs_trace (cn_module n) @ [OnClientConnector (host_name (mn_ipc_name msg))] \<and>
    count_list (c_trace (cc_base (cn_self n'))) StopSocket = count_list (c_trace (cc_base (cn_self n))) StopSocket"
proof -
  let ?c = "check_access msg (as_node n)" and ?name = "mn_ipc_name msg"
  have inv: "ipc_inv (nd_module ?c)" using assms(1) by (simp add: ipc_reachable_inv)
  note r = register_module_sel [OF inv, of msg]
  have known: "obj_lookup (m_modules (cs_base (cn_module n))) ?name = None"
    using assms(7) by (simp add: GetConnectedModules_def om_lookup_None_iff)
  have here: "?name \<in> m_ipcName ` set (m_modules (nd_module (fst (register_module msg ?c))))"
    using r(7) by (simp add: om_lookup_None_iff)
  have parse: "GetIPCName (GetModuleNameString ?name) = ?name" using assms(5) by (rule GetIPCName_GetModuleNameString)
  have open_door: "\<not> access_denied msg (as_node n)" using assms(2,4) by (simp add: access_denied_def)
  show ?thesis
    using here known open_door assms(6)
    by (simp add: n'_def onMessage_ModuleName_cc_def handle_ModuleName_def case_prod_beta Let_def r parse
        OnConnected_cc_def onConnected_cs_def m_clientIPCName_def m_serverIPCName_def check_access_trace GetConnectedModules_def)
qed

end
