(* ===== verification/Std_Map.thy ===== *)
theory Std_Map
  imports Prelude "HOL-Library.Multiset"
begin

text \<open>
  \<open>std::map\<close>, which several components keep: looking up, inserting, erasing and changing, what
  stays sorted, and sums over the entries.
\<close>

text \<open>\<open>std::map\<close>: an association list in the order of its keys.\<close>

definition map_insert :: "'k::linorder \<Rightarrow> 'v \<Rightarrow> ('k \<times> 'v) list \<Rightarrow> ('k \<times> 'v) list" where
  "map_insert k v m = insort_insert_key fst (k, v) m"

definition map_erase :: "'k::linorder \<Rightarrow> ('k \<times> 'v) list \<Rightarrow> ('k \<times> 'v) list" where
  "map_erase k m = filter (\<lambda>(k', v). k' \<noteq> k) m"

definition map_change :: "'k::linorder \<Rightarrow> ('v \<Rightarrow> 'v) \<Rightarrow> ('k \<times> 'v) list \<Rightarrow> ('k \<times> 'v) list" where
  "map_change k f m = map (\<lambda>(k', v). (k', if k' = k then f v else v)) m"

lemma map_of_insert [simp]:
  "map_of (map_insert k v m) = (if map_of m k = None then (map_of m)(k \<mapsto> v) else map_of m)"
proof -
  have "map_of (insort_key fst (k, v) m) = (map_of m)(k \<mapsto> v)" if "k \<notin> fst ` set m"
    using that by (induction m) (auto simp: fun_eq_iff)
  then show ?thesis
    by (auto simp: map_insert_def insort_insert_key_def map_of_eq_None_iff)
qed

lemma map_of_erase [simp]: "map_of (map_erase k m) = (map_of m)(k := None)"
  by (induction m) (auto simp: map_erase_def fun_eq_iff)

lemma map_of_change [simp]:
  "map_of (map_change k f m) k' = (if k' = k then map_option f (map_of m k) else map_of m k')"
  by (induction m) (auto simp: map_change_def)

definition map_ok :: "('k::linorder \<times> 'v) list \<Rightarrow> bool" where
  "map_ok m \<longleftrightarrow> sorted_wrt (<) (map fst m)"

lemma map_ok_distinct: "map_ok m \<Longrightarrow> distinct (map fst m)"
  by (simp add: map_ok_def strict_sorted_iff)

lemma map_ok_Nil [simp]: "map_ok []" by (simp add: map_ok_def)

lemma map_ok_erase [intro]: "map_ok m \<Longrightarrow> map_ok (map_erase k m)"
  by (induction m) (auto simp: map_ok_def map_erase_def)

lemma map_ok_change [simp]: "map_ok (map_change k f m) = map_ok m"
  by (simp add: map_ok_def map_change_def comp_def case_prod_beta)

lemma map_ok_insert [intro]:
  assumes "map_ok m" shows "map_ok (map_insert k v m)"
proof -
  have "map_ok (insort_key fst (k, v) m)" if "k \<notin> fst ` set m"
    using assms that by (induction m) (auto simp: map_ok_def set_insort_key)
  then show ?thesis using assms by (auto simp: map_insert_def insort_insert_key_def)
qed

lemma map_insert_keys: "fst ` set (map_insert k v m) = insert k (fst ` set m)"
  by (auto simp: map_insert_def insort_insert_key_def set_insort_key)

lemma map_insert_present: "map_of m k \<noteq> None \<Longrightarrow> map_insert k v m = m"
  by (simp add: map_insert_def insort_insert_key_def map_of_eq_None_iff)

text \<open>What an entry contributes to a multiset, and how the operations on the map change it.\<close>

definition msum :: "('v \<Rightarrow> 'a multiset) \<Rightarrow> ('k::linorder \<times> 'v) list \<Rightarrow> 'a multiset" where
  "msum f m = sum_list (map (f \<circ> snd) m)"

lemma msum_Nil [simp]: "msum f [] = {#}"
  by (simp add: msum_def)

lemma msum_Cons [simp]: "msum f (kv # m) = f (snd kv) + msum f m"
  by (simp add: msum_def)

lemma msum_insert: "map_of m k = None \<Longrightarrow> msum f (map_insert k v m) = f v + msum f m"
proof -
  have "msum f (insort_key fst (k, v) m) = f v + msum f m"
    by (induction m) (auto simp: msum_def union_lcomm)
  then show "map_of m k = None \<Longrightarrow> ?thesis"
    by (auto simp: map_insert_def insort_insert_key_def map_of_eq_None_iff)
qed

lemma map_erase_absent: "map_of m k = None \<Longrightarrow> map_erase k m = m"
  by (induction m) (auto simp: map_erase_def split: if_splits)

lemma map_change_absent: "map_of m k = None \<Longrightarrow> map_change k f m = m"
  by (induction m) (auto simp: map_change_def split: if_splits)

lemma msum_erase:
  "map_ok m \<Longrightarrow> map_of m k = Some v \<Longrightarrow> msum f m = f v + msum f (map_erase k m)"
proof (induction m)
  case (Cons kv m)
  show ?case
  proof (cases "fst kv = k")
    case True
    then have "map_of m k = None" using Cons.prems(1)
      by (force dest!: map_ok_distinct simp: map_of_eq_None_iff image_iff)
    then have "map_erase k m = m" by (rule map_erase_absent)
    with True Cons.prems(2) show ?thesis by (auto simp: map_erase_def)
  next
    case False
    then have "map_of m k = Some v" using Cons.prems(2) by (cases kv) auto
    moreover have "map_ok m" using Cons.prems(1) by (simp add: map_ok_def)
    ultimately have "msum f m = f v + msum f (map_erase k m)" using Cons.IH by simp
    with False show ?thesis by (cases kv) (auto simp: map_erase_def)
  qed
qed simp

lemma msum_change:
  "map_ok m \<Longrightarrow> map_of m k = Some v \<Longrightarrow> msum f (map_change k g m) = f (g v) + msum f (map_erase k m)"
proof (induction m)
  case (Cons kv m)
  show ?case
  proof (cases "fst kv = k")
    case True
    then have "map_of m k = None" using Cons.prems(1)
      by (force dest!: map_ok_distinct simp: map_of_eq_None_iff image_iff)
    then have "map_erase k m = m" "map_change k g m = m"
      by (rule map_erase_absent map_change_absent)+
    with True Cons.prems(2) show ?thesis
      by (cases kv) (auto simp: map_erase_def map_change_def)
  next
    case False
    then have "map_of m k = Some v" using Cons.prems(2) by (cases kv) auto
    moreover have "map_ok m" using Cons.prems(1) by (simp add: map_ok_def)
    ultimately have "msum f (map_change k g m) = f (g v) + msum f (map_erase k m)" using Cons.IH by simp
    with False show ?thesis by (cases kv) (auto simp: map_erase_def map_change_def)
  qed
qed simp

end
