(* ===== verification/Tunnel_Module.thy ===== *)
theory Tunnel_Module
  imports Client_Server_Connector Std_Map "HOL-Library.Product_Lexorder"
begin

text \<open>
  The class \<open>TunnelModule\<close> (\<open>tunnel_lib/module/tunnel_module.cpp\<close>) and its containers
  (\<open>tunnel_containers.cpp\<close>): a client-server module whose clients set up direct or relayed
  connections to each other, with the server's help. Threads and sockets the module holds are
  numbered as they are created; what is done to them, and what is signalled, is appended to
  \<open>tm_trace\<close>. The time, the local addresses and the port the system binds are arguments.
  A call through a null pointer is \<^const>\<open>None\<close>. Logging is left out.
\<close>

section \<open>Containers\<close>

text \<open>Pairs of sessions, without order.\<close>

definition PeerType_eq :: "'a peer_data_scheme \<Rightarrow> 'a peer_data_scheme \<Rightarrow> bool" where
  "PeerType_eq a b \<longleftrightarrow>
     pd_one_session_id a = pd_one_session_id b \<and> pd_two_session_id a = pd_two_session_id b \<or>
     pd_one_session_id a = pd_two_session_id b \<and> pd_two_session_id a = pd_one_session_id b"

definition PeerType_lt :: "'a peer_data_scheme \<Rightarrow> 'a peer_data_scheme \<Rightarrow> bool" where
  "PeerType_lt a b =
     (let (oneSessionId, twoSessionId) =
            (if pd_one_session_id a < pd_two_session_id a then (pd_one_session_id a, pd_two_session_id a)
             else (pd_two_session_id a, pd_one_session_id a));
          (otherOneSessionId, otherTwoSessionId) =
            (if pd_one_session_id b < pd_two_session_id b then (pd_one_session_id b, pd_two_session_id b)
             else (pd_two_session_id b, pd_one_session_id b))
      in if oneSessionId = otherOneSessionId then twoSessionId < otherTwoSessionId
         else oneSessionId < otherOneSessionId)"

record tunnel_step = peer_data +
  ts_creationTime :: int

definition TunnelStep :: "int \<Rightarrow> peer_data \<Rightarrow> tunnel_step" where
  "TunnelStep now d = \<lparr>pd_one_session_id = pd_one_session_id d, pd_two_session_id = pd_two_session_id d,
     pd_type = pd_type d, ts_creationTime = now\<rparr>"

definition AvailableTypes_eq :: "available_types \<Rightarrow> available_types \<Rightarrow> bool" where
  "AvailableTypes_eq a b \<longleftrightarrow> at_session_id a = at_session_id b"

definition AvailableTypes_lt :: "available_types \<Rightarrow> available_types \<Rightarrow> bool" where
  "AvailableTypes_lt a b \<longleftrightarrow> at_session_id a < at_session_id b"

definition pair_key :: "string \<Rightarrow> string \<Rightarrow> string \<times> string" where
  "pair_key a b = (min a b, max a b)"

definition peer_key :: "'a peer_data_scheme \<Rightarrow> string \<times> string" where
  "peer_key d = pair_key (pd_one_session_id d) (pd_two_session_id d)"

lemma pair_key_commute: "pair_key a b = pair_key b a"
  by (simp add: pair_key_def min.commute max.commute)

lemma pair_key_eq_iff: "pair_key a b = pair_key c d \<longleftrightarrow> a = c \<and> b = d \<or> a = d \<and> b = c"
  by (auto simp: pair_key_def min_def max_def)

lemma PeerType_eq_key: "PeerType_eq a b \<longleftrightarrow> peer_key a = peer_key b"
  by (auto simp: PeerType_eq_def peer_key_def pair_key_eq_iff)

lemma PeerType_lt_key: "PeerType_lt a b \<longleftrightarrow> peer_key a < peer_key b"
proof -
  have p: "(if x < y then (x, y) else (y, x)) = pair_key x y" for x y :: string
    by (auto simp: pair_key_def min_def max_def)
  have "PeerType_lt a b = (case peer_key a of (x, y) \<Rightarrow> case peer_key b of (x', y') \<Rightarrow> if x = x' then y < y' else x < x')"
    unfolding PeerType_lt_def p peer_key_def Let_def ..
  also have "\<dots> = (peer_key a < peer_key b)"
    by (cases "peer_key a"; cases "peer_key b") auto
  finally show ?thesis .
qed

interpretation pts: ordered_object "PeerType_lt :: peer_data \<Rightarrow> peer_data \<Rightarrow> bool" PeerType_eq peer_key
  by unfold_locales (simp_all add: PeerType_lt_key PeerType_eq_key)

interpretation tss: ordered_object "PeerType_lt :: tunnel_step \<Rightarrow> tunnel_step \<Rightarrow> bool" PeerType_eq peer_key
  by unfold_locales (simp_all add: PeerType_lt_key PeerType_eq_key)

interpretation ats: ordered_object AvailableTypes_lt AvailableTypes_eq at_session_id
  by unfold_locales (simp_all add: AvailableTypes_lt_def AvailableTypes_eq_def)

section \<open>State\<close>

definition m_tunnelIPCName :: string where
  "m_tunnelIPCName = ''Tunnel''"

definition m_tunnelAccessId :: string where
  "m_tunnelAccessId = m_tunnelIPCName"

datatype type_connection = UNKNOWN | LOCAL_TCP | LOCAL_UDP | EXTERNAL | RELAY_TCP | RELAY_UDP

record server_listen_address =
  sa_localIP :: string
  sa_localPort :: int
  sa_sessionIdOne :: string
  sa_sessionIdTwo :: string
  sa_id :: string

datatype tunnel_thread =
    LocalListenThread listen_address
  | ExternalConnectThread connect_address
  | ExternalListenThread server_listen_address
  | RelayListenThread bool server_listen_address

datatype connect_factory = TCPSecure | TCPSecureProxy string int user_password | UDTSecure | UDTOver nat

datatype tm_effect =
    ModuleSignal cs_msg
  | ThreadStarted nat tunnel_thread
  | ThreadStopped nat
  | ThreadToManager nat
  | AddressChanged nat connect_address
  | ConnectThreadStarted connect_factory connect_address
  | SocketCreated nat
  | SocketClosed nat
  | TypeSet nat type_connection
  | ConnectorToManager nat
  | ConnectorStarted nat
  | StopTunnelConnection string
  | TunnelConnectFailed string
  | TunnelConnected string type_connection

record tunnel_connect =
  tn_localListenThread :: "nat option"
  tn_localUdpSocket :: "nat option"
  tn_externalConnectThread :: "nat option"
  tn_sessionId :: string
  tn_creationTime :: int

definition TunnelConnect :: "int \<Rightarrow> string \<Rightarrow> tunnel_connect" where
  "TunnelConnect now sessionId = \<lparr>tn_localListenThread = None, tn_localUdpSocket = None,
     tn_externalConnectThread = None, tn_sessionId = sessionId, tn_creationTime = now\<rparr>"

record tunnel_server =
  tv_thread :: "nat option"
  tv_sessionIdOne :: string
  tv_sessionIdTwo :: string
  tv_creationTime :: int

definition TunnelServer :: "int \<Rightarrow> string \<Rightarrow> string \<Rightarrow> tunnel_server" where
  "TunnelServer now one two = \<lparr>tv_thread = None, tv_sessionIdOne = one, tv_sessionIdTwo = two, tv_creationTime = now\<rparr>"

record tunnel_module =
  tm_base :: cs_module
  tm_tunnels :: "(string \<times> tunnel_connect) list"
  tm_servers :: "(string \<times> tunnel_server) list"
  tm_availablePeerTypes :: "available_types list"
  tm_typePeers :: "peer_data list"
  tm_tunnelsStep :: "tunnel_step list"
  tm_next :: nat
  tm_trace :: "tm_effect list"

definition TunnelModule :: "ipc_name \<Rightarrow> tunnel_module" where
  "TunnelModule n = \<lparr>tm_base = ClientServerModule n, tm_tunnels = [], tm_servers = [], tm_availablePeerTypes = [],
     tm_typePeers = [], tm_tunnelsStep = [], tm_next = 0, tm_trace = []\<rparr>"

definition tm_emit :: "tm_effect list \<Rightarrow> tunnel_module \<Rightarrow> tunnel_module" where
  "tm_emit es m = m\<lparr>tm_trace := tm_trace m @ es\<rparr>"

abbreviation tm_ownSessionId :: "tunnel_module \<Rightarrow> string" where
  "tm_ownSessionId m \<equiv> cs_ownSessionId (tm_base m)"

text \<open>\<open>Stop ()\<close>, then \<open>ThreadManager::AddThread\<close>, for a pointer that may be null.\<close>

definition stop_thread :: "nat option \<Rightarrow> tm_effect list" where
  "stop_thread t = (case t of None \<Rightarrow> [] | Some i \<Rightarrow> [ThreadStopped i, ThreadToManager i])"

text \<open>The destructors.\<close>

definition TunnelConnect_destroy :: "tunnel_connect \<Rightarrow> tm_effect list" where
  "TunnelConnect_destroy t = stop_thread (tn_localListenThread t) @ stop_thread (tn_externalConnectThread t) @
     (case tn_localUdpSocket t of None \<Rightarrow> [] | Some s \<Rightarrow> [SocketClosed s])"

definition TunnelServer_destroy :: "tunnel_server \<Rightarrow> tm_effect list" where
  "TunnelServer_destroy t = stop_thread (tv_thread t)"

definition TunnelModule_destroy :: "tunnel_module \<Rightarrow> tunnel_module" where
  "TunnelModule_destroy m =
     (tm_emit (concat (map (TunnelConnect_destroy \<circ> snd) (tm_tunnels m)) @
        concat (map (TunnelServer_destroy \<circ> snd) (tm_servers m))) m)\<lparr>tm_tunnels := [], tm_servers := []\<rparr>"

section \<open>Operations\<close>

definition tunnel_type_of :: "type_connection \<Rightarrow> tunnel_type" where
  "tunnel_type_of type =
     (case type of LOCAL_TCP \<Rightarrow> TUNNEL_LOCAL_TCP | LOCAL_UDP \<Rightarrow> TUNNEL_LOCAL_UDP | EXTERNAL \<Rightarrow> TUNNEL_EXTERNAL
      | RELAY_TCP \<Rightarrow> TUNNEL_RELAY_TCP | RELAY_UDP \<Rightarrow> TUNNEL_RELAY_UDP | UNKNOWN \<Rightarrow> TUNNEL_ALL)"

definition InitNewTunnel :: "string \<Rightarrow> type_connection \<Rightarrow> tunnel_module \<Rightarrow> tunnel_module" where
  "InitNewTunnel extSessionId type m =
     (if obj_get (IPCObject (IPCName m_tunnelIPCName extSessionId [])) (m_modules (cs_base (tm_base m))) \<noteq> None
      then tm_emit [TunnelConnectFailed extSessionId] m
      else
        let own = tm_ownSessionId m;
            m = (if type \<noteq> UNKNOWN
                 then tm_emit [ModuleSignal (M_PeerData \<lparr>pd_one_session_id = own, pd_two_session_id = extSessionId,
                        pd_type = Some (tunnel_type_of type)\<rparr>)] m
                 else m)
        in tm_emit [ModuleSignal (M_InitTunnel \<lparr>it_ext_session_id = extSessionId, it_own_session_id = own, it_type = None,
             it_address = Some \<lparr>ta_ip = cs_ip (tm_base m), ta_port = 0\<rparr>\<rparr>)] m)"

definition DestroyTunnel :: "string \<Rightarrow> tunnel_module \<Rightarrow> tunnel_module" where
  "DestroyTunnel extSessionId m = tm_emit [StopTunnelConnection extSessionId] m"

definition SetTypeTunnel :: "string \<Rightarrow> string \<Rightarrow> type_connection \<Rightarrow> tunnel_module \<Rightarrow> tunnel_module" where
  "SetTypeTunnel oneSessionId twoSessionId type m =
     (let asked = \<lparr>pd_one_session_id = oneSessionId, pd_two_session_id = twoSessionId, pd_type = None\<rparr>
      in case GetObject PeerType_lt PeerType_eq asked (tm_typePeers m) of
           Some peerData \<Rightarrow> m\<lparr>tm_typePeers := fst (UpdateObject PeerType_lt PeerType_eq
                               (peerData\<lparr>pd_type := Some (tunnel_type_of type)\<rparr>) (tm_typePeers m))\<rparr>
         | None \<Rightarrow> m\<lparr>tm_typePeers := fst (AddObject PeerType_lt PeerType_eq
                               (asked\<lparr>pd_type := Some (tunnel_type_of type)\<rparr>) (tm_typePeers m))\<rparr>)"

definition SetTunnelAvailableType :: "tunnel_type list \<Rightarrow> tunnel_module \<Rightarrow> tunnel_module" where
  "SetTunnelAvailableType types m =
     tm_emit [ModuleSignal (M_AvailablePearTypes \<lparr>at_session_id = tm_ownSessionId m, at_types = types\<rparr>)] m"

definition CheckTunnelAvailableType :: "tunnel_module \<Rightarrow> string \<Rightarrow> tunnel_type \<Rightarrow> bool" where
  "CheckTunnelAvailableType m session_id type =
     (case GetObject AvailableTypes_lt AvailableTypes_eq \<lparr>at_session_id = session_id, at_types = []\<rparr> (tm_availablePeerTypes m) of
        Some types \<Rightarrow> type \<in> set (at_types types)
      | None \<Rightarrow> True)"

text \<open>
  Erasing from the vector moves the rest down by one while the iterator moves on by one, and
  the loop moves it on by one more: the two elements after an erased one are skipped, and with
  fewer than two left the iterator runs past the end. An iterator is the position it points
  at, as in every implementation, although the standard calls it invalid after \<open>erase\<close>.
\<close>

fun fill_tunnel_loop :: "ipc_object list \<Rightarrow> ipc_object list option" where
  "fill_tunnel_loop [] = Some []"
| "fill_tunnel_loop (it # its) =
     (if mod_name (m_ipcName it) = m_tunnelIPCName
      then (case its of
              x # y # rest \<Rightarrow> map_option (\<lambda>r. x # y # r) (fill_tunnel_loop rest)
            | _ \<Rightarrow> None)
      else map_option (Cons it) (fill_tunnel_loop its))"

definition FillIPCObjectList_tm :: "ipc_object list \<Rightarrow> ipc_object list option" where
  "FillIPCObjectList_tm ipcList = Option.bind (fill_tunnel_loop ipcList) FillIPCObjectList_cs"

section \<open>Threads of a client's tunnel\<close>

definition set_tunnel :: "string \<Rightarrow> (tunnel_connect \<Rightarrow> tunnel_connect) \<Rightarrow> tunnel_module \<Rightarrow> tunnel_module" where
  "set_tunnel k f m = m\<lparr>tm_tunnels := map_change k f (tm_tunnels m)\<rparr>"

abbreviation find_tunnel :: "tunnel_module \<Rightarrow> string \<Rightarrow> tunnel_connect option" where
  "find_tunnel m k \<equiv> map_of (tm_tunnels m) k"

abbreviation find_server :: "tunnel_module \<Rightarrow> string \<Rightarrow> tunnel_server option" where
  "find_server m k \<equiv> map_of (tm_servers m) k"

definition CreateLocalListenThread :: "string \<Rightarrow> tunnel_module \<Rightarrow> tunnel_module" where
  "CreateLocalListenThread extSessionId m =
     (case find_tunnel m extSessionId of
        None \<Rightarrow> m
      | Some tunnel \<Rightarrow>
          let address = \<lparr>la_id = extSessionId, la_localIP = [], la_localPort = Some 0, la_acceptCount = 1\<rparr>;
              thread = tm_next m;
              m = tm_emit (stop_thread (tn_localListenThread tunnel)) m;
              m = set_tunnel extSessionId (\<lambda>t. t\<lparr>tn_localListenThread := Some thread\<rparr>) m
          in tm_emit [ThreadStarted thread (LocalListenThread address)] (m\<lparr>tm_next := Suc thread\<rparr>))"

definition local_addresses :: "string list \<Rightarrow> int \<Rightarrow> tunnel_address list" where
  "local_addresses ips port = map (\<lambda>ip. \<lparr>ta_ip = ip, ta_port = port\<rparr>) ips"

text \<open>\<open>bound\<close>: the port the system gives the socket, if it can be bound.\<close>

definition CreateLocalUDPSocket :: "string list \<Rightarrow> int option \<Rightarrow> string \<Rightarrow> tunnel_module \<Rightarrow> tunnel_module" where
  "CreateLocalUDPSocket ips bound extSessionId m =
     (case find_tunnel m extSessionId of
        None \<Rightarrow> m
      | Some tunnel \<Rightarrow>
          let socket = tm_next m;
              m = tm_emit [SocketCreated socket] (m\<lparr>tm_next := Suc socket\<rparr>);
              m = set_tunnel extSessionId (\<lambda>t. t\<lparr>tn_localUdpSocket := Some socket\<rparr>) m
          in case bound of
               None \<Rightarrow> m
             | Some port \<Rightarrow> tm_emit [ModuleSignal (M_TryConnectTo \<lparr>tc_ext_session_id = extSessionId,
                 tc_own_session_id = tm_ownSessionId m, tc_type = TUNNEL_LOCAL_UDP,
                 tc_adresses = local_addresses ips port\<rparr>)] m)"

definition connect_factory :: "tunnel_module \<Rightarrow> connect_factory" where
  "connect_factory m =
     (let b = tm_base m
      in if cs_isUseProxy b then TCPSecureProxy (cs_proxyIp b) (cs_proxyPort b) (cs_proxyUserPassword b) else TCPSecure)"

definition tunnel_address_of :: "string \<Rightarrow> string \<Rightarrow> string \<Rightarrow> int \<Rightarrow> connect_address" where
  "tunnel_address_of extSessionId moduleName ip port = \<lparr>ca_localIP = [], ca_localPort = 0, ca_id = extSessionId,
     ca_moduleName = moduleName, ca_ip = ip, ca_port = Some port\<rparr>"

definition CreateLocalConnectThread :: "string \<Rightarrow> string \<Rightarrow> int \<Rightarrow> bool \<Rightarrow> tunnel_module \<Rightarrow> tunnel_module option" where
  "CreateLocalConnectThread extSessionId ip port isTCP m =
     (case find_tunnel m extSessionId of
        None \<Rightarrow> Some m
      | Some tunnel \<Rightarrow>
          let address = tunnel_address_of extSessionId extSessionId ip port
          in if isTCP then Some (tm_emit [ConnectThreadStarted (connect_factory m) address] m)
             else (case tn_localUdpSocket tunnel of
                     None \<Rightarrow> None
                   | Some s \<Rightarrow> Some (tm_emit [ConnectThreadStarted (UDTOver s) address] m)))"

definition InitExternalConnectThread :: "string \<Rightarrow> string \<Rightarrow> int \<Rightarrow> tunnel_module \<Rightarrow> tunnel_module" where
  "InitExternalConnectThread extSessionId ip port m =
     (case find_tunnel m extSessionId of
        None \<Rightarrow> m
      | Some tunnel \<Rightarrow>
          let address = tunnel_address_of extSessionId (tm_ownSessionId m) ip port;
              thread = tm_next m;
              m = tm_emit (stop_thread (tn_externalConnectThread tunnel)) m;
              m = set_tunnel extSessionId (\<lambda>t. t\<lparr>tn_externalConnectThread := Some thread\<rparr>) m
          in tm_emit [ThreadStarted thread (ExternalConnectThread address)] (m\<lparr>tm_next := Suc thread\<rparr>))"

definition CreateExternalConnectThread :: "string \<Rightarrow> string \<Rightarrow> int \<Rightarrow> tunnel_module \<Rightarrow> tunnel_module option" where
  "CreateExternalConnectThread extSessionId ip port m =
     (case find_tunnel m extSessionId of
        None \<Rightarrow> Some m
      | Some tunnel \<Rightarrow>
          (case tn_externalConnectThread tunnel of
             None \<Rightarrow> None
           | Some thread \<Rightarrow>
               Some (tm_emit [AddressChanged thread (tunnel_address_of extSessionId extSessionId ip port)] m)))"

definition CreateRelayConnectThread :: "string \<Rightarrow> string \<Rightarrow> int \<Rightarrow> bool \<Rightarrow> tunnel_module \<Rightarrow> tunnel_module" where
  "CreateRelayConnectThread extSessionId ip port isTCP m =
     (case find_tunnel m extSessionId of
        None \<Rightarrow> m
      | Some tunnel \<Rightarrow>
          tm_emit [ConnectThreadStarted (if isTCP then connect_factory m else UDTSecure)
            (tunnel_address_of extSessionId extSessionId ip port)] m)"

section \<open>The checker thread\<close>

fun check_tunnels_loop :: "int \<Rightarrow> (string \<times> tunnel_connect) list \<Rightarrow> (string \<times> tunnel_connect) list \<times> tm_effect list" where
  "check_tunnels_loop now [] = ([], [])"
| "check_tunnels_loop now ((sessionId, t) # it) =
     (let (kept, es) = check_tunnels_loop now it
      in if now - tn_creationTime t > 60
         then (kept, TunnelConnect_destroy t @ [TunnelConnectFailed sessionId] @ es)
         else ((sessionId, t) # kept, es))"

fun check_servers_loop :: "int \<Rightarrow> (string \<times> tunnel_server) list \<Rightarrow> (string \<times> tunnel_server) list \<times> tm_effect list" where
  "check_servers_loop now [] = ([], [])"
| "check_servers_loop now ((i, t) # it) =
     (let (kept, es) = check_servers_loop now it
      in if now - tv_creationTime t > 60 then (kept, TunnelServer_destroy t @ es) else ((i, t) # kept, es))"

fun check_steps_loop :: "int \<Rightarrow> tunnel_step list \<Rightarrow> tunnel_step list \<Rightarrow> tunnel_step list" where
  "check_steps_loop now [] steps = steps"
| "check_steps_loop now (it # its) steps =
     check_steps_loop now its
       (if now - ts_creationTime it > 60 then fst (RemoveObject PeerType_lt PeerType_eq it steps) else steps)"

definition CheckTunnels :: "int \<Rightarrow> tunnel_module \<Rightarrow> tunnel_module" where
  "CheckTunnels now m =
     (let (tunnels, es) = check_tunnels_loop now (tm_tunnels m);
          (servers, es') = check_servers_loop now (tm_servers m)
      in tm_emit (es @ es') (m\<lparr>tm_tunnels := tunnels, tm_servers := servers,
           tm_tunnelsStep := check_steps_loop now (tm_tunnelsStep m) (tm_tunnelsStep m)\<rparr>))"

definition TunnelChecker_ManagerFunc :: "bool \<Rightarrow> int \<Rightarrow> tunnel_module \<Rightarrow> tunnel_module" where
  "TunnelChecker_ManagerFunc isStop now m = (if \<not> isStop then CheckTunnels now m else m)"

end
