(* ===== verification/Tunnel_Handlers.thy ===== *)
theory Tunnel_Handlers
  imports Tunnel_Module
begin

text \<open>
  What a tunnel module does with the messages and signals of its connections and threads:
  \<open>ClientSignalHandler\<close> (\<open>tunnel_lib/module/client_signal_handler.cpp\<close>) on the client side,
  \<open>ServerSignalHandler\<close> (\<open>server_signal_handler.cpp\<close>) on the server side. Fresh GUIDs, the
  time, local addresses and bound ports are arguments.
\<close>

section \<open>The client\<close>

definition it_port :: "init_tunnel \<Rightarrow> int" where
  "it_port msg = (case it_address msg of None \<Rightarrow> 0 | Some a \<Rightarrow> ta_port a)"

definition onInitTunnel_client :: "string list \<Rightarrow> int option \<Rightarrow> init_tunnel \<Rightarrow> tunnel_module \<Rightarrow> tunnel_module" where
  "onInitTunnel_client ips bound msg m =
     (case it_type msg of
        None \<Rightarrow> m
      | Some type \<Rightarrow>
          if type = TUNNEL_LOCAL_TCP then CreateLocalListenThread (it_ext_session_id msg) m
          else if type = TUNNEL_LOCAL_UDP then CreateLocalUDPSocket ips bound (it_ext_session_id msg) m
          else if type = TUNNEL_EXTERNAL then InitExternalConnectThread (it_ext_session_id msg) (cs_ip (tm_base m)) (it_port msg) m
          else if type = TUNNEL_RELAY_TCP then CreateRelayConnectThread (it_ext_session_id msg) (cs_ip (tm_base m)) (it_port msg) True m
          else if type = TUNNEL_RELAY_UDP then CreateRelayConnectThread (it_ext_session_id msg) (cs_ip (tm_base m)) (it_port msg) False m
          else m)"

fun try_addresses :: "(tunnel_address \<Rightarrow> tunnel_module \<Rightarrow> tunnel_module option) \<Rightarrow> tunnel_address list \<Rightarrow> tunnel_module \<Rightarrow> tunnel_module option" where
  "try_addresses f [] m = Some m"
| "try_addresses f (a # as) m = Option.bind (f a m) (try_addresses f as)"

definition onTryConnectTo :: "try_connect_to \<Rightarrow> tunnel_module \<Rightarrow> tunnel_module option" where
  "onTryConnectTo msg m =
     (if tc_type msg = TUNNEL_LOCAL_TCP \<or> tc_type msg = TUNNEL_LOCAL_UDP
      then try_addresses (\<lambda>a. CreateLocalConnectThread (tc_ext_session_id msg) (ta_ip a) (ta_port a) (tc_type msg = TUNNEL_LOCAL_TCP))
             (tc_adresses msg) m
      else if tc_type msg = TUNNEL_EXTERNAL
      then try_addresses (\<lambda>a. CreateExternalConnectThread (tc_ext_session_id msg) (ta_ip a) (ta_port a)) (tc_adresses msg) m
      else Some m)"

definition onInitTunnelStarted :: "int \<Rightarrow> session_pair \<Rightarrow> tunnel_module \<Rightarrow> tunnel_module" where
  "onInitTunnelStarted now msg m =
     (case find_tunnel m (sp_ext_session_id msg) of
        None \<Rightarrow> m\<lparr>tm_tunnels := map_insert (sp_ext_session_id msg) (TunnelConnect now (sp_ext_session_id msg)) (tm_tunnels m)\<rparr>
      | Some _ \<Rightarrow> m)"

definition onCreatedLocalListener :: "string list \<Rightarrow> string \<Rightarrow> int \<Rightarrow> tunnel_module \<Rightarrow> tunnel_module" where
  "onCreatedLocalListener ips i port m =
     tm_emit [ModuleSignal (M_TryConnectTo \<lparr>tc_ext_session_id = i, tc_own_session_id = tm_ownSessionId m,
       tc_type = TUNNEL_LOCAL_TCP, tc_adresses = local_addresses ips port\<rparr>)] m"

definition onErrorLocalListener :: "string \<Rightarrow> tunnel_module \<Rightarrow> tunnel_module option" where
  "onErrorLocalListener i m =
     (case find_tunnel m i of
        None \<Rightarrow> Some m
      | Some tunnel \<Rightarrow>
          (case tn_localListenThread tunnel of
             None \<Rightarrow> None
           | Some thread \<Rightarrow> Some (set_tunnel i (\<lambda>t. t\<lparr>tn_localListenThread := None\<rparr>) (tm_emit (stop_thread (Some thread)) m))))"

text \<open>
  A new connector \<open>c\<close> with the id \<open>i\<close>; \<open>isTunnel\<close> says whether it is a \<open>TunnelConnector\<close>,
  whose kind of connection is then set, \<open>isIpc\<close> whether it is an \<open>IPCConnector\<close>.
\<close>

definition add_tunnel_connector :: "type_connection \<Rightarrow> nat \<Rightarrow> bool \<Rightarrow> bool \<Rightarrow> string \<Rightarrow> tunnel_module \<Rightarrow> tunnel_module" where
  "add_tunnel_connector type c isTunnel isIpc guid m =
     (let m = (if isTunnel then tm_emit [TypeSet c type] m else m)
      in m\<lparr>tm_base := on_base (AddConnector c isIpc guid) (tm_base m)\<rparr>)"

definition onAddLocalTCPConnector :: "nat \<Rightarrow> bool \<Rightarrow> bool \<Rightarrow> string \<Rightarrow> tunnel_module \<Rightarrow> tunnel_module" where
  "onAddLocalTCPConnector = add_tunnel_connector LOCAL_TCP"

definition onAddLocalUDPConnector :: "string \<Rightarrow> nat \<Rightarrow> bool \<Rightarrow> bool \<Rightarrow> string \<Rightarrow> tunnel_module \<Rightarrow> tunnel_module" where
  "onAddLocalUDPConnector i c isTunnel isIpc guid m =
     add_tunnel_connector LOCAL_UDP c isTunnel isIpc guid (set_tunnel i (\<lambda>t. t\<lparr>tn_localUdpSocket := None\<rparr>) m)"

definition onAddExternalConnector :: "nat \<Rightarrow> bool \<Rightarrow> bool \<Rightarrow> string \<Rightarrow> tunnel_module \<Rightarrow> tunnel_module" where
  "onAddExternalConnector = add_tunnel_connector EXTERNAL"

definition onAddRelayTCPConnector :: "nat \<Rightarrow> bool \<Rightarrow> bool \<Rightarrow> string \<Rightarrow> tunnel_module \<Rightarrow> tunnel_module" where
  "onAddRelayTCPConnector = add_tunnel_connector RELAY_TCP"

definition onAddRelayUDPConnector :: "nat \<Rightarrow> bool \<Rightarrow> bool \<Rightarrow> string \<Rightarrow> tunnel_module \<Rightarrow> tunnel_module" where
  "onAddRelayUDPConnector = add_tunnel_connector RELAY_UDP"

definition onErrorExternalConnect :: "string \<Rightarrow> tunnel_module \<Rightarrow> tunnel_module" where
  "onErrorExternalConnect moduleName m =
     (case find_tunnel m moduleName of
        None \<Rightarrow> m
      | Some tunnel \<Rightarrow> set_tunnel moduleName (\<lambda>t. t\<lparr>tn_externalConnectThread := None\<rparr>)
                         (tm_emit (stop_thread (tn_externalConnectThread tunnel)) m))"

definition onModuleName_tm :: "ipc_name \<Rightarrow> tunnel_module \<Rightarrow> tunnel_module" where
  "onModuleName_tm name m =
     (case find_tunnel m (host_name name) of
        None \<Rightarrow> m
      | Some tunnel \<Rightarrow> tm_emit (TunnelConnect_destroy tunnel) (m\<lparr>tm_tunnels := map_erase (host_name name) (tm_tunnels m)\<rparr>))"

definition onConnected_tm :: "string \<Rightarrow> type_connection \<Rightarrow> tunnel_module \<Rightarrow> tunnel_module" where
  "onConnected_tm i type m =
     tm_emit [ModuleSignal (M_InitTunnelComplete \<lparr>sp_ext_session_id = i, sp_own_session_id = tm_ownSessionId m\<rparr>),
       TunnelConnected i type] m"

section \<open>The server\<close>

definition onPeerData :: "peer_data \<Rightarrow> tunnel_module \<Rightarrow> tunnel_module" where
  "onPeerData msg m =
     (let added = AddObject PeerType_lt PeerType_eq msg (tm_typePeers m)
      in if snd added then m\<lparr>tm_typePeers := fst added\<rparr>
         else m\<lparr>tm_typePeers := fst (UpdateObject PeerType_lt PeerType_eq msg (fst added))\<rparr>)"

definition onAvailablePearTypes :: "available_types \<Rightarrow> tunnel_module \<Rightarrow> tunnel_module" where
  "onAvailablePearTypes msg m =
     (let added = AddObject AvailableTypes_lt AvailableTypes_eq msg (tm_availablePeerTypes m)
      in if snd added then m\<lparr>tm_availablePeerTypes := fst added\<rparr>
         else m\<lparr>tm_availablePeerTypes := fst (UpdateObject AvailableTypes_lt AvailableTypes_eq msg (fst added))\<rparr>)"

definition requested_type :: "init_tunnel \<Rightarrow> tunnel_module \<Rightarrow> peer_data" where
  "requested_type msg m =
     (let asked = \<lparr>pd_one_session_id = it_own_session_id msg, pd_two_session_id = it_ext_session_id msg, pd_type = None\<rparr>;
          found = (case GetObject PeerType_lt PeerType_eq asked (tm_typePeers m) of None \<Rightarrow> asked | Some d \<Rightarrow> d)
      in found\<lparr>pd_type := Some (case pd_type found of None \<Rightarrow> TUNNEL_ALL | Some t \<Rightarrow> t)\<rparr>)"

definition both_available :: "init_tunnel \<Rightarrow> tunnel_module \<Rightarrow> tunnel_type \<Rightarrow> bool" where
  "both_available msg m type \<longleftrightarrow>
     CheckTunnelAvailableType m (it_ext_session_id msg) type \<and> CheckTunnelAvailableType m (it_own_session_id msg) type"

definition signal_started :: "init_tunnel \<Rightarrow> tm_effect list" where
  "signal_started msg =
     (let its = \<lparr>sp_ext_session_id = it_ext_session_id msg, sp_own_session_id = it_own_session_id msg\<rparr>
      in [ModuleSignal (M_InitTunnelStarted its),
          ModuleSignal (M_InitTunnelStarted \<lparr>sp_ext_session_id = it_own_session_id msg, sp_own_session_id = it_ext_session_id msg\<rparr>)])"

text \<open>
  \<open>itMsg.set_own_session_id (msg.ext_session_id ())\<close> and the other way round, on the copy that
  has been signalled.
\<close>

definition signal_local :: "tunnel_type \<Rightarrow> init_tunnel \<Rightarrow> tm_effect list" where
  "signal_local type msg =
     (let itMsg = msg\<lparr>it_type := Some type\<rparr>
      in [ModuleSignal (M_InitTunnel itMsg),
          ModuleSignal (M_InitTunnel (itMsg\<lparr>it_own_session_id := it_ext_session_id msg, it_ext_session_id := it_own_session_id msg\<rparr>))])"

definition start_server :: "int \<Rightarrow> (server_listen_address \<Rightarrow> tunnel_thread) \<Rightarrow> string \<Rightarrow> string \<Rightarrow> init_tunnel \<Rightarrow> tunnel_module \<Rightarrow> tunnel_module" where
  "start_server now kind guid localIP msg m =
     (let address = \<lparr>sa_localIP = localIP, sa_localPort = it_port msg, sa_sessionIdOne = it_own_session_id msg,
                     sa_sessionIdTwo = it_ext_session_id msg, sa_id = guid\<rparr>;
          thread = tm_next m;
          server = (TunnelServer now (it_own_session_id msg) (it_ext_session_id msg))\<lparr>tv_thread := Some thread\<rparr>
      in tm_emit [ThreadStarted thread (kind address)]
           (m\<lparr>tm_servers := map_insert guid server (tm_servers m), tm_next := Suc thread\<rparr>))"

definition it_ip :: "init_tunnel \<Rightarrow> string" where
  "it_ip msg = (case it_address msg of None \<Rightarrow> [] | Some a \<Rightarrow> ta_ip a)"

definition onInitTunnel_server :: "int \<Rightarrow> string \<Rightarrow> string \<Rightarrow> string list \<Rightarrow> init_tunnel \<Rightarrow> tunnel_module \<Rightarrow> tunnel_module option" where
  "onInitTunnel_server now guid1 guid2 ips msg m =
     (let peerType = requested_type msg m;
          type = the (pd_type peerType);
          added = AddObject PeerType_lt PeerType_eq (TunnelStep now peerType) (tm_tunnelsStep m)
      in if \<not> snd added then Some m
         else
           let m = m\<lparr>tm_tunnelsStep := fst added\<rparr>;
               m = tm_emit (signal_started msg) m;
               m = (if type = TUNNEL_LOCAL_TCP \<or> (type = TUNNEL_ALL \<and> both_available msg m TUNNEL_LOCAL_TCP)
                    then tm_emit (signal_local TUNNEL_LOCAL_TCP msg) m else m);
               m = (if type = TUNNEL_LOCAL_UDP then tm_emit (signal_local TUNNEL_LOCAL_UDP msg) m else m);
               m = (if type = TUNNEL_EXTERNAL \<or> (type = TUNNEL_ALL \<and> both_available msg m TUNNEL_EXTERNAL)
                    then start_server now ExternalListenThread guid1 (it_ip msg) msg m else m);
               m = (if type = TUNNEL_RELAY_TCP \<or> (type = TUNNEL_ALL \<and> both_available msg m TUNNEL_RELAY_TCP)
                    then start_server now (RelayListenThread True) guid2 (it_ip msg) msg m else m)
           in if type = TUNNEL_RELAY_UDP
              then (if it_address msg = None \<and> ips = [] then None
                    else Some (start_server now (RelayListenThread False) guid2
                      (if it_address msg = None then hd ips else it_ip msg) msg m))
              else Some m)"

definition onInitTunnelComplete :: "session_pair \<Rightarrow> tunnel_module \<Rightarrow> tunnel_module" where
  "onInitTunnelComplete msg m =
     m\<lparr>tm_tunnelsStep := fst (RemoveObject PeerType_lt PeerType_eq
        \<lparr>pd_one_session_id = sp_own_session_id msg, pd_two_session_id = sp_ext_session_id msg, pd_type = None, ts_creationTime = 0\<rparr>
        (tm_tunnelsStep m))\<rparr>"

definition created_server_listener :: "tunnel_type \<Rightarrow> string \<Rightarrow> string \<Rightarrow> string \<Rightarrow> int \<Rightarrow> tunnel_module \<Rightarrow> tunnel_module" where
  "created_server_listener type i sessionId ip port m =
     (case find_server m i of
        None \<Rightarrow> m
      | Some server \<Rightarrow>
          let (own, ext) = (if sessionId = tv_sessionIdOne server then (tv_sessionIdOne server, tv_sessionIdTwo server)
                            else (tv_sessionIdTwo server, tv_sessionIdOne server))
          in tm_emit [ModuleSignal (M_InitTunnel \<lparr>it_ext_session_id = ext, it_own_session_id = own, it_type = Some type,
               it_address = Some \<lparr>ta_ip = ip, ta_port = port\<rparr>\<rparr>)] m)"

definition onCreatedExternalListener :: "string \<Rightarrow> string \<Rightarrow> string \<Rightarrow> int \<Rightarrow> tunnel_module \<Rightarrow> tunnel_module" where
  "onCreatedExternalListener = created_server_listener TUNNEL_EXTERNAL"

definition onCreatedRelayTCPListener :: "string \<Rightarrow> string \<Rightarrow> string \<Rightarrow> int \<Rightarrow> tunnel_module \<Rightarrow> tunnel_module" where
  "onCreatedRelayTCPListener = created_server_listener TUNNEL_RELAY_TCP"

definition onCreatedRelayUDPListener :: "string \<Rightarrow> string \<Rightarrow> string \<Rightarrow> int \<Rightarrow> tunnel_module \<Rightarrow> tunnel_module" where
  "onCreatedRelayUDPListener = created_server_listener TUNNEL_RELAY_UDP"

definition onGotExternalAddress :: "string \<Rightarrow> string \<Rightarrow> string \<Rightarrow> int \<Rightarrow> tunnel_module \<Rightarrow> tunnel_module" where
  "onGotExternalAddress i sessionId ip port m =
     (case find_server m i of
        None \<Rightarrow> m
      | Some server \<Rightarrow>
          let (own, ext) = (if sessionId \<noteq> tv_sessionIdOne server then (tv_sessionIdOne server, tv_sessionIdTwo server)
                            else (tv_sessionIdTwo server, tv_sessionIdOne server))
          in tm_emit [ModuleSignal (M_TryConnectTo \<lparr>tc_ext_session_id = ext, tc_own_session_id = own, tc_type = TUNNEL_EXTERNAL,
               tc_adresses = [\<lparr>ta_ip = ip, ta_port = port\<rparr>]\<rparr>)] m)"

definition forget_server :: "string \<Rightarrow> tunnel_module \<Rightarrow> tunnel_module" where
  "forget_server i m =
     (case find_server m i of
        None \<Rightarrow> m
      | Some server \<Rightarrow> tm_emit (TunnelServer_destroy server) (m\<lparr>tm_servers := map_erase i (tm_servers m)\<rparr>))"

definition onErrorExternalListener :: "string \<Rightarrow> tunnel_module \<Rightarrow> tunnel_module" where
  "onErrorExternalListener = forget_server"

definition onErrorRelayListener :: "string \<Rightarrow> tunnel_module \<Rightarrow> tunnel_module" where
  "onErrorRelayListener = forget_server"

definition onAddRelayServerConnector :: "string \<Rightarrow> nat \<Rightarrow> tunnel_module \<Rightarrow> tunnel_module" where
  "onAddRelayServerConnector i c m = tm_emit [ConnectorToManager c, ConnectorStarted c] (forget_server i m)"

section \<open>What the module signals to its connectors\<close>

text \<open>\<open>ClientServerConnector::SubscribeModule\<close>.\<close>

definition deliver_signal :: "cs_msg \<Rightarrow> cs_connector \<Rightarrow> cs_connector" where
  "deliver_signal msg c =
     (case msg of
        M_InitTunnel x \<Rightarrow> onInitTunnelSignal x c
      | M_InitTunnelStarted x \<Rightarrow> onInitTunnelStartedSignal x c
      | M_InitTunnelComplete x \<Rightarrow> onInitTunnelCompleteSignal x c
      | M_TryConnectTo x \<Rightarrow> onTryConnectToSignal x c
      | M_PeerData x \<Rightarrow> onPeerDataSignal x c
      | M_AvailablePearTypes x \<Rightarrow> onAvailablePearTypesSignal x c
      | _ \<Rightarrow> c)"

end
