(* ===== verification/Tunnel_Runs.thy ===== *)
theory Tunnel_Runs
  imports Tunnel_Handlers
begin

text \<open>
  Everything that can happen to a tunnel module, as events, and its runs over sequences of them.
  Two invariants of every run: the containers stay sorted and without duplicates, and no thread
  the module has started is lost or stopped twice.
\<close>

section \<open>Events\<close>

datatype tm_event =
    E_Base cs_module
  | E_InitNewTunnel string type_connection
  | E_DestroyTunnel string
  | E_SetTypeTunnel string string type_connection
  | E_SetAvailable "tunnel_type list"
  | E_InitTunnel_client "string list" "int option" init_tunnel
  | E_TryConnectTo try_connect_to
  | E_InitTunnelStarted int session_pair
  | E_CreatedLocalListener "string list" string int
  | E_ErrorLocalListener string
  | E_AddConnector type_connection nat bool bool string
  | E_AddLocalUDPConnector string nat bool bool string
  | E_ErrorExternalConnect string
  | E_ModuleName ipc_name
  | E_Connected string type_connection
  | E_PeerData peer_data
  | E_AvailablePearTypes available_types
  | E_InitTunnel_server int string string "string list" init_tunnel
  | E_InitTunnelComplete session_pair
  | E_CreatedServerListener tunnel_type string string string int
  | E_GotExternalAddress string string string int
  | E_ErrorServerListener string
  | E_AddRelayServerConnector string nat
  | E_Check bool int

text \<open>\<open>E_Base\<close>: any step of the base class, which keeps out of the tunnel module's own state.\<close>

fun tm_handle :: "tm_event \<Rightarrow> tunnel_module \<Rightarrow> tunnel_module option" where
  "tm_handle (E_Base b) m = Some (m\<lparr>tm_base := b\<rparr>)"
| "tm_handle (E_InitNewTunnel e t) m = Some (InitNewTunnel e t m)"
| "tm_handle (E_DestroyTunnel e) m = Some (DestroyTunnel e m)"
| "tm_handle (E_SetTypeTunnel a b t) m = Some (SetTypeTunnel a b t m)"
| "tm_handle (E_SetAvailable ts) m = Some (SetTunnelAvailableType ts m)"
| "tm_handle (E_InitTunnel_client ips bound msg) m = Some (onInitTunnel_client ips bound msg m)"
| "tm_handle (E_TryConnectTo msg) m = onTryConnectTo msg m"
| "tm_handle (E_InitTunnelStarted now msg) m = Some (onInitTunnelStarted now msg m)"
| "tm_handle (E_CreatedLocalListener ips i port) m = Some (onCreatedLocalListener ips i port m)"
| "tm_handle (E_ErrorLocalListener i) m = onErrorLocalListener i m"
| "tm_handle (E_AddConnector t c isTunnel isIpc guid) m = Some (add_tunnel_connector t c isTunnel isIpc guid m)"
| "tm_handle (E_AddLocalUDPConnector i c isTunnel isIpc guid) m = Some (onAddLocalUDPConnector i c isTunnel isIpc guid m)"
| "tm_handle (E_ErrorExternalConnect n) m = Some (onErrorExternalConnect n m)"
| "tm_handle (E_ModuleName n) m = Some (onModuleName_tm n m)"
| "tm_handle (E_Connected i t) m = Some (onConnected_tm i t m)"
| "tm_handle (E_PeerData d) m = Some (onPeerData d m)"
| "tm_handle (E_AvailablePearTypes d) m = Some (onAvailablePearTypes d m)"
| "tm_handle (E_InitTunnel_server now g1 g2 ips msg) m = onInitTunnel_server now g1 g2 ips msg m"
| "tm_handle (E_InitTunnelComplete msg) m = Some (onInitTunnelComplete msg m)"
| "tm_handle (E_CreatedServerListener t i s ip port) m = Some (created_server_listener t i s ip port m)"
| "tm_handle (E_GotExternalAddress i s ip port) m = Some (onGotExternalAddress i s ip port m)"
| "tm_handle (E_ErrorServerListener i) m = Some (forget_server i m)"
| "tm_handle (E_AddRelayServerConnector i c) m = Some (onAddRelayServerConnector i c m)"
| "tm_handle (E_Check isStop now) m = Some (TunnelChecker_ManagerFunc isStop now m)"

fun tm_run :: "tm_event list \<Rightarrow> tunnel_module \<Rightarrow> tunnel_module option" where
  "tm_run [] m = Some m"
| "tm_run (e # es) m = Option.bind (tm_handle e m) (tm_run es)"

lemma tm_run_append: "tm_run (es @ fs) m = Option.bind (tm_run es m) (tm_run fs)"
  by (induction es arbitrary: m) (auto split: Option.bind_splits)

text \<open>A property that every event keeps holds along every run.\<close>

lemma tm_run_induct [consumes 2, case_names event]:
  assumes "tm_run es m = Some m'" and "P m"
    and "\<And>e m m'. e \<in> set es \<Longrightarrow> P m \<Longrightarrow> tm_handle e m = Some m' \<Longrightarrow> P m'"
  shows "P m'"
  using assms
proof (induction es arbitrary: m)
  case (Cons e es)
  then obtain m1 where m1: "tm_handle e m = Some m1" "tm_run es m1 = Some m'"
    by (auto split: Option.bind_splits)
  have "P m1" by (rule Cons.prems(3) [OF _ Cons.prems(2) m1(1)]) simp
  then show ?case by (rule Cons.IH [OF m1(2)]) (use Cons.prems(3) in auto)
qed simp

end
