(* ===== verification/Tunnel_Threads.thy ===== *)
theory Tunnel_Threads
  imports Tunnel_Runs
begin

text \<open>
  The threads a tunnel module starts for its tunnels, over any run: none is lost, none is
  stopped twice. Each operation is shown to keep the balance between the threads started in the
  trace, those held in \<open>m_tunnels\<close> and \<open>m_servers\<close>, and those stopped.
\<close>

section \<open>Threads\<close>

definition started_threads :: "tm_effect list \<Rightarrow> nat list" where
  "started_threads tr = concat (map (\<lambda>e. case e of ThreadStarted i k \<Rightarrow> [i] | _ \<Rightarrow> []) tr)"

definition stopped_threads :: "tm_effect list \<Rightarrow> nat list" where
  "stopped_threads tr = concat (map (\<lambda>e. case e of ThreadStopped i \<Rightarrow> [i] | _ \<Rightarrow> []) tr)"

definition managed_threads :: "tm_effect list \<Rightarrow> nat list" where
  "managed_threads tr = concat (map (\<lambda>e. case e of ThreadToManager i \<Rightarrow> [i] | _ \<Rightarrow> []) tr)"

definition opt_mset :: "nat option \<Rightarrow> nat multiset" where
  "opt_mset x = (case x of None \<Rightarrow> {#} | Some i \<Rightarrow> {#i#})"

definition connect_threads :: "tunnel_connect \<Rightarrow> nat multiset" where
  "connect_threads t = opt_mset (tn_localListenThread t) + opt_mset (tn_externalConnectThread t)"

definition held_threads :: "tunnel_module \<Rightarrow> nat multiset" where
  "held_threads m = msum connect_threads (tm_tunnels m) + msum (\<lambda>t. opt_mset (tv_thread t)) (tm_servers m)"

definition threads_ok :: "tunnel_module \<Rightarrow> bool" where
  "threads_ok m \<longleftrightarrow> map_ok (tm_tunnels m) \<and> map_ok (tm_servers m) \<and>
     mset (started_threads (tm_trace m)) = held_threads m + mset (stopped_threads (tm_trace m)) \<and>
     managed_threads (tm_trace m) = stopped_threads (tm_trace m) \<and>
     distinct (started_threads (tm_trace m)) \<and> (\<forall>i \<in> set (started_threads (tm_trace m)). i < tm_next m)"

named_theorems thread_simps

lemma threads_append [thread_simps]:
  "started_threads (xs @ ys) = started_threads xs @ started_threads ys"
  "stopped_threads (xs @ ys) = stopped_threads xs @ stopped_threads ys"
  "managed_threads (xs @ ys) = managed_threads xs @ managed_threads ys"
  by (simp_all add: started_threads_def stopped_threads_def managed_threads_def)

lemma threads_Nil [thread_simps]:
  "started_threads [] = []" "stopped_threads [] = []" "managed_threads [] = []"
  by (simp_all add: started_threads_def stopped_threads_def managed_threads_def)

lemma threads_Cons [thread_simps]:
  "started_threads (e # es) = (case e of ThreadStarted i k \<Rightarrow> [i] | _ \<Rightarrow> []) @ started_threads es"
  "stopped_threads (e # es) = (case e of ThreadStopped i \<Rightarrow> [i] | _ \<Rightarrow> []) @ stopped_threads es"
  "managed_threads (e # es) = (case e of ThreadToManager i \<Rightarrow> [i] | _ \<Rightarrow> []) @ managed_threads es"
  by (simp_all add: started_threads_def stopped_threads_def managed_threads_def)

lemma opt_mset_simps [thread_simps]: "opt_mset None = {#}" "opt_mset (Some i) = {#i#}"
  by (simp_all add: opt_mset_def)

lemma threads_stop_thread [thread_simps]:
  "started_threads (stop_thread t) = []" "mset (stopped_threads (stop_thread t)) = opt_mset t"
  "managed_threads (stop_thread t) = stopped_threads (stop_thread t)"
  by (cases t; simp add: stop_thread_def thread_simps)+

lemma threads_destroy [thread_simps]:
  "started_threads (TunnelConnect_destroy c) = []" "mset (stopped_threads (TunnelConnect_destroy c)) = connect_threads c"
  "managed_threads (TunnelConnect_destroy c) = stopped_threads (TunnelConnect_destroy c)"
  "started_threads (TunnelServer_destroy s) = []" "mset (stopped_threads (TunnelServer_destroy s)) = opt_mset (tv_thread s)"
  "managed_threads (TunnelServer_destroy s) = stopped_threads (TunnelServer_destroy s)"
  by (auto simp: TunnelConnect_destroy_def TunnelServer_destroy_def thread_simps connect_threads_def split: option.split)

lemma connect_threads_simps [thread_simps]:
  "connect_threads (t\<lparr>tn_localUdpSocket := u\<rparr>) = connect_threads t"
  "connect_threads (t\<lparr>tn_localListenThread := a\<rparr>) = opt_mset a + opt_mset (tn_externalConnectThread t)"
  "connect_threads (t\<lparr>tn_externalConnectThread := a\<rparr>) = opt_mset (tn_localListenThread t) + opt_mset a"
  "connect_threads (TunnelConnect now s) = {#}"
  by (simp_all add: connect_threads_def TunnelConnect_def opt_mset_def)

text \<open>Effects that are not about the module's threads.\<close>

definition quiet :: "tm_effect list \<Rightarrow> bool" where
  "quiet es \<longleftrightarrow> started_threads es = [] \<and> stopped_threads es = [] \<and> managed_threads es = []"

lemma threads_ok_emit: "threads_ok m \<Longrightarrow> quiet es \<Longrightarrow> threads_ok (tm_emit es m)"
  by (simp add: threads_ok_def tm_emit_def held_threads_def quiet_def thread_simps)

lemma threads_ok_cong:
  "threads_ok m \<Longrightarrow> tm_tunnels m' = tm_tunnels m \<Longrightarrow> tm_servers m' = tm_servers m \<Longrightarrow> tm_trace m' = tm_trace m \<Longrightarrow>
     tm_next m' = tm_next m \<Longrightarrow> threads_ok m'"
  by (simp add: threads_ok_def held_threads_def)

lemma msum_change_same: "(\<And>v. f (g v) = f v) \<Longrightarrow> msum f (map_change k g m) = msum f m"
  by (induction m) (auto simp: msum_def map_change_def)

text \<open>Replacing a thread of a tunnel by the next one, or by none.\<close>

lemma threads_ok_replace:
  assumes "threads_ok m" and "find_tunnel m k = Some t" and "connect_threads t = opt_mset old + other"
  shows "connect_threads (g t) = other \<Longrightarrow> threads_ok (set_tunnel k g (tm_emit (stop_thread old) m))"
    and "connect_threads (g t) = {#tm_next m#} + other \<Longrightarrow>
      threads_ok (tm_emit [ThreadStarted (tm_next m) kind] ((set_tunnel k g (tm_emit (stop_thread old) m))\<lparr>tm_next := Suc (tm_next m)\<rparr>))"
proof -
  have ok: "map_ok (tm_tunnels m)" using assms(1) by (simp add: threads_ok_def)
  note e = msum_erase [OF ok assms(2)] and c = msum_change [OF ok assms(2)]
  show "threads_ok (set_tunnel k g (tm_emit (stop_thread old) m))" if "connect_threads (g t) = other"
    using assms(1) that by (simp add: threads_ok_def held_threads_def set_tunnel_def tm_emit_def thread_simps e c assms(3))
  have "tm_next m \<notin> set (started_threads (tm_trace m))" using assms(1) by (force simp: threads_ok_def)
  then show "threads_ok (tm_emit [ThreadStarted (tm_next m) kind] ((set_tunnel k g (tm_emit (stop_thread old) m))\<lparr>tm_next := Suc (tm_next m)\<rparr>))"
    if "connect_threads (g t) = {#tm_next m#} + other"
    using assms(1) that
    by (auto simp: threads_ok_def held_threads_def set_tunnel_def tm_emit_def thread_simps e c assms(3) less_Suc_eq)
qed

lemma tm_emit_sel [simp]:
  "tm_tunnels (tm_emit es m) = tm_tunnels m" "tm_servers (tm_emit es m) = tm_servers m" "tm_next (tm_emit es m) = tm_next m"
  "tm_trace (tm_emit es m) = tm_trace m @ es" "tm_base (tm_emit es m) = tm_base m" "tm_typePeers (tm_emit es m) = tm_typePeers m"
  "tm_tunnelsStep (tm_emit es m) = tm_tunnelsStep m" "tm_availablePeerTypes (tm_emit es m) = tm_availablePeerTypes m"
  by (simp_all add: tm_emit_def)

lemma quiet_simps [simp]:
  "quiet []" "quiet (ModuleSignal s # es) = quiet es" "quiet (TunnelConnectFailed x # es) = quiet es"
  "quiet (TunnelConnected x t # es) = quiet es" "quiet (StopTunnelConnection x # es) = quiet es"
  "quiet (AddressChanged i a # es) = quiet es" "quiet (ConnectThreadStarted f a # es) = quiet es"
  "quiet (TypeSet c t # es) = quiet es" "quiet (ConnectorToManager c # es) = quiet es"
  "quiet (ConnectorStarted c # es) = quiet es" "quiet (SocketCreated i # es) = quiet es"
  by (simp_all add: quiet_def thread_simps)

lemma threads_ok_CreateLocalListenThread: "threads_ok m \<Longrightarrow> threads_ok (CreateLocalListenThread e m)"
  by (auto simp: CreateLocalListenThread_def Let_def split: option.split
      intro!: threads_ok_replace(2) [where other = "opt_mset (tn_externalConnectThread t)" for t])
    (simp_all add: thread_simps connect_threads_def)

lemma threads_ok_InitExternalConnectThread: "threads_ok m \<Longrightarrow> threads_ok (InitExternalConnectThread e ip port m)"
  by (auto simp: InitExternalConnectThread_def Let_def split: option.split
      intro!: threads_ok_replace(2) [where other = "opt_mset (tn_localListenThread t)" for t])
    (simp_all add: thread_simps connect_threads_def)

lemma threads_ok_set_tunnel:
  "threads_ok m \<Longrightarrow> (\<And>t. connect_threads (g t) = connect_threads t) \<Longrightarrow> threads_ok (set_tunnel k g m)"
  by (simp add: threads_ok_def set_tunnel_def held_threads_def msum_change_same)

lemma threads_ok_next: "threads_ok m \<Longrightarrow> threads_ok (m\<lparr>tm_next := Suc (tm_next m)\<rparr>)"
  by (auto simp: threads_ok_def held_threads_def less_Suc_eq)

lemma set_tunnel_emit: "set_tunnel k g (tm_emit es m) = tm_emit es (set_tunnel k g m)"
  by (simp add: set_tunnel_def tm_emit_def)

lemma threads_ok_CreateLocalUDPSocket: "threads_ok m \<Longrightarrow> threads_ok (CreateLocalUDPSocket ips bound e m)"
  by (auto simp: CreateLocalUDPSocket_def Let_def thread_simps split: option.split
      intro!: threads_ok_emit threads_ok_set_tunnel threads_ok_next)

lemma threads_ok_CreateRelayConnectThread: "threads_ok m \<Longrightarrow> threads_ok (CreateRelayConnectThread e ip port tcp m)"
  by (auto simp: CreateRelayConnectThread_def split: option.split intro!: threads_ok_emit)

lemma threads_ok_onInitTunnel_client: "threads_ok m \<Longrightarrow> threads_ok (onInitTunnel_client ips bound msg m)"
  by (simp add: onInitTunnel_client_def threads_ok_CreateLocalListenThread threads_ok_CreateLocalUDPSocket
      threads_ok_InitExternalConnectThread threads_ok_CreateRelayConnectThread split: option.split)

lemma try_addresses_keeps:
  assumes "\<And>a m m'. P m \<Longrightarrow> f a m = Some m' \<Longrightarrow> P m'" and "P m" and "try_addresses f as m = Some m'"
  shows "P m'"
  using assms(2,3) by (induction as arbitrary: m) (auto split: Option.bind_splits dest: assms(1))

lemma onTryConnectTo_cases:
  assumes "onTryConnectTo msg m = Some m'" and "P m"
    and "\<And>m es. P m \<Longrightarrow> quiet es \<Longrightarrow> P (tm_emit es m)"
  shows "P m'"
proof -
  have l: "P m'" if "CreateLocalConnectThread e ip port tcp m = Some m'" "P m" for e ip port tcp m m'
    using that by (auto intro!: assms(3) simp: CreateLocalConnectThread_def Let_def split: option.splits if_splits)
  have x: "P m'" if "CreateExternalConnectThread e ip port m = Some m'" "P m" for e ip port m m'
    using that by (auto intro!: assms(3) simp: CreateExternalConnectThread_def Let_def split: option.splits)
  consider tcp where "try_addresses (\<lambda>a. CreateLocalConnectThread (tc_ext_session_id msg) (ta_ip a) (ta_port a) tcp) (tc_adresses msg) m = Some m'"
    | "try_addresses (\<lambda>a. CreateExternalConnectThread (tc_ext_session_id msg) (ta_ip a) (ta_port a)) (tc_adresses msg) m = Some m'"
    | "m' = m"
    using assms(1) unfolding onTryConnectTo_def by (metis option.inject)
  then show ?thesis
  proof cases
    case 1
    show ?thesis by (rule try_addresses_keeps [where P = P, OF _ assms(2) 1]) (rule l)
  next
    case 2
    show ?thesis by (rule try_addresses_keeps [where P = P, OF _ assms(2) 2]) (rule x)
  qed (simp add: assms(2))
qed

lemma threads_ok_onErrorLocalListener: "threads_ok m \<Longrightarrow> onErrorLocalListener i m = Some m' \<Longrightarrow> threads_ok m'"
  by (auto simp: onErrorLocalListener_def split: option.splits
      intro!: threads_ok_replace(1) [where other = "opt_mset (tn_externalConnectThread t)" for t])
    (simp_all add: thread_simps connect_threads_def)

lemma threads_ok_onErrorExternalConnect: "threads_ok m \<Longrightarrow> threads_ok (onErrorExternalConnect i m)"
  by (auto simp: onErrorExternalConnect_def split: option.splits
      intro!: threads_ok_replace(1) [where other = "opt_mset (tn_localListenThread t)" for t])
    (simp_all add: thread_simps connect_threads_def)

lemma threads_ok_onInitTunnelStarted: "threads_ok m \<Longrightarrow> threads_ok (onInitTunnelStarted now msg m)"
  by (auto simp: onInitTunnelStarted_def threads_ok_def held_threads_def msum_insert thread_simps split: option.split)

lemma threads_ok_base [simp]: "threads_ok (m\<lparr>tm_base := b\<rparr>) = threads_ok m"
  by (simp add: threads_ok_def held_threads_def)

lemma threads_ok_add_tunnel_connector: "threads_ok m \<Longrightarrow> threads_ok (add_tunnel_connector t c a b g m)"
  by (simp add: add_tunnel_connector_def Let_def threads_ok_emit)

lemma threads_ok_onModuleName_tm: "threads_ok m \<Longrightarrow> threads_ok (onModuleName_tm n m)"
  by (auto simp: onModuleName_tm_def threads_ok_def held_threads_def thread_simps msum_erase split: option.split)

lemma threads_ok_forget_server: "threads_ok m \<Longrightarrow> threads_ok (forget_server n m)"
  by (auto simp: forget_server_def threads_ok_def held_threads_def thread_simps msum_erase split: option.split)

lemma threads_ok_start_server:
  assumes "threads_ok m" and "find_server m guid = None"
  shows "threads_ok (start_server now kind guid ip msg m)"
proof -
  have "tm_next m \<notin> set (started_threads (tm_trace m))" using assms(1) by (force simp: threads_ok_def)
  then show ?thesis
    using assms by (auto simp: start_server_def Let_def threads_ok_def held_threads_def thread_simps msum_insert less_Suc_eq TunnelServer_def)
qed

text \<open>The checker's loops.\<close>

lemma check_tunnels_loop_sel:
  assumes "check_tunnels_loop now m = (kept, es)"
  shows "kept = filter (\<lambda>(k, t). \<not> now - tn_creationTime t > 60) m" "started_threads es = []"
    "managed_threads es = stopped_threads es" "msum connect_threads m = msum connect_threads kept + mset (stopped_threads es)"
  using assms by (induction m arbitrary: kept es) (auto simp: thread_simps Let_def split: prod.splits if_splits)

lemma check_servers_loop_sel:
  assumes "check_servers_loop now m = (kept, es)"
  shows "kept = filter (\<lambda>(k, t). \<not> now - tv_creationTime t > 60) m" "started_threads es = []"
    "managed_threads es = stopped_threads es"
    "msum (\<lambda>t. opt_mset (tv_thread t)) m = msum (\<lambda>t. opt_mset (tv_thread t)) kept + mset (stopped_threads es)"
  using assms by (induction m arbitrary: kept es) (auto simp: thread_simps Let_def split: prod.splits if_splits)

lemma map_ok_filter [intro]: "map_ok m \<Longrightarrow> map_ok (filter p m)"
  unfolding map_ok_def by (induction m) (auto split: if_splits)

lemma check_loops_map_ok:
  "check_tunnels_loop now m = (kept, es) \<Longrightarrow> map_ok m \<Longrightarrow> map_ok kept"
  "check_servers_loop now n = (kept', es') \<Longrightarrow> map_ok n \<Longrightarrow> map_ok kept'"
  using check_tunnels_loop_sel(1) check_servers_loop_sel(1) by blast+

lemma threads_ok_CheckTunnels: "threads_ok m \<Longrightarrow> threads_ok (CheckTunnels now m)"
  by (auto intro: check_loops_map_ok simp: CheckTunnels_def threads_ok_def held_threads_def thread_simps check_tunnels_loop_sel
      check_servers_loop_sel split: prod.split)

lemma threads_ok_onInitTunnel_server:
  assumes "threads_ok m" and "onInitTunnel_server now g1 g2 ips msg m = Some m'"
    and "find_server m g1 = None" and "find_server m g2 = None" and "g1 \<noteq> g2"
  shows "threads_ok m'"
proof -
  have q: "quiet (signal_started msg)" "quiet (signal_local t msg)" for t
    by (simp_all add: signal_started_def signal_local_def Let_def)
  have s: "find_server (start_server now k g1 ip msg m) g = (if g = g1 then find_server (start_server now k g1 ip msg m) g1 else find_server m g)"
    for k ip m g by (simp add: start_server_def Let_def)
  have st: "find_server (m\<lparr>tm_tunnelsStep := x\<rparr>) g = find_server m g" for x m g by simp
  have steps: "threads_ok (m\<lparr>tm_tunnelsStep := x\<rparr>)" for x
    using assms(1) by (simp add: threads_ok_def held_threads_def)
  show ?thesis
    using assms
    by (auto simp: onInitTunnel_server_def Let_def s split: if_splits
        intro!: threads_ok_start_server threads_ok_emit q steps)
qed

text \<open>Every other event.\<close>

lemma threads_ok_handle:
  assumes "threads_ok m" and "tm_handle e m = Some m'"
    and "\<And>now g1 g2 ips msg. e = E_InitTunnel_server now g1 g2 ips msg \<Longrightarrow>
      find_server m g1 = None \<and> find_server m g2 = None \<and> g1 \<noteq> g2"
  shows "threads_ok m'"
proof (cases e)
  case (E_TryConnectTo msg)
  with assms show ?thesis by (auto intro: onTryConnectTo_cases [where P = threads_ok] threads_ok_emit)
next
  case (E_InitTunnel_server now g1 g2 ips msg)
  with assms show ?thesis by (auto intro: threads_ok_onInitTunnel_server)
next
  case (E_ErrorLocalListener i)
  with assms show ?thesis by (auto intro: threads_ok_onErrorLocalListener)
qed (use assms in \<open>auto simp: InitNewTunnel_def DestroyTunnel_def SetTypeTunnel_def SetTunnelAvailableType_def Let_def
    onPeerData_def onAvailablePearTypes_def onInitTunnelComplete_def created_server_listener_def onGotExternalAddress_def
    onAddRelayServerConnector_def TunnelChecker_ManagerFunc_def onCreatedLocalListener_def onConnected_tm_def
    onAddLocalUDPConnector_def thread_simps
    intro!: threads_ok_emit threads_ok_forget_server threads_ok_onModuleName_tm threads_ok_add_tunnel_connector
      threads_ok_onErrorExternalConnect threads_ok_onInitTunnelStarted threads_ok_onInitTunnel_client threads_ok_CheckTunnels
      threads_ok_set_tunnel
    elim: threads_ok_cong split: option.splits if_splits\<close>)


section \<open>No thread is lost\<close>

fun guids :: "tm_event \<Rightarrow> string list" where
  "guids (E_InitTunnel_server now g1 g2 ips msg) = [g1, g2]"
| "guids e = []"

lemma find_server_start_server:
  "find_server (start_server now k guid ip msg m) g =
     (if g = guid \<and> find_server m g = None
      then Some ((TunnelServer now (it_own_session_id msg) (it_ext_session_id msg))\<lparr>tv_thread := Some (tm_next m)\<rparr>)
      else find_server m g)"
  by (auto simp: start_server_def Let_def)

lemma check_servers_loop_keys: "map_of (fst (check_servers_loop now m)) k \<noteq> None \<Longrightarrow> map_of m k \<noteq> None"
proof -
  obtain kept es where k: "check_servers_loop now m = (kept, es)" by fastforce
  then have "set kept \<subseteq> set m" by (auto dest: check_servers_loop_sel(1))
  with k show "map_of (fst (check_servers_loop now m)) k \<noteq> None \<Longrightarrow> ?thesis"
    by (auto simp: map_of_eq_None_iff)
qed

lemma server_keys_onInitTunnel_server:
  "onInitTunnel_server now g1 g2 ips msg m = Some m' \<Longrightarrow> find_server m' g \<noteq> None \<Longrightarrow>
     find_server m g \<noteq> None \<or> g \<in> {g1, g2}"
  unfolding onInitTunnel_server_def Let_def
  by (auto simp: find_server_start_server split: if_splits)

lemma server_keys_handle:
  assumes "tm_handle e m = Some m'" and "find_server m' g \<noteq> None"
  shows "find_server m g \<noteq> None \<or> g \<in> set (guids e)"
proof (cases e)
  case (E_TryConnectTo msg)
  with assms show ?thesis
    by (auto dest: onTryConnectTo_cases [where P = "\<lambda>m'. tm_servers m' = tm_servers m"])
next
  case (E_InitTunnel_server now g1 g2 ips msg)
  with assms server_keys_onInitTunnel_server show ?thesis by fastforce
next
  case (E_Check isStop now)
  with assms check_servers_loop_keys [of now "tm_servers m" g] show ?thesis
    by (auto simp: TunnelChecker_ManagerFunc_def CheckTunnels_def split: if_splits prod.splits)
qed (use assms in \<open>auto simp: InitNewTunnel_def DestroyTunnel_def SetTypeTunnel_def SetTunnelAvailableType_def Let_def
    onPeerData_def onAvailablePearTypes_def onInitTunnelComplete_def created_server_listener_def onGotExternalAddress_def
    onAddRelayServerConnector_def onCreatedLocalListener_def onConnected_tm_def
    onAddLocalUDPConnector_def add_tunnel_connector_def onErrorExternalConnect_def onInitTunnelStarted_def
    onInitTunnel_client_def set_tunnel_def CreateLocalListenThread_def CreateLocalUDPSocket_def InitExternalConnectThread_def
    CreateRelayConnectThread_def onErrorLocalListener_def onModuleName_tm_def forget_server_def
    split: option.splits if_splits\<close>)

lemma threads_ok_run:
  assumes "threads_ok m" and "tm_run es m = Some m'" and "distinct (concat (map guids es))"
    and "\<And>g. g \<in> set (concat (map guids es)) \<Longrightarrow> find_server m g = None"
  shows "threads_ok m'"
  using assms
proof (induction es arbitrary: m)
  case (Cons e es)
  then obtain m1 where m1: "tm_handle e m = Some m1" "tm_run es m1 = Some m'"
    by (auto split: Option.bind_splits)
  have "threads_ok m1"
    by (rule threads_ok_handle [OF Cons.prems(1) m1(1)]) (use Cons.prems(3,4) in auto)
  moreover have "find_server m1 g = None" if "g \<in> set (concat (map guids es))" for g
    using server_keys_handle [OF m1(1), of g] that Cons.prems(3,4) by fastforce
  ultimately show ?case using Cons.IH [OF _ m1(2)] Cons.prems(3) by simp
qed simp



definition demo_events :: "tm_event list" where
  "demo_events =
     [E_InitTunnelStarted 5 \<lparr>sp_ext_session_id = ''s2'', sp_own_session_id = ''s1''\<rparr>,
      E_InitTunnel_client [] None \<lparr>it_ext_session_id = ''s2'', it_own_session_id = ''s1'', it_type = Some TUNNEL_LOCAL_TCP, it_address = None\<rparr>,
      E_InitTunnel_client [] None \<lparr>it_ext_session_id = ''s2'', it_own_session_id = ''s1'', it_type = Some TUNNEL_EXTERNAL, it_address = None\<rparr>,
      E_ErrorLocalListener ''s2'']"

lemma demo_run:
  "\<exists>m. tm_run demo_events (TunnelModule n) = Some m \<and> started_threads (tm_trace m) = [0, 1] \<and> stopped_threads (tm_trace m) = [0]"
  by (simp add: demo_events_def onInitTunnelStarted_def onInitTunnel_client_def CreateLocalListenThread_def Let_def
      InitExternalConnectThread_def onErrorLocalListener_def TunnelModule_def set_tunnel_def thread_simps stop_thread_def)
    (simp add: TunnelConnect_def thread_simps)


end
