(* ===== verification/Tunnel_Setup.thy ===== *)
theory Tunnel_Setup
  imports Tunnel_Threads
begin

text \<open>
  Setting up tunnels: one set-up at a time for each pair of sessions, what a set-up starts and
  whom it reaches, the checker's expiry, and the faults of the client's handlers and of the
  shared object list.
\<close>

section \<open>One set-up at a time\<close>

lemma requested_type_sel:
  assumes "om_inv peer_key (tm_typePeers m)"
  shows "peer_key (requested_type msg m) = pair_key (it_own_session_id msg) (it_ext_session_id msg)"
    and "the (pd_type (requested_type msg m)) =
      (case om_lookup peer_key (tm_typePeers m) (pair_key (it_own_session_id msg) (it_ext_session_id msg)) of
         None \<Rightarrow> TUNNEL_ALL | Some d \<Rightarrow> (case pd_type d of None \<Rightarrow> TUNNEL_ALL | Some t \<Rightarrow> t))"
proof -
  let ?a = "\<lparr>pd_one_session_id = it_own_session_id msg, pd_two_session_id = it_ext_session_id msg, pd_type = None\<rparr>"
  have k: "peer_key ?a = pair_key (it_own_session_id msg) (it_ext_session_id msg)" by (simp add: peer_key_def)
  have g: "GetObject PeerType_lt PeerType_eq ?a (tm_typePeers m) = om_lookup peer_key (tm_typePeers m) (peer_key ?a)"
    using assms by (rule pts.get_lookup)
  have u: "peer_key (d\<lparr>pd_type := t\<rparr>) = peer_key d" for d :: peer_data and t by (simp add: peer_key_def)
  show "peer_key (requested_type msg m) = pair_key (it_own_session_id msg) (it_ext_session_id msg)"
    by (auto simp: requested_type_def Let_def g k u split: option.split dest: om_lookup_key)
  show "the (pd_type (requested_type msg m)) =
      (case om_lookup peer_key (tm_typePeers m) (pair_key (it_own_session_id msg) (it_ext_session_id msg)) of
         None \<Rightarrow> TUNNEL_ALL | Some d \<Rightarrow> (case pd_type d of None \<Rightarrow> TUNNEL_ALL | Some t \<Rightarrow> t))"
    by (auto simp: requested_type_def Let_def g k split: option.split)
qed

lemma TunnelStep_sel [simp]: "peer_key (TunnelStep now d) = peer_key d" "ts_creationTime (TunnelStep now d) = now"
  by (simp_all add: TunnelStep_def peer_key_def)

definition containers_ok :: "tunnel_module \<Rightarrow> bool" where
  "containers_ok m \<longleftrightarrow> om_inv peer_key (tm_typePeers m) \<and> om_inv peer_key (tm_tunnelsStep m) \<and>
     om_inv at_session_id (tm_availablePeerTypes m)"

abbreviation pending :: "tunnel_module \<Rightarrow> string \<times> string \<Rightarrow> tunnel_step option" where
  "pending m \<equiv> om_lookup peer_key (tm_tunnelsStep m)"

lemma check_steps_loop_lookup:
  assumes "om_inv peer_key steps"
  shows "om_inv peer_key (check_steps_loop now its steps)"
    and "om_lookup peer_key (check_steps_loop now its steps) k =
      (if \<exists>s \<in> set its. peer_key s = k \<and> now - ts_creationTime s > 60 then None else om_lookup peer_key steps k)"
  using assms by (induction its arbitrary: steps) (auto simp: tss.remove_inv tss.remove_lookup)

lemma check_steps_lookup:
  assumes "om_inv peer_key steps"
  shows "om_lookup peer_key (check_steps_loop now steps steps) k =
      (case om_lookup peer_key steps k of None \<Rightarrow> None
       | Some s \<Rightarrow> if now - ts_creationTime s > 60 then None else Some s)"
proof (cases "om_lookup peer_key steps k")
  case None
  then show ?thesis using assms by (auto simp: check_steps_loop_lookup)
next
  case (Some s)
  then have s: "s \<in> set steps" "peer_key s = k"
    using om_lookup_Some_iff [OF assms] by auto
  then have "s' = s" if "s' \<in> set steps" "peer_key s' = k" for s'
    using that om_inv_unique [OF assms] by metis
  then have "(\<exists>s' \<in> set steps. peer_key s' = k \<and> now - ts_creationTime s' > 60) = (now - ts_creationTime s > 60)"
    using s by blast
  with Some show ?thesis by (simp add: check_steps_loop_lookup(2) [OF assms])
qed

definition ends_setup :: "string \<times> string \<Rightarrow> int \<Rightarrow> tm_event \<Rightarrow> bool" where
  "ends_setup k created e \<longleftrightarrow>
     (case e of E_InitTunnelComplete c \<Rightarrow> pair_key (sp_own_session_id c) (sp_ext_session_id c) = k
      | E_Check isStop now \<Rightarrow> \<not> isStop \<and> now - created > 60
      | _ \<Rightarrow> False)"

lemmas tm_quiet_defs = InitNewTunnel_def DestroyTunnel_def SetTypeTunnel_def SetTunnelAvailableType_def Let_def
    onPeerData_def onAvailablePearTypes_def created_server_listener_def onGotExternalAddress_def
    onAddRelayServerConnector_def onCreatedLocalListener_def onConnected_tm_def
    onAddLocalUDPConnector_def add_tunnel_connector_def onErrorExternalConnect_def onInitTunnelStarted_def
    onInitTunnel_client_def set_tunnel_def CreateLocalListenThread_def CreateLocalUDPSocket_def InitExternalConnectThread_def
    CreateRelayConnectThread_def onErrorLocalListener_def onModuleName_tm_def forget_server_def

lemma start_server_sel [simp]:
  "tm_tunnelsStep (start_server now k g ip msg m) = tm_tunnelsStep m" "tm_typePeers (start_server now k g ip msg m) = tm_typePeers m"
  "tm_availablePeerTypes (start_server now k g ip msg m) = tm_availablePeerTypes m" "tm_tunnels (start_server now k g ip msg m) = tm_tunnels m"
  by (simp_all add: start_server_def Let_def)

lemma onInitTunnel_server_sel:
  assumes "onInitTunnel_server now g1 g2 ips msg m = Some m'"
  shows "tm_tunnelsStep m' = fst (AddObject PeerType_lt PeerType_eq (TunnelStep now (requested_type msg m)) (tm_tunnelsStep m))
      \<or> m' = m \<and> \<not> snd (AddObject PeerType_lt PeerType_eq (TunnelStep now (requested_type msg m)) (tm_tunnelsStep m))"
    and "tm_typePeers m' = tm_typePeers m" "tm_availablePeerTypes m' = tm_availablePeerTypes m"
  using assms unfolding onInitTunnel_server_def Let_def by (auto split: if_splits)

lemma containers_ok_emit [simp]: "containers_ok (tm_emit es m) = containers_ok m"
  by (simp add: containers_ok_def)

lemma containers_ok_handle:
  assumes "containers_ok m" and "tm_handle e m = Some m'"
  shows "containers_ok m'"
proof (cases e)
  case (E_TryConnectTo msg)
  with assms show ?thesis
    by (auto intro: onTryConnectTo_cases [where P = containers_ok])
next
  case (E_InitTunnel_server now g1 g2 ips msg)
  with assms onInitTunnel_server_sel [of now g1 g2 ips msg m m'] show ?thesis
    by (auto simp: containers_ok_def tss.store_inv)
next
  case (E_Check isStop now)
  with assms show ?thesis
    by (auto simp: containers_ok_def TunnelChecker_ManagerFunc_def CheckTunnels_def check_steps_loop_lookup split: if_splits prod.splits)
next
  case (E_InitTunnelComplete c)
  with assms show ?thesis by (auto simp: containers_ok_def onInitTunnelComplete_def tss.store_inv)
qed (use assms in \<open>auto simp: tm_quiet_defs containers_ok_def pts.store_inv ats.store_inv split: option.splits if_splits\<close>)

lemma pending_handle:
  assumes "containers_ok m" and "tm_handle e m = Some m'" and "pending m k = Some s"
    and "\<not> ends_setup k (ts_creationTime s) e"
  shows "pending m' k = Some s"
proof -
  have inv: "om_inv peer_key (tm_tunnelsStep m)" using assms(1) by (simp add: containers_ok_def)
  show ?thesis
  proof (cases e)
    case (E_TryConnectTo msg)
    with assms show ?thesis
      by (auto intro: onTryConnectTo_cases [where P = "\<lambda>m. pending m k = Some s"])
  next
    case (E_InitTunnel_server now g1 g2 ips msg)
    with assms onInitTunnel_server_sel [of now g1 g2 ips msg m m'] show ?thesis
      by (auto simp: tss.add_lookup [OF inv])
  next
    case (E_Check isStop now)
    with assms show ?thesis
      by (auto simp: ends_setup_def TunnelChecker_ManagerFunc_def CheckTunnels_def check_steps_lookup [OF inv] split: if_splits prod.splits)
  next
    case (E_InitTunnelComplete c)
    with assms show ?thesis
      by (auto simp: ends_setup_def onInitTunnelComplete_def tss.remove_lookup [OF inv] peer_key_def)
  qed (use assms in \<open>auto simp: tm_quiet_defs split: option.splits if_splits\<close>)
qed

text \<open>
  C18: one tunnel set-up at a time for each pair of sessions. After a server has started one at
  time \<open>t0\<close>, it ignores every request for the same two sessions, from either of them, until one
  of them reports completion, or the checker runs more than sixty seconds later.
\<close>

theorem one_setup_per_pair:
  assumes "containers_ok m0" and "pending m0 k = None"
    and "pair_key (it_own_session_id msg0) (it_ext_session_id msg0) = k"
    and "pair_key (it_own_session_id msg) (it_ext_session_id msg) = k"
    and "onInitTunnel_server t0 g1 g2 ips msg0 m0 = Some m1"
    and "tm_run es m1 = Some m" and "\<forall>e \<in> set es. \<not> ends_setup k t0 e"
  shows "onInitTunnel_server t h1 h2 ips' msg m = Some m"
proof -
  have k: "peer_key (requested_type msg0 m0) = k" using assms(1,3) requested_type_sel(1) by (simp add: containers_ok_def)
  have "pending m1 k = Some (TunnelStep t0 (requested_type msg0 m0))"
    using onInitTunnel_server_sel(1) [OF assms(5)] assms(1,2) k
    by (auto simp: containers_ok_def tss.add_lookup tss.add_result)
  moreover have "containers_ok m1"
    using containers_ok_handle [OF assms(1), of "E_InitTunnel_server t0 g1 g2 ips msg0" m1] assms(5) by simp
  ultimately have "containers_ok m1 \<and> (\<exists>s. pending m1 k = Some s \<and> ts_creationTime s = t0)" by simp
  with assms(6) have "containers_ok m \<and> (\<exists>s. pending m k = Some s \<and> ts_creationTime s = t0)"
  proof (rule tm_run_induct)
    fix e m m' assume "e \<in> set es" "tm_handle e m = Some m'" "containers_ok m \<and> (\<exists>s. pending m k = Some s \<and> ts_creationTime s = t0)"
    with assms(7) show "containers_ok m' \<and> (\<exists>s. pending m' k = Some s \<and> ts_creationTime s = t0)"
      using containers_ok_handle pending_handle by metis
  qed
  then obtain s where m: "containers_ok m" "pending m k = Some s" by blast
  have "peer_key (requested_type msg m) = k" using m(1) assms(4) requested_type_sel(1) by (simp add: containers_ok_def)
  then have "\<not> snd (AddObject PeerType_lt PeerType_eq (TunnelStep t (requested_type msg m)) (tm_tunnelsStep m))"
    using m by (simp add: containers_ok_def tss.add_result)
  then show ?thesis by (simp add: onInitTunnel_server_def Let_def)
qed

section \<open>What a set-up starts\<close>

text \<open>The kind of tunnel asked for a pair of sessions, whichever way round.\<close>

definition type_for :: "tunnel_module \<Rightarrow> string \<Rightarrow> string \<Rightarrow> tunnel_type" where
  "type_for m x y =
     (case om_lookup peer_key (tm_typePeers m) (pair_key x y) of
        None \<Rightarrow> TUNNEL_ALL
      | Some d \<Rightarrow> (case pd_type d of None \<Rightarrow> TUNNEL_ALL | Some t \<Rightarrow> t))"

definition wants :: "tunnel_module \<Rightarrow> string \<Rightarrow> string \<Rightarrow> tunnel_type \<Rightarrow> bool" where
  "wants m x y t \<longleftrightarrow> type_for m x y = t \<or>
     type_for m x y = TUNNEL_ALL \<and> t \<in> {TUNNEL_LOCAL_TCP, TUNNEL_EXTERNAL, TUNNEL_RELAY_TCP} \<and>
     CheckTunnelAvailableType m x t \<and> CheckTunnelAvailableType m y t"

text \<open>
  \<open>SetTypeTunnel\<close> for two sessions decides the kind of their tunnels, whichever of them asks
  first, and no other pair's.
\<close>

lemma SetTypeTunnel_either_way:
  assumes "containers_ok m"
  shows "the (pd_type (requested_type msg (SetTypeTunnel a b t m))) =
    (if {it_own_session_id msg, it_ext_session_id msg} = {a, b} then tunnel_type_of t
     else the (pd_type (requested_type msg m)))"
proof -
  have inv: "om_inv peer_key (tm_typePeers m)" using assms by (simp add: containers_ok_def)
  have k: "peer_key \<lparr>pd_one_session_id = a, pd_two_session_id = b, pd_type = x\<rparr> = pair_key a b" for x
    by (simp add: peer_key_def)
  have u: "peer_key (d\<lparr>pd_type := x\<rparr>) = peer_key d" for d :: peer_data and x by (simp add: peer_key_def)
  have l: "om_lookup peer_key (tm_typePeers (SetTypeTunnel a b t m)) =
      (om_lookup peer_key (tm_typePeers m))(pair_key a b \<mapsto>
        (case om_lookup peer_key (tm_typePeers m) (pair_key a b) of
           None \<Rightarrow> \<lparr>pd_one_session_id = a, pd_two_session_id = b, pd_type = Some (tunnel_type_of t)\<rparr>
         | Some d \<Rightarrow> d\<lparr>pd_type := Some (tunnel_type_of t)\<rparr>))"
  proof (cases "om_lookup peer_key (tm_typePeers m) (pair_key a b)")
    case None
    then show ?thesis by (simp add: SetTypeTunnel_def Let_def pts.get_lookup [OF inv] k u pts.add_lookup [OF inv])
  next
    case (Some d)
    moreover from this have "peer_key d = pair_key a b" by (rule om_lookup_key)
    ultimately show ?thesis
      by (simp add: SetTypeTunnel_def Let_def pts.get_lookup [OF inv] k u pts.update_lookup [OF inv])
  qed
  have inv': "om_inv peer_key (tm_typePeers (SetTypeTunnel a b t m))"
    using inv by (auto simp: SetTypeTunnel_def Let_def pts.store_inv split: option.split)
  have "pair_key (it_own_session_id msg) (it_ext_session_id msg) = pair_key a b \<longleftrightarrow>
      {it_own_session_id msg, it_ext_session_id msg} = {a, b}"
    by (auto simp: pair_key_eq_iff doubleton_eq_iff)
  then show ?thesis
    by (auto simp: requested_type_sel(2) [OF inv] requested_type_sel(2) [OF inv'] l split: option.split)
qed

text \<open>What the connector of one of the two sessions sends.\<close>

definition told :: "tunnel_module \<Rightarrow> init_tunnel \<Rightarrow> string \<Rightarrow> string \<Rightarrow> cc_effect list" where
  "told m msg own ext =
     [Send (M_InitTunnelStarted \<lparr>sp_ext_session_id = ext, sp_own_session_id = own\<rparr>)] @
     concat (map (\<lambda>t. if wants m own ext t
        then [Send (M_InitTunnel (msg\<lparr>it_own_session_id := own, it_ext_session_id := ext, it_type := Some t\<rparr>))] else [])
       [TUNNEL_LOCAL_TCP, TUNNEL_LOCAL_UDP])"

definition module_signals :: "tm_effect list \<Rightarrow> cs_msg list" where
  "module_signals es = concat (map (\<lambda>e. case e of ModuleSignal s \<Rightarrow> [s] | _ \<Rightarrow> []) es)"

definition server_threads :: "tm_effect list \<Rightarrow> tunnel_thread list" where
  "server_threads es = concat (map (\<lambda>e. case e of ThreadStarted i k \<Rightarrow> [k] | _ \<Rightarrow> []) es)"

lemma effect_lists [simp]:
  "module_signals [] = []" "module_signals (xs @ ys) = module_signals xs @ module_signals ys"
  "module_signals (ModuleSignal s # es) = s # module_signals es" "module_signals (ThreadStarted i k # es) = module_signals es"
  "server_threads [] = []" "server_threads (xs @ ys) = server_threads xs @ server_threads ys"
  "server_threads (ModuleSignal s # es) = server_threads es" "server_threads (ThreadStarted i k # es) = k # server_threads es"
  by (simp_all add: module_signals_def server_threads_def)

definition setup_effects :: "tunnel_module \<Rightarrow> init_tunnel \<Rightarrow> string \<Rightarrow> string \<Rightarrow> string list \<Rightarrow> tm_effect list \<Rightarrow> bool" where
  "setup_effects m msg g1 g2 ips es \<longleftrightarrow>
     (let own = it_own_session_id msg; ext = it_ext_session_id msg; w = wants m own ext;
          addr = (\<lambda>ip g. \<lparr>sa_localIP = ip, sa_localPort = it_port msg, sa_sessionIdOne = own, sa_sessionIdTwo = ext, sa_id = g\<rparr>)
      in module_signals es =
           module_signals (signal_started msg) @
           (if w TUNNEL_LOCAL_TCP then module_signals (signal_local TUNNEL_LOCAL_TCP msg) else []) @
           (if w TUNNEL_LOCAL_UDP then module_signals (signal_local TUNNEL_LOCAL_UDP msg) else []) \<and>
         server_threads es =
           (if w TUNNEL_EXTERNAL then [ExternalListenThread (addr (it_ip msg) g1)] else []) @
           (if w TUNNEL_RELAY_TCP then [RelayListenThread True (addr (it_ip msg) g2)] else []) @
           (if w TUNNEL_RELAY_UDP then [RelayListenThread False (addr (if it_address msg = None then hd ips else it_ip msg) g2)] else []))"

lemma start_server_trace:
  "tm_trace (start_server now k g ip msg m) = tm_trace m @ [ThreadStarted (tm_next m) (k \<lparr>sa_localIP = ip, sa_localPort = it_port msg,
     sa_sessionIdOne = it_own_session_id msg, sa_sessionIdTwo = it_ext_session_id msg, sa_id = g\<rparr>)]"
  by (simp add: start_server_def Let_def)

lemma both_available_cong:
  "tm_availablePeerTypes m' = tm_availablePeerTypes m \<Longrightarrow> both_available msg m' t = both_available msg m t"
  by (simp add: both_available_def CheckTunnelAvailableType_def)

lemma onInitTunnel_server_effects:
  assumes "containers_ok m" and "pending m (pair_key (it_own_session_id msg) (it_ext_session_id msg)) = None"
    and "onInitTunnel_server now g1 g2 ips msg m = Some m'"
  obtains es where "tm_trace m' = tm_trace m @ es" and "setup_effects m msg g1 g2 ips es"
proof -
  have inv: "om_inv peer_key (tm_typePeers m)" "om_inv peer_key (tm_tunnelsStep m)"
    using assms(1) by (simp_all add: containers_ok_def)
  have added: "snd (AddObject PeerType_lt PeerType_eq (TunnelStep now (requested_type msg m)) (tm_tunnelsStep m))"
    using assms(2) by (simp add: tss.add_result [OF inv(2)] requested_type_sel(1) [OF inv(1)])
  have ty: "the (pd_type (requested_type msg m)) = type_for m (it_own_session_id msg) (it_ext_session_id msg)"
    by (simp add: requested_type_sel(2) [OF inv(1)] type_for_def)
  have both: "both_available msg m t \<longleftrightarrow> CheckTunnelAvailableType m (it_own_session_id msg) t \<and> CheckTunnelAvailableType m (it_ext_session_id msg) t" for t
    by (auto simp: both_available_def)
  define es where "es = drop (length (tm_trace m)) (tm_trace m')"
  have q: "server_threads (signal_started msg) = []" "server_threads (signal_local t msg) = []" for t
    by (simp_all add: signal_started_def signal_local_def Let_def)
  have "tm_trace m' = tm_trace m @ es \<and> setup_effects m msg g1 g2 ips es"
    using assms(3) added unfolding onInitTunnel_server_def Let_def ty setup_effects_def es_def
    by (cases "type_for m (it_own_session_id msg) (it_ext_session_id msg)")
      (auto simp: wants_def both_available_cong [of _ m] both start_server_trace q split: if_splits)
  with that show thesis by blast
qed


section \<open>What the two clients are told\<close>

lemma deliver_started:
  "to_client c \<Longrightarrow> cc_trace (deliver_signal (M_InitTunnelStarted p) c) = cc_trace c @ (if sp_own_session_id p = cc_ownSessionId c then [Send (M_InitTunnelStarted p)] else [])"
  by (simp add: deliver_signal_def onInitTunnelStartedSignal_def cc_emit_def)

lemma deliver_init:
  "to_client c \<Longrightarrow> cc_trace (deliver_signal (M_InitTunnel p) c) = cc_trace c @ (if it_own_session_id p = cc_ownSessionId c then [Send (M_InitTunnel p)] else [])"
  by (simp add: deliver_signal_def onInitTunnelSignal_def cc_emit_def)

lemma deliver_sel [simp]:
  "cc_base (deliver_signal s c) = cc_base c" "cc_ownSessionId (deliver_signal s c) = cc_ownSessionId c"
  by (simp_all add: deliver_signal_def onInitTunnelSignal_def onInitTunnelStartedSignal_def onInitTunnelCompleteSignal_def
      onTryConnectToSignal_def onPeerDataSignal_def onAvailablePearTypesSignal_def cc_emit_def split: cs_msg.split)

lemma wants_commute: "wants m x y t = wants m y x t"
  by (auto simp: wants_def type_for_def pair_key_commute [of x y])

text \<open>
  C20: a tunnel set-up reaches both clients, and no one else. When a server starts a set-up
  between two sessions, the connector of each of the two sends its client that the set-up has
  started, with the other session as the far end, and one \<open>InitTunnel\<close> for each kind of local
  tunnel wanted; a connector of another session sends nothing. For the other kinds wanted one
  listening thread is started, with the address asked for.
\<close>

theorem setup_reaches_both_clients:
  assumes "containers_ok m" and "it_own_session_id msg = a" and "it_ext_session_id msg = b" and "a \<noteq> b"
    and "pending m (pair_key a b) = None" and "onInitTunnel_server now g1 g2 ips msg m = Some m'" and "to_client c"
  defines "new \<equiv> drop (length (tm_trace m)) (tm_trace m')"
  shows "cc_trace (fold deliver_signal (module_signals new) c) = cc_trace c @
      (if cc_ownSessionId c = a then told m msg a b else if cc_ownSessionId c = b then told m msg b a else []) \<and>
    map (\<lambda>k. case k of ExternalListenThread x \<Rightarrow> TUNNEL_EXTERNAL | RelayListenThread tcp x \<Rightarrow> if tcp then TUNNEL_RELAY_TCP else TUNNEL_RELAY_UDP | _ \<Rightarrow> TUNNEL_ALL)
        (server_threads new) = filter (wants m a b) [TUNNEL_EXTERNAL, TUNNEL_RELAY_TCP, TUNNEL_RELAY_UDP]"
proof -
  obtain es where es: "tm_trace m' = tm_trace m @ es" "setup_effects m msg g1 g2 ips es"
    using onInitTunnel_server_effects assms(1-3,5,6) by metis
  have [simp]: "msg\<lparr>it_own_session_id := a, it_ext_session_id := b, it_type := t\<rparr> = msg\<lparr>it_type := t\<rparr>" for t
    using assms(2,3) by simp
  have [simp]: "msg\<lparr>it_type := t, it_own_session_id := b, it_ext_session_id := a\<rparr> = msg\<lparr>it_own_session_id := b, it_ext_session_id := a, it_type := t\<rparr>" for t
    by simp
  show ?thesis
    using es(2) assms(2-4,7) unfolding new_def es(1)
    by (simp add: setup_effects_def Let_def told_def signal_started_def signal_local_def deliver_started deliver_init
        wants_commute [of m b a])
qed

definition demo_request :: "string \<Rightarrow> string \<Rightarrow> init_tunnel" where
  "demo_request x y = \<lparr>it_ext_session_id = y, it_own_session_id = x, it_type = None, it_address = Some \<lparr>ta_ip = ''10.0.0.1'', ta_port = 0\<rparr>\<rparr>"

definition demo_tm :: tunnel_module where
  "demo_tm = TunnelModule (local_name ''main'')"

lemma demo_tm_ok [simp]:
  "containers_ok demo_tm" "pending demo_tm k = None" "tm_typePeers demo_tm = []" "tm_trace demo_tm = []"
  "CheckTunnelAvailableType demo_tm s t" "type_for demo_tm x y = TUNNEL_ALL" "tm_servers demo_tm = []" "tm_tunnels demo_tm = []"
  by (simp_all add: demo_tm_def containers_ok_def TunnelModule_def CheckTunnelAvailableType_def type_for_def om_defs lower_bound_def)

text \<open>A request whose address is given is always answered.\<close>

lemma onInitTunnel_server_total:
  "it_address msg \<noteq> None \<or> ips \<noteq> [] \<Longrightarrow> \<exists>m'. onInitTunnel_server now g1 g2 ips msg m = Some m'"
  by (auto simp: onInitTunnel_server_def Let_def)

theorem one_setup_per_pair_witness:
  "\<exists>m1 m. onInitTunnel_server 0 ''g1'' ''g2'' [] (demo_request ''s1'' ''s2'') demo_tm = Some m1 \<and>
     tm_run [E_Check False 30, E_Connected ''s9'' EXTERNAL] m1 = Some m \<and>
     onInitTunnel_server 30 ''g3'' ''g4'' [] (demo_request ''s2'' ''s1'') m = Some m"
proof -
  obtain m1 where m1: "onInitTunnel_server 0 ''g1'' ''g2'' [] (demo_request ''s1'' ''s2'') demo_tm = Some m1"
    using onInitTunnel_server_total by (metis (no_types) demo_request_def init_tunnel.select_convs(4) option.distinct(1))
  obtain m where m: "tm_run [E_Check False 30, E_Connected ''s9'' EXTERNAL] m1 = Some m" by simp
  have "onInitTunnel_server 30 ''g3'' ''g4'' [] (demo_request ''s2'' ''s1'') m = Some m"
    by (rule one_setup_per_pair [OF _ _ _ _ m1 m, where k = "pair_key ''s1'' ''s2''"])
      (simp_all add: demo_request_def ends_setup_def pair_key_commute)
  with m1 m show ?thesis by blast
qed

theorem setup_reaches_both_clients_witness:
  "\<exists>m'. onInitTunnel_server 0 ''g1'' ''g2'' [] (demo_request ''s1'' ''s2'') demo_tm = Some m' \<and>
     cc_trace (fold deliver_signal (module_signals (tm_trace m'))
       ((ClientServerConnector ''Client.s2'' (local_name ''main'') ''k'')\<lparr>cc_ownSessionId := ''s2''\<rparr>)) =
     [Send (M_InitTunnelStarted \<lparr>sp_ext_session_id = ''s1'', sp_own_session_id = ''s2''\<rparr>),
      Send (M_InitTunnel ((demo_request ''s2'' ''s1'')\<lparr>it_type := Some TUNNEL_LOCAL_TCP\<rparr>))]"
proof -
  let ?c = "(ClientServerConnector ''Client.s2'' (local_name ''main'') ''k'')\<lparr>cc_ownSessionId := ''s2''\<rparr>"
  obtain m' where m': "onInitTunnel_server 0 ''g1'' ''g2'' [] (demo_request ''s1'' ''s2'') demo_tm = Some m'"
    using onInitTunnel_server_total by (metis (no_types) demo_request_def init_tunnel.select_convs(4) option.distinct(1))
  have name: "GetIPCName ''Client.s2'' = IPCName ''Client'' ''s2'' []"
    using GetIPCName_GetModuleNameString [of "IPCName ''Client'' ''s2'' []"]
    by (simp add: printable_name_def dot_free_def GetModuleNameString_def)
  have c: "to_client ?c" "cc_ownSessionId ?c = ''s2''" "cc_trace ?c = []"
    by (simp_all add: ClientServerConnector_def IPCConnector_def m_clientIPCName_def name)
  have "cc_trace (fold deliver_signal (module_signals (tm_trace m')) ?c) = told demo_tm (demo_request ''s1'' ''s2'') ''s2'' ''s1''"
    using setup_reaches_both_clients [where a = "''s1''" and b = "''s2''", OF demo_tm_ok(1) _ _ _ _ m' c(1)] c(2,3)
    by (simp add: demo_request_def)
  also have "\<dots> = [Send (M_InitTunnelStarted \<lparr>sp_ext_session_id = ''s1'', sp_own_session_id = ''s2''\<rparr>),
      Send (M_InitTunnel ((demo_request ''s2'' ''s1'')\<lparr>it_type := Some TUNNEL_LOCAL_TCP\<rparr>))]"
    by (simp add: told_def wants_def demo_request_def)
  finally show ?thesis using m' by blast
qed

section \<open>The checker\<close>

lemma map_of_filter_value:
  "map_ok m \<Longrightarrow> map_of (filter (\<lambda>(k, v). p v) m) k = (case map_of m k of None \<Rightarrow> None | Some v \<Rightarrow> if p v then Some v else None)"
proof (induction m)
  case (Cons kv m)
  have "map_of m (fst kv) = None" using Cons.prems by (force dest!: map_ok_distinct simp: map_of_eq_None_iff image_iff)
  moreover have "map_ok m" using Cons.prems by (simp add: map_ok_def)
  ultimately show ?case using Cons.IH by (cases kv) auto
qed simp

lemma stop_thread_no_fail [simp]: "TunnelConnectFailed k \<notin> set (stop_thread t)"
  by (simp add: stop_thread_def split: option.split)

definition failed_tunnels :: "tm_effect list \<Rightarrow> string list" where
  "failed_tunnels es = concat (map (\<lambda>e. case e of TunnelConnectFailed k \<Rightarrow> [k] | _ \<Rightarrow> []) es)"

lemma failed_tunnels_simps [simp]:
  "failed_tunnels [] = []" "failed_tunnels (xs @ ys) = failed_tunnels xs @ failed_tunnels ys"
  "failed_tunnels (TunnelConnectFailed k # es) = k # failed_tunnels es"
  "failed_tunnels (TunnelConnect_destroy t) = []" "failed_tunnels (TunnelServer_destroy v) = []"
  by (auto simp: failed_tunnels_def TunnelConnect_destroy_def TunnelServer_destroy_def stop_thread_def split: option.split)

lemma check_loops_failed:
  "failed_tunnels (snd (check_tunnels_loop now m)) = map fst (filter (\<lambda>(k, t). now - tn_creationTime t > 60) m)"
  "failed_tunnels (snd (check_servers_loop now n)) = []"
  by (induction m) (auto simp: Let_def split: prod.splits, induction n, auto simp: Let_def split: prod.splits)

text \<open>
  The checker drops exactly the tunnels, servers and set-ups that are more than sixty seconds
  old, and reports each of the dropped tunnels as failed once, in the order of their sessions.
\<close>

lemma CheckTunnels_expires:
  fixes now :: int and k :: string and p :: "string \<times> string" and m :: tunnel_module
  assumes "map_ok (tm_tunnels m)" and "map_ok (tm_servers m)" and "containers_ok m"
  defines "m' \<equiv> CheckTunnels now m"
  shows "find_tunnel m' k = (case find_tunnel m k of None \<Rightarrow> None | Some t \<Rightarrow> if now - tn_creationTime t > 60 then None else Some t) \<and>
    find_server m' k = (case find_server m k of None \<Rightarrow> None | Some v \<Rightarrow> if now - tv_creationTime v > 60 then None else Some v) \<and>
    pending m' p = (case pending m p of None \<Rightarrow> None | Some s \<Rightarrow> if now - ts_creationTime s > 60 then None else Some s) \<and>
    failed_tunnels (tm_trace m') = failed_tunnels (tm_trace m) @ map fst (filter (\<lambda>(k, t). now - tn_creationTime t > 60) (tm_tunnels m))"
proof -
  obtain ts es where t: "check_tunnels_loop now (tm_tunnels m) = (ts, es)" by fastforce
  obtain vs fs where v: "check_servers_loop now (tm_servers m) = (vs, fs)" by fastforce
  have "failed_tunnels es = map fst (filter (\<lambda>(k, t). now - tn_creationTime t > 60) (tm_tunnels m))" "failed_tunnels fs = []"
    using check_loops_failed(1) [of now "tm_tunnels m"] check_loops_failed(2) [of now "tm_servers m"] by (simp_all add: t v)
  moreover have "om_inv peer_key (tm_tunnelsStep m)" using assms(3) by (simp add: containers_ok_def)
  ultimately show ?thesis
    using map_of_filter_value [OF assms(1), of "\<lambda>t. \<not> now - tn_creationTime t > 60"]
      map_of_filter_value [OF assms(2), of "\<lambda>t. \<not> now - tv_creationTime t > 60"]
    by (simp add: m'_def CheckTunnels_def t v check_tunnels_loop_sel(1) [OF t] check_servers_loop_sel(1) [OF v]
        check_steps_lookup split: option.split)
qed

section \<open>Faults\<close>

lemma try_addresses_None:
  assumes "\<And>a m. ok m \<Longrightarrow> f a m = None \<longleftrightarrow> bad" and "\<And>a m m'. ok m \<Longrightarrow> f a m = Some m' \<Longrightarrow> ok m'" and "ok m"
  shows "try_addresses f as m = None \<longleftrightarrow> as \<noteq> [] \<and> bad"
  using assms(3)
proof (induction as arbitrary: m)
  case (Cons a as)
  then show ?case using assms(1) [OF Cons.prems] assms(2) [OF Cons.prems] by (cases "f a m") auto
qed simp

text \<open>
  Which \<open>TryConnectTo\<close> messages make the client call through a null pointer: those of a known
  tunnel with at least one address, for an external tunnel whose connecting thread is not there,
  or for a local UDP tunnel whose socket is not there.
\<close>

lemma onTryConnectTo_faults_iff:
  "onTryConnectTo msg m = None \<longleftrightarrow>
     (\<exists>t. find_tunnel m (tc_ext_session_id msg) = Some t \<and> tc_adresses msg \<noteq> [] \<and>
        (tc_type msg = TUNNEL_EXTERNAL \<and> tn_externalConnectThread t = None \<or>
         tc_type msg = TUNNEL_LOCAL_UDP \<and> tn_localUdpSocket t = None))"
proof -
  let ?ok = "\<lambda>n. tm_tunnels n = tm_tunnels m" and ?k = "tc_ext_session_id msg"
  have l: "try_addresses (\<lambda>a. CreateLocalConnectThread ?k (ta_ip a) (ta_port a) tcp) (tc_adresses msg) m = None \<longleftrightarrow>
      tc_adresses msg \<noteq> [] \<and> (\<exists>t. find_tunnel m ?k = Some t \<and> \<not> tcp \<and> tn_localUdpSocket t = None)" for tcp
    by (rule try_addresses_None [where ok = ?ok])
      (auto simp: CreateLocalConnectThread_def Let_def split: option.splits if_splits)
  have e: "try_addresses (\<lambda>a. CreateExternalConnectThread ?k (ta_ip a) (ta_port a)) (tc_adresses msg) m = None \<longleftrightarrow>
      tc_adresses msg \<noteq> [] \<and> (\<exists>t. find_tunnel m ?k = Some t \<and> tn_externalConnectThread t = None)"
    by (rule try_addresses_None [where ok = ?ok])
      (auto simp: CreateExternalConnectThread_def Let_def split: option.splits if_splits)
  show ?thesis by (cases "tc_type msg") (auto simp: onTryConnectTo_def l e)
qed

text \<open>
  With one tunnel object in it, the list of objects to share loses that object if at least
  two others follow it; otherwise the loop's iterator passes the end.
\<close>

lemma FillIPCObjectList_tm_overrun:
  assumes "\<forall>x \<in> set us. mod_name (m_ipcName x) \<noteq> ''Tunnel''" and "\<forall>x \<in> set vs. mod_name (m_ipcName x) \<noteq> ''Tunnel''"
    and "mod_name (m_ipcName t) = ''Tunnel''"
  shows "FillIPCObjectList_tm (us @ t # vs) = (if length vs \<ge> 2 then Some (us @ vs) else None)"
proof -
  have clean: "fill_tunnel_loop xs = Some xs" if "\<forall>x \<in> set xs. mod_name (m_ipcName x) \<noteq> ''Tunnel''" for xs
    using that by (induction xs) (simp_all add: m_tunnelIPCName_def)
  have "fill_tunnel_loop (t # vs) = (if length vs \<ge> 2 then Some vs else None)"
    using assms(2,3) clean by (auto simp: m_tunnelIPCName_def split: list.split)
  then have "fill_tunnel_loop (us @ t # vs) = (if length vs \<ge> 2 then Some (us @ vs) else None)"
    using assms(1) by (induction us) (simp_all add: m_tunnelIPCName_def)
  then show ?thesis by (simp add: FillIPCObjectList_tm_def FillIPCObjectList_cs_id)
qed

end
