(* ===== verification/Secure_Socket.thy ===== *)
theory Secure_Socket
  imports Framing "HOL-Library.Signed_Division"
begin

text \<open>
  Encrypted connections: the block cipher's wrapper (\<open>connector_lib/common/aes.cpp\<close>), the
  handshake and the encrypted stream (\<open>connector_lib/socket/secure_socket.cpp\<close>). OpenSSL is a
  record of functions. A socket is the bytes that will still arrive, the bytes it has sent, and
  whether the transport still accepts data; that \<open>TCPSocket::Recv\<close> gives exactly the next bytes
  is shown in the theory of frames. \<^const>\<open>None\<close> as a result of an operation is a crash: an
  exception nobody catches, or memory written out of bounds.
\<close>

section \<open>OpenSSL\<close>

text \<open>
  \<open>AES_set_encrypt_key\<close> (whether it succeeds), \<open>AES_cbc_encrypt\<close> of a key, an initial vector and
  data in either direction, \<open>RAND_bytes\<close> for the successive calls, the public key of
  \<open>RSA_generate_key\<close> as \<open>i2d_RSAPublicKey\<close> writes it, \<open>RSA_size\<close>, whether \<open>d2i_RSAPublicKey\<close>
  reads a string, \<open>RSA_public_encrypt\<close> for a written key, and \<open>RSA_private_decrypt\<close>.
\<close>

record crypto =
  cr_set_key :: "string \<Rightarrow> bool"
  cr_cbc_encrypt :: "string \<Rightarrow> string \<Rightarrow> string \<Rightarrow> string"
  cr_cbc_decrypt :: "string \<Rightarrow> string \<Rightarrow> string \<Rightarrow> string"
  cr_rand :: "nat \<Rightarrow> string option"
  cr_public_key :: string
  cr_rsa_size :: nat
  cr_d2i :: "string \<Rightarrow> bool"
  cr_public_encrypt :: "string \<Rightarrow> string \<Rightarrow> string option"
  cr_private_decrypt :: "string \<Rightarrow> string option"

section \<open>The block cipher\<close>

definition MAX_BUFFER_LEN :: int where
  "MAX_BUFFER_LEN = 8192"

definition AES_iv :: string where
  "AES_iv = ''123456789abcdef'' @ [CHR 0x00]"

text \<open>\<open>key\<close> advances by eight bytes, each call fills as many bytes as a pointer has.\<close>

function AESGenerateKey_loop :: "(nat \<Rightarrow> string option) \<Rightarrow> nat \<Rightarrow> string \<Rightarrow> bool \<times> string" where
  "AESGenerateKey_loop rand i key =
     (if key = [] then (True, [])
      else (case rand i of
              None \<Rightarrow> (False, key)
            | Some r \<Rightarrow> (case AESGenerateKey_loop rand (Suc i) (drop 8 key) of
                (ok, rest) \<Rightarrow> (ok, r @ drop (length r) (take 8 key) @ rest))))"
  by pat_completeness auto
termination by (relation "measure (\<lambda>(rand, i, key). length key)") auto

declare AESGenerateKey_loop.simps [simp del]

definition AESGenerateKey :: "(nat \<Rightarrow> string option) \<Rightarrow> string \<Rightarrow> int \<times> string" where
  "AESGenerateKey rand key =
     (if length key > 32 \<or> length key mod 8 \<noteq> 0 then (-1, key)
      else (case AESGenerateKey_loop rand 0 key of (ok, k) \<Rightarrow> (if ok then int (length key) else 0, k)))"

definition GetEncriptedDataLen :: "int \<Rightarrow> int" where
  "GetEncriptedDataLen datalen =
     (let rest = (if datalen smod 16 \<noteq> 0 then (datalen sdiv 16 + 1) * 16 - datalen else 0)
      in datalen + rest)"

text \<open>The result is an error code or what was written.\<close>

definition AESEncrypt :: "crypto \<Rightarrow> string \<Rightarrow> string \<Rightarrow> int \<Rightarrow> int + string" where
  "AESEncrypt c key data encryptedDataLen =
     (let realDataLen = GetEncriptedDataLen (int (length data))
      in if encryptedDataLen < realDataLen then Inl (-1)
         else if realDataLen > MAX_BUFFER_LEN \<or> realDataLen = 0 then Inl (-2)
         else if length key > 32 \<or> length key mod 8 \<noteq> 0 then Inl (-3)
         else if \<not> cr_set_key c key then Inl 0
         else Inr (cr_cbc_encrypt c key AES_iv (data @ replicate (nat realDataLen - length data) (CHR 0x00))))"

definition AESDecrypt :: "crypto \<Rightarrow> string \<Rightarrow> string \<Rightarrow> int \<Rightarrow> int + string" where
  "AESDecrypt c key data decryptedDataLen =
     (let datalen = int (length data)
      in if decryptedDataLen > datalen then Inl (-1)
         else if datalen > MAX_BUFFER_LEN \<or> datalen smod 16 \<noteq> 0 then Inl (-2)
         else if length key > 32 \<or> length key mod 8 \<noteq> 0 then Inl (-3)
         else if datalen = 0 then Inl 0
         else if \<not> cr_set_key c key then Inl 0
         else Inr (take (nat decryptedDataLen) (cr_cbc_decrypt c key AES_iv data)))"

section \<open>The socket\<close>

record secure_socket =
  ss_bInit :: bool
  ss_key :: string
  ss_recvdata :: string
  ss_in :: string
  ss_out :: string
  ss_open :: bool

definition SecureSocket :: "string \<Rightarrow> secure_socket" where
  "SecureSocket key = \<lparr>ss_bInit = False, ss_key = key, ss_recvdata = [], ss_in = [], ss_out = [], ss_open = True\<rparr>"

text \<open>The transport: \<open>TCPSocket::Send\<close> and \<open>TCPSocket::Recv\<close>.\<close>

definition raw_Send :: "string \<Rightarrow> secure_socket \<Rightarrow> bool \<times> secure_socket" where
  "raw_Send data s = (if ss_open s then (True, s\<lparr>ss_out := ss_out s @ data\<rparr>) else (False, s))"

definition raw_Recv :: "nat \<Rightarrow> secure_socket \<Rightarrow> string option \<times> secure_socket" where
  "raw_Recv len s =
     (if length (ss_in s) < len then (None, s\<lparr>ss_in := []\<rparr>)
      else (Some (take len (ss_in s)), s\<lparr>ss_in := drop len (ss_in s)\<rparr>))"

definition GetData :: "nat \<Rightarrow> secure_socket \<Rightarrow> (string \<times> secure_socket) option" where
  "GetData len s =
     (if length (ss_recvdata s) < len then None
      else Some (take len (ss_recvdata s), s\<lparr>ss_recvdata := drop len (ss_recvdata s)\<rparr>))"

text \<open>
  A message of up to \<open>MAX_BUFFER_LEN\<close> bytes is encrypted and sent behind its own length; a
  longer one in pieces.
\<close>

definition SecureSocket_Send_one :: "crypto \<Rightarrow> string \<Rightarrow> secure_socket \<Rightarrow> bool \<times> secure_socket" where
  "SecureSocket_Send_one c data s =
     (case AESEncrypt c (ss_key s) data MAX_BUFFER_LEN of
        Inl code \<Rightarrow> (False, s)
      | Inr encriptedData \<Rightarrow> raw_Send (int_bytes (word_of_nat (length data)) @ encriptedData) s)"

function SecureSocket_Send_loop :: "crypto \<Rightarrow> string \<Rightarrow> secure_socket \<Rightarrow> bool \<times> secure_socket" where
  "SecureSocket_Send_loop c data s =
     (if data = [] then (True, s)
      else (case SecureSocket_Send_one c (take (nat MAX_BUFFER_LEN) data) s of
              (ok, s) \<Rightarrow> if ok then SecureSocket_Send_loop c (drop (nat MAX_BUFFER_LEN) data) s else (False, s)))"
  by pat_completeness auto
termination by (relation "measure (\<lambda>(c, data, s). length data)") (auto simp: MAX_BUFFER_LEN_def)

declare SecureSocket_Send_loop.simps [simp del]

definition SecureSocket_Send :: "crypto \<Rightarrow> string \<Rightarrow> secure_socket \<Rightarrow> bool \<times> secure_socket" where
  "SecureSocket_Send c data s =
     (if int (length data) > MAX_BUFFER_LEN then SecureSocket_Send_loop c data s
      else SecureSocket_Send_one c data s)"

text \<open>
  Receiving: encrypted messages are read until enough data has been decrypted. The length is
  the peer's: \<open>new unsigned char[n]\<close> of a negative \<open>n\<close> throws, as does the rounding's overflow
  in effect; of the error codes of \<open>AESDecrypt\<close> only \<open>-1\<close> is checked, and a negative length is
  then given to \<open>resize\<close> and \<open>memcpy\<close>.
\<close>

function SecureSocket_Recv :: "crypto \<Rightarrow> nat \<Rightarrow> secure_socket \<Rightarrow> (string option \<times> secure_socket) option" where
  "SecureSocket_Recv c len s =
     (case GetData len s of
        Some (data, s) \<Rightarrow> Some (Some data, s)
      | None \<Rightarrow>
          if length (ss_in s) < 4 then Some (None, snd (raw_Recv 4 s))
          else
            let recvlen = sint (bytes_int (ss_in s)); realDataLen = GetEncriptedDataLen recvlen;
                s = s\<lparr>ss_in := drop 4 (ss_in s)\<rparr>
            in if realDataLen < 0 \<or> realDataLen \<ge> 2 ^ 31 then None
               else
                 (case raw_Recv (nat realDataLen) s of
                    (None, s') \<Rightarrow> Some (None, s')
                  | (Some recvdata, s') \<Rightarrow>
                      if recvlen < 0 then None
                      else
                        (case AESDecrypt c (ss_key s) recvdata recvlen of
                           Inl code \<Rightarrow>
                             if code = -1 then Some (None, s\<lparr>ss_in := drop (nat realDataLen) (ss_in s)\<rparr>)
                             else if code < 0 then None
                             else SecureSocket_Recv c len (s\<lparr>ss_in := drop (nat realDataLen) (ss_in s)\<rparr>)
                         | Inr decriptedData \<Rightarrow>
                             SecureSocket_Recv c len (s\<lparr>ss_in := drop (nat realDataLen) (ss_in s),
                               ss_recvdata := ss_recvdata s @ decriptedData\<rparr>))))"
  by pat_completeness auto
termination by (relation "measure (\<lambda>(c, len, s). length (ss_in s))") auto

declare SecureSocket_Recv.simps [simp del]

text \<open>\<open>SecureTCPSocket::Send\<close> and \<open>Recv\<close>: in the clear until the handshake has succeeded.\<close>

definition SecureTCPSocket_Send :: "crypto \<Rightarrow> string \<Rightarrow> secure_socket \<Rightarrow> bool \<times> secure_socket" where
  "SecureTCPSocket_Send c data s = (if ss_bInit s then SecureSocket_Send c data s else raw_Send data s)"

definition SecureTCPSocket_Recv :: "crypto \<Rightarrow> nat \<Rightarrow> secure_socket \<Rightarrow> (string option \<times> secure_socket) option" where
  "SecureTCPSocket_Recv c len s = (if ss_bInit s then SecureSocket_Recv c len s else Some (raw_Recv len s))"

section \<open>The handshake\<close>

definition startTls :: string where
  "startTls = ''STARTTLS''"

definition expecTls :: string where
  "expecTls = ''EXPECTLS''"

text \<open>
  The side that is told \<open>EXPECTLS\<close>: it sends its public key and receives the session key, which
  is decrypted into the 32 bytes of \<open>m_key\<close>.
\<close>

definition verify_server :: "crypto \<Rightarrow> secure_socket \<Rightarrow> (bool \<times> secure_socket) option" where
  "verify_server c s =
     (case SecureTCPSocket_Send c (int_bytes (word_of_nat (length (cr_public_key c)))) s of
        (False, s) \<Rightarrow> Some (False, s)
      | (True, s) \<Rightarrow>
          (case SecureTCPSocket_Send c (cr_public_key c) s of
             (False, s) \<Rightarrow> Some (False, s)
           | (True, s) \<Rightarrow>
               (case SecureTCPSocket_Recv c (cr_rsa_size c) s of
                  None \<Rightarrow> None
                | Some (None, s) \<Rightarrow> Some (False, s)
                | Some (Some data, s) \<Rightarrow>
                    (case cr_private_decrypt c data of
                       None \<Rightarrow> Some (False, s)
                     | Some key \<Rightarrow>
                         if length key > 32 then None
                         else if key = [] then Some (False, s)
                         else Some (True, s\<lparr>ss_key := key @ drop (length key) (ss_key s)\<rparr>)))))"

text \<open>
  The side that is told \<open>STARTTLS\<close>: it receives the public key and sends a session key. A failed
  \<open>RSA_public_encrypt\<close> returns \<open>-1\<close>, and sending \<open>-1\<close> bytes in the clear sends nothing and
  succeeds.
\<close>

definition verify_client :: "crypto \<Rightarrow> secure_socket \<Rightarrow> (bool \<times> secure_socket) option" where
  "verify_client c s =
     (case SecureTCPSocket_Recv c 4 s of
        None \<Rightarrow> None
      | Some (None, s) \<Rightarrow> Some (False, s)
      | Some (Some h, s) \<Rightarrow>
          let len = sint (bytes_int h)
          in if len < 0 then None
             else
               (case SecureTCPSocket_Recv c (nat len) s of
                  None \<Rightarrow> None
                | Some (None, s) \<Rightarrow> Some (False, s)
                | Some (Some pub, s) \<Rightarrow>
                    if \<not> cr_d2i c pub then Some (False, s)
                    else
                      (case AESGenerateKey (cr_rand c) (ss_key s) of
                         (n, key) \<Rightarrow>
                           let s = s\<lparr>ss_key := key\<rparr>
                           in if n \<le> 0 then Some (False, s)
                              else (case cr_public_encrypt c pub key of
                                      None \<Rightarrow> if ss_bInit s then None else Some (raw_Send [] s)
                                    | Some data \<Rightarrow> Some (SecureTCPSocket_Send c data s)))))"

definition PerformSslVerify :: "crypto \<Rightarrow> string \<Rightarrow> secure_socket \<Rightarrow> (bool \<times> secure_socket) option" where
  "PerformSslVerify c tlsString s =
     (let done = map_option (\<lambda>(ok, s). (ok, if ok then s\<lparr>ss_bInit := True\<rparr> else s))
      in case SecureTCPSocket_Send c tlsString s of
           (False, s) \<Rightarrow> Some (False, s)
         | (True, s) \<Rightarrow>
             (case SecureTCPSocket_Recv c 8 s of
                None \<Rightarrow> None
              | Some (None, s) \<Rightarrow> Some (False, s)
              | Some (Some sslHeader, s) \<Rightarrow>
                  if sslHeader = expecTls then done (verify_server c s)
                  else if sslHeader = startTls then done (verify_client c s)
                  else Some (False, s)))"

text \<open>The constructor for an accepted connection, which drops the handshake's result, and \<open>Connect\<close>.\<close>

definition SecureTCPSocket_accept :: "crypto \<Rightarrow> secure_socket \<Rightarrow> secure_socket option" where
  "SecureTCPSocket_accept c s = map_option snd (PerformSslVerify c startTls s)"

definition SecureTCPSocket_Connect :: "crypto \<Rightarrow> bool \<Rightarrow> secure_socket \<Rightarrow> (bool \<times> secure_socket) option" where
  "SecureTCPSocket_Connect c connected s = (if \<not> connected then Some (False, s) else PerformSslVerify c expecTls s)"

end
