(* ===== verification/Secure_Channel.thy ===== *)
theory Secure_Channel
  imports Secure_Socket
begin

text \<open>
  The encrypted connection as a byte stream: padding, one message, streams of messages, and the
  handshake, with what goes wrong in it. What is relied on of the cipher, RSA and the random
  numbers is stated as predicates on the record of OpenSSL's functions.
\<close>

section \<open>What the code relies on\<close>

text \<open>
  A 32-byte key is accepted, decryption of whole blocks undoes encryption, and encryption keeps
  the length.
\<close>

definition cipher_ok :: "crypto \<Rightarrow> bool" where
  "cipher_ok c \<longleftrightarrow> (\<forall>k iv x. length k = 32 \<longrightarrow> cr_set_key c k \<and>
     (16 dvd length x \<longrightarrow> length (cr_cbc_encrypt c k iv x) = length x \<and> cr_cbc_decrypt c k iv (cr_cbc_encrypt c k iv x) = x))"

section \<open>Padding\<close>

definition padded :: "nat \<Rightarrow> nat" where
  "padded n = 16 * ((n + 15) div 16)"

lemma padded_bounds: "n \<le> padded n" "padded n < n + 16" "16 dvd padded n"
proof -
  have "(n + 15) div 16 * 16 + (n + 15) mod 16 = n + 15" by simp
  moreover have "(n + 15) mod 16 < 16" by simp
  ultimately show "n \<le> padded n" "padded n < n + 16" unfolding padded_def by linarith+
qed (simp add: padded_def)

lemma padded_0 [simp]: "padded n = 0 \<longleftrightarrow> n = 0"
  using padded_bounds(1) [of n] by (auto simp: padded_def)

lemma padded_8192: "n \<le> 8192 \<Longrightarrow> padded n \<le> 8192"
proof -
  assume "n \<le> 8192"
  then have "(n + 15) div 16 \<le> (8192 + 15) div 16" by (intro div_le_mono) simp
  then show "padded n \<le> 8192" by (simp add: padded_def)
qed

text \<open>\<open>GetEncriptedDataLen\<close> rounds up to whole blocks.\<close>

lemma GetEncriptedDataLen_padded: "GetEncriptedDataLen (int n) = int (padded n)"
proof -
  have d: "int n sdiv 16 = int (n div 16)" "int n smod 16 = int (n mod 16)"
    by (cases "n = 0"; simp add: signed_divide_int_def signed_modulo_int_def zdiv_int zmod_int minus_mult_div_eq_mod)+
  have n: "16 * (n div 16) + n mod 16 = n" by simp
  have "(n + 15) div 16 = (if n mod 16 = 0 then n div 16 else n div 16 + 1)"
  proof -
    have "n + 15 = (n mod 16 + 15) + n div 16 * 16" using n by simp
    then have "(n + 15) div 16 = ((n mod 16 + 15) + n div 16 * 16) div 16" by simp
    also have "\<dots> = n div 16 + (n mod 16 + 15) div 16" by (rule div_mult_self1) simp
    also have "(n mod 16 + 15) div 16 = (if n mod 16 = 0 then 0 else 1)"
      using mod_less_divisor [of 16 n] by (simp add: div_nat_eqI)
    finally show ?thesis by simp
  qed
  then have e: "padded n = (if n mod 16 = 0 then n else 16 * (n div 16) + 16)" using n by (auto simp: padded_def)
  show ?thesis unfolding GetEncriptedDataLen_def Let_def d e by simp
qed

section \<open>One encrypted message\<close>

definition pad :: "string \<Rightarrow> string" where
  "pad d = d @ replicate (padded (length d) - length d) (CHR 0x00)"

lemma length_pad [simp]: "length (pad d) = padded (length d)"
  using padded_bounds(1) [of "length d"] by (simp add: pad_def)

lemma take_pad [simp]: "take (length d) (pad d) = d"
  by (simp add: pad_def)

definition sealed :: "crypto \<Rightarrow> string \<Rightarrow> string \<Rightarrow> string" where
  "sealed c key d = int_bytes (word_of_nat (length d)) @ cr_cbc_encrypt c key AES_iv (pad d)"

lemma AESEncrypt_ok:
  assumes "cipher_ok c" and "length key = 32" and "d \<noteq> []" and "length d \<le> 8192"
  shows "AESEncrypt c key d MAX_BUFFER_LEN = Inr (cr_cbc_encrypt c key AES_iv (pad d))"
  using assms padded_8192 [OF assms(4)] padded_bounds(1) [of "length d"]
  by (simp add: AESEncrypt_def Let_def GetEncriptedDataLen_padded MAX_BUFFER_LEN_def cipher_ok_def pad_def)

lemma length_encrypt:
  assumes "cipher_ok c" and "length key = 32"
  shows "length (cr_cbc_encrypt c key AES_iv (pad d)) = padded (length d)"
  using assms padded_bounds(3) by (simp add: cipher_ok_def)

lemma AESDecrypt_ok:
  assumes "cipher_ok c" and "length key = 32" and "d \<noteq> []" and "length d \<le> 8192"
  shows "AESDecrypt c key (cr_cbc_encrypt c key AES_iv (pad d)) (int (length d)) = Inr d"
proof -
  have n: "padded (length d) \<noteq> 0" using assms(3) by simp
  have m: "int (padded (length d)) smod 16 = 0" by (simp add: padded_def signed_modulo_int_def signed_divide_int_def sgn_if)
  show ?thesis
    using assms n m padded_bounds [of "length d"] padded_8192 [OF assms(4)] length_encrypt [OF assms(1,2), of d]
    by (simp add: AESDecrypt_def Let_def MAX_BUFFER_LEN_def cipher_ok_def)
qed

lemma Send_one_ok:
  assumes "cipher_ok c" and "length (ss_key s) = 32" and "ss_open s" and "d \<noteq> []" and "length d \<le> 8192"
  shows "SecureSocket_Send_one c d s = (True, s\<lparr>ss_out := ss_out s @ sealed c (ss_key s) d\<rparr>)"
  using assms by (simp add: SecureSocket_Send_one_def AESEncrypt_ok raw_Send_def sealed_def)

text \<open>Receiving one message appends its plain text.\<close>

lemma Recv_sealed:
  assumes "cipher_ok c" and "length (ss_key s) = 32" and "d \<noteq> []" and "length d \<le> 8192"
    and "ss_in s = sealed c (ss_key s) d @ rest" and "length (ss_recvdata s) < len"
  shows "SecureSocket_Recv c len s = SecureSocket_Recv c len (s\<lparr>ss_in := rest, ss_recvdata := ss_recvdata s @ d\<rparr>)"
proof -
  have l: "sint (bytes_int (ss_in s)) = int (length d)" using assms(4,5) by (simp add: sealed_def sint_of_length)
  have r: "drop 4 (ss_in s) = cr_cbc_encrypt c (ss_key s) AES_iv (pad d) @ rest" "\<not> length (ss_in s) < 4"
    using assms(5) by (simp_all add: sealed_def)
  have n: "length (cr_cbc_encrypt c (ss_key s) AES_iv (pad d)) = padded (length d)" by (rule length_encrypt [OF assms(1,2)])
  have b: "padded (length d) < 2 ^ 31" using padded_8192 [OF assms(4)] by simp
  show ?thesis
    using b assms(6) by (subst SecureSocket_Recv.simps)
      (simp add: GetData_def l r GetEncriptedDataLen_padded raw_Recv_def n AESDecrypt_ok [OF assms(1-4)] Let_def)
qed

section \<open>The encrypted stream\<close>

abbreviation piece_ok :: "string \<Rightarrow> bool" where
  "piece_ok d \<equiv> d \<noteq> [] \<and> length d \<le> 8192"

definition sealed_all :: "crypto \<Rightarrow> string \<Rightarrow> string list \<Rightarrow> string" where
  "sealed_all c key ds = concat (map (sealed c key) ds)"

lemma sealed_all_simps [simp]:
  "sealed_all c key [] = []" "sealed_all c key (d # ds) = sealed c key d @ sealed_all c key ds"
  "sealed_all c key (ds @ es) = sealed_all c key ds @ sealed_all c key es"
  by (simp_all add: sealed_all_def)

text \<open>Sending anything that is not empty sends it as pieces that make it up.\<close>

lemma Send_loop_ok:
  assumes "cipher_ok c" and "length (ss_key s) = 32" and "ss_open s"
  shows "\<exists>ds. SecureSocket_Send_loop c data s = (True, s\<lparr>ss_out := ss_out s @ sealed_all c (ss_key s) ds\<rparr>)
    \<and> concat ds = data \<and> (\<forall>d \<in> set ds. piece_ok d)"
  using assms(2,3)
proof (induction "length data" arbitrary: data s rule: less_induct)
  case less
  show ?case
  proof (cases "data = []")
    case True
    then show ?thesis by (intro exI [of _ "[]"]) (simp add: SecureSocket_Send_loop.simps)
  next
    case False
    let ?d = "take 8192 data" and ?s = "s\<lparr>ss_out := ss_out s @ sealed c (ss_key s) (take 8192 data)\<rparr>"
    have d: "piece_ok ?d" using False by simp
    have one: "SecureSocket_Send_one c ?d s = (True, ?s)"
      using d less.prems by (intro Send_one_ok [OF assms(1)]) auto
    obtain ds where ds: "SecureSocket_Send_loop c (drop 8192 data) ?s = (True, ?s\<lparr>ss_out := ss_out ?s @ sealed_all c (ss_key ?s) ds\<rparr>)"
      "concat ds = drop 8192 data" "\<forall>d \<in> set ds. piece_ok d"
      using less.hyps [of "drop 8192 data" ?s] less.prems False by auto
    show ?thesis
      using False d ds by (intro exI [of _ "?d # ds"], subst SecureSocket_Send_loop.simps) (simp add: MAX_BUFFER_LEN_def one)
  qed
qed

lemma Send_ok:
  assumes "cipher_ok c" and "length (ss_key s) = 32" and "ss_open s" and "data \<noteq> []"
  obtains ds where "SecureSocket_Send c data s = (True, s\<lparr>ss_out := ss_out s @ sealed_all c (ss_key s) ds\<rparr>)"
    and "concat ds = data" and "\<forall>d \<in> set ds. piece_ok d"
proof (cases "int (length data) > MAX_BUFFER_LEN")
  case True
  with that Send_loop_ok [OF assms(1-3)] show thesis by (auto simp: SecureSocket_Send_def)
next
  case False
  with that [of "[data]"] Send_one_ok [OF assms(1-3)] assms(4) show thesis
    by (simp add: SecureSocket_Send_def MAX_BUFFER_LEN_def)
qed

fun Send_seq :: "crypto \<Rightarrow> string list \<Rightarrow> secure_socket \<Rightarrow> bool \<times> secure_socket" where
  "Send_seq c [] s = (True, s)"
| "Send_seq c (d # ds) s = (case SecureTCPSocket_Send c d s of (ok, s) \<Rightarrow> if ok then Send_seq c ds s else (False, s))"

fun Recv_seq :: "crypto \<Rightarrow> nat list \<Rightarrow> secure_socket \<Rightarrow> (string list \<times> secure_socket) option" where
  "Recv_seq c [] s = Some ([], s)"
| "Recv_seq c (n # ns) s =
     (case SecureTCPSocket_Recv c n s of
        Some (Some d, s) \<Rightarrow> map_option (\<lambda>(ds, s). (d # ds, s)) (Recv_seq c ns s)
      | _ \<Rightarrow> None)"

lemma Send_seq_ok:
  assumes "cipher_ok c" and "length (ss_key s) = 32" and "ss_open s" and "ss_bInit s" and "\<forall>m \<in> set ms. m \<noteq> []"
  obtains ds where "Send_seq c ms s = (True, s\<lparr>ss_out := ss_out s @ sealed_all c (ss_key s) ds\<rparr>)"
    and "concat ds = concat ms" and "\<forall>d \<in> set ds. piece_ok d"
proof -
  have "\<exists>ds. Send_seq c ms s = (True, s\<lparr>ss_out := ss_out s @ sealed_all c (ss_key s) ds\<rparr>) \<and> concat ds = concat ms \<and> (\<forall>d \<in> set ds. piece_ok d)"
    using assms(2-5)
  proof (induction ms arbitrary: s)
    case Nil
    then show ?case by (intro exI [of _ "[]"]) simp
  next
    case (Cons m ms)
    obtain ds where ds: "SecureSocket_Send c m s = (True, s\<lparr>ss_out := ss_out s @ sealed_all c (ss_key s) ds\<rparr>)" "concat ds = m" "\<forall>d \<in> set ds. piece_ok d"
      using Send_ok [OF assms(1) Cons.prems(1,2), of m] Cons.prems(4) by auto
    let ?s = "s\<lparr>ss_out := ss_out s @ sealed_all c (ss_key s) ds\<rparr>"
    obtain es where es: "Send_seq c ms ?s = (True, ?s\<lparr>ss_out := ss_out ?s @ sealed_all c (ss_key ?s) es\<rparr>)" "concat es = concat ms" "\<forall>d \<in> set es. piece_ok d"
      using Cons.IH [of ?s] Cons.prems by auto
    then show ?case using ds Cons.prems(3) by (intro exI [of _ "ds @ es"]) (auto simp: SecureTCPSocket_Send_def)
  qed
  with that show thesis by blast
qed

text \<open>What the receiver still has to deliver: decrypted bytes, then encrypted pieces.\<close>

definition holds :: "crypto \<Rightarrow> secure_socket \<Rightarrow> string \<Rightarrow> bool" where
  "holds c s plain \<longleftrightarrow> ss_bInit s \<and> length (ss_key s) = 32 \<and>
     (\<exists>ds. ss_in s = sealed_all c (ss_key s) ds \<and> (\<forall>d \<in> set ds. piece_ok d) \<and> ss_recvdata s @ concat ds = plain)"

lemma GetData_holds:
  assumes "holds c s plain" and "length (ss_recvdata s) \<ge> len"
  shows "\<exists>s'. SecureSocket_Recv c len s = Some (Some (take len plain), s') \<and> holds c s' (drop len plain)"
  using assms by (subst SecureSocket_Recv.simps) (auto simp: GetData_def holds_def)

lemma Recv_holds:
  assumes "cipher_ok c" and "holds c s plain" and "len \<le> length plain"
  shows "\<exists>s'. SecureTCPSocket_Recv c len s = Some (Some (take len plain), s') \<and> holds c s' (drop len plain)"
proof -
  obtain ds where ds: "ss_in s = sealed_all c (ss_key s) ds" "\<forall>d \<in> set ds. piece_ok d" "ss_recvdata s @ concat ds = plain"
    and k: "ss_bInit s" "length (ss_key s) = 32"
    using assms(2) by (auto simp: holds_def)
  have "\<exists>s'. SecureSocket_Recv c len s = Some (Some (take len plain), s') \<and> holds c s' (drop len plain)"
    using ds k
  proof (induction ds arbitrary: s)
    case Nil
    then have "holds c s plain" by (auto simp: holds_def intro: exI [of _ "[]"])
    then show ?case using GetData_holds assms(3) Nil.prems by auto
  next
    case (Cons d ds)
    show ?case
    proof (cases "length (ss_recvdata s) \<ge> len")
      case True
      have "holds c s plain" using Cons.prems unfolding holds_def by blast
      with True show ?thesis by (rule GetData_holds [rotated])
    next
      case False
      let ?s = "s\<lparr>ss_in := sealed_all c (ss_key s) ds, ss_recvdata := ss_recvdata s @ d\<rparr>"
      have "SecureSocket_Recv c len s = SecureSocket_Recv c len ?s"
        by (rule Recv_sealed [OF assms(1)]) (use False Cons.prems in auto)
      then show ?thesis using Cons.IH [of ?s] Cons.prems by simp
    qed
  qed
  then show ?thesis using k by (simp add: SecureTCPSocket_Recv_def)
qed

fun cut :: "nat list \<Rightarrow> string \<Rightarrow> string list" where
  "cut [] s = []"
| "cut (n # ns) s = take n s # cut ns (drop n s)"

lemma Recv_seq_holds:
  "cipher_ok c \<Longrightarrow> holds c s plain \<Longrightarrow> sum_list ns \<le> length plain \<Longrightarrow> \<exists>s'. Recv_seq c ns s = Some (cut ns plain, s')"
proof (induction ns arbitrary: s plain)
  case (Cons n ns)
  obtain s' where "SecureTCPSocket_Recv c n s = Some (Some (take n plain), s')" "holds c s' (drop n plain)"
    using Recv_holds [OF Cons.prems(1,2), of n] Cons.prems(3) by auto
  moreover from this obtain s'' where "Recv_seq c ns s' = Some (cut ns (drop n plain), s'')"
    using Cons.IH [OF Cons.prems(1)] Cons.prems(3) by fastforce
  ultimately show ?case by simp
qed simp

text \<open>
  C21: an encrypted connection is a byte stream. Whatever non-empty messages one side sends after
  the handshake, of any length, the other side, with the same key, receives their bytes in order
  in whatever portions it asks for them, as long as it asks for no more than was sent.
\<close>

theorem secure_stream_roundtrip:
  assumes "cipher_ok c" and "ss_bInit a" and "ss_open a" and "length (ss_key a) = 32" and "ss_out a = []"
    and "\<forall>m \<in> set ms. m \<noteq> []" and "Send_seq c ms a = (ok, a')"
    and "ss_bInit b" and "ss_key b = ss_key a" and "ss_recvdata b = []" and "ss_in b = ss_out a'"
    and "sum_list ns \<le> length (concat ms)"
  shows "ok \<and> (\<exists>b'. Recv_seq c ns b = Some (cut ns (concat ms), b'))"
proof -
  obtain ds where ds: "Send_seq c ms a = (True, a\<lparr>ss_out := ss_out a @ sealed_all c (ss_key a) ds\<rparr>)"
    "concat ds = concat ms" "\<forall>d \<in> set ds. piece_ok d"
    using Send_seq_ok [OF assms(1,4,3,2,6)] by blast
  then have "holds c b (concat ms)" using assms(4,5,7-11) unfolding holds_def by auto
  then show ?thesis using Recv_seq_holds [OF assms(1) _ assms(12)] ds(1) assms(7) by auto
qed

section \<open>The handshake\<close>

text \<open>What OpenSSL documents of RSA: a 32-byte message encrypted with the written public key is
  one block, which the private key decrypts to the message.\<close>

definition rsa_ok :: "crypto \<Rightarrow> bool" where
  "rsa_ok c \<longleftrightarrow> cr_d2i c (cr_public_key c) \<and> length (cr_public_key c) < 2 ^ 31 \<and>
     (\<forall>m. length m = 32 \<longrightarrow> (\<exists>e. cr_public_encrypt c (cr_public_key c) m = Some e \<and> length e = cr_rsa_size c \<and>
        cr_private_decrypt c e = Some m))"

definition rand_ok :: "crypto \<Rightarrow> bool" where
  "rand_ok c \<longleftrightarrow> (\<forall>i. \<exists>r. cr_rand c i = Some r \<and> length r = 8)"

lemma AESGenerateKey_loop_ok:
  "rand_ok c \<Longrightarrow> 8 dvd length key \<Longrightarrow>
     \<exists>k. AESGenerateKey_loop (cr_rand c) i key = (True, k) \<and> length k = length key"
proof (induction "length key" arbitrary: key i rule: less_induct)
  case less
  show ?case
  proof (cases "key = []")
    case True
    then show ?thesis by (simp add: AESGenerateKey_loop.simps)
  next
    case False
    obtain r where r: "cr_rand c i = Some r" "length r = 8" using less.prems by (auto simp: rand_ok_def)
    have l: "length key \<ge> 8" using False less.prems(2) by (auto dest: dvd_imp_le)
    then obtain k where "AESGenerateKey_loop (cr_rand c) (Suc i) (drop 8 key) = (True, k)" "length k = length (drop 8 key)"
      using less.hyps [of "drop 8 key" "Suc i"] less.prems False by auto
    with r l False show ?thesis by (subst AESGenerateKey_loop.simps) simp
  qed
qed

lemma AESGenerateKey_ok:
  assumes "rand_ok c" and "length key = 32"
  obtains k where "AESGenerateKey (cr_rand c) key = (32, k)" and "length k = 32"
  using AESGenerateKey_loop_ok [OF assms(1), of key 0] assms(2) by (auto simp: AESGenerateKey_def)

text \<open>The bytes each side sends.\<close>

definition server_hello :: "crypto \<Rightarrow> string" where
  "server_hello c = startTls @ int_bytes (word_of_nat (length (cr_public_key c))) @ cr_public_key c"

lemma hello_simps [simp]: "length startTls = 8" "length expecTls = 8" "startTls \<noteq> expecTls" "expecTls \<noteq> startTls"
  by (simp_all add: startTls_def expecTls_def)

lemma raw_Recv_append: "ss_in s = x @ rest \<Longrightarrow> length x = n \<Longrightarrow> raw_Recv n s = (Some x, s\<lparr>ss_in := rest\<rparr>)"
  by (simp add: raw_Recv_def)

lemma PerformSslVerify_client:
  assumes "rsa_ok c" and "rand_ok c" and "\<not> ss_bInit s" and "ss_open s" and "length (ss_key s) = 32"
    and "ss_in s = server_hello c @ rest"
  obtains k e where "PerformSslVerify c expecTls s = Some (True, s\<lparr>ss_bInit := True, ss_key := k, ss_in := rest,
      ss_out := ss_out s @ expecTls @ e\<rparr>)"
    and "length k = 32" and "length e = cr_rsa_size c" and "cr_private_decrypt c e = Some k"
proof -
  obtain k where k: "AESGenerateKey (cr_rand c) (ss_key s) = (32, k)" "length k = 32"
    using AESGenerateKey_ok [OF assms(2,5)] by blast
  obtain e where e: "cr_public_encrypt c (cr_public_key c) k = Some e" "length e = cr_rsa_size c" "cr_private_decrypt c e = Some k"
    using assms(1) k(2) by (auto simp: rsa_ok_def)
  have n: "sint (word_of_nat (length (cr_public_key c)) :: 32 word) = int (length (cr_public_key c))"
    using assms(1) by (intro sint_of_length) (simp add: rsa_ok_def)
  have b: "bytes_int (int_bytes w) = w" for w using bytes_int_bytes [of w "[]"] by simp
  have "PerformSslVerify c expecTls s = Some (True, s\<lparr>ss_bInit := True, ss_key := k, ss_in := rest,
      ss_out := ss_out s @ expecTls @ e\<rparr>)"
    using assms k e
    by (simp add: PerformSslVerify_def verify_client_def server_hello_def SecureTCPSocket_Send_def SecureTCPSocket_Recv_def
        raw_Send_def raw_Recv_append b n Let_def rsa_ok_def)
  with that k(2) e(2,3) show thesis by blast
qed

lemma PerformSslVerify_server:
  assumes "\<not> ss_bInit s" and "ss_open s" and "ss_in s = expecTls @ e @ rest" and "length e = cr_rsa_size c"
  shows "PerformSslVerify c startTls s =
    (let s' = s\<lparr>ss_in := rest, ss_out := ss_out s @ server_hello c\<rparr>
     in case cr_private_decrypt c e of
          None \<Rightarrow> Some (False, s')
        | Some k \<Rightarrow> if length k > 32 then None else if k = [] then Some (False, s')
                    else Some (True, s'\<lparr>ss_bInit := True, ss_key := k @ drop (length k) (ss_key s)\<rparr>))"
  using assms
  by (simp add: PerformSslVerify_def verify_server_def server_hello_def SecureTCPSocket_Send_def SecureTCPSocket_Recv_def
      raw_Send_def raw_Recv_append Let_def split: option.split)


text \<open>
  The peer of an accepted connection can make it write behind the 32 bytes of \<open>m_key\<close>: when the
  block it sends as its session key decrypts to more than 32 bytes (RSA allows up to the size of
  the key less the padding), and then only.
\<close>

lemma session_key_overflow:
  assumes "\<not> ss_bInit s" and "ss_open s" and "ss_in s = expecTls @ e @ rest" and "length e = cr_rsa_size c"
  shows "SecureTCPSocket_accept c s = None \<longleftrightarrow> (\<exists>k. cr_private_decrypt c e = Some k \<and> length k > 32)"
  using PerformSslVerify_server [OF assms]
  by (cases "cr_private_decrypt c e") (auto simp: SecureTCPSocket_accept_def Let_def)

text \<open>
  A connection whose handshake failed is served in the clear. A peer that answers the greeting
  with any other eight bytes is accepted: what the program then sends goes out as it is, and what
  it reads are the peer's bytes as they are.
\<close>

lemma failed_handshake_falls_back_to_plaintext:
  assumes "\<not> ss_bInit s" and "ss_open s" and "ss_in s = hdr @ plain @ rest" and "length hdr = 8"
    and "hdr \<notin> {''STARTTLS'', ''EXPECTLS''}"
  shows "\<exists>s'. SecureTCPSocket_accept c s = Some s' \<and>
    SecureTCPSocket_Send c secret s' = (True, s'\<lparr>ss_out := ss_out s @ ''STARTTLS'' @ secret\<rparr>) \<and>
    SecureTCPSocket_Recv c (length plain) s' = Some (Some plain, s'\<lparr>ss_in := rest\<rparr>)"
proof -
  have "SecureTCPSocket_accept c s = Some (s\<lparr>ss_in := plain @ rest, ss_out := ss_out s @ startTls\<rparr>)"
    using assms by (simp add: SecureTCPSocket_accept_def PerformSslVerify_def SecureTCPSocket_Send_def raw_Send_def
        SecureTCPSocket_Recv_def raw_Recv_append startTls_def expecTls_def Let_def)
  then show ?thesis
    using assms(1,2) by (simp add: SecureTCPSocket_Send_def SecureTCPSocket_Recv_def raw_Send_def raw_Recv_def startTls_def)
qed

section \<open>An instance\<close>

text \<open>A cipher that reverses, and an RSA whose blocks are the message behind a marker.\<close>

definition demo_crypto :: crypto where
  "demo_crypto = \<lparr>cr_set_key = (\<lambda>k. True), cr_cbc_encrypt = (\<lambda>k iv x. rev x), cr_cbc_decrypt = (\<lambda>k iv x. rev x),
     cr_rand = (\<lambda>i. Some (replicate 8 (char_of i))), cr_public_key = ''pub'', cr_rsa_size = 33, cr_d2i = (\<lambda>p. True),
     cr_public_encrypt = (\<lambda>p m. Some (CHR ''#'' # m)), cr_private_decrypt = (\<lambda>e. if e = [] then None else if hd e = CHR ''!'' then Some (e @ e) else Some (tl e))\<rparr>"

lemma demo_crypto_ok [simp]: "cipher_ok demo_crypto" "rsa_ok demo_crypto" "rand_ok demo_crypto"
  by (simp_all add: demo_crypto_def cipher_ok_def rsa_ok_def rand_ok_def)

definition demo_socket :: secure_socket where
  "demo_socket = SecureSocket (replicate 32 (CHR ''k''))"

lemma demo_socket_sel [simp]:
  "\<not> ss_bInit demo_socket" "ss_open demo_socket" "length (ss_key demo_socket) = 32" "ss_out demo_socket = []" "ss_recvdata demo_socket = []"
  by (simp_all add: demo_socket_def SecureSocket_def)


theorem secure_stream_roundtrip_witness:
  "\<exists>b'. Recv_seq demo_crypto [3, 4] (demo_socket\<lparr>ss_bInit := True,
      ss_in := ss_out (snd (Send_seq demo_crypto [''hello'', ''world''] (demo_socket\<lparr>ss_bInit := True\<rparr>)))\<rparr>)
    = Some ([''hel'', ''lowo''], b')"
proof -
  let ?a = "demo_socket\<lparr>ss_bInit := True\<rparr>"
  have r: "Send_seq demo_crypto [''hello'', ''world''] ?a = (fst (Send_seq demo_crypto [''hello'', ''world''] ?a), snd (Send_seq demo_crypto [''hello'', ''world''] ?a))"
    by simp
  from secure_stream_roundtrip [OF demo_crypto_ok(1) _ _ _ _ _ r, of "demo_socket\<lparr>ss_bInit := True, ss_in := ss_out (snd (Send_seq demo_crypto [''hello'', ''world''] ?a))\<rparr>" "[3, 4]"]
  show ?thesis by (simp add: numeral_eq_Suc del: Send_seq.simps)
qed

end
