(* ===== verification/Base64.thy ===== *)
theory Base64
  imports Prelude
begin

text \<open>
  The two pairs of Base64 functions of \<open>utils/base64.cpp\<close>: \<open>base64_encode\<close> and
  \<open>base64_decode\<close> on strings, \<open>base64_ntop\<close> and \<open>base64_pton\<close> on buffers of a given size. An
  \<open>unsigned char\<close> is an \<^typ>\<open>8 word\<close>: the C expressions are computed in \<open>int\<close> and stored in
  one, which their operations commute with.
\<close>

unbundle bit_operations_syntax

section \<open>The alphabet\<close>

definition base64_chars :: string where
  "base64_chars = ''ABCDEFGHIJKLMNOPQRSTUVWXYZabcdefghijklmnopqrstuvwxyz0123456789+/''"

definition Pad64 :: char where
  "Pad64 = CHR ''=''"

definition is_base64 :: "char \<Rightarrow> bool" where
  "is_base64 c \<longleftrightarrow> (let n = of_char c :: nat in
     48 \<le> n \<and> n \<le> 57 \<or> 65 \<le> n \<and> n \<le> 90 \<or> 97 \<le> n \<and> n \<le> 122) \<or> c = CHR ''+'' \<or> c = CHR ''/''"

text \<open>\<open>find\<close>, stored in an \<open>unsigned char\<close>: \<open>npos\<close> becomes 255.\<close>

definition base64_find :: "char \<Rightarrow> 8 word" where
  "base64_find c = (if c \<in> set base64_chars then word_of_nat (length (takeWhile (\<lambda>x. x \<noteq> c) base64_chars)) else 255)"

section \<open>Strings\<close>

definition encode_group :: "8 word \<Rightarrow> 8 word \<Rightarrow> 8 word \<Rightarrow> 8 word list" where
  "encode_group a b c =
     [drop_bit 2 (a AND 0xfc), push_bit 4 (a AND 0x03) + drop_bit 4 (b AND 0xf0),
      push_bit 2 (b AND 0x0f) + drop_bit 6 (c AND 0xc0), c AND 0x3f]"

definition encode_chars :: "8 word list \<Rightarrow> string" where
  "encode_chars ws = map (\<lambda>w. base64_chars ! unat w) ws"

text \<open>\<open>char_array_3\<close> holds the bytes since the last complete group.\<close>

fun base64_encode_loop :: "8 word list \<Rightarrow> 8 word list \<Rightarrow> string \<Rightarrow> 8 word list \<times> string" where
  "base64_encode_loop [] char_array_3 ret = (char_array_3, ret)"
| "base64_encode_loop (x # xs) char_array_3 ret =
     (case char_array_3 @ [x] of
        [a, b, c] \<Rightarrow> base64_encode_loop xs [] (ret @ encode_chars (encode_group a b c))
      | bs \<Rightarrow> base64_encode_loop xs bs ret)"

definition base64_encode :: "8 word list \<Rightarrow> string" where
  "base64_encode bytes_to_encode =
     (case base64_encode_loop bytes_to_encode [] [] of
        ([], ret) \<Rightarrow> ret
      | (bs, ret) \<Rightarrow>
          (case bs @ replicate (3 - length bs) 0 of
             a # b # c # _ \<Rightarrow> ret @ take (length bs + 1) (encode_chars (encode_group a b c)) @ replicate (3 - length bs) Pad64
           | _ \<Rightarrow> ret))"

definition decode_group :: "8 word \<Rightarrow> 8 word \<Rightarrow> 8 word \<Rightarrow> 8 word \<Rightarrow> 8 word list" where
  "decode_group p q r s =
     [push_bit 2 p + drop_bit 4 (q AND 0x30), push_bit 4 (q AND 0xf) + drop_bit 2 (r AND 0x3c),
      push_bit 6 (r AND 0x3) + s]"

fun base64_decode_loop :: "string \<Rightarrow> string \<Rightarrow> 8 word list \<Rightarrow> string \<times> 8 word list" where
  "base64_decode_loop [] char_array_4 ret = (char_array_4, ret)"
| "base64_decode_loop (x # xs) char_array_4 ret =
     (if x \<noteq> CHR ''='' \<and> is_base64 x
      then (case map base64_find (char_array_4 @ [x]) of
              [p, q, r, s] \<Rightarrow> base64_decode_loop xs [] (ret @ decode_group p q r s)
            | _ \<Rightarrow> base64_decode_loop xs (char_array_4 @ [x]) ret)
      else (char_array_4, ret))"

text \<open>The unused places of \<open>char_array_4\<close> are looked up as the character 0.\<close>

definition base64_decode :: "string \<Rightarrow> 8 word list" where
  "base64_decode encoded_string =
     (case base64_decode_loop encoded_string [] [] of
        ([], ret) \<Rightarrow> ret
      | (cs, ret) \<Rightarrow>
          (case map base64_find (cs @ replicate (4 - length cs) (CHR 0x00)) of
             p # q # r # s # _ \<Rightarrow> ret @ take (length cs - 1) (decode_group p q r s)
           | _ \<Rightarrow> ret))"

section \<open>Buffers\<close>

text \<open>
  \<open>base64_ntop\<close> writes to a buffer of \<open>targsize\<close> bytes: what it has written so far, or
  \<^const>\<open>None\<close> for the result \<open>-1\<close>. The assertions are there as branches: \<open>abort\<close> is \<^const>\<open>None\<close>
  as well.
\<close>

fun base64_ntop_loop :: "8 word list \<Rightarrow> string \<Rightarrow> nat \<Rightarrow> string option" where
  "base64_ntop_loop (a # b # c # src) target targsize =
     (let output = [drop_bit 2 a, push_bit 4 (a AND 0x03) + drop_bit 4 b, push_bit 2 (b AND 0x0f) + drop_bit 6 c, c AND 0x3f]
      in if \<not> (\<forall>x \<in> set output. x < 64) then None
         else if length target + 4 > targsize then None
         else base64_ntop_loop src (target @ encode_chars output) targsize)"
| "base64_ntop_loop [] target targsize = Some target"
| "base64_ntop_loop src target targsize =
     (let a = src ! 0; b = (if length src = 2 then src ! 1 else 0);
          output = [drop_bit 2 a, push_bit 4 (a AND 0x03) + drop_bit 4 b, push_bit 2 (b AND 0x0f) + drop_bit 6 (0 :: 8 word)]
      in if \<not> (\<forall>x \<in> set output. x < 64) then None
         else if length target + 4 > targsize then None
         else Some (target @ encode_chars (take 2 output) @ (if length src = 1 then [Pad64] else encode_chars [output ! 2]) @ [Pad64]))"

definition base64_ntop :: "8 word list \<Rightarrow> nat \<Rightarrow> string option" where
  "base64_ntop src targsize =
     (case base64_ntop_loop src [] targsize of
        None \<Rightarrow> None
      | Some target \<Rightarrow> if length target \<ge> targsize then None else Some target)"

definition isspace :: "char \<Rightarrow> bool" where
  "isspace c \<longleftrightarrow> (let n = of_char c :: nat in n = 32 \<or> 9 \<le> n \<and> n \<le> 13)"

definition write_at :: "nat \<Rightarrow> (8 word \<Rightarrow> 8 word) \<Rightarrow> 8 word list option \<Rightarrow> 8 word list option" where
  "write_at i f target = map_option (\<lambda>t. t[i := f (t ! i)]) target"

abbreviation no_room :: "8 word list option \<Rightarrow> nat \<Rightarrow> bool" where
  "no_room target i \<equiv> (case target of None \<Rightarrow> False | Some t \<Rightarrow> i \<ge> length t)"

text \<open>
  The loop of \<open>base64_pton\<close> over a string up to its terminator. The result is \<^const>\<open>None\<close> for
  \<open>-1\<close>, or where the loop stopped: the rest of the string from the padding character on, or
  nothing.
\<close>

fun base64_pton_loop :: "string \<Rightarrow> nat \<Rightarrow> nat \<Rightarrow> 8 word list option \<Rightarrow> (string \<times> nat \<times> nat \<times> 8 word list option) option" where
  "base64_pton_loop [] tarindex state target = Some ([], tarindex, state, target)"
| "base64_pton_loop (ch # src) tarindex state target =
     (if isspace ch then base64_pton_loop src tarindex state target
      else if ch = Pad64 then Some (ch # src, tarindex, state, target)
      else if ch \<notin> set base64_chars then None
      else
        let pos = base64_find ch
        in if state = 0 then
             (if no_room target tarindex then None
              else base64_pton_loop src tarindex 1 (write_at tarindex (\<lambda>_. push_bit 2 pos) target))
           else if state = 1 then
             (if no_room target (tarindex + 1) then None
              else base64_pton_loop src (tarindex + 1) 2
                (write_at (tarindex + 1) (\<lambda>_. push_bit 4 (pos AND 0x0f)) (write_at tarindex (\<lambda>w. w OR drop_bit 4 pos) target)))
           else if state = 2 then
             (if no_room target (tarindex + 1) then None
              else base64_pton_loop src (tarindex + 1) 3
                (write_at (tarindex + 1) (\<lambda>_. push_bit 6 (pos AND 0x03)) (write_at tarindex (\<lambda>w. w OR drop_bit 2 pos) target)))
           else
             (if no_room target tarindex then None
              else base64_pton_loop src (tarindex + 1) 0 (write_at tarindex (\<lambda>w. w OR pos) target)))"

text \<open>The number of bytes decoded and the buffer, or \<^const>\<open>None\<close> for \<open>-1\<close>.\<close>

definition base64_pton :: "string \<Rightarrow> 8 word list option \<Rightarrow> (nat \<times> 8 word list option) option" where
  "base64_pton src target =
     (case base64_pton_loop src 0 0 target of
        None \<Rightarrow> None
      | Some (rest, tarindex, state, target) \<Rightarrow>
          (case rest of
             [] \<Rightarrow> if state \<noteq> 0 then None else Some (tarindex, target)
           | pad # after \<Rightarrow>
               let slop = (case target of None \<Rightarrow> False | Some t \<Rightarrow> t ! tarindex \<noteq> 0)
               in if state = 0 \<or> state = 1 then None
                  else if state = 2 then
                    (case dropWhile isspace after of
                       c # after \<Rightarrow> if c \<noteq> Pad64 then None
                         else if \<not> (\<forall>x \<in> set after. isspace x) then None
                         else if slop then None else Some (tarindex, target)
                     | [] \<Rightarrow> None)
                  else if \<not> (\<forall>x \<in> set after. isspace x) then None
                  else if slop then None else Some (tarindex, target)))"

end
