(* ===== verification/Base64_Roundtrip.thy ===== *)
theory Base64_Roundtrip
  imports Base64
begin

text \<open>
  Base64: the bits of a group of three bytes, the encoders against a reference (RFC 4648) and
  each other, and the decoders as their inverses.
\<close>

unbundle bit_operations_syntax

section \<open>Six bits at a time\<close>

lemma all_bits_8: "(\<And>n. n < 8 \<Longrightarrow> bit v n = bit w n) \<Longrightarrow> v = (w :: 8 word)"
  by (rule bit_word_eqI) simp

lemma less_8_cases: "n < 8 \<Longrightarrow> n = 0 \<or> n = 1 \<or> n = 2 \<or> n = 3 \<or> n = 4 \<or> n = 5 \<or> n = 6 \<or> (n::nat) = 7"
  by linarith

lemma index_numerals: "Suc (Suc 0) = 2" "Suc (numeral k) = numeral (k + num.One)"
  by simp_all

lemma enc1_or: "push_bit 4 (a AND 0x03) + drop_bit 4 b = push_bit 4 (a AND 0x03) OR drop_bit 4 (b :: 8 word)"
  by (rule disjunctive_add_eq_or, rule bit_word_eqI) (auto simp: bit_simps dest: bit_imp_le_length)

lemma enc2_or: "push_bit 2 (a AND 0x0f) + drop_bit 6 b = push_bit 2 (a AND 0x0f) OR drop_bit 6 (b :: 8 word)"
  by (rule disjunctive_add_eq_or, rule bit_word_eqI) (auto simp: bit_simps dest: bit_imp_le_length)

text \<open>The four six-bit values of three bytes.\<close>

definition six1 :: "8 word \<Rightarrow> 8 word \<Rightarrow> 8 word" where
  "six1 a b = push_bit 4 (a AND 0x03) OR drop_bit 4 b"

definition six2 :: "8 word \<Rightarrow> 8 word \<Rightarrow> 8 word" where
  "six2 b c = push_bit 2 (b AND 0x0f) OR drop_bit 6 c"

lemma mask_enc:
  "drop_bit 2 (a AND 0xfc) = drop_bit 2 (a :: 8 word)" "drop_bit 4 (a AND 0xf0) = drop_bit 4 a" "drop_bit 6 (a AND 0xc0) = drop_bit 6 a"
  by (rule all_bits_8, drule less_8_cases, auto simp: bit_simps index_numerals dest: bit_imp_le_length)+

lemma encode_group_six: "encode_group a b c = [drop_bit 2 a, six1 a b, six2 b c, c AND 0x3f]"
  by (simp only: encode_group_def mask_enc six1_def six2_def enc1_or enc2_or)

lemma dec_or:
  fixes q r s :: "8 word"
  shows "push_bit 2 p + drop_bit 4 (q AND 0x30) = push_bit 2 p OR drop_bit 4 (q AND 0x30)"
    "push_bit 4 (q AND 0xf) + drop_bit 2 (r AND 0x3c) = push_bit 4 (q AND 0xf) OR drop_bit 2 (r AND 0x3c)"
  by (rule disjunctive_add_eq_or, rule all_bits_8, drule less_8_cases, auto simp: bit_simps index_numerals)+

lemma dec3_or: "push_bit 6 (r AND 0x3) + (s AND 0x3f) = push_bit 6 (r AND 0x3) OR (s AND 0x3f :: 8 word)"
  by (rule disjunctive_add_eq_or, rule all_bits_8, drule less_8_cases, auto simp: bit_simps)

lemma decode_encode_bits:
  fixes a b c :: "8 word"
  shows "push_bit 2 (drop_bit 2 a) OR drop_bit 4 (six1 a b AND 0x30) = a"
    "push_bit 4 (six1 a b AND 0xf) OR drop_bit 2 (six2 b c AND 0x3c) = b"
    "push_bit 6 (six2 b c AND 0x3) OR (c AND 0x3f) = c"
  unfolding six1_def six2_def
  by (rule all_bits_8, drule less_8_cases, auto simp: bit_simps index_numerals)+

lemma decode_encode_group: "decode_group (drop_bit 2 a) (six1 a b) (six2 b c) (c AND 0x3f) = [a, b, c]"
  by (simp only: decode_group_def dec_or dec3_or decode_encode_bits)

lemma unat_63: "unat (w :: 8 word) < 64 \<longleftrightarrow> w < 64"
  by (simp add: word_less_nat_alt)

lemma six_less:
  fixes a b c :: "8 word"
  shows "drop_bit 2 a < 64" "six1 a b < 64" "six2 b c < 64" "c AND 0x3f < 64"
proof -
  have m: "w < 64" if "w = w AND mask 6" for w :: "8 word"
  proof -
    have "w = take_bit 6 w" using that by (simp add: take_bit_eq_mask)
    then have "unat w = take_bit 6 (unat w)" by (metis unsigned_take_bit_eq)
    then have "unat w < 2 ^ 6" by (metis take_bit_nat_less_exp)
    then show ?thesis by (simp add: word_less_nat_alt)
  qed
  show "drop_bit 2 a < 64" "six1 a b < 64" "six2 b c < 64" "c AND 0x3f < 64"
    unfolding six1_def six2_def
    by (rule m, rule all_bits_8, drule less_8_cases, auto simp: bit_simps index_numerals dest: bit_imp_le_length)+
qed

section \<open>The alphabet\<close>

lemma alphabet_check:
  "list_all (\<lambda>i. let c = base64_chars ! i in length (takeWhile (\<lambda>x. x \<noteq> c) base64_chars) = i \<and> is_base64 c \<and> c \<noteq> CHR ''='' \<and> \<not> isspace c)
     [0..<64]"
  by code_simp

lemma alphabet:
  assumes "w < (64 :: 8 word)"
  shows "base64_find (base64_chars ! unat w) = w" "is_base64 (base64_chars ! unat w)" "base64_chars ! unat w \<noteq> CHR ''=''"
    "\<not> isspace (base64_chars ! unat w)" "base64_chars ! unat w \<in> set base64_chars"
proof -
  have i: "unat w < 64" using assms by (simp add: unat_63)
  have "unat w \<in> set [0..<64]" using i by simp
  then have *: "let c = base64_chars ! unat w in length (takeWhile (\<lambda>x. x \<noteq> c) base64_chars) = unat w \<and> is_base64 c \<and> c \<noteq> CHR ''='' \<and> \<not> isspace c"
    using alphabet_check unfolding list_all_iff by blast
  have "length base64_chars = 64" by code_simp
  then show s: "base64_chars ! unat w \<in> set base64_chars" using i by simp
  show "base64_find (base64_chars ! unat w) = w" using * s by (simp add: base64_find_def Let_def)
  show "is_base64 (base64_chars ! unat w)" "base64_chars ! unat w \<noteq> CHR ''=''" "\<not> isspace (base64_chars ! unat w)"
    using * by (simp_all add: Let_def)
qed

section \<open>Reference\<close>

text \<open>RFC 4648: three bytes are four characters, one or two bytes left over are padded.\<close>

fun b64 :: "8 word list \<Rightarrow> string" where
  "b64 (a # b # c # xs) = encode_chars [drop_bit 2 a, six1 a b, six2 b c, c AND 0x3f] @ b64 xs"
| "b64 [] = []"
| "b64 [a] = encode_chars [drop_bit 2 a, six1 a 0] @ ''==''"
| "b64 [a, b] = encode_chars [drop_bit 2 a, six1 a b, six2 b 0] @ ''=''"

lemma encode_chars_simps [simp]:
  "encode_chars [] = []" "encode_chars (w # ws) = base64_chars ! unat w # encode_chars ws" "length (encode_chars ws) = length ws"
  by (simp_all add: encode_chars_def)

lemma base64_encode_loop_b64:
  "(case base64_encode_loop bs [] ret of
     ([], r) \<Rightarrow> r
   | (rest, r) \<Rightarrow> (case rest @ replicate (3 - length rest) 0 of
        a # b # c # _ \<Rightarrow> r @ take (length rest + 1) (encode_chars (encode_group a b c)) @ replicate (3 - length rest) Pad64
      | _ \<Rightarrow> r)) = ret @ b64 bs"
  by (induction bs arbitrary: ret rule: b64.induct) (simp_all add: encode_group_six Pad64_def numeral_eq_Suc)

lemma base64_encode_b64: "base64_encode bs = b64 bs"
  using base64_encode_loop_b64 [of bs "[]"] by (simp add: base64_encode_def)

text \<open>Decoding, one group at a time.\<close>

lemma find_chars [simp]:
  "w < 64 \<Longrightarrow> base64_find (base64_chars ! unat w) = w" "w < 64 \<Longrightarrow> is_base64 (base64_chars ! unat w)"
  "w < 64 \<Longrightarrow> base64_chars ! unat w \<noteq> CHR ''=''" "w < 64 \<Longrightarrow> base64_chars ! unat w \<noteq> Pad64"
  "w < 64 \<Longrightarrow> \<not> isspace (base64_chars ! unat w)" "w < 64 \<Longrightarrow> base64_chars ! unat w \<in> set base64_chars"
  using alphabet by (simp_all add: Pad64_def)

lemmas six_less' [simp] = six_less

lemma replicate_2: "replicate 2 x = [x, x]" "take 2 (u # v # xs) = [u, v]"
  by (simp_all add: numeral_2_eq_2)

lemma base64_decode_loop_b64:
  "(case base64_decode_loop (b64 bs) [] ret of
     ([], r) \<Rightarrow> r
   | (cs, r) \<Rightarrow> (case map base64_find (cs @ replicate (4 - length cs) (CHR 0x00)) of
        p # q # x # s # _ \<Rightarrow> r @ take (length cs - 1) (decode_group p q x s)
      | _ \<Rightarrow> r)) = ret @ bs"
proof (induction bs arbitrary: ret rule: b64.induct)
  case (1 a b c xs)
  then show ?case by (simp add: decode_encode_group)
next
  case (3 a)
  have "take (Suc 0) (decode_group (drop_bit 2 a) (six1 a 0) x y) = [a]" for x y
    unfolding decode_group_def dec_or decode_encode_bits by (simp add: replicate_2)
  then show ?case by (simp add: replicate_2)
next
  case (4 a b)
  have "take (Suc (Suc 0)) (decode_group (drop_bit 2 a) (six1 a b) (six2 b 0) y) = [a, b]" for y
    unfolding decode_group_def dec_or decode_encode_bits by (simp add: replicate_2)
  then show ?case by (simp add: replicate_2)
qed simp

text \<open>C17: decoding what was encoded gives the bytes back.\<close>

theorem base64_roundtrip: "base64_decode (base64_encode bs) = bs"
  using base64_decode_loop_b64 [of bs "[]"] by (simp add: base64_decode_def base64_encode_b64)


section \<open>Buffers\<close>

lemma group_plain:
  "[drop_bit 2 a, push_bit 4 (a AND 0x03) + drop_bit 4 b, push_bit 2 (b AND 0x0f) + drop_bit 6 c, c AND 0x3f]
    = [drop_bit 2 a, six1 a b, six2 b c, c AND 0x3f]"
  "[drop_bit 2 a, push_bit 4 (a AND 0x03) + drop_bit 4 b, push_bit 2 (b AND 0x0f) + drop_bit 6 (0 :: 8 word)]
    = [drop_bit 2 a, six1 a b, six2 b 0]"
  by (simp_all only: enc1_or enc2_or six1_def six2_def)

lemma base64_ntop_loop_b64:
  "base64_ntop_loop bs target n = (if bs = [] \<or> length target + length (b64 bs) \<le> n then Some (target @ b64 bs) else None)"
proof (induction bs arbitrary: target rule: b64.induct)
  case (1 a b c xs)
  show ?case unfolding base64_ntop_loop.simps group_plain Let_def
    by (auto simp: 1)
next
  case (3 a)
  show ?case unfolding base64_ntop_loop.simps Let_def group_plain by (simp add: Pad64_def)
next
  case (4 a b)
  show ?case unfolding base64_ntop_loop.simps Let_def group_plain by (simp add: Pad64_def)
qed simp

text \<open>
  \<open>base64_ntop\<close> and \<open>base64_encode\<close> agree: the buffer gets the same text if it is longer than
  that text (there is room for the terminator), and nothing is reported otherwise; the
  assertions hold.
\<close>

lemma base64_ntop_is_encode:
  "base64_ntop bs targsize = (if length (base64_encode bs) < targsize then Some (base64_encode bs) else None)"
  by (auto simp: base64_ntop_def base64_ntop_loop_b64 base64_encode_b64)


text \<open>Decoding into a buffer, one group at a time.\<close>

lemma or_parts:
  fixes a b c :: "8 word"
  shows "push_bit 2 (drop_bit 2 a) OR drop_bit 4 (six1 a b) = a"
    "push_bit 4 (six1 a b AND 0xf) OR drop_bit 2 (six2 b c) = b"
    "push_bit 6 (six2 b c AND 0x3) OR (c AND 0x3f) = c"
    "push_bit 4 (six1 a 0 AND 0xf) = 0" "push_bit 6 (six2 b 0 AND 0x3) = 0"
  unfolding six1_def six2_def
  by (rule all_bits_8, drule less_8_cases, auto simp: bit_simps index_numerals)+

definition room :: "nat \<Rightarrow> nat" where
  "room n = (if n mod 3 = 0 then n else n + 1)"

lemma pton_state [simp]:
  assumes "w < 64"
  defines "ch \<equiv> base64_chars ! unat w"
  shows "base64_pton_loop (ch # src) k 0 (Some t) = (if k \<ge> length t then None else base64_pton_loop src k 1 (Some (t[k := push_bit 2 w])))"
    "base64_pton_loop (ch # src) k (Suc 0) (Some t) = (if k + 1 \<ge> length t then None
       else base64_pton_loop src (k + 1) 2 (Some (t[k := t ! k OR drop_bit 4 w, Suc k := push_bit 4 (w AND 0x0f)])))"
    "base64_pton_loop (ch # src) k 2 (Some t) = (if k + 1 \<ge> length t then None
       else base64_pton_loop src (k + 1) 3 (Some (t[k := t ! k OR drop_bit 2 w, Suc k := push_bit 6 (w AND 0x03)])))"
    "base64_pton_loop (ch # src) k 3 (Some t) = (if k \<ge> length t then None else base64_pton_loop src (k + 1) 0 (Some (t[k := t ! k OR w])))"
  unfolding ch_def using assms(1) by (simp_all add: write_at_def Let_def)

lemma pton_group_None:
  "\<not> Suc (Suc k) < length t \<Longrightarrow>
     base64_pton_loop (encode_chars [drop_bit 2 a, six1 a b, six2 b c, c AND 0x3f] @ src) k 0 (Some t) = None"
  by (simp del: base64_pton_loop.simps)

lemma pton_group:
  assumes "Suc (Suc k) < length t"
  shows "base64_pton_loop (encode_chars [drop_bit 2 a, six1 a b, six2 b c, c AND 0x3f] @ src) k 0 (Some t)
    = base64_pton_loop src (Suc (Suc (Suc k))) 0 (Some (t[k := a, Suc k := b, Suc (Suc k) := c]))"
proof -
  have "base64_pton_loop (encode_chars [drop_bit 2 a, six1 a b, six2 b c, c AND 0x3f] @ src) k 0 (Some t)
    = base64_pton_loop src (Suc (Suc (Suc k))) 0 (Some (t[k := push_bit 2 (drop_bit 2 a) OR drop_bit 4 (six1 a b),
        Suc k := push_bit 4 (six1 a b AND 0xf) OR drop_bit 2 (six2 b c), Suc (Suc k) := push_bit 6 (six2 b c AND 0x3) OR (c AND 0x3f)]))"
    using assms by (simp del: base64_pton_loop.simps push_bit_and push_bit_push_bit)
  then show ?thesis unfolding or_parts .
qed


definition written :: "8 word list \<Rightarrow> 8 word list" where
  "written bs = bs @ (if length bs mod 3 = 0 then [] else [0])"

lemma length_written [simp]: "length (written bs) = room (length bs)"
  by (simp add: written_def room_def)

lemma group_rooms:
  "room (Suc (Suc (Suc n))) = Suc (Suc (Suc (room n)))" "written (a # b # c # xs) = a # b # c # written xs"
  by (simp_all add: room_def written_def)

lemma overlay_three:
  "Suc (Suc k) < length t \<Longrightarrow> take k t @ a # b # c # ys = take (Suc (Suc (Suc k))) (t[k := a, Suc k := b, Suc (Suc k) := c]) @ ys"
  by (simp add: take_Suc_conv_app_nth)

abbreviation pton_result :: "8 word list \<Rightarrow> nat \<Rightarrow> 8 word list \<Rightarrow> (string \<times> nat \<times> nat \<times> 8 word list option) option" where
  "pton_result bs k t \<equiv>
     (if k + room (length bs) \<le> length t
      then Some (if length bs mod 3 = 0 then [] else if length bs mod 3 = 1 then ''=='' else ''='', k + length bs,
        if length bs mod 3 = 0 then 0 else Suc (length bs mod 3), Some (take k t @ written bs @ drop (k + room (length bs)) t))
      else None)"

lemma mod_3_group: "Suc (Suc (Suc n)) mod 3 = n mod 3"
  using mod_add_self2 [of n 3] by (simp only: numeral_3_eq_3 add_Suc_right add_0_right)

lemma split_at:
  assumes "k \<le> length t"
  obtains us vs where "t = us @ vs" and "length us = k"
  using that [of "take k t" "drop k t"] assms by simp

lemma pton_stop [simp]: "base64_pton_loop (CHR ''='' # src) k state t = Some (CHR ''='' # src, k, state, t)"
  by (simp add: Pad64_def isspace_def)

lemma pton_result_group:
  assumes "Suc (Suc k) < length t"
  shows "pton_result xs (Suc (Suc (Suc k))) (t[k := a, Suc k := b, Suc (Suc k) := c]) = pton_result (a # b # c # xs) k t"
  using assms unfolding list.size(4) add_0_right add_Suc_right One_nat_def mod_3_group group_rooms
  by (simp add: overlay_three)

lemma pton_loop_b64: "k \<le> length t \<Longrightarrow> base64_pton_loop (b64 bs) k 0 (Some t) = pton_result bs k t"
proof (induction bs arbitrary: k t rule: b64.induct)
  case (1 a b c xs)
  then show ?case
  proof (cases "Suc (Suc k) < length t")
    case True
    then have "base64_pton_loop (b64 (a # b # c # xs)) k 0 (Some t)
      = pton_result xs (Suc (Suc (Suc k))) (t[k := a, Suc k := b, Suc (Suc k) := c])"
      unfolding b64.simps(1) by (subst pton_group [OF True]) (rule "1.IH", simp)
    then show ?thesis unfolding pton_result_group [OF True] .
  next
    case False
    have "base64_pton_loop (b64 (a # b # c # xs)) k 0 (Some t) = None"
      unfolding b64.simps(1) by (rule pton_group_None [OF False])
    then show ?thesis using False by (simp add: group_rooms del: base64_pton_loop.simps)
  qed
next
  case (3 a)
  then obtain us vs where "t = us @ vs" "length us = k" by (rule split_at)
  then show ?case
    by (cases vs; cases "tl vs")
      (auto simp: room_def written_def or_parts or_parts [simplified] list_update_append nth_append simp del: base64_pton_loop.simps(2))
next
  case (4 a b)
  then obtain us vs where "t = us @ vs" "length us = k" by (rule split_at)
  then show ?case
    by (cases vs; cases "tl vs"; cases "tl (tl vs)")
      (auto simp: room_def written_def or_parts or_parts [simplified] list_update_append nth_append simp del: base64_pton_loop.simps(2))
qed (simp add: room_def written_def)


text \<open>
  \<open>base64_pton\<close> undoes \<open>base64_encode\<close>, and needs exactly this much room: a buffer of at least
  the number of bytes, and one byte more when that number is not a multiple of three, into which
  it writes a zero. The rest of the buffer is left as it was; with less room it reports \<open>-1\<close>.
\<close>

lemma base64_pton_roundtrip:
  "base64_pton (base64_encode bs) (Some t) =
     (if (if length bs mod 3 = 0 then length bs else length bs + 1) \<le> length t
      then Some (length bs, Some (bs @ (if length bs mod 3 = 0 then [] else [0]) @
             drop (if length bs mod 3 = 0 then length bs else length bs + 1) t))
      else None)"
proof -
  have l: "base64_pton_loop (base64_encode bs) 0 0 (Some t) = pton_result bs 0 t"
    unfolding base64_encode_b64 by (rule pton_loop_b64) simp
  have m: "length bs mod 3 = 0 \<or> length bs mod 3 = 1 \<or> length bs mod 3 = 2" by linarith
  show ?thesis
    unfolding base64_pton_def l using m
    by (auto simp: room_def written_def nth_append Pad64_def isspace_def Let_def)
qed

end
