(* ===== verification/Proxy_Socket.thy ===== *)
theory Proxy_Socket
  imports Common_Utils Base64
begin

text \<open>
  Connecting through an HTTP proxy (class \<open>ProxySocket\<close>,
  \<open>connector_lib/socket/proxy_socket.cpp\<close>). The socket under it is the bytes the proxy will
  still send on the current connection, the bytes sent, and, for reconnecting, the bytes the
  proxy sends on later connections. MD5 (of the vendored UDT library) and libntlm are functions. The result \<^const>\<open>None\<close> is a
  crash: an exception nobody catches, or memory read out of bounds.
\<close>

section \<open>Numbers and text\<close>

fun dec_nat :: "nat \<Rightarrow> string" where
  "dec_nat n = (if n < 10 then [char_of (48 + n)] else dec_nat (n div 10) @ [char_of (48 + n mod 10)])"

declare dec_nat.simps [simp del]

text \<open>\<open>sprintf (\<dots>, "%d", i)\<close>.\<close>

definition dec_int :: "int \<Rightarrow> string" where
  "dec_int i = (if i < 0 then CHR ''-'' # dec_nat (nat (- i)) else dec_nat (nat i))"

definition is_digit :: "char \<Rightarrow> bool" where
  "is_digit c \<longleftrightarrow> 48 \<le> (of_char c :: nat) \<and> (of_char c :: nat) \<le> 57"

text \<open>\<open>atoi\<close>, for numbers an \<open>int\<close> can hold.\<close>

definition atoi :: "string \<Rightarrow> int" where
  "atoi s =
     (let s = dropWhile isspace (c_str s);
          (sign, s) = (case s of c # r \<Rightarrow> if c = CHR ''-'' then (-1, r) else if c = CHR ''+'' then (1, r) else (1, s) | [] \<Rightarrow> (1, s))
      in sign * foldl (\<lambda>n c. 10 * n + (of_char c - 48)) 0 (takeWhile is_digit s))"

definition CRLF :: string where
  "CRLF = [CHR 0x0D, CHR 0x0A]"

definition contains :: "string \<Rightarrow> string \<Rightarrow> bool" where
  "contains s d \<longleftrightarrow> str_find s d 0 \<noteq> None"

definition bytes_of :: "string \<Rightarrow> 8 word list" where
  "bytes_of s = map (\<lambda>c. word_of_nat (of_char c)) s"

section \<open>State\<close>

record proxy_socket =
  px_ip :: string
  px_port :: int
  px_userName :: string
  px_password :: string
  px_targetIp :: string
  px_targetPort :: int
  px_in :: string
  px_out :: string
  px_open :: bool
  px_later :: "string list"

record proxy_crypto =
  md5 :: "8 word list \<Rightarrow> 8 word list"
  after_buffer :: string
  ntlm_request :: "string \<Rightarrow> 8 word list"
  ntlm_challenge_size :: nat
  ntlm_response :: "8 word list \<Rightarrow> string \<Rightarrow> string \<Rightarrow> 8 word list"

definition ProxySocket :: "string \<Rightarrow> int \<Rightarrow> proxy_socket" where
  "ProxySocket ip port = \<lparr>px_ip = ip, px_port = port, px_userName = [], px_password = [], px_targetIp = [],
     px_targetPort = 0, px_in = [], px_out = [], px_open = True, px_later = []\<rparr>"

definition SetUserName_px :: "string \<Rightarrow> proxy_socket \<Rightarrow> proxy_socket" where
  "SetUserName_px userName p = p\<lparr>px_userName := userName\<rparr>"

definition SetPassword_px :: "string \<Rightarrow> proxy_socket \<Rightarrow> proxy_socket" where
  "SetPassword_px password p = p\<lparr>px_password := password\<rparr>"

definition SendData_px :: "string \<Rightarrow> proxy_socket \<Rightarrow> bool \<times> proxy_socket" where
  "SendData_px data p = (if px_open p then (True, p\<lparr>px_out := px_out p @ data\<rparr>) else (False, p))"

definition RecvData_px :: "nat \<Rightarrow> proxy_socket \<Rightarrow> string option \<times> proxy_socket" where
  "RecvData_px len p =
     (if length (px_in p) < len then (None, p\<lparr>px_in := []\<rparr>)
      else (Some (take len (px_in p)), p\<lparr>px_in := drop len (px_in p)\<rparr>))"

definition ReConnect :: "proxy_socket \<Rightarrow> bool \<times> proxy_socket" where
  "ReConnect p =
     (case px_later p of
        [] \<Rightarrow> (False, p\<lparr>px_open := False\<rparr>)
      | s # ss \<Rightarrow> (True, p\<lparr>px_in := s, px_open := True, px_later := ss\<rparr>))"

section \<open>Requests and responses\<close>

definition generateStandartHeaders :: "proxy_socket \<Rightarrow> string" where
  "generateStandartHeaders p =
     ''Proxy-Connection: Keep-Alive'' @ CRLF @ ''Host: '' @ px_targetIp p @ '':'' @ take 5 (dec_int (px_targetPort p)) @ CRLF"

definition connect_cmd :: "string \<Rightarrow> proxy_socket \<Rightarrow> string" where
  "connect_cmd httpheaders p =
     ''CONNECT '' @ px_targetIp p @ '':'' @ take 5 (dec_int (px_targetPort p)) @ '' HTTP/1.1'' @ CRLF @ httpheaders @ CRLF"

definition sendConnectCmd :: "string \<Rightarrow> proxy_socket \<Rightarrow> bool \<times> proxy_socket" where
  "sendConnectCmd httpheaders p = SendData_px (connect_cmd httpheaders p) p"

text \<open>The header lines, up to an empty one; \<^const>\<open>None\<close> when the stream ends before.\<close>

fun recv_headers :: "string \<Rightarrow> string \<Rightarrow> int \<Rightarrow> string \<Rightarrow> (int \<times> string \<times> string) option" where
  "recv_headers [] line dataLen proxyResponse = None"
| "recv_headers (simbol # input) line dataLen proxyResponse =
     (if simbol \<noteq> CHR 0x0A then recv_headers input (line @ [simbol]) dataLen proxyResponse
      else if line = [] \<or> line = [CHR 0x0D] then Some (dataLen, proxyResponse, input)
      else if contains line ''Content-Length:''
      then recv_headers input [] (atoi (filter (\<lambda>c. c \<noteq> CHR '' '') (drop (length ''Content-Length:'') line)))
             (proxyResponse @ line @ [CHR 0x0A])
      else recv_headers input [] dataLen (proxyResponse @ line @ [CHR 0x0A]))"

text \<open>\<open>std::string data (dataLen, 0)\<close> throws for a negative length.\<close>

definition recvProxyResponse :: "proxy_socket \<Rightarrow> ((int \<times> string) option \<times> proxy_socket) option" where
  "recvProxyResponse p =
     (case RecvData_px 9 p of
        (None, p) \<Rightarrow> Some (None, p)
      | (Some http_header, p) \<Rightarrow>
          (case RecvData_px 3 p of
             (None, p) \<Rightarrow> Some (None, p)
           | (Some responce_code, p) \<Rightarrow>
               (case recv_headers (px_in p) [] 0 (c_str http_header @ c_str responce_code) of
                  None \<Rightarrow> Some (None, p\<lparr>px_in := []\<rparr>)
                | Some (dataLen, proxyResponse, rest) \<Rightarrow>
                    if dataLen < 0 then None
                    else (case RecvData_px (nat dataLen) (p\<lparr>px_in := rest\<rparr>) of
                            (None, p) \<Rightarrow> Some (None, p)
                          | (Some data, p) \<Rightarrow> Some (Some (atoi responce_code, proxyResponse @ data), p)))))"

definition HTTP_RESPONSE_OK :: int where
  "HTTP_RESPONSE_OK = 200"

definition HTTP_RESPONSE_PROXY_AUTH_REQ :: int where
  "HTTP_RESPONSE_PROXY_AUTH_REQ = 407"

definition NTLM_BUF_SIZE :: nat where
  "NTLM_BUF_SIZE = 512"

text \<open>Send a request and see whether the answer is 200.\<close>

definition ask :: "string \<Rightarrow> proxy_socket \<Rightarrow> (bool \<times> proxy_socket) option" where
  "ask headers p =
     (case sendConnectCmd headers p of
        (False, p) \<Rightarrow> Some (False, p)
      | (True, p) \<Rightarrow>
          (case recvProxyResponse p of
             None \<Rightarrow> None
           | Some (None, p) \<Rightarrow> Some (False, p)
           | Some (Some (responseCode, response), p) \<Rightarrow> Some (responseCode = HTTP_RESPONSE_OK, p)))"

section \<open>Authorisation\<close>

definition auth_header_BASIC :: string where
  "auth_header_BASIC = ''Proxy-Authenticate: Basic''"

definition auth_header_DIGEST :: string where
  "auth_header_DIGEST = ''Proxy-Authenticate: Digest''"

definition auth_header_NTLM :: string where
  "auth_header_NTLM = ''Proxy-Authenticate: NTLM''"

definition auth_header_Negotiate :: string where
  "auth_header_Negotiate = ''Proxy-Authenticate: Negotiate''"

definition performBasicProxyAuthentication :: "proxy_socket \<Rightarrow> (bool \<times> proxy_socket) option" where
  "performBasicProxyAuthentication p =
     ask (''Proxy-authorization: Basic '' @ base64_encode (bytes_of (px_userName p @ '':'' @ px_password p)) @ CRLF
       @ generateStandartHeaders p) p"

text \<open>The flags: unknown, auth, integrity.\<close>

function auth_loop :: "string \<Rightarrow> nat option \<Rightarrow> nat \<Rightarrow> bool" where
  "auth_loop authString authIntPos authPos =
     (case str_find authString ''auth'' authPos of
        None \<Rightarrow> False
      | Some i \<Rightarrow> if Some i \<noteq> authIntPos then True else auth_loop authString authIntPos (Suc i))"
  by pat_completeness auto
termination
proof (relation "measure (\<lambda>(s, a, i). Suc (length s) - i)")
  fix authString :: string and authIntPos authPos i
  assume "str_find authString ''auth'' authPos = Some i"
  from str_find_Some [OF this] have "authPos \<le> i" and "i + 4 \<le> length authString" by auto
  then show "((authString, authIntPos, Suc i), authString, authIntPos, authPos)
      \<in> measure (\<lambda>(s, a, i). Suc (length s) - i)" by simp
qed simp

declare auth_loop.simps [simp del]

definition getDigestAuthType :: "string \<Rightarrow> bool \<times> bool \<times> bool" where
  "getDigestAuthType authString =
     (let authIntPos = str_find authString ''auth-in'' 0;
          integrity = (authIntPos \<noteq> None);
          auth = auth_loop authString authIntPos 0
      in (\<not> integrity \<and> \<not> auth, auth, integrity))"

definition digest_names :: "string list" where
  "digest_names = [''realm'', ''domain'', ''nonce'', ''algorithm'', ''opaque'', ''qop'']"

text \<open>
  One parameter: each variable whose name is in the left part gets the right part, without its
  first and last character if a quote is in it; the right part stays changed for the next name.
\<close>

fun digest_assign :: "string list \<Rightarrow> string \<Rightarrow> string \<Rightarrow> (string \<Rightarrow> string) \<Rightarrow> (string \<Rightarrow> string) option" where
  "digest_assign [] name val vars = Some vars"
| "digest_assign (n # ns) name val vars =
     (if contains name n
      then (if contains val ''\"''
            then (if length val < 2 then None
                  else let val = butlast (tl val) in digest_assign ns name val (vars(n := val)))
            else digest_assign ns name val (vars(n := val)))
      else digest_assign ns name val vars)"

text \<open>All of them: the outer \<^const>\<open>None\<close> is a crash, the inner one a parameter that is not a name and a value.\<close>

fun digest_params :: "string list \<Rightarrow> (string \<Rightarrow> string) \<Rightarrow> (string \<Rightarrow> string) option option" where
  "digest_params [] vars = Some (Some vars)"
| "digest_params (it # its) vars =
     (case DelimitString it ''='' of
        None \<Rightarrow> None
      | Some [name, val] \<Rightarrow>
          (case digest_assign digest_names name val vars of None \<Rightarrow> None | Some vars \<Rightarrow> digest_params its vars)
      | Some _ \<Rightarrow> Some None)"

definition cnonce :: string where
  "cnonce = ''13ed7a1452379929''"

definition nonceCount :: string where
  "nonceCount = ''00000001''"

definition hex_digit :: "nat \<Rightarrow> char" where
  "hex_digit n = (if n < 10 then char_of (48 + n) else char_of (87 + n))"

definition encryptToMd5 :: "proxy_crypto \<Rightarrow> string \<Rightarrow> string" where
  "encryptToMd5 c sourceString =
     concat (map (\<lambda>b. [hex_digit (unat b div 16), hex_digit (unat b mod 16)]) (md5 c (bytes_of sourceString)))"

definition digest_response :: "proxy_crypto \<Rightarrow> proxy_socket \<Rightarrow> (string \<Rightarrow> string) \<Rightarrow> string option" where
  "digest_response c p vars =
     (let (unknown, auth, integrity) = getDigestAuthType (vars ''qop'');
          ha1 = encryptToMd5 c (px_userName p @ '':'' @ vars ''realm'' @ '':'' @ px_password p);
          remoteAddress = px_targetIp p @ '':'' @ take 9 (dec_int (px_targetPort p));
          ha2 = encryptToMd5 c (''CONNECT:'' @ remoteAddress)
      in if auth
         then Some (encryptToMd5 c (ha1 @ '':'' @ vars ''nonce'' @ '':'' @ nonceCount @ '':'' @ cnonce @ '':'' @ vars ''qop'' @ '':'' @ ha2))
         else if integrity then None
         else if unknown then Some (encryptToMd5 c (ha1 @ '':'' @ vars ''nonce'' @ '':'' @ ha2))
         else Some [])"

definition digest_header :: "proxy_socket \<Rightarrow> (string \<Rightarrow> string) \<Rightarrow> string \<Rightarrow> string" where
  "digest_header p vars response =
     ''Proxy-authorization: Digest '' @ ''username=\"'' @ px_userName p @ ''\", '' @ ''realm=\"'' @ vars ''realm'' @ ''\", ''
     @ ''qop=auth, '' @ ''nc='' @ nonceCount @ '', '' @ ''cnonce='' @ cnonce @ '', '' @ ''nonce='' @ vars ''nonce'' @ '', ''
     @ ''uri='' @ px_targetIp p @ '':'' @ take 9 (dec_int (px_targetPort p)) @ '', '' @ ''response=\"'' @ response @ ''\"''
     @ (if vars ''opaque'' \<noteq> [] then '', opaque=\"'' @ vars ''opaque'' @ ''\"'' else [])
     @ CRLF @ generateStandartHeaders p"

text \<open>\<open>find\<close> plus a size when nothing is found wraps to the size less one.\<close>

definition after_found :: "string \<Rightarrow> string \<Rightarrow> nat" where
  "after_found s d = (case str_find s d 0 of None \<Rightarrow> length d - 1 | Some i \<Rightarrow> i + length d)"

definition performDigestProxyAuthentication :: "proxy_crypto \<Rightarrow> string \<Rightarrow> proxy_socket \<Rightarrow> (bool \<times> proxy_socket) option" where
  "performDigestProxyAuthentication c proxyResponse p =
     (let posBegin = after_found proxyResponse auth_header_DIGEST
      in case str_find proxyResponse CRLF posBegin of
           None \<Rightarrow> Some (False, p)
         | Some posEnd \<Rightarrow>
             (case DelimitString (substr proxyResponse posBegin posEnd) '','' of
                None \<Rightarrow> None
              | Some digestParams \<Rightarrow>
                  (case digest_params digestParams (\<lambda>_. []) of
                     None \<Rightarrow> None
                   | Some None \<Rightarrow> Some (False, p)
                   | Some (Some vars) \<Rightarrow>
                       (case digest_response c p vars of
                          None \<Rightarrow> Some (False, p)
                        | Some response \<Rightarrow> ask (digest_header p vars response) p))))"

text \<open>
  NTLM: a request, a challenge, a response. A challenge text of exactly \<open>NTLM_BUF_SIZE\<close> bytes
  passes the check and leaves the buffer without a terminator, so that the decoder reads on in
  the memory after it (\<open>after_buffer\<close>).
\<close>

definition ntlm_header :: "string \<Rightarrow> proxy_socket \<Rightarrow> string" where
  "ntlm_header buffer p = ''Proxy-authorization: NTLM '' @ buffer @ CRLF @ generateStandartHeaders p"

definition ntlm_challenge :: "proxy_crypto \<Rightarrow> string \<Rightarrow> 8 word list option" where
  "ntlm_challenge c rsp =
     (let posBegin = (case str_find rsp auth_header_Negotiate 0 of
                        Some pos \<Rightarrow> Some (pos + length auth_header_Negotiate)
                      | None \<Rightarrow> map_option (\<lambda>pos. pos + length auth_header_NTLM) (str_find rsp auth_header_NTLM 0))
      in case posBegin of
           None \<Rightarrow> None
         | Some posBegin \<Rightarrow>
             (case str_find rsp CRLF posBegin of
                None \<Rightarrow> None
              | Some posEnd \<Rightarrow>
                  if posEnd - posBegin > NTLM_BUF_SIZE then None
                  else (let buffer = substr rsp posBegin posEnd @ replicate (NTLM_BUF_SIZE - (posEnd - posBegin)) (CHR 0x00)
                        in case base64_pton (c_str (buffer @ after_buffer c)) (Some (replicate (ntlm_challenge_size c) 0)) of
                             None \<Rightarrow> None
                           | Some (n, challenge) \<Rightarrow> if n = 0 then None else challenge)))"

definition performNtlmProxyAuthentication :: "proxy_crypto \<Rightarrow> proxy_socket \<Rightarrow> (bool \<times> proxy_socket) option" where
  "performNtlmProxyAuthentication c p =
     (case base64_ntop (ntlm_request c (px_userName p)) NTLM_BUF_SIZE of
        None \<Rightarrow> Some (False, p)
      | Some buffer \<Rightarrow>
          if buffer = [] then Some (False, p)
          else
            (case sendConnectCmd (ntlm_header buffer p) p of
               (False, p) \<Rightarrow> Some (False, p)
             | (True, p) \<Rightarrow>
                 (case recvProxyResponse p of
                    None \<Rightarrow> None
                  | Some (None, p) \<Rightarrow> Some (False, p)
                  | Some (Some (codeResponse, rsp), p) \<Rightarrow>
                      (case ntlm_challenge c rsp of
                         None \<Rightarrow> Some (False, p)
                       | Some challenge \<Rightarrow>
                           (case base64_ntop (ntlm_response c challenge (px_userName p) (px_password p)) NTLM_BUF_SIZE of
                              None \<Rightarrow> Some (False, p)
                            | Some buffer \<Rightarrow> if buffer = [] then Some (False, p) else ask (ntlm_header buffer p) p)))))"

definition performProxyAuthtorization :: "proxy_crypto \<Rightarrow> string \<Rightarrow> proxy_socket \<Rightarrow> (bool \<times> proxy_socket) option" where
  "performProxyAuthtorization c proxyResponse p =
     (case ReConnect p of
        (False, p) \<Rightarrow> Some (False, p)
      | (True, p) \<Rightarrow>
          if contains proxyResponse auth_header_NTLM \<or> contains proxyResponse auth_header_Negotiate
          then performNtlmProxyAuthentication c p
          else if contains proxyResponse auth_header_DIGEST then performDigestProxyAuthentication c proxyResponse p
          else if contains proxyResponse auth_header_BASIC then performBasicProxyAuthentication p
          else Some (False, p))"

definition PerformProxyConnection :: "proxy_crypto \<Rightarrow> string \<Rightarrow> int \<Rightarrow> proxy_socket \<Rightarrow> (bool \<times> proxy_socket) option" where
  "PerformProxyConnection c ip port p =
     (let p = p\<lparr>px_targetIp := ip, px_targetPort := port\<rparr>
      in case sendConnectCmd (generateStandartHeaders p) p of
           (False, p) \<Rightarrow> Some (False, p)
         | (True, p) \<Rightarrow>
             (case recvProxyResponse p of
                None \<Rightarrow> None
              | Some (None, p) \<Rightarrow> Some (False, p)
              | Some (Some (responseCode, response), p) \<Rightarrow>
                  if responseCode = HTTP_RESPONSE_OK then Some (True, p)
                  else if responseCode = HTTP_RESPONSE_PROXY_AUTH_REQ then performProxyAuthtorization c response p
                  else Some (False, p)))"

end
