(* ===== verification/Proxy_Session.thy ===== *)
theory Proxy_Session
  imports Proxy_Socket Base64_Roundtrip
begin

text \<open>
  What connecting through a proxy does: an answer of the proxy is read up to its end and no
  further, success means an answer 200, Basic authorisation sends the credentials, and a
  Digest challenge with a list of qualities of protection is never answered.
\<close>

section \<open>Reading a response\<close>

definition header_line :: "string \<Rightarrow> bool" where
  "header_line l \<longleftrightarrow> l \<noteq> [] \<and> l \<noteq> [CHR 0x0D] \<and> CHR 0x0A \<notin> set l"

definition content_length :: "string \<Rightarrow> int \<Rightarrow> int" where
  "content_length l n =
     (if contains l ''Content-Length:'' then atoi (filter (\<lambda>c. c \<noteq> CHR '' '') (drop (length ''Content-Length:'') l)) else n)"

definition header_block :: "string list \<Rightarrow> string" where
  "header_block ls = concat (map (\<lambda>l. l @ [CHR 0x0A]) ls)"

lemma recv_headers_chars:
  "CHR 0x0A \<notin> set l \<Longrightarrow> recv_headers (l @ s) w n r = recv_headers s (w @ l) n r"
  by (induction l arbitrary: w) auto

lemma recv_headers_line:
  assumes "header_line l"
  shows "recv_headers (l @ CHR 0x0A # s) [] n r = recv_headers s [] (content_length l n) (r @ l @ [CHR 0x0A])"
  using assms by (auto simp: header_line_def content_length_def recv_headers_chars)

lemma recv_headers_block:
  assumes "\<forall>l \<in> set ls. header_line l"
  shows "recv_headers (header_block ls @ CRLF @ s) [] n r = Some (fold content_length ls n, r @ header_block ls, s)"
  using assms
  by (induction ls arbitrary: n r) (auto simp: header_block_def CRLF_def recv_headers_line)

lemma recvProxyResponse_message:
  assumes "px_in p = v @ code @ header_block ls @ CRLF @ body @ rest" and "length v = 9" and "length code = 3"
    and "\<forall>l \<in> set ls. header_line l" and "fold content_length ls 0 = int (length body)"
  shows "recvProxyResponse p =
    Some (Some (atoi code, c_str v @ c_str code @ header_block ls @ body), p\<lparr>px_in := rest\<rparr>)"
  using assms by (simp add: recvProxyResponse_def RecvData_px_def recv_headers_block)

section \<open>What a port looks like\<close>

lemma digit_cases: "n < (10::nat) \<longleftrightarrow> n = 0 \<or> n = 1 \<or> n = 2 \<or> n = 3 \<or> n = 4 \<or> n = 5 \<or> n = 6 \<or> n = 7 \<or> n = 8 \<or> n = 9"
  by arith

lemma digit_value: "n < (10::nat) \<Longrightarrow> (of_char (char_of (48 + n)) :: int) = 48 + int n"
  using of_nat_of_char [where 'a = int, of "char_of (48 + n)", symmetric] by simp

lemma is_digit_char: "n < (10::nat) \<Longrightarrow> is_digit (char_of (48 + n))"
  by (auto simp: digit_cases is_digit_def)

lemma dec_nat_digits: "\<forall>c \<in> set (dec_nat n). is_digit c"
  by (induction n rule: dec_nat.induct) (subst dec_nat.simps, auto simp: is_digit_char)

lemma foldl_dec_nat: "foldl (\<lambda>n c. 10 * n + (of_char c - 48)) 0 (dec_nat n) = int n"
proof (induction n rule: dec_nat.induct)
  case (1 n)
  show ?case
  proof (cases "n < 10")
    case True
    then show ?thesis by (subst dec_nat.simps) (simp add: digit_value)
  next
    case False
    have "int n = 10 * int (n div 10) + int (n mod 10)"
      by (simp add: zdiv_int zmod_int)
    with 1 False show ?thesis by (subst dec_nat.simps) (simp add: digit_value)
  qed
qed

lemma length_dec_nat: "n < 10 ^ Suc k \<Longrightarrow> length (dec_nat n) \<le> Suc k"
proof (induction k arbitrary: n)
  case 0
  then show ?case by (subst dec_nat.simps) simp
next
  case (Suc k)
  then have "n div 10 < 10 ^ Suc k" by (simp add: less_mult_imp_div_less mult.commute)
  from Suc.IH [OF this] show ?case by (subst dec_nat.simps) simp
qed

lemma port_text:
  assumes "0 \<le> port" and "port < 65536"
  shows "take 5 (dec_int port) = dec_nat (nat port)"
  using assms length_dec_nat [of "nat port" 4] by (simp add: dec_int_def)

lemma dec_nat_not_Nil: "dec_nat n \<noteq> []"
  by (subst dec_nat.simps) simp

lemma atoi_dec_nat: "atoi (dec_nat n) = int n"
proof -
  have dig: "\<forall>c \<in> set (dec_nat n). is_digit c" by (rule dec_nat_digits)
  then have nz: "CHR 0x00 \<notin> set (dec_nat n)" by (auto simp: is_digit_def)
  obtain c r where cr: "dec_nat n = c # r" using dec_nat_not_Nil by (cases "dec_nat n") auto
  with dig have c: "is_digit c" by simp
  then have "\<not> isspace c" and "c \<noteq> CHR ''-''" and "c \<noteq> CHR ''+''" by (auto simp: is_digit_def isspace_def)
  with cr nz have "atoi (dec_nat n) = foldl (\<lambda>n c. 10 * n + (of_char c - 48)) 0 (takeWhile is_digit (dec_nat n))"
    by (simp add: atoi_def c_str_id)
  also have "takeWhile is_digit (dec_nat n) = dec_nat n" using dig by simp
  finally show ?thesis by (simp add: foldl_dec_nat)
qed

section \<open>Connecting\<close>

definition http_answer :: "string \<Rightarrow> string \<Rightarrow> string list \<Rightarrow> string \<Rightarrow> string" where
  "http_answer v code ls body = v @ code @ header_block ls @ CRLF @ body"

definition http_framed :: "string \<Rightarrow> string \<Rightarrow> string list \<Rightarrow> string \<Rightarrow> bool" where
  "http_framed v code ls body \<longleftrightarrow> length v = 9 \<and> length code = 3 \<and> (\<forall>l \<in> set ls. header_line l)
     \<and> fold content_length ls 0 = int (length body)"

lemma recv_answer:
  assumes "http_framed v code ls body" and "px_in p = http_answer v code ls body @ rest"
  shows "recvProxyResponse p =
    Some (Some (atoi code, c_str v @ c_str code @ header_block ls @ body), p\<lparr>px_in := rest\<rparr>)"
  using assms by (intro recvProxyResponse_message) (auto simp: http_framed_def http_answer_def)

lemma sendConnectCmd_open [simp]:
  "px_open p \<Longrightarrow> sendConnectCmd h p = (True, p\<lparr>px_out := px_out p @ connect_cmd h p\<rparr>)"
  by (simp add: sendConnectCmd_def SendData_px_def)

definition target :: "string \<Rightarrow> int \<Rightarrow> proxy_socket \<Rightarrow> proxy_socket" where
  "target ip port p = p\<lparr>px_targetIp := ip, px_targetPort := port\<rparr>"

definition sample_proxy :: "string \<Rightarrow> string list \<Rightarrow> proxy_socket" where
  "sample_proxy input later = SetUserName_px ''u'' (SetPassword_px ''w'' ((ProxySocket ''p'' 3128)\<lparr>px_in := input, px_later := later\<rparr>))"

text \<open>
  C16: a proxy that answers 200 leaves the program at the start of the tunnel.
\<close>

theorem proxy_established:
  assumes "px_open p" and "http_framed v code ls body" and "atoi code = 200"
    and "px_in p = http_answer v code ls body @ rest" and "0 \<le> port" and "port < 65536"
  shows "PerformProxyConnection c ip port p = Some (True,
      (target ip port p)\<lparr>px_in := rest, px_out := px_out p @
         ''CONNECT '' @ ip @ '':'' @ dec_nat (nat port) @ '' HTTP/1.1'' @ CRLF
         @ ''Proxy-Connection: Keep-Alive'' @ CRLF @ ''Host: '' @ ip @ '':'' @ dec_nat (nat port) @ CRLF @ CRLF\<rparr>)
    \<and> atoi (dec_nat (nat port)) = port"
  using assms
  by (simp add: PerformProxyConnection_def target_def recv_answer [of v code ls body _ rest] HTTP_RESPONSE_OK_def
      connect_cmd_def generateStandartHeaders_def port_text atoi_dec_nat)

lemma ask_success:
  assumes "ask h p = Some (True, p')"
  shows "\<exists>q r. sendConnectCmd h p = (True, q) \<and> recvProxyResponse q = Some (Some (200, r), p')"
  using assms by (auto simp: ask_def HTTP_RESPONSE_OK_def split: prod.splits option.splits bool.splits)

lemma ask_success_any:
  "ask h p = Some (True, p') \<Longrightarrow> \<exists>h p q r. sendConnectCmd h p = (True, q) \<and> recvProxyResponse q = Some (Some (200, r), p')"
  using ask_success by blast

lemma performProxyAuthtorization_success:
  assumes "performProxyAuthtorization c response p = Some (True, p')"
  shows "\<exists>h p. ask h p = Some (True, p')"
  using assms
  by (auto simp: performProxyAuthtorization_def performNtlmProxyAuthentication_def
      performDigestProxyAuthentication_def performBasicProxyAuthentication_def Let_def
      split: prod.splits option.splits bool.splits if_splits)

theorem proxy_established_witness:
  "\<forall>c. map_option (\<lambda>(r, p). (r, px_in p)) (PerformProxyConnection c ''h'' 8080
      (sample_proxy (http_answer ''HTTP/1.1 '' ''200'' ['' OK'', ''Content-Length: 2''] ''ok'' @ ''data'') [])) = Some (True, ''data'')"
proof
  fix c
  let ?p = "sample_proxy (http_answer ''HTTP/1.1 '' ''200'' ['' OK'', ''Content-Length: 2''] ''ok'' @ ''data'') []"
  have f: "http_framed ''HTTP/1.1 '' ''200'' ['' OK'', ''Content-Length: 2''] ''ok''" and a: "atoi ''200'' = 200" by code_simp+
  show "map_option (\<lambda>(r, p). (r, px_in p)) (PerformProxyConnection c ''h'' 8080 ?p) = Some (True, ''data'')"
    using proxy_established [OF _ f a, of ?p "''data''" 8080 c "''h''"]
    by (simp add: sample_proxy_def SetUserName_px_def SetPassword_px_def ProxySocket_def)
qed

text \<open>
  A proxy connection succeeds only right after an answer 200 to a CONNECT request, with
  every way of authorisation, and nothing is read after that answer.
\<close>

lemma proxy_success_after_200:
  assumes "PerformProxyConnection c ip port p = Some (True, p')"
  shows "\<exists>h q q' response. sendConnectCmd h q = (True, q') \<and> recvProxyResponse q' = Some (Some (200, response), p')"
proof -
  let ?h = "generateStandartHeaders (p\<lparr>px_targetIp := ip, px_targetPort := port\<rparr>)"
  from assms obtain q response code r where "sendConnectCmd ?h (p\<lparr>px_targetIp := ip, px_targetPort := port\<rparr>) = (True, q)"
    and "recvProxyResponse q = Some (Some (code, response), r)"
    and "code = 200 \<and> r = p' \<or> performProxyAuthtorization c response r = Some (True, p')"
    by (auto simp: PerformProxyConnection_def Let_def HTTP_RESPONSE_OK_def
        split: prod.splits option.splits bool.splits if_splits)
  then show ?thesis using performProxyAuthtorization_success ask_success by metis
qed

definition basic_credentials :: "proxy_socket \<Rightarrow> string" where
  "basic_credentials p = base64_encode (bytes_of (px_userName p @ '':'' @ px_password p))"

text \<open>
  Basic authorisation. A challenge that names only Basic is answered, on a new connection,
  with the credentials, which decode to user name and password; the outcome is the answer's
  code, and the credentials are sent to nobody before the challenge.
\<close>

lemma basic_authorisation:
  assumes "px_open p" and "http_framed v code ls body" and "atoi code = 407"
    and "px_in p = http_answer v code ls body @ junk" and "c_str v @ c_str code @ header_block ls @ body = challenge"
    and "contains challenge auth_header_BASIC" and "\<not> contains challenge auth_header_DIGEST"
    and "\<not> contains challenge auth_header_NTLM" and "\<not> contains challenge auth_header_Negotiate"
    and "px_later p = (http_answer v' code' ls' body' @ rest) # later" and "http_framed v' code' ls' body'"
  shows "PerformProxyConnection c ip port p = Some (atoi code' = 200,
      (target ip port p)\<lparr>px_in := rest, px_later := later, px_out := px_out p
         @ connect_cmd (generateStandartHeaders (target ip port p)) (target ip port p)
         @ connect_cmd (''Proxy-authorization: Basic '' @ basic_credentials p @ CRLF
              @ generateStandartHeaders (target ip port p)) (target ip port p)\<rparr>)
    \<and> base64_decode (basic_credentials p) = bytes_of (px_userName p @ '':'' @ px_password p)"
  using assms
  by (simp add: PerformProxyConnection_def target_def recv_answer [of v code ls body _ junk] HTTP_RESPONSE_OK_def
      HTTP_RESPONSE_PROXY_AUTH_REQ_def performProxyAuthtorization_def ReConnect_def performBasicProxyAuthentication_def
      ask_def recv_answer [of v' code' ls' body' _ rest] basic_credentials_def base64_roundtrip
      connect_cmd_def generateStandartHeaders_def)

section \<open>Digest challenges\<close>

lemma digest_params_reject:
  assumes "it \<in> set its" and "\<And>n v. DelimitString it ''='' \<noteq> Some [n, v]"
  shows "digest_params its vars \<in> {None, Some None}"
  using assms(1)
proof (induction its vars rule: digest_params.induct)
  case (2 it' its vars)
  show ?case
  proof (cases "it' = it")
    case True
    with assms(2) show ?thesis by (auto split: option.splits list.splits)
  next
    case False
    with 2 show ?thesis by (auto split: option.splits list.splits)
  qed
qed simp

lemma split_on_concat: "split_on c (u @ c # v) = split_on c u @ split_on c v"
  by (induction u) (auto split: list.splits)

lemma split_on_member:
  "c \<notin> set x \<Longrightarrow> v = [] \<or> hd v = c \<Longrightarrow> x \<in> set (split_on c (u @ c # x @ v))"
  by (cases v) (auto simp: split_on_concat split_on_free split_on_append)

lemma DelimitString_member:
  assumes "c \<noteq> CHR 0x00" and "x \<in> set (split_on c s)" and "1 < length x"
  shows "\<exists>ps. DelimitString s [c] = Some ps \<and> x \<in> set ps"
proof -
  have "x \<in> set (butlast (split_on c s)) \<or> x = last (split_on c s)"
    using assms(2) by (metis append_butlast_last_id split_on_nonempty in_set_conv_decomp rotate1.simps(2) set_ConsD set_rotate1)
  with assms show ?thesis by (auto simp: DelimitString_single)
qed

text \<open>
  A Digest challenge that offers \<open>qop="auth,auth-int"\<close> is never answered: cutting the
  challenge at commas leaves a part without a value, and the connection fails.
\<close>

lemma qop_list_rejected:
  assumes "str_find proxyResponse CRLF (after_found proxyResponse auth_header_DIGEST) = Some posEnd"
    and "substr proxyResponse (after_found proxyResponse auth_header_DIGEST) posEnd = u @ '',auth-int\"'' @ v"
    and "v = [] \<or> hd v = CHR '',''"
  shows "performDigestProxyAuthentication c proxyResponse p \<in> {None, Some (False, p)}"
proof -
  let ?line = "substr proxyResponse (after_found proxyResponse auth_header_DIGEST) posEnd"
  have "''auth-int\"'' \<in> set (split_on CHR '','' ?line)"
    unfolding assms(2) using split_on_member [of "CHR '',''" "''auth-int\"''" v u] assms(3) by simp
  then obtain ps where ps: "DelimitString ?line '','' = Some ps" "''auth-int\"'' \<in> set ps"
    using DelimitString_member [of "CHR '',''" "''auth-int\"''" ?line] by auto
  have "DelimitString ''auth-int\"'' ''='' = Some [''auth-int\"'']"
    by (simp add: DelimitString_single)
  then have "digest_params ps (\<lambda>_. []) \<in> {None, Some None}"
    using digest_params_reject [OF ps(2)] by simp
  with ps(1) assms(1) show ?thesis by (auto simp: performDigestProxyAuthentication_def Let_def)
qed

end
