(* ===== verification/Threads.thy ===== *)
theory Threads
  imports Object_Manager
begin

text \<open>
  Threads (\<open>thread_lib/thread/thread.cpp\<close>, \<open>thread_manager.cpp\<close>) over the semaphore of
  \<open>include/semaphore.h\<close>, with the POSIX calls it makes. What happens inside a critical section is
  one step; a call of \<open>Start\<close> is several steps, so that the thread's own procedure and requests
  to stop come in between. Pointers to threads are natural numbers.
\<close>

section \<open>Semaphore\<close>

text \<open>
  The count of the POSIX semaphore. \<open>sem_timedwait\<close> takes an absolute time, and gets
  \<open>timeout\<close> seconds after the epoch: it does not wait, and a number of nanoseconds of a second or
  more is an error. \<^const>\<open>None\<close> is a call that blocks.
\<close>

datatype wait_status = TIMEOUT | FAILED | SUCCESS

definition INFINITE :: int where
  "INFINITE = -1"

definition Semaphore_Set :: "nat \<Rightarrow> nat" where
  "Semaphore_Set s = Suc s"

definition Semaphore_Release :: "nat \<Rightarrow> nat" where
  "Semaphore_Release s = s - 1"

definition Semaphore_Wait :: "int \<Rightarrow> nat \<Rightarrow> (wait_status \<times> nat) option" where
  "Semaphore_Wait timeout s =
     (if 0 < s then Some (SUCCESS, Semaphore_Set (s - 1))
      else if timeout = INFINITE then None
      else if 0 \<le> timeout * 1000000 \<and> timeout * 1000000 < 1000000000 then Some (TIMEOUT, s)
      else Some (FAILED, s))"

definition Semaphore_IsSet :: "nat \<Rightarrow> bool" where
  "Semaphore_IsSet s \<longleftrightarrow> 0 < s"

lemma Semaphore_Wait_simps [simp]:
  "0 < s \<Longrightarrow> Semaphore_Wait timeout s = Some (SUCCESS, s)"
  "Semaphore_Wait INFINITE 0 = None"
  "0 \<le> timeout \<Longrightarrow> timeout < 1000 \<Longrightarrow> Semaphore_Wait timeout 0 = Some (TIMEOUT, 0)"
  "1000 \<le> timeout \<Longrightarrow> Semaphore_Wait timeout 0 = Some (FAILED, 0)"
  by (auto simp: Semaphore_Wait_def Semaphore_Set_def INFINITE_def)

section \<open>A thread\<close>

datatype thread_state = THREAD_STOPPED | THREAD_RUNNING | THREAD_STOP_PENDING | THREAD_START_PENDING

record thread =
  th_handle :: bool
  th_startSemaphore :: nat
  th_stopSemaphore :: nat
  th_state :: thread_state

definition Thread :: thread where
  "Thread = \<lparr>th_handle = False, th_startSemaphore = 0, th_stopSemaphore = 0, th_state = THREAD_STOPPED\<rparr>"

text \<open>\<open>Start\<close>: the critical section at its begin, and the creation of the thread.\<close>

definition Start_enter :: "thread \<Rightarrow> thread option" where
  "Start_enter t =
     (if th_state t \<noteq> THREAD_STOPPED then None
      else Some (t\<lparr>th_state := THREAD_START_PENDING, th_startSemaphore := Semaphore_Release (th_startSemaphore t),
                   th_stopSemaphore := Semaphore_Release (th_stopSemaphore t)\<rparr>))"

definition Start_create :: "thread \<Rightarrow> thread" where
  "Start_create t = t\<lparr>th_handle := True\<rparr>"

text \<open>\<open>ThreadProc\<close>: its two critical sections, before \<open>OnStart\<close> and after \<open>OnStop\<close>.\<close>

definition ThreadProc_begin :: "thread \<Rightarrow> thread" where
  "ThreadProc_begin t = t\<lparr>th_state := THREAD_RUNNING, th_startSemaphore := Semaphore_Set (th_startSemaphore t)\<rparr>"

definition ThreadProc_end :: "thread \<Rightarrow> thread" where
  "ThreadProc_end t = t\<lparr>th_state := THREAD_STOPPED, th_stopSemaphore := Semaphore_Set (th_stopSemaphore t)\<rparr>"

definition StopThread :: "thread \<Rightarrow> thread" where
  "StopThread t = (if th_state t \<noteq> THREAD_STOPPED then t\<lparr>th_state := THREAD_STOP_PENDING\<rparr> else t)"

definition IsStopped :: "thread \<Rightarrow> bool" where
  "IsStopped t \<longleftrightarrow> th_state t = THREAD_STOPPED"

definition IsStop :: "thread \<Rightarrow> bool" where
  "IsStop t \<longleftrightarrow> th_state t = THREAD_STOP_PENDING"

definition IsRunning :: "thread \<Rightarrow> bool" where
  "IsRunning t \<longleftrightarrow> th_state t = THREAD_RUNNING"

definition WaitStop :: "int \<Rightarrow> thread \<Rightarrow> bool option" where
  "WaitStop timeout t =
     (if \<not> IsStopped t then map_option (\<lambda>(r, s). r = SUCCESS) (Semaphore_Wait timeout (th_stopSemaphore t)) else Some True)"

definition WaitRun :: "int \<Rightarrow> thread \<Rightarrow> bool option" where
  "WaitRun timeout t =
     (if \<not> IsRunning t then map_option (\<lambda>(r, s). r = SUCCESS) (Semaphore_Wait timeout (th_startSemaphore t)) else Some True)"

text \<open>
  \<open>while (!WaitRun (100)) {}\<close>, and the same with \<open>WaitStop\<close>: before every test the rest of the
  program makes a move. \<^const>\<open>None\<close> when the tests given are not enough.
\<close>

fun wait_loop :: "(thread \<Rightarrow> bool option) \<Rightarrow> (thread \<Rightarrow> thread) list \<Rightarrow> thread \<Rightarrow> (thread \<times> (thread \<Rightarrow> thread) list) option" where
  "wait_loop test [] t = None"
| "wait_loop test (move # moves) t =
     (case test (move t) of
        Some True \<Rightarrow> Some (move t, moves)
      | Some False \<Rightarrow> wait_loop test moves (move t)
      | None \<Rightarrow> None)"

text \<open>\<open>Join\<close>; \<open>stop\<close> is the virtual \<open>Stop\<close>.\<close>

definition Join :: "(thread \<Rightarrow> thread) \<Rightarrow> (thread \<Rightarrow> thread) list \<Rightarrow> thread \<Rightarrow> thread option" where
  "Join stop moves t =
     (if \<not> th_handle t \<or> IsStopped t then Some t
      else
        case (if th_state t = THREAD_START_PENDING then wait_loop (WaitRun 100) moves t else Some (t, moves)) of
          None \<Rightarrow> None
        | Some (t, moves) \<Rightarrow>
            (case wait_loop (WaitStop 100) moves (stop (StopThread t)) of
               None \<Rightarrow> None
             | Some (t, moves) \<Rightarrow> Some (t\<lparr>th_handle := False\<rparr>)))"

section \<open>Every interleaving\<close>

text \<open>
  The thread, the calls of \<open>Start\<close> between their two steps, and the procedures that have been
  created and have begun.
\<close>

record thread_run =
  tr_thread :: thread
  tr_starting :: nat
  tr_created :: nat
  tr_begun :: nat

inductive thread_step :: "thread_run \<Rightarrow> thread_run \<Rightarrow> bool" where
  ts_Start: "Start_enter (tr_thread r) = Some t \<Longrightarrow>
     thread_step r (r\<lparr>tr_thread := t, tr_starting := Suc (tr_starting r)\<rparr>)"
| ts_Create: "tr_starting r = Suc n \<Longrightarrow>
     thread_step r (r\<lparr>tr_thread := Start_create (tr_thread r), tr_starting := n, tr_created := Suc (tr_created r)\<rparr>)"
| ts_CreateFails: "tr_starting r = Suc n \<Longrightarrow> thread_step r (r\<lparr>tr_starting := n\<rparr>)"
| ts_Begin: "tr_created r = Suc n \<Longrightarrow>
     thread_step r (r\<lparr>tr_thread := ThreadProc_begin (tr_thread r), tr_created := n, tr_begun := Suc (tr_begun r)\<rparr>)"
| ts_End: "tr_begun r = Suc n \<Longrightarrow>
     thread_step r (r\<lparr>tr_thread := ThreadProc_end (tr_thread r), tr_begun := n\<rparr>)"
| ts_Stop: "thread_step r (r\<lparr>tr_thread := StopThread (tr_thread r)\<rparr>)"

inductive_simps thread_step_iff: "thread_step r r'"

definition new_thread :: thread_run where
  "new_thread = \<lparr>tr_thread = Thread, tr_starting = 0, tr_created = 0, tr_begun = 0\<rparr>"

definition tr_alive :: "thread_run \<Rightarrow> nat" where
  "tr_alive r = tr_starting r + tr_created r + tr_begun r"

definition thread_ok :: "thread_run \<Rightarrow> bool" where
  "thread_ok r \<longleftrightarrow> tr_alive r \<le> 1
     \<and> (IsStopped (tr_thread r) \<longrightarrow> tr_alive r = 0)
     \<and> (IsRunning (tr_thread r) \<longrightarrow> tr_begun r = 1)
     \<and> (0 < tr_begun r \<longrightarrow> th_startSemaphore (tr_thread r) = 1)
     \<and> (0 < tr_starting r + tr_created r \<longrightarrow> th_startSemaphore (tr_thread r) = 0)
     \<and> (\<not> IsStopped (tr_thread r) \<longrightarrow> th_stopSemaphore (tr_thread r) = 0)
     \<and> th_startSemaphore (tr_thread r) \<le> 1 \<and> th_stopSemaphore (tr_thread r) \<le> 1"

lemmas thread_defs = Start_enter_def Start_create_def ThreadProc_begin_def ThreadProc_end_def StopThread_def
  IsStopped_def IsRunning_def IsStop_def Semaphore_Set_def Semaphore_Release_def

lemma new_thread_ok: "thread_ok new_thread"
  by (simp add: thread_ok_def new_thread_def tr_alive_def Thread_def thread_defs)

lemma thread_step_ok: "thread_step r r' \<Longrightarrow> thread_ok r \<Longrightarrow> thread_ok r'"
  by (induction rule: thread_step.induct) (auto simp: thread_ok_def tr_alive_def thread_defs split: if_splits)

lemma reachable_thread_ok: "thread_step\<^sup>*\<^sup>* new_thread r \<Longrightarrow> thread_ok r"
  by (induction rule: rtranclp_induct) (auto simp: new_thread_ok thread_step_ok)

text \<open>
  C27: the states of a thread tell the truth in every interleaving of starting, running, ending
  and requests to stop: at most one thread procedure exists or is being created; a thread that is
  stopped has none; waiting for the end succeeds exactly when the thread is stopped, and waiting
  for the start, in \<open>Start\<close>, exactly when the procedure has begun.
\<close>

theorem thread_states_truthful:
  assumes "thread_step\<^sup>*\<^sup>* new_thread r"
  shows "tr_alive r \<le> 1
    \<and> (IsStopped (tr_thread r) \<longrightarrow> tr_alive r = 0)
    \<and> (WaitStop 100 (tr_thread r) = Some True \<longleftrightarrow> IsStopped (tr_thread r))
    \<and> (0 < tr_alive r \<longrightarrow> (WaitRun 100 (tr_thread r) = Some True \<longleftrightarrow> tr_begun r = 1))"
  using reachable_thread_ok [OF assms]
  by (cases "th_startSemaphore (tr_thread r)") 
     (auto simp: thread_ok_def tr_alive_def WaitStop_def WaitRun_def)

theorem thread_states_truthful_witness:
  "WaitStop 100 (StopThread (ThreadProc_begin (Start_create (the (Start_enter Thread))))) = Some False"
proof -
  let ?t = "StopThread (ThreadProc_begin (Start_create (the (Start_enter Thread))))"
  let ?r = "\<lparr>tr_thread = ?t, tr_starting = 0, tr_created = 0, tr_begun = 1\<rparr>"
  have "thread_step new_thread (new_thread\<lparr>tr_thread := the (Start_enter Thread), tr_starting := 1\<rparr>)" (is "thread_step _ ?a")
    using ts_Start [of new_thread "the (Start_enter Thread)"] by (simp add: new_thread_def thread_defs Thread_def)
  moreover have "thread_step ?a (?a\<lparr>tr_thread := Start_create (tr_thread ?a), tr_starting := 0, tr_created := 1\<rparr>)" (is "thread_step _ ?b")
    using ts_Create [of ?a 0] by (simp add: new_thread_def)
  moreover have "thread_step ?b (?b\<lparr>tr_thread := ThreadProc_begin (tr_thread ?b), tr_created := 0, tr_begun := 1\<rparr>)" (is "thread_step _ ?c")
    using ts_Begin [of ?b 0] by (simp add: new_thread_def)
  moreover have "thread_step ?c ?r"
    using ts_Stop [of ?c] by (simp add: new_thread_def)
  ultimately have "thread_step\<^sup>*\<^sup>* new_thread ?r" by (meson rtranclp.rtrancl_into_rtrancl rtranclp.rtrancl_refl)
  from thread_states_truthful [OF this] show ?thesis by (simp add: thread_defs Thread_def WaitStop_def)
qed

text \<open>
  A request to stop a thread between \<open>Start\<close> and the first step of its procedure is lost:
  the procedure overwrites it, and the thread runs on as if it had never been asked.
\<close>

lemma early_stop_is_lost:
  assumes "th_state t = THREAD_START_PENDING"
  shows "ThreadProc_begin (StopThread t) = ThreadProc_begin t \<and> \<not> IsStop (ThreadProc_begin (StopThread t))"
  using assms by (simp add: thread_defs)

text \<open>
  When the system cannot create a thread, \<open>Start\<close> returns false and the state stays
  \<open>THREAD_START_PENDING\<close>: the thread can never be started again.
\<close>

lemma failed_start_is_final:
  assumes "th_state t \<noteq> THREAD_STOPPED" and "thread_step\<^sup>*\<^sup>* r r'" and "tr_thread r = t" and "tr_alive r = 0"
  shows "th_state (tr_thread r') \<noteq> THREAD_STOPPED \<and> Start_enter (tr_thread r') = None \<and> tr_alive r' = 0"
  using assms(2)
proof (induction rule: rtranclp_induct)
  case base
  then show ?case using assms by (simp add: Start_enter_def)
next
  case (step y z)
  from step(2) step(3) show ?case
    by (induction rule: thread_step.induct) (auto simp: thread_defs tr_alive_def)
qed
end
