(* ===== verification/Managers.thy ===== *)
theory Managers
  imports Threads Std_Map
begin

text \<open>
  The managers that run in the library's own thread (\<open>thread_lib/common/managers_container.cpp\<close>),
  the one that deletes threads that have ended (\<open>thread_manager.cpp\<close>) and the timers
  (\<open>timer.cpp\<close>). Pointers are natural numbers; the vectors are sorted by them.
\<close>

interpretation ptrs: ordered_object "(<) :: nat \<Rightarrow> nat \<Rightarrow> bool" "(=)" "\<lambda>p. p"
  by unfold_locales simp_all

abbreviation ptr_add :: "nat \<Rightarrow> nat list \<Rightarrow> nat list \<times> bool" where
  "ptr_add \<equiv> AddObject (<) (=)"

abbreviation ptr_remove :: "nat \<Rightarrow> nat list \<Rightarrow> nat list \<times> bool" where
  "ptr_remove \<equiv> RemoveObject (<) (=)"

section \<open>The thread that runs the managers\<close>

text \<open>
  What is called on the managers, in order. \<open>stops\<close> is \<open>IsStop ()\<close> after the manager has run.
\<close>

datatype manager_call = ManagerStart nat | ManagerFunc nat | ManagerStop nat | ManagerDelete nat

record managers_container =
  mc_managers :: "nat list"
  mc_isExit :: bool
  mc_calls :: "manager_call list"

definition ManagersContainer :: managers_container where
  "ManagersContainer = \<lparr>mc_managers = [], mc_isExit = False, mc_calls = []\<rparr>"

definition AddManager :: "nat \<Rightarrow> managers_container \<Rightarrow> managers_container" where
  "AddManager p c = c\<lparr>mc_calls := mc_calls c @ [ManagerStart p], mc_managers := fst (ptr_add p (mc_managers c))\<rparr>"

definition RemoveManager :: "nat \<Rightarrow> managers_container \<Rightarrow> managers_container" where
  "RemoveManager p c = c\<lparr>mc_calls := mc_calls c @ [ManagerStop p], mc_managers := fst (ptr_remove p (mc_managers c))\<rparr>"

definition Stop_mc :: "managers_container \<Rightarrow> managers_container" where
  "Stop_mc c = c\<lparr>mc_isExit := True\<rparr>"

definition RunManager :: "(nat \<Rightarrow> bool) \<Rightarrow> nat \<Rightarrow> nat list \<times> manager_call list \<Rightarrow> bool \<times> nat list \<times> manager_call list" where
  "RunManager stops p s =
     (let calls = snd s @ [ManagerFunc p]
      in if stops p then (True, fst s @ [p], calls) else (False, fst s, calls))"

definition CheckManager :: "nat \<Rightarrow> nat list \<Rightarrow> bool \<times> nat list" where
  "CheckManager p managers = (True, managers @ [p])"

definition stop_and_delete :: "nat list \<Rightarrow> manager_call list" where
  "stop_and_delete ms = concat (map (\<lambda>p. [ManagerStop p, ManagerDelete p]) ms)"

definition container_pass :: "(nat \<Rightarrow> bool) \<Rightarrow> managers_container \<Rightarrow> managers_container" where
  "container_pass stops c =
     (case CheckObjects (RunManager stops) (mc_managers c) ([], mc_calls c) of
        (ms, managers, calls) \<Rightarrow> c\<lparr>mc_managers := ms, mc_calls := calls @ stop_and_delete managers\<rparr>)"

definition container_exit :: "managers_container \<Rightarrow> managers_container" where
  "container_exit c =
     (case CheckObjects CheckManager (mc_managers c) [] of
        (ms, managers) \<Rightarrow> c\<lparr>mc_managers := ms, mc_calls := mc_calls c @ stop_and_delete managers\<rparr>)"

text \<open>
  The loop. Every round comes with which managers want to stop and what the rest of the program
  does before the next round; \<^const>\<open>None\<close> when the rounds given are not enough.
\<close>

fun ManagersContainer_ThreadFunc ::
    "((nat \<Rightarrow> bool) \<times> (managers_container \<Rightarrow> managers_container)) list \<Rightarrow> managers_container \<Rightarrow> managers_container option" where
  "ManagersContainer_ThreadFunc rounds c =
     (if mc_isExit c then Some (container_exit c)
      else case rounds of
             [] \<Rightarrow> None
           | (stops, move) # rounds \<Rightarrow> ManagersContainer_ThreadFunc rounds (move (container_pass stops c)))"

declare ManagersContainer_ThreadFunc.simps [simp del]

lemma RunManager_pass:
  "filter_pass (RunManager stops) ms (gone, calls)
   = (filter (\<lambda>p. \<not> stops p) ms, gone @ filter stops ms, calls @ map ManagerFunc ms)"
  by (induction ms arbitrary: gone calls) (auto simp: RunManager_def Let_def)

lemma container_pass_eq:
  "container_pass stops c = c\<lparr>mc_managers := filter (\<lambda>p. \<not> stops p) (mc_managers c),
     mc_calls := mc_calls c @ map ManagerFunc (mc_managers c) @ stop_and_delete (filter stops (mc_managers c))\<rparr>"
  by (simp add: container_pass_def CheckObjects_eq_filter_pass RunManager_pass)

lemma container_exit_eq:
  "container_exit c = c\<lparr>mc_managers := [], mc_calls := mc_calls c @ stop_and_delete (mc_managers c)\<rparr>"
proof -
  have "filter_pass CheckManager ms gone = ([], gone @ ms)" for ms gone
    by (induction ms arbitrary: gone) (auto simp: CheckManager_def)
  then show ?thesis by (simp add: container_exit_def CheckObjects_eq_filter_pass)
qed

section \<open>Every manager ends once\<close>

text \<open>The managers that were started, and those deleted, as multisets.\<close>

definition started :: "manager_call list \<Rightarrow> nat multiset" where
  "started cs = mset (concat (map (\<lambda>c. case c of ManagerStart p \<Rightarrow> [p] | _ \<Rightarrow> []) cs))"

definition deleted :: "manager_call list \<Rightarrow> nat multiset" where
  "deleted cs = mset (concat (map (\<lambda>c. case c of ManagerDelete p \<Rightarrow> [p] | _ \<Rightarrow> []) cs))"

lemma started_simps [simp]:
  "started [] = {#}" "started (cs @ ds) = started cs + started ds" "started (map ManagerFunc ps) = {#}"
  "started (stop_and_delete ps) = {#}" "started [ManagerStart p] = {#p#}"
proof -
  show "started (map ManagerFunc ps) = {#}" by (induction ps) (auto simp: started_def)
  show "started (stop_and_delete ps) = {#}" by (induction ps) (auto simp: started_def stop_and_delete_def)
qed (simp_all add: started_def)

lemma deleted_simps [simp]:
  "deleted [] = {#}" "deleted (cs @ ds) = deleted cs + deleted ds" "deleted (map ManagerFunc ps) = {#}"
  "deleted (stop_and_delete ps) = mset ps" "deleted [ManagerStart p] = {#}"
proof -
  show "deleted (map ManagerFunc ps) = {#}" by (induction ps) (auto simp: deleted_def)
  show "deleted (stop_and_delete ps) = mset ps" by (induction ps) (auto simp: deleted_def stop_and_delete_def)
qed (simp_all add: deleted_def)

definition managers_ok :: "managers_container \<Rightarrow> bool" where
  "managers_ok c \<longleftrightarrow> om_inv (\<lambda>p. p) (mc_managers c) \<and> started (mc_calls c) = deleted (mc_calls c) + mset (mc_managers c)"

text \<open>What others do between two rounds: adding new managers and asking the container to stop.\<close>

inductive others :: "(managers_container \<Rightarrow> managers_container) \<Rightarrow> bool" where
  "others (\<lambda>c. c)"
| "others f \<Longrightarrow> others (\<lambda>c. Stop_mc (f c))"
| "others f \<Longrightarrow> others (\<lambda>c. if p \<in> set (mc_managers (f c)) then f c else AddManager p (f c))"

lemma mset_ptr_add: "om_inv (\<lambda>p. p) ps \<Longrightarrow> p \<notin> set ps \<Longrightarrow> mset (fst (ptr_add p ps)) = add_mset p (mset ps)"
proof -
  assume inv: "om_inv (\<lambda>p. p) ps" and p: "p \<notin> set ps"
  let ?i = "lower_bound (<) ps p"
  have "?i \<noteq> length ps \<Longrightarrow> ps ! ?i \<noteq> p"
    using p lower_bound_le [of "(<)" ps p] by (metis le_neq_implies_less nth_mem)
  moreover have "mset (take ?i ps) + mset (drop ?i ps) = mset ps"
    by (simp flip: mset_append)
  ultimately show ?thesis by (auto simp: AddObject_def Let_def vec_insert_def)
qed

lemma managers_ok_others: "others f \<Longrightarrow> managers_ok c \<Longrightarrow> managers_ok (f c)"
proof (induction rule: others.induct)
  case (3 f p)
  then show ?case
    using ptrs.add_inv [of "mc_managers (f c)" p]
    by (auto simp: managers_ok_def AddManager_def mset_ptr_add)
qed (auto simp: managers_ok_def Stop_mc_def)

lemma managers_ok_pass: "managers_ok c \<Longrightarrow> managers_ok (container_pass stops c)"
  by (auto simp: managers_ok_def container_pass_eq om_inv_filter add.commute [of "mset (filter _ _)"] 
      simp flip: union_assoc multiset_partition)

lemma managers_loop:
  assumes "\<forall>(stops, move) \<in> set rounds. others move" and "managers_ok c"
    and "ManagersContainer_ThreadFunc rounds c = Some c'"
  shows "managers_ok c' \<and> mc_managers c' = []"
  using assms
proof (induction rounds c rule: ManagersContainer_ThreadFunc.induct)
  case (1 rounds c)
  show ?case
  proof (cases "mc_isExit c")
    case True
    with 1 show ?thesis
      by (auto simp: ManagersContainer_ThreadFunc.simps container_exit_eq managers_ok_def)
  next
    case False
    with 1 show ?thesis
      by (cases rounds) (auto simp: ManagersContainer_ThreadFunc.simps [of _ c] managers_ok_others managers_ok_pass)
  qed
qed

lemma Stop_mc_exit [simp]: "mc_isExit (Stop_mc c)"
  by (simp add: Stop_mc_def)

lemma managers_loop_ends:
  "rounds \<noteq> [] \<Longrightarrow> snd (last rounds) = (\<lambda>c. Stop_mc (f c)) \<Longrightarrow> ManagersContainer_ThreadFunc rounds c \<noteq> None"
proof (induction rounds c rule: ManagersContainer_ThreadFunc.induct)
  case (1 rounds c)
  then obtain stops move rest where rounds: "rounds = (stops, move) # rest" by (cases rounds) auto
  show ?case
  proof (cases "rest = []")
    case True
    with 1 rounds show ?thesis
      by (simp add: ManagersContainer_ThreadFunc.simps [of "[(stops, \<lambda>c. Stop_mc (f c))]"]
          ManagersContainer_ThreadFunc.simps [of "[]"])
  next
    case False
    with 1 rounds show ?thesis by (simp add: ManagersContainer_ThreadFunc.simps [of "(stops, move) # rest"])
  qed
qed

text \<open>
  C28: whatever is added while the managers' thread runs, and whichever managers want to stop at
  any time, once the container is told to stop the thread ends, and then every manager that was
  ever added has been deleted exactly once.
\<close>

theorem managers_end_once:
  assumes "\<forall>(stops, move) \<in> set rounds. others move" and "rounds \<noteq> []"
    and "snd (last rounds) = (\<lambda>c. Stop_mc (f c))"
  shows "\<exists>c. ManagersContainer_ThreadFunc rounds ManagersContainer = Some c
    \<and> mc_managers c = [] \<and> deleted (mc_calls c) = started (mc_calls c)"
proof -
  obtain c where c: "ManagersContainer_ThreadFunc rounds ManagersContainer = Some c"
    using managers_loop_ends [OF assms(2,3)] by blast
  have "managers_ok ManagersContainer" by (simp add: managers_ok_def ManagersContainer_def)
  from managers_loop [OF assms(1) this c] c show ?thesis by (auto simp: managers_ok_def)
qed

theorem managers_end_once_witness:
  "\<exists>c. ManagersContainer_ThreadFunc [(\<lambda>p. False, AddManager 7), (\<lambda>p. p = 7, \<lambda>c. Stop_mc c)] ManagersContainer = Some c
    \<and> deleted (mc_calls c) = {#7#}"
proof -
  have "others (\<lambda>c. if 7 \<in> set (mc_managers c) then c else AddManager 7 c)" by (rule others.intros(3) [OF others.intros(1)])
  moreover have "others (\<lambda>c. Stop_mc c)" by (rule others.intros(2) [OF others.intros(1)])
  ultimately have "\<exists>c. ManagersContainer_ThreadFunc [(\<lambda>p. False, \<lambda>c. if 7 \<in> set (mc_managers c) then c else AddManager 7 c),
      (\<lambda>p. p = 7, \<lambda>c. Stop_mc c)] ManagersContainer = Some c \<and> mc_managers c = [] \<and> deleted (mc_calls c) = started (mc_calls c)"
    by (intro managers_end_once [where f = "\<lambda>c. c"]) simp_all
  then show ?thesis
    by (simp add: ManagersContainer_ThreadFunc.simps container_pass_eq container_exit_eq ManagersContainer_def AddManager_def
        Stop_mc_def AddObject_def lower_bound_def Let_def started_def stop_and_delete_def)
qed

section \<open>Deleting threads that have ended\<close>

text \<open>
  The manager's threads and the threads in memory. Looking at a thread that has been deleted is
  a read of freed memory, \<^const>\<open>None\<close>.
\<close>

record thread_manager =
  tg_threads :: "nat list"
  tg_memory :: "nat \<Rightarrow> thread option"

definition AddThread :: "nat \<Rightarrow> thread_manager \<Rightarrow> thread_manager" where
  "AddThread p g = g\<lparr>tg_threads := fst (ptr_add p (tg_threads g))\<rparr>"

definition RemoveThread :: "nat \<Rightarrow> thread_manager \<Rightarrow> thread_manager option" where
  "RemoveThread p g = map_option (\<lambda>t. g\<lparr>tg_memory := (tg_memory g)(p \<mapsto> StopThread t)\<rparr>) (tg_memory g p)"

definition CheckThread :: "(nat \<Rightarrow> thread option) \<Rightarrow> nat \<Rightarrow> nat list \<Rightarrow> bool \<times> nat list" where
  "CheckThread memory p threads =
     (if IsStopped (the (memory p)) then (True, threads @ [p]) else (False, threads))"

definition delete_all :: "nat list \<Rightarrow> (nat \<Rightarrow> thread option) \<Rightarrow> (nat \<Rightarrow> thread option) option" where
  "delete_all ps memory =
     fold (\<lambda>p acc. Option.bind acc (\<lambda>m. if m p = None then None else Some (m(p := None)))) ps (Some memory)"

definition ThreadManager_ManagerFunc :: "thread_manager \<Rightarrow> thread_manager option" where
  "ThreadManager_ManagerFunc g =
     (if \<exists>p \<in> set (tg_threads g). tg_memory g p = None then None
      else case CheckObjects (CheckThread (tg_memory g)) (tg_threads g) [] of
             (ts, threads) \<Rightarrow> map_option (\<lambda>m. g\<lparr>tg_threads := ts, tg_memory := m\<rparr>) (delete_all threads (tg_memory g)))"

text \<open>\<open>ManagerStop\<close> joins every thread; \<open>joined p\<close> is the thread after \<open>Join\<close>, \<^const>\<open>None\<close> if that never returns.\<close>

definition ThreadManager_ManagerStop :: "(nat \<Rightarrow> thread option) \<Rightarrow> thread_manager \<Rightarrow> thread_manager option" where
  "ThreadManager_ManagerStop joined g =
     (if \<exists>p \<in> set (tg_threads g). tg_memory g p = None \<or> joined p = None then None
      else case CheckObjects (\<lambda>p threads. (True, threads @ [p])) (tg_threads g) [] of
             (ts, threads) \<Rightarrow> map_option (\<lambda>m. g\<lparr>tg_threads := ts, tg_memory := m\<rparr>) (delete_all threads (tg_memory g)))"

lemma delete_all_eq:
  "distinct ps \<Longrightarrow> \<forall>p \<in> set ps. m p \<noteq> None \<Longrightarrow> delete_all ps m = Some (\<lambda>p. if p \<in> set ps then None else m p)"
proof (induction ps arbitrary: m)
  case (Cons p ps)
  then have "delete_all ps (m(p := None)) = Some (\<lambda>q. if q \<in> set ps then None else (m(p := None)) q)"
    by (intro Cons.IH) auto
  moreover have "delete_all (p # ps) m = delete_all ps (m(p := None))"
    using Cons.prems by (auto simp: delete_all_def)
  ultimately show ?case by (auto simp: fun_eq_iff)
qed (simp add: delete_all_def)

lemma CheckThread_pass:
  "filter_pass (CheckThread m) ps ts
   = (filter (\<lambda>p. \<not> IsStopped (the (m p))) ps, ts @ filter (\<lambda>p. IsStopped (the (m p))) ps)"
  by (induction ps arbitrary: ts) (auto simp: CheckThread_def)

text \<open>
  One run of the thread manager deletes exactly its threads that have ended, each once, and
  afterwards no pointer it holds dangles.
\<close>

lemma ended_threads_deleted:
  assumes "om_inv (\<lambda>p. p) (tg_threads g)" and "\<forall>p \<in> set (tg_threads g). tg_memory g p \<noteq> None"
  shows "\<exists>g'. ThreadManager_ManagerFunc g = Some g'
    \<and> om_inv (\<lambda>p. p) (tg_threads g') \<and> (\<forall>p \<in> set (tg_threads g'). tg_memory g' p \<noteq> None)
    \<and> (\<forall>p. tg_memory g' p = (if p \<in> set (tg_threads g) \<and> IsStopped (the (tg_memory g p)) then None else tg_memory g p))"
proof -
  have d: "distinct (tg_threads g)" using om_inv_distinct [OF assms(1)] by simp
  from assms show ?thesis
    by (auto simp: ThreadManager_ManagerFunc_def CheckObjects_eq_filter_pass CheckThread_pass delete_all_eq d om_inv_filter)
qed

section \<open>Timers\<close>

text \<open>A timer: the system's timer and what it calls. The map of the timers is a \<open>std::map\<close>.\<close>

record timer =
  t_id :: nat
  t_proc :: nat

fun next_id_loop :: "nat \<Rightarrow> nat list \<Rightarrow> nat" where
  "next_id_loop i [] = i"
| "next_id_loop i (k # ks) = (if i \<noteq> k then i else next_id_loop (Suc i) ks)"

definition GetNextTimerId :: "(nat \<times> timer) list \<Rightarrow> nat" where
  "GetNextTimerId timers = next_id_loop 1 (map fst timers)"

definition AddTimer :: "nat \<Rightarrow> timer \<Rightarrow> (nat \<times> timer) list \<Rightarrow> (nat \<times> timer) list" where
  "AddTimer i t timers = map_insert i t timers"

definition RemoveTimer :: "nat \<Rightarrow> (nat \<times> timer) list \<Rightarrow> (nat \<times> timer) list" where
  "RemoveTimer i timers = map_erase i timers"

definition GetTimer :: "nat \<Rightarrow> (nat \<times> timer) list \<Rightarrow> timer option" where
  "GetTimer i timers = map_of timers i"

text \<open>
  \<open>CreateTimer\<close>: \<open>sys\<close> is the system's timer, \<^const>\<open>None\<close> if \<open>timer_create\<close> or \<open>timer_settime\<close> fails;
  the id has been taken then, and is returned all the same.
\<close>

definition CreateTimer :: "nat option \<Rightarrow> nat \<Rightarrow> (nat \<times> timer) list \<Rightarrow> nat \<times> (nat \<times> timer) list" where
  "CreateTimer sys proc timers =
     (let i = GetNextTimerId timers
      in (i, case sys of None \<Rightarrow> timers | Some t \<Rightarrow> AddTimer i \<lparr>t_id = t, t_proc = proc\<rparr> timers))"

text \<open>\<open>DeleteTimer\<close>, with the system's timer that is deleted.\<close>

definition DeleteTimer :: "nat \<Rightarrow> (nat \<times> timer) list \<Rightarrow> nat option \<times> (nat \<times> timer) list" where
  "DeleteTimer i timers =
     (case GetTimer i timers of None \<Rightarrow> (None, timers) | Some t \<Rightarrow> (Some (t_id t), RemoveTimer i timers))"

definition TimerProc :: "nat \<Rightarrow> (nat \<times> timer) list \<Rightarrow> nat option" where
  "TimerProc i timers = map_option t_proc (GetTimer i timers)"

definition TimerManager_ManagerStop :: "(nat \<times> timer) list \<Rightarrow> nat list \<times> (nat \<times> timer) list" where
  "TimerManager_ManagerStop timers = (map (t_id \<circ> snd) timers, [])"

lemma next_id_loop_bounds:
  assumes "sorted_wrt (<) ks" and "\<forall>k \<in> set ks. i \<le> k"
  shows "next_id_loop i ks \<notin> set ks \<and> i \<le> next_id_loop i ks \<and> (\<forall>j. i \<le> j \<and> j < next_id_loop i ks \<longrightarrow> j \<in> set ks)"
  using assms
proof (induction i ks rule: next_id_loop.induct)
  case (2 i k ks)
  show ?case
  proof (cases "i = k")
    case True
    let ?n = "next_id_loop (Suc i) ks"
    have "?n \<notin> set ks \<and> Suc i \<le> ?n \<and> (\<forall>j. Suc i \<le> j \<and> j < ?n \<longrightarrow> j \<in> set ks)"
      using True "2.prems" by (intro "2.IH") (auto simp: Suc_le_eq)
    then have n: "?n \<notin> set ks" "Suc i \<le> ?n" and below: "Suc i \<le> j \<Longrightarrow> j < ?n \<Longrightarrow> j \<in> set ks" for j
      by auto
    have "j \<in> set (k # ks)" if "i \<le> j" "j < ?n" for j
      using below [of j] that True by (cases "j = i") auto
    with n True show ?thesis by auto
  next
    case False
    with "2.prems" show ?thesis by auto
  qed
qed simp

definition timers_ok :: "(nat \<times> timer) list \<Rightarrow> bool" where
  "timers_ok timers \<longleftrightarrow> map_ok timers \<and> (\<forall>i \<in> fst ` set timers. 0 < i)"

text \<open>
  A new timer gets the smallest id that is free, no other timer is affected, the timer calls
  its own procedure, and deleting it deletes its own system timer and leaves the timers as they
  were.
\<close>

lemma timers_correct:
  assumes "timers_ok timers" and "CreateTimer (Some sys) proc timers = (i, timers')"
  shows "0 < i \<and> GetTimer i timers = None \<and> (\<forall>j. 0 < j \<and> j < i \<longrightarrow> GetTimer j timers \<noteq> None)
    \<and> timers_ok timers' \<and> TimerProc i timers' = Some proc \<and> (\<forall>j. j \<noteq> i \<longrightarrow> GetTimer j timers' = GetTimer j timers)
    \<and> fst (DeleteTimer i timers') = Some sys \<and> (\<forall>j. GetTimer j (snd (DeleteTimer i timers')) = GetTimer j timers)"
proof -
  have sorted: "sorted_wrt (<) (map fst timers)" and pos: "\<forall>k \<in> set (map fst timers). 1 \<le> k"
    using assms(1) by (auto simp: timers_ok_def map_ok_def Suc_le_eq)
  from assms(2) have i: "i = next_id_loop 1 (map fst timers)" and t: "timers' = map_insert i \<lparr>t_id = sys, t_proc = proc\<rparr> timers"
    by (auto simp: CreateTimer_def GetNextTimerId_def AddTimer_def Let_def)
  note b = next_id_loop_bounds [OF sorted pos, folded i]
  have none: "map_of timers i = None" using b by (simp add: map_of_eq_None_iff)
  have lower: "map_of timers j \<noteq> None" if "0 < j" and "j < i" for j
    using b that by (auto simp: map_of_eq_None_iff Suc_le_eq)
  have "timers_ok timers'"
    using assms(1) b by (simp add: timers_ok_def t map_ok_insert map_insert_keys Suc_le_eq)
  with b none lower show ?thesis
    by (simp add: GetTimer_def TimerProc_def DeleteTimer_def RemoveTimer_def t)
qed

text \<open>
  The id is taken before the timer is entered. Two timers created at the same time get the same
  id; the second one is not entered, calls the first one's procedure, and cannot be deleted.
\<close>

lemma simultaneous_timers_collide:
  assumes "timers_ok timers"
  defines "i \<equiv> GetNextTimerId timers"
  shows "AddTimer i t2 (AddTimer i t1 timers) = AddTimer i t1 timers
    \<and> TimerProc i (AddTimer i t2 (AddTimer i t1 timers)) = Some (t_proc t1)"
proof -
  have "sorted_wrt (<) (map fst timers)" and "\<forall>k \<in> set (map fst timers). 1 \<le> k"
    using assms(1) by (auto simp: timers_ok_def map_ok_def Suc_le_eq)
  from next_id_loop_bounds [OF this] have none: "map_of timers i = None"
    by (simp add: i_def GetNextTimerId_def map_of_eq_None_iff)
  then show ?thesis by (simp add: AddTimer_def TimerProc_def GetTimer_def map_insert_present)
qed

end
