(* ===== verification/Connections.thy ===== *)
theory Connections
  imports Managers
begin

text \<open>
  How connections come into being and end (\<open>connector_lib\<close>): the threads that listen
  (\<open>thread/listen_thread.cpp\<close>) and connect (\<open>connect_thread.cpp\<close>), and the manager of a module's
  connectors (\<open>connector/connector_manager.cpp\<close>).
\<close>

section \<open>Listening\<close>

datatype listen_effect =
    ListenErrorMessage string
  | CreatedListenerMessage string int string
  | ListenConnector string string int nat
  | AcceptErrorMessage
  | ListenSocketDeleted

text \<open>
  The accepting loop: every test of \<open>IsStop ()\<close> with the result of \<open>Accept\<close>, which is
  \<^const>\<open>None\<close> for an error. The whole is \<^const>\<open>None\<close> while it waits for more.
\<close>

fun accept_loop :: "bool \<Rightarrow> int \<Rightarrow> string \<Rightarrow> (bool \<times> (nat \<times> string \<times> int) option) list \<Rightarrow> listen_effect list option" where
  "accept_loop endless n i [] = None"
| "accept_loop endless n i ((stop, accepted) # rest) =
     (if stop then Some []
      else case accepted of
             None \<Rightarrow> Some [AcceptErrorMessage, ListenSocketDeleted]
           | Some (sock, ip, port) \<Rightarrow>
               if \<not> endless \<and> n - 1 \<le> 0 then Some [ListenConnector i ip port sock, ListenSocketDeleted]
               else map_option (Cons (ListenConnector i ip port sock)) (accept_loop endless (n - 1) i rest))"

definition ListenThread_ThreadFunc ::
    "string \<Rightarrow> int \<Rightarrow> (string \<times> int) option \<Rightarrow> (bool \<times> (nat \<times> string \<times> int) option) list \<Rightarrow> listen_effect list option" where
  "ListenThread_ThreadFunc i acceptCount bound accepts =
     (case bound of
        None \<Rightarrow> Some [ListenErrorMessage i, ListenSocketDeleted]
      | Some (ip, port) \<Rightarrow>
          map_option (Cons (CreatedListenerMessage ip port i)) (accept_loop (acceptCount = -1) acceptCount i accepts))"

text \<open>The connectors a listener has handed over.\<close>

definition connectors_of :: "listen_effect list \<Rightarrow> (string \<times> int \<times> nat) list" where
  "connectors_of es = concat (map (\<lambda>e. case e of ListenConnector i ip port sock \<Rightarrow> [(ip, port, sock)] | _ \<Rightarrow> []) es)"

lemma connectors_of_simps [simp]:
  "connectors_of [] = []"
  "connectors_of (e # es) = (case e of ListenConnector i ip port sock \<Rightarrow> [(ip, port, sock)] | _ \<Rightarrow> []) @ connectors_of es"
  by (simp_all add: connectors_of_def)

lemma accept_loop_counts:
  assumes "accept_loop False n i accepts = Some es"
  shows "int (length (connectors_of es)) \<le> max 1 n"
  using assms
proof (induction "False" n i accepts arbitrary: es rule: accept_loop.induct)
  case (2 n i stop accepted rest)
  then show ?case
    by (fastforce split: if_splits option.splits prod.splits)
qed simp

text \<open>A run that accepts: every test finds no stop and every \<open>Accept\<close> succeeds.\<close>

lemma accept_loop_all:
  assumes "int (length socks) = k" and "socks \<noteq> []"
  shows "accept_loop False k i (map (\<lambda>s. (False, Some s)) socks @ rest)
    = Some (map (\<lambda>(sock, ip, port). ListenConnector i ip port sock) socks @ [ListenSocketDeleted])"
  using assms
proof (induction socks arbitrary: k)
  case (Cons s socks)
  obtain sock ip port where s: "s = (sock, ip, port)" by (cases s)
  show ?case
  proof (cases "socks = []")
    case True
    with Cons.prems s show ?thesis by simp
  next
    case False
    with Cons.prems have "int (length socks) = k - 1" and "\<not> k - 1 \<le> 0" by (auto simp: neq_Nil_conv)
    with Cons.IH False s show ?thesis by simp
  qed
qed simp

text \<open>
  A listener told to accept some number of connections hands over at most that many, and ends by
  itself once it has accepted them.
\<close>

lemma listener_accepts_count:
  assumes "0 < n"
  shows "(ListenThread_ThreadFunc i (int n) (Some (ip, port)) accepts = Some es \<longrightarrow> length (connectors_of es) \<le> n)
    \<and> (length socks = n \<longrightarrow>
        ListenThread_ThreadFunc i (int n) (Some (ip, port)) (map (\<lambda>s. (False, Some s)) socks @ rest)
        = Some (CreatedListenerMessage ip port i # map (\<lambda>(sock, ip, port). ListenConnector i ip port sock) socks
            @ [ListenSocketDeleted]))"
proof -
  have "length (connectors_of es) \<le> n" if "ListenThread_ThreadFunc i (int n) (Some (ip, port)) accepts = Some es"
    using that accept_loop_counts [of "int n" i accepts] assms
    by (fastforce simp: ListenThread_ThreadFunc_def)
  moreover have "length socks = n \<Longrightarrow> socks \<noteq> []" using assms by auto
  ultimately show ?thesis using accept_loop_all [of socks "int n" i rest] by (auto simp: ListenThread_ThreadFunc_def)
qed

section \<open>Connecting\<close>

datatype connect_effect =
    ConnectConnector string string int
  | ConnectErrorMessage string
  | ConnectSocketDeleted

definition ConnectThread_ThreadFunc :: "string \<Rightarrow> string \<Rightarrow> string \<Rightarrow> int \<Rightarrow> bool \<Rightarrow> connect_effect list" where
  "ConnectThread_ThreadFunc i moduleName ip port connected =
     (if connected then [ConnectConnector i ip port] else [ConnectErrorMessage moduleName, ConnectSocketDeleted])"

section \<open>The connectors of a module\<close>

record connector =
  co_id :: string
  co_connid :: string
  co_accessid :: string
  co_stopped :: bool

datatype manager_effect =
    NewConnector nat nat
  | StartConnector nat
  | StopConnectorCall nat
  | ConnectorToThreads nat
  | DisconnectedMessage string string string

record connector_manager =
  cmg_connectors :: "nat list"
  cmg_memory :: "nat \<Rightarrow> connector"
  cmg_trace :: "manager_effect list"

definition cmg_emit :: "manager_effect list \<Rightarrow> connector_manager \<Rightarrow> connector_manager" where
  "cmg_emit es g = g\<lparr>cmg_trace := cmg_trace g @ es\<rparr>"

definition ConnectorManager :: "(nat \<Rightarrow> connector) \<Rightarrow> connector_manager" where
  "ConnectorManager memory = \<lparr>cmg_connectors = [], cmg_memory = memory, cmg_trace = []\<rparr>"

definition AddConnection :: "nat \<Rightarrow> connector_manager \<Rightarrow> connector_manager" where
  "AddConnection conn g =
     (let g = ProcessingObjects (\<lambda>c. cmg_emit [NewConnector conn c]) (cmg_connectors g) g;
          g = cmg_emit [StartConnector conn] g
      in g\<lparr>cmg_connectors := fst (ptr_add conn (cmg_connectors g))\<rparr>)"

definition StopConnection :: "string \<Rightarrow> connector_manager \<Rightarrow> connector_manager" where
  "StopConnection moduleName g =
     ProcessingObjects (\<lambda>c g. if co_id (cmg_memory g c) = moduleName then cmg_emit [StopConnectorCall c] g else g)
       (cmg_connectors g) g"

definition StopAllConnection :: "connector_manager \<Rightarrow> connector_manager" where
  "StopAllConnection g = ProcessingObjects (\<lambda>c. cmg_emit [StopConnectorCall c]) (cmg_connectors g) g"

definition module_info :: "connector \<Rightarrow> manager_effect" where
  "module_info c = DisconnectedMessage (co_id c) (co_connid c) (co_accessid c)"

definition CheckConnection :: "nat \<Rightarrow> nat list \<times> connector_manager \<Rightarrow> bool \<times> nat list \<times> connector_manager" where
  "CheckConnection c s =
     (if co_stopped (cmg_memory (snd s) c) then (True, fst s @ [c], cmg_emit [ConnectorToThreads c] (snd s))
      else (False, s))"

definition StopConnector :: "nat \<Rightarrow> nat list \<times> connector_manager \<Rightarrow> bool \<times> nat list \<times> connector_manager" where
  "StopConnector c s = (True, fst s @ [c], cmg_emit [StopConnectorCall c, ConnectorToThreads c] (snd s))"

definition disconnected_modules ::
    "(nat \<Rightarrow> nat list \<times> connector_manager \<Rightarrow> bool \<times> nat list \<times> connector_manager) \<Rightarrow> connector_manager \<Rightarrow> connector_manager" where
  "disconnected_modules f g =
     (case CheckObjects f (cmg_connectors g) ([], g) of
        (cs, gone, g) \<Rightarrow> cmg_emit (map (\<lambda>c. module_info (cmg_memory g c)) gone) (g\<lparr>cmg_connectors := cs\<rparr>))"

definition ConnectorManager_ManagerFunc :: "connector_manager \<Rightarrow> connector_manager" where
  "ConnectorManager_ManagerFunc = disconnected_modules CheckConnection"

definition ConnectorManager_ManagerStop :: "connector_manager \<Rightarrow> connector_manager" where
  "ConnectorManager_ManagerStop = disconnected_modules StopConnector"

subsection \<open>What the operations do\<close>

lemma cmg_emit_sel [simp]:
  "cmg_connectors (cmg_emit es g) = cmg_connectors g" "cmg_memory (cmg_emit es g) = cmg_memory g"
  "cmg_trace (cmg_emit es g) = cmg_trace g @ es" "cmg_emit [] g = g" "cmg_emit ds (cmg_emit es g) = cmg_emit (es @ ds) g"
  by (simp_all add: cmg_emit_def)

lemma ProcessingObjects_emit:
  "ProcessingObjects (\<lambda>c. cmg_emit (f c)) cs g = cmg_emit (concat (map f cs)) g"
  by (induction cs arbitrary: g) simp_all

lemma ManagerFunc_eq:
  "ConnectorManager_ManagerFunc g =
     (let gone = filter (\<lambda>c. co_stopped (cmg_memory g c)) (cmg_connectors g)
      in cmg_emit (map ConnectorToThreads gone @ map (\<lambda>c. module_info (cmg_memory g c)) gone)
           (g\<lparr>cmg_connectors := filter (\<lambda>c. \<not> co_stopped (cmg_memory g c)) (cmg_connectors g)\<rparr>))"
proof -
  have "filter_pass CheckConnection cs (ds, h) = (filter (\<lambda>c. \<not> co_stopped (cmg_memory h c)) cs,
      ds @ filter (\<lambda>c. co_stopped (cmg_memory h c)) cs,
      cmg_emit (map ConnectorToThreads (filter (\<lambda>c. co_stopped (cmg_memory h c)) cs)) h)" for cs ds h
    by (induction cs arbitrary: ds h) (auto simp: CheckConnection_def)
  then show ?thesis
    by (simp add: ConnectorManager_ManagerFunc_def disconnected_modules_def CheckObjects_eq_filter_pass Let_def cmg_emit_def)
qed

lemma ManagerStop_eq:
  "ConnectorManager_ManagerStop g =
     cmg_emit (concat (map (\<lambda>c. [StopConnectorCall c, ConnectorToThreads c]) (cmg_connectors g))
         @ map (\<lambda>c. module_info (cmg_memory g c)) (cmg_connectors g)) (g\<lparr>cmg_connectors := []\<rparr>)"
proof -
  have "filter_pass StopConnector cs (ds, h) = ([], ds @ cs,
      cmg_emit (concat (map (\<lambda>c. [StopConnectorCall c, ConnectorToThreads c]) cs)) h)" for cs ds h
    by (induction cs arbitrary: ds h) (auto simp: StopConnector_def)
  then show ?thesis
    by (simp add: ConnectorManager_ManagerStop_def disconnected_modules_def CheckObjects_eq_filter_pass cmg_emit_def)
qed

subsection \<open>Every connection ends once\<close>

text \<open>
  What can happen to a manager: its operations, and the connectors changing on their own. A
  connector that is added is not among the module's already.
\<close>

inductive cm_step :: "connector_manager \<Rightarrow> connector_manager \<Rightarrow> bool" where
  cm_Add: "conn \<notin> set (cmg_connectors g) \<Longrightarrow> cm_step g (AddConnection conn g)"
| cm_Stop: "cm_step g (StopConnection moduleName g)"
| cm_StopAll: "cm_step g (StopAllConnection g)"
| cm_ManagerFunc: "cm_step g (ConnectorManager_ManagerFunc g)"
| cm_ManagerStop: "cm_step g (ConnectorManager_ManagerStop g)"
| cm_connectors: "cm_step g (g\<lparr>cmg_memory := memory\<rparr>)"

definition started_connectors :: "manager_effect list \<Rightarrow> nat list" where
  "started_connectors es = concat (map (\<lambda>e. case e of StartConnector c \<Rightarrow> [c] | _ \<Rightarrow> []) es)"

definition ended_connectors :: "manager_effect list \<Rightarrow> nat list" where
  "ended_connectors es = concat (map (\<lambda>e. case e of ConnectorToThreads c \<Rightarrow> [c] | _ \<Rightarrow> []) es)"

definition disconnections :: "manager_effect list \<Rightarrow> nat" where
  "disconnections es = length (filter (\<lambda>e. case e of DisconnectedMessage i k a \<Rightarrow> True | _ \<Rightarrow> False) es)"

lemma effect_list_simps [simp]:
  "started_connectors [] = []" "started_connectors (es @ fs) = started_connectors es @ started_connectors fs"
  "started_connectors (e # es) = (case e of StartConnector c \<Rightarrow> [c] | _ \<Rightarrow> []) @ started_connectors es"
  "ended_connectors [] = []" "ended_connectors (es @ fs) = ended_connectors es @ ended_connectors fs"
  "ended_connectors (e # es) = (case e of ConnectorToThreads c \<Rightarrow> [c] | _ \<Rightarrow> []) @ ended_connectors es"
  "disconnections [] = 0" "disconnections (es @ fs) = disconnections es + disconnections fs"
  "disconnections (e # es) = (case e of DisconnectedMessage i k a \<Rightarrow> 1 | _ \<Rightarrow> 0) + disconnections es"
  by (simp_all add: started_connectors_def ended_connectors_def disconnections_def split: manager_effect.split)

lemma effect_maps [simp]:
  "started_connectors (map (\<lambda>c. NewConnector d c) cs) = []" "started_connectors (map ConnectorToThreads cs) = []"
  "started_connectors (map (\<lambda>c. module_info (m c)) cs) = []"
  "ended_connectors (map (\<lambda>c. NewConnector d c) cs) = []" "ended_connectors (map ConnectorToThreads cs) = cs"
  "ended_connectors (map (\<lambda>c. module_info (m c)) cs) = []"
  "disconnections (map (\<lambda>c. NewConnector d c) cs) = 0" "disconnections (map ConnectorToThreads cs) = 0"
  "disconnections (map (\<lambda>c. module_info (m c)) cs) = length cs"
  by (induction cs) (simp_all add: module_info_def)

lemma effect_concats [simp]:
  "started_connectors (concat (map (\<lambda>c. [StopConnectorCall c, ConnectorToThreads c]) cs)) = []"
  "ended_connectors (concat (map (\<lambda>c. [StopConnectorCall c, ConnectorToThreads c]) cs)) = cs"
  "disconnections (concat (map (\<lambda>c. [StopConnectorCall c, ConnectorToThreads c]) cs)) = 0"
  by (induction cs) simp_all

definition connections_ok :: "connector_manager \<Rightarrow> bool" where
  "connections_ok g \<longleftrightarrow> om_inv (\<lambda>p. p) (cmg_connectors g)
     \<and> mset (started_connectors (cmg_trace g)) = mset (ended_connectors (cmg_trace g)) + mset (cmg_connectors g)
     \<and> disconnections (cmg_trace g) = length (ended_connectors (cmg_trace g))"

lemma AddConnection_eq:
  "AddConnection conn g = cmg_emit (map (NewConnector conn) (cmg_connectors g) @ [StartConnector conn])
     (g\<lparr>cmg_connectors := fst (ptr_add conn (cmg_connectors g))\<rparr>)"
  by (simp add: AddConnection_def Let_def ProcessingObjects_emit cmg_emit_def)

lemma StopConnection_trace:
  "\<exists>cs. StopConnection moduleName g = cmg_emit (map StopConnectorCall cs) g"
proof -
  have "ProcessingObjects (\<lambda>c g. if co_id (cmg_memory g c) = moduleName then cmg_emit [StopConnectorCall c] g else g) ds h
      = cmg_emit (map StopConnectorCall (filter (\<lambda>c. co_id (cmg_memory h c) = moduleName) ds)) h" for ds h
    by (induction ds arbitrary: h) simp_all
  then show ?thesis unfolding StopConnection_def by blast
qed

lemma stop_calls [simp]:
  "started_connectors (map StopConnectorCall cs) = []" "ended_connectors (map StopConnectorCall cs) = []"
  "disconnections (map StopConnectorCall cs) = 0"
  by (induction cs) simp_all

lemma StopAllConnection_eq: "StopAllConnection g = cmg_emit (map StopConnectorCall (cmg_connectors g)) g"
  by (simp add: StopAllConnection_def ProcessingObjects_emit)

lemma connections_ok_emit:
  "connections_ok g \<Longrightarrow> started_connectors es = [] \<Longrightarrow> ended_connectors es = [] \<Longrightarrow> disconnections es = 0 \<Longrightarrow>
   connections_ok (cmg_emit es g)"
  by (simp add: connections_ok_def)

lemma cm_step_ok: "cm_step g g' \<Longrightarrow> connections_ok g \<Longrightarrow> connections_ok g'"
proof (induction rule: cm_step.induct)
  case (cm_Add conn g)
  then show ?case
    using ptrs.add_inv [of "cmg_connectors g" conn]
    by (simp add: AddConnection_eq connections_ok_def mset_ptr_add)
next
  case (cm_Stop g moduleName)
  then show ?case using StopConnection_trace [of moduleName g] by (auto simp: connections_ok_def)
next
  case (cm_ManagerFunc g)
  have "mset (filter (\<lambda>c. co_stopped (cmg_memory g c)) cs) + mset (filter (\<lambda>c. \<not> co_stopped (cmg_memory g c)) cs) = mset cs" for cs
    by (induction cs) simp_all
  with cm_ManagerFunc show ?case by (simp add: ManagerFunc_eq Let_def connections_ok_def om_inv_filter ac_simps)
qed (auto simp: StopAllConnection_eq ManagerStop_eq connections_ok_def)



end
