(* ===== verification/Tunnel_Connector.thy ===== *)
theory Tunnel_Connector
  imports Tunnel_Module Ipc_Connection
begin

text \<open>
  The connection of a tunnel (class \<open>TunnelConnector\<close>, \<open>tunnel_lib/connector/tunnel_connector.cpp\<close>)
  and the server's relay between two of them (\<open>TunnelServerConnector\<close>,
  \<open>tunnel_server_connector.cpp\<close>). On a client the connector is an IPC connector with names of its
  own; on the server, with \<open>m_isServer\<close> set, it hands what arrives to the relay.
\<close>

section \<open>The connector\<close>

datatype tunnel_conn_effect = PingStart | PingStop | TunnelConnectedMessage string type_connection

record tunnel_connector =
  tu_base :: ipc_connector
  tu_isServer :: bool
  tu_pingThread :: bool
  tu_type :: type_connection
  tu_trace :: "tunnel_conn_effect list"

record tunnel_node =
  un_self :: tunnel_connector
  un_module :: ipc_module
  un_peers :: "ipc_connector list"

definition TunnelConnector :: "string \<Rightarrow> ipc_name \<Rightarrow> string \<Rightarrow> tunnel_connector" where
  "TunnelConnector i moduleName guid = \<lparr>tu_base = IPCConnector i moduleName guid, tu_isServer = False,
     tu_pingThread = False, tu_type = UNKNOWN, tu_trace = []\<rparr>"

definition tu_emit :: "tunnel_conn_effect \<Rightarrow> tunnel_connector \<Rightarrow> tunnel_connector" where
  "tu_emit e c = c\<lparr>tu_trace := tu_trace c @ [e]\<rparr>"

definition tu_set :: "(ipc_connector \<Rightarrow> ipc_connector) \<Rightarrow> tunnel_connector \<Rightarrow> tunnel_connector" where
  "tu_set f c = c\<lparr>tu_base := f (tu_base c)\<rparr>"

abbreviation tu_id :: "tunnel_connector \<Rightarrow> string" where
  "tu_id c \<equiv> c_id (tu_base c)"

text \<open>The base class's handlers see the base part of the connector.\<close>

definition on_tunnel_base :: "(node \<Rightarrow> node) \<Rightarrow> tunnel_node \<Rightarrow> tunnel_node" where
  "on_tunnel_base f n =
     (let b = f \<lparr>nd_self = tu_base (un_self n), nd_module = un_module n, nd_peers = un_peers n\<rparr>
      in n\<lparr>un_self := tu_set (\<lambda>_. nd_self b) (un_self n), un_module := nd_module b, un_peers := nd_peers b\<rparr>)"

definition SetServerFlag :: "tunnel_connector \<Rightarrow> tunnel_connector" where
  "SetServerFlag c = c\<lparr>tu_isServer := True\<rparr>"

definition SetTypeConnection :: "type_connection \<Rightarrow> tunnel_connector \<Rightarrow> tunnel_connector" where
  "SetTypeConnection type c = c\<lparr>tu_type := type\<rparr>"

definition OnStart_tu :: "tunnel_connector \<Rightarrow> tunnel_connector" where
  "OnStart_tu c =
     (let c = tu_emit PingStart (c\<lparr>tu_pingThread := True\<rparr>)
      in if tu_isServer c then c
         else tu_set (\<lambda>b.
           let b = c_emit CheckerStart (b\<lparr>c_checker := True\<rparr>);
               b = fst (SetModuleName (IPCName m_tunnelIPCName (mod_name (c_moduleName b)) []) b);
               b = SetId (m_tunnelIPCName @ ''.'' @ c_id b) b;
               b = b\<lparr>c_accessId := m_tunnelAccessId\<rparr>
           in to_message (M_ModuleName \<lparr>mn_ipc_name = c_moduleName b, mn_ip = [], mn_port = 0,
                mn_access_id = m_tunnelAccessId, mn_is_exist = False, mn_conn_id = []\<rparr>) b) c)"

definition SetModuleName_tu :: "ipc_name \<Rightarrow> tunnel_connector \<Rightarrow> tunnel_connector \<times> bool" where
  "SetModuleName_tu moduleName c = (c, False)"

definition OnStop_tu :: "tunnel_node \<Rightarrow> tunnel_node" where
  "OnStop_tu n =
     on_tunnel_base OnStop
       (if tu_pingThread (un_self n) then n\<lparr>un_self := tu_emit PingStop ((un_self n)\<lparr>tu_pingThread := False\<rparr>)\<rparr> else n)"

text \<open>\<open>PingThread::ManagerFunc\<close>.\<close>

definition PingThread_ManagerFunc :: "bool \<Rightarrow> ipc_connector \<Rightarrow> ipc_connector" where
  "PingThread_ManagerFunc stop c = (if \<not> stop then to_message M_Ping c else c)"

text \<open>The virtual \<open>OnConnected\<close>: the flag, and the signal with the other session.\<close>

definition OnConnected_tu :: "tunnel_connector \<Rightarrow> tunnel_connector" where
  "OnConnected_tu c =
     (let c = tu_set (\<lambda>b. b\<lparr>c_bConnected := True\<rparr>) c
      in tu_emit (TunnelConnectedMessage (host_name (GetIPCName (tu_id c))) (tu_type c)) c)"

text \<open>The signal of a module's new name reaches no connector of this class (\<open>SetModuleName\<close> refuses).\<close>

definition onChangeIPCNameMessage_tu :: "ipc_name \<Rightarrow> tunnel_connector \<Rightarrow> tunnel_connector" where
  "onChangeIPCNameMessage_tu name c =
     (case SetModuleName_tu name c of (c, ok) \<Rightarrow> if ok then tu_set (to_message (M_ChangeIPCName name)) c else c)"

section \<open>On a client\<close>

text \<open>
  \<open>OnConnected\<close> is the last call of the base's handlers, when they call it at all: for a
  \<open>ModuleName\<close> when the module is new, for a \<open>ModuleState\<close> when this connection wins.
\<close>

definition state_wins :: "module_state \<Rightarrow> node \<Rightarrow> bool" where
  "state_wins msg n \<longleftrightarrow> ms_exist msg \<and> \<not> c_isExist (nd_self n) \<and>
     (let msMsg = fold onModuleStateMessage (nd_peers n) (msg\<lparr>ms_exist := False, ms_id := c_id (nd_self n)\<rparr>)
      in ms_exist msMsg \<and> c_rand (nd_self n) < ms_rndVal msMsg)"

definition as_base :: "tunnel_node \<Rightarrow> node" where
  "as_base n = \<lparr>nd_self = tu_base (un_self n), nd_module = un_module n, nd_peers = un_peers n\<rparr>"

definition connect_tunnel :: "bool \<Rightarrow> tunnel_node \<Rightarrow> tunnel_node" where
  "connect_tunnel connects n = (if connects then n\<lparr>un_self := OnConnected_tu (un_self n)\<rparr> else n)"

definition onMessage_ModuleName_tu :: "module_name_message \<Rightarrow> tunnel_node \<Rightarrow> tunnel_node" where
  "onMessage_ModuleName_tu msg n =
     (let n = on_tunnel_base (handle_ModuleName (\<lambda>b. b) ipc_FillIPCObjectList msg) n
      in connect_tunnel (\<not> c_isExist (tu_base (un_self n))) n)"

definition onMessage_ModuleState_tu :: "module_state \<Rightarrow> tunnel_node \<Rightarrow> tunnel_node" where
  "onMessage_ModuleState_tu msg n =
     connect_tunnel (state_wins msg (as_base n)) (on_tunnel_base (handle_ModuleState (\<lambda>b. b) msg) n)"

definition onMessage_InternalConnectionData_tu :: "string \<Rightarrow> string \<Rightarrow> tunnel_node \<Rightarrow> tunnel_node" where
  "onMessage_InternalConnectionData_tu i data = on_tunnel_base (onMessage_InternalConnectionData i data)"

definition onMessage_InternalConnectionStatus_tu :: "internal_connection_status \<Rightarrow> tunnel_node \<Rightarrow> tunnel_node" where
  "onMessage_InternalConnectionStatus_tu msg = on_tunnel_base (onMessage_InternalConnectionStatus msg)"

definition onMessage_InitInternalConnection_tu :: "init_internal_connection \<Rightarrow> tunnel_node \<Rightarrow> tunnel_node" where
  "onMessage_InitInternalConnection_tu msg = on_tunnel_base (onMessage_InitInternalConnection msg)"

section \<open>On the server: the relay\<close>

datatype relay_signal =
    RS_IPCMessage ipc_message
  | RS_ModuleState module_state
  | RS_ModuleName module_name_message
  | RS_InternalConnectionData string string
  | RS_InternalConnectionStatus internal_connection_status
  | RS_InitInternalConnection init_internal_connection

record tunnel_relay =
  rl_one :: tunnel_connector
  rl_two :: tunnel_connector
  rl_started :: bool

definition TunnelServerConnector :: "tunnel_connector \<Rightarrow> tunnel_connector \<Rightarrow> tunnel_relay" where
  "TunnelServerConnector one two = \<lparr>rl_one = one, rl_two = two, rl_started = False\<rparr>"

definition OnStart_relay :: "tunnel_relay \<Rightarrow> tunnel_relay" where
  "OnStart_relay r = r\<lparr>rl_one := OnStart_tu (SetServerFlag (rl_one r)), rl_two := OnStart_tu (SetServerFlag (rl_two r)),
     rl_started := True\<rparr>"

definition OnStop_relay :: "tunnel_relay \<Rightarrow> tunnel_relay" where
  "OnStop_relay r = r\<lparr>rl_one := tu_set (c_emit StopSocket) (rl_one r), rl_two := tu_set (c_emit StopSocket) (rl_two r)\<rparr>"

text \<open>
  An IPC message goes to the base's handler. A payload that the connector itself knows is
  handled by \<open>dispatch\<close>; the signal for a message that has arrived has no receiver here.
\<close>

definition server_IPCMessage ::
    "(string \<Rightarrow> string \<Rightarrow> (tunnel_connector \<Rightarrow> tunnel_connector \<times> relay_signal list) option) \<Rightarrow>
     ipc_message \<Rightarrow> tunnel_connector \<Rightarrow> tunnel_connector \<times> relay_signal list" where
  "server_IPCMessage dispatch msg c =
     (if \<not> c_bConnected (tu_base c) then (c, [])
      else
        let name = c_moduleName (tu_base c);
            newMsg = msg\<lparr>ipc_path := [], ipc_sender := ipc_sender msg @ [GetIPCName (tu_id c)]\<rparr>;
            (newMsg, isTarget) =
              (case ipc_path msg of
                 [] \<Rightarrow> (newMsg, True)
               | newPath # rest \<Rightarrow>
                   let newMsg = (if IPCObjectName_eq newPath name then newMsg\<lparr>ipc_path := rest\<rparr> else newMsg)
                   in (newMsg, IPCObjectName_eq newPath name \<and> ipc_path newMsg = []))
        in if isTarget
           then (case dispatch (message_name msg) (message msg) of None \<Rightarrow> (c, []) | Some h \<Rightarrow> h c)
           else (c, if ipc_path newMsg \<noteq> [] then [RS_IPCMessage newMsg] else []))"

text \<open>
  What a connector with \<open>m_isServer\<close> does with a message: what it signals to the relay. The base's
  handlers signal to receivers that are not there; \<open>ChangeIPCName\<close> changes the connector's id.
\<close>

definition server_onMessage ::
    "(string \<Rightarrow> string \<Rightarrow> (tunnel_connector \<Rightarrow> tunnel_connector \<times> relay_signal list) option) \<Rightarrow>
     proto_msg \<Rightarrow> tunnel_connector \<Rightarrow> tunnel_connector \<times> relay_signal list" where
  "server_onMessage dispatch msg c =
     (case msg of
        M_ModuleName m \<Rightarrow> (c, [RS_ModuleName m])
      | M_ModuleState m \<Rightarrow> (c, [RS_ModuleState (m\<lparr>ms_id := tu_id c\<rparr>)])
      | M_InternalConnectionData i data \<Rightarrow> (c, [RS_InternalConnectionData i data])
      | M_InternalConnectionStatus m \<Rightarrow> (c, [RS_InternalConnectionStatus m])
      | M_InitInternalConnection m \<Rightarrow> (c, [RS_InitInternalConnection m])
      | M_IPCMessage m \<Rightarrow> server_IPCMessage dispatch m c
      | M_ChangeIPCName name \<Rightarrow> (tu_set (\<lambda>b. b\<lparr>c_id := GetModuleNameString name\<rparr>) c, [])
      | _ \<Rightarrow> (c, []))"

definition send_one :: "proto_msg \<Rightarrow> tunnel_relay \<Rightarrow> tunnel_relay" where
  "send_one msg r = r\<lparr>rl_one := tu_set (to_message msg) (rl_one r)\<rparr>"

definition send_two :: "proto_msg \<Rightarrow> tunnel_relay \<Rightarrow> tunnel_relay" where
  "send_two msg r = r\<lparr>rl_two := tu_set (to_message msg) (rl_two r)\<rparr>"

definition onIPCMessageOne :: "ipc_message \<Rightarrow> tunnel_relay \<Rightarrow> tunnel_relay" where
  "onIPCMessageOne msg = send_two (M_IPCMessage msg)"

definition onIPCMessageTwo :: "ipc_message \<Rightarrow> tunnel_relay \<Rightarrow> tunnel_relay" where
  "onIPCMessageTwo msg = send_one (M_IPCMessage msg)"

definition onModuleState_relay :: "module_state \<Rightarrow> tunnel_relay \<Rightarrow> tunnel_relay" where
  "onModuleState_relay msg r =
     (if ms_id msg = tu_id (rl_one r) then send_two (M_ModuleState msg) r else send_one (M_ModuleState msg) r)"

definition onModuleName_relay :: "module_name_message \<Rightarrow> tunnel_relay \<Rightarrow> tunnel_relay" where
  "onModuleName_relay msg r =
     (if host_name (mn_ipc_name msg) = tu_id (rl_one r) then send_two (M_ModuleName msg) r else send_one (M_ModuleName msg) r)"

definition onInternalConnectionDataOne :: "string \<Rightarrow> string \<Rightarrow> tunnel_relay \<Rightarrow> tunnel_relay" where
  "onInternalConnectionDataOne i data = send_two (M_InternalConnectionData i data)"

definition onInternalConnectionDataTwo :: "string \<Rightarrow> string \<Rightarrow> tunnel_relay \<Rightarrow> tunnel_relay" where
  "onInternalConnectionDataTwo i data = send_one (M_InternalConnectionData i data)"

definition onInternalConnectionStatus_relay :: "internal_connection_status \<Rightarrow> tunnel_relay \<Rightarrow> tunnel_relay" where
  "onInternalConnectionStatus_relay msg r =
     (if host_name (is_target msg) = tu_id (rl_one r) then send_two (M_InternalConnectionStatus msg) r
      else send_one (M_InternalConnectionStatus msg) r)"

definition onInitInternalConnection_relay :: "init_internal_connection \<Rightarrow> tunnel_relay \<Rightarrow> tunnel_relay" where
  "onInitInternalConnection_relay msg r =
     (if host_name (ii_target msg) = tu_id (rl_one r) then send_two (M_InitInternalConnection msg) r
      else send_one (M_InitInternalConnection msg) r)"

text \<open>The subscriptions of \<open>OnStart\<close>; \<open>one\<close> tells which connector signals.\<close>

definition relay_signal_to :: "bool \<Rightarrow> relay_signal \<Rightarrow> tunnel_relay \<Rightarrow> tunnel_relay" where
  "relay_signal_to one s =
     (case s of
        RS_IPCMessage msg \<Rightarrow> if one then onIPCMessageOne msg else onIPCMessageTwo msg
      | RS_ModuleState msg \<Rightarrow> onModuleState_relay msg
      | RS_ModuleName msg \<Rightarrow> onModuleName_relay msg
      | RS_InternalConnectionData i data \<Rightarrow>
          if one then onInternalConnectionDataOne i data else onInternalConnectionDataTwo i data
      | RS_InternalConnectionStatus msg \<Rightarrow> onInternalConnectionStatus_relay msg
      | RS_InitInternalConnection msg \<Rightarrow> onInitInternalConnection_relay msg)"

definition relay_receive ::
    "(string \<Rightarrow> string \<Rightarrow> (tunnel_connector \<Rightarrow> tunnel_connector \<times> relay_signal list) option) \<Rightarrow>
     bool \<times> proto_msg \<Rightarrow> tunnel_relay \<Rightarrow> tunnel_relay" where
  "relay_receive dispatch e r =
     (case e of (one, msg) \<Rightarrow>
        (case server_onMessage dispatch msg (if one then rl_one r else rl_two r) of
           (c, signals) \<Rightarrow>
             fold (relay_signal_to one) signals (if one then r\<lparr>rl_one := c\<rparr> else r\<lparr>rl_two := c\<rparr>)))"

end
