(* ===== verification/Tunnel_Relay.thy ===== *)
theory Tunnel_Relay
  imports Tunnel_Connector
begin

text \<open>
  What a tunnel does once its connections are there: two clients introduce themselves, over a
  direct connection or through the server's relay, and what the relay passes on and what it does
  not.
\<close>

section \<open>What a connector has sent\<close>

definition sent_messages :: "ipc_connector \<Rightarrow> proto_msg list" where
  "sent_messages c = concat (map (\<lambda>e. case e of ToMessage m \<Rightarrow> [m] | _ \<Rightarrow> []) (c_trace c))"

lemma sent_emit [simp]:
  "sent_messages (c_emit e c) = sent_messages c @ (case e of ToMessage m \<Rightarrow> [m] | _ \<Rightarrow> [])"
  by (simp add: sent_messages_def c_emit_def)

lemma sent_update [simp]:
  "sent_messages (c\<lparr>c_id := i\<rparr>) = sent_messages c" "sent_messages (c\<lparr>c_bConnected := b\<rparr>) = sent_messages c"
  "sent_messages (c\<lparr>c_isExist := b\<rparr>) = sent_messages c" "sent_messages (c\<lparr>c_accessId := a\<rparr>) = sent_messages c"
  "sent_messages (c\<lparr>c_checker := b\<rparr>) = sent_messages c" "sent_messages (c\<lparr>c_internalConnections := xs\<rparr>) = sent_messages c"
  "sent_messages (c\<lparr>c_moduleName := nm\<rparr>) = sent_messages c"
  by (simp_all add: sent_messages_def)

text \<open>A message that a client of session \<open>s\<close> sends names the session as its origin.\<close>

definition from_client :: "string \<Rightarrow> proto_msg \<Rightarrow> bool" where
  "from_client s msg \<longleftrightarrow>
     (case msg of
        M_ModuleName m \<Rightarrow> host_name (mn_ipc_name m) = s
      | M_InternalConnectionStatus m \<Rightarrow> host_name (is_target m) = s
      | M_InitInternalConnection m \<Rightarrow> host_name (ii_target m) = s
      | M_ChangeIPCName _ \<Rightarrow> False
      | _ \<Rightarrow> True)"

definition speaks :: "string \<Rightarrow> ipc_connector \<Rightarrow> bool" where
  "speaks s c \<longleftrightarrow> host_name (c_moduleName c) = s \<and> (\<forall>m \<in> set (sent_messages c). from_client s m)"

lemma speaks_emit [simp]:
  "speaks s (c_emit e c) \<longleftrightarrow> speaks s c \<and> (case e of ToMessage m \<Rightarrow> from_client s m | _ \<Rightarrow> True)"
  by (auto simp: speaks_def c_emit_def sent_messages_def split: conn_effect.splits)

lemma speaks_update [simp]:
  "speaks s (c\<lparr>c_id := i\<rparr>) = speaks s c" "speaks s (c\<lparr>c_bConnected := b\<rparr>) = speaks s c"
  "speaks s (c\<lparr>c_isExist := b\<rparr>) = speaks s c" "speaks s (c\<lparr>c_accessId := a\<rparr>) = speaks s c"
  "speaks s (c\<lparr>c_checker := b\<rparr>) = speaks s c" "speaks s (c\<lparr>c_internalConnections := xs\<rparr>) = speaks s c"
  by (simp_all add: speaks_def)

lemma speaks_name: "speaks s c \<Longrightarrow> host_name (c_moduleName c) = s"
  by (simp add: speaks_def)

lemma internal_name_host [simp]: "host_name (internal_name n i) = host_name n"
  by (simp add: internal_name_def)

lemmas speaks_defs = self_def onSignal_def onIPCSignal_def Let_def

lemma speaks_destroy_notify: "speaks s (nd_self n) \<Longrightarrow> speaks s (nd_self (InternalDestroyNotify conn n))"
  by (simp add: InternalDestroyNotify_def speaks_defs)

lemma speaks_ic_destroy: "speaks s (nd_self n) \<Longrightarrow> speaks s (nd_self (ic_destroy i n))"
  by (auto simp: ic_destroy_def DestroyObject_def speaks_defs speaks_destroy_notify split: prod.split)

lemma speaks_check_access: "speaks s (nd_self n) \<Longrightarrow> speaks s (nd_self (check_access msg n))"
  by (simp add: check_access_def speaks_defs)

lemma speaks_register: "speaks s (nd_self n) \<Longrightarrow> speaks s (nd_self (fst (register_module msg n)))"
  by (simp add: register_module_def speaks_defs)

lemma speaks_answer: "speaks s (nd_self n) \<Longrightarrow> speaks s (nd_self (answer_module fill msg n))"
  by (simp add: answer_module_def speaks_defs from_client_def)

lemma speaks_ModuleName: "speaks s (nd_self n) \<Longrightarrow> speaks s (nd_self (handle_ModuleName (\<lambda>b. b) fill msg n))"
  by (simp add: handle_ModuleName_def Let_def case_prod_beta onIPCSignal_def speaks_answer speaks_register speaks_check_access)

lemma speaks_ModuleState: "speaks s (nd_self n) \<Longrightarrow> speaks s (nd_self (handle_ModuleState (\<lambda>b. b) msg n))"
  by (simp add: handle_ModuleState_def speaks_defs)

lemma speaks_AddIPCObject: "speaks s (nd_self n) \<Longrightarrow> speaks s (nd_self (onMessage_AddIPCObject msg n))"
  by (simp add: onMessage_AddIPCObject_def speaks_defs)

lemma speaks_IPCObjectList: "speaks s (nd_self n) \<Longrightarrow> speaks s (nd_self (onMessage_IPCObjectList msg n))"
proof -
  have "speaks s (nd_self (fold onMessage_AddIPCObject xs n))" if "speaks s (nd_self n)" for xs n
    using that by (induction xs arbitrary: n) (auto simp: speaks_AddIPCObject)
  then show "speaks s (nd_self n) \<Longrightarrow> ?thesis" by (simp add: onMessage_IPCObjectList_def)
qed

lemma speaks_IPCMessage:
  assumes "\<And>nm d h. dispatch nm d = Some h \<Longrightarrow> speaks s (nd_self (h n))" and "speaks s (nd_self n)"
  shows "speaks s (nd_self (onMessage_IPCMessage dispatch nmf msg n))"
  using assms by (auto simp: onMessage_IPCMessage_def relay_IPCMessage_def speaks_defs split: option.splits list.splits)

lemma speaks_InitInternal: "speaks s (nd_self n) \<Longrightarrow> speaks s (nd_self (onMessage_InitInternalConnection msg n))"
  by (auto simp: onMessage_InitInternalConnection_def speaks_defs status_message_def from_client_def speaks_name split: prod.split)

lemma speaks_InternalStatus: "speaks s (nd_self n) \<Longrightarrow> speaks s (nd_self (onMessage_InternalConnectionStatus msg n))"
  using speaks_ic_destroy [of s n]
  by (auto simp: onMessage_InternalConnectionStatus_def speaks_defs split: connection_status.split)

lemma speaks_OnStart_tu: "speaks s (tu_base (OnStart_tu (TunnelConnector i (IPCName s h []) guid)))"
  by (simp add: OnStart_tu_def TunnelConnector_def tu_emit_def tu_set_def Let_def speaks_def IPCConnector_def
      sent_messages_def c_emit_def SetModuleName_def SetId_def from_client_def)

lemma speaks_InternalEvents:
  assumes "speaks s (nd_self n)"
  shows "speaks s (nd_self (onDisconnectedInternal i n))" "speaks s (nd_self (onErrorConnectInternal i n))"
    "speaks s (nd_self (onErrorListenerInternal i n))" "speaks s (nd_self (onCreatedListenerInternal port i n))"
    "speaks s (nd_self (onAddConnectorInternal i b n))" "speaks s (nd_self (onInitInternalConnectionMessage im n))"
    "speaks s (nd_self (onInternalConnectionDataSignal i data n))"
proof -
  have "speaks s (nd_self (self (\<lambda>c. to_message (status_message (internal_name (c_moduleName c) i) st) c) n))" for st
    using assms by (simp add: speaks_defs status_message_def from_client_def speaks_name)
  then show "speaks s (nd_self (onDisconnectedInternal i n))" "speaks s (nd_self (onErrorConnectInternal i n))"
    "speaks s (nd_self (onErrorListenerInternal i n))"
    unfolding onDisconnectedInternal_def onErrorConnectInternal_def onErrorListenerInternal_def Let_def
    by (auto intro!: speaks_ic_destroy simp: onSignal_def)
  show "speaks s (nd_self (onCreatedListenerInternal port i n))" "speaks s (nd_self (onAddConnectorInternal i b n))"
    "speaks s (nd_self (onInitInternalConnectionMessage im n))" "speaks s (nd_self (onInternalConnectionDataSignal i data n))"
    using assms
    by (auto simp: onCreatedListenerInternal_def onAddConnectorInternal_def onInitInternalConnectionMessage_def
        onInternalConnectionDataSignal_def speaks_defs status_message_def from_client_def speaks_name split: prod.split)
qed

text \<open>
  Every step of a client's tunnel connector after its start: a message from the other side, a
  signal of the module or of another connector, an event of an internal connection, a ping.
\<close>

inductive client_step :: "node \<Rightarrow> node \<Rightarrow> bool" where
  "client_step n (handle_ModuleName (\<lambda>b. b) fill mn n)"
| "client_step n (handle_ModuleState (\<lambda>b. b) ms n)"
| "client_step n (self (\<lambda>b. b\<lparr>c_bConnected := True\<rparr>) n)"
| "client_step n (onMessage_AddIPCObject ao n)"
| "client_step n (onMessage_RemoveIPCObject nm n)"
| "client_step n (onMessage_IPCObjectList ol n)"
| "client_step n (onMessage_UpdateIPCObject old new n)"
| "client_step n (onMessage_ChangeIPCName new n)"
| "(\<And>nm d h. dispatch nm d = Some h \<Longrightarrow> client_step n (h n)) \<Longrightarrow> client_step n (onMessage_IPCMessage dispatch nmf im n)"
| "client_step n (onMessage_InitInternalConnection ii n)"
| "client_step n (onMessage_InternalConnectionStatus is n)"
| "client_step n (onMessage_InternalConnectionData i data n)"
| "client_step n (onDisconnectedInternal i n)"
| "client_step n (onErrorConnectInternal i n)"
| "client_step n (onErrorListenerInternal i n)"
| "client_step n (onCreatedListenerInternal port i n)"
| "client_step n (onAddConnectorInternal i b n)"
| "client_step n (onInitInternalConnectionMessage ii n)"
| "client_step n (onInternalConnectionDataSignal i data n)"
| "client_step n (self (onIPCMessage im) n)"
| "client_step n (self (onIPCMessageOfModule im) n)"
| "client_step n (self (onUpdateIPCObjectMessage old new) n)"
| "client_step n (self (onRemoveIPCObjectMessage nm) n)"
| "client_step n (self (onModuleNameMessage mn) n)"
| "client_step n (self (PingThread_ManagerFunc stop) n)"

lemma client_step_speaks: "client_step n n' \<Longrightarrow> speaks s (nd_self n) \<Longrightarrow> speaks s (nd_self n')"
proof (induction rule: client_step.induct)
  case (9 dispatch n nmf im)
  then show ?case by (intro speaks_IPCMessage) auto
qed (auto simp: speaks_ModuleName speaks_ModuleState speaks_AddIPCObject speaks_IPCObjectList speaks_InitInternal
    speaks_InternalStatus speaks_InternalEvents onMessage_RemoveIPCObject_def onMessage_UpdateIPCObject_def
    onMessage_ChangeIPCName_def onMessage_InternalConnectionData_def speaks_defs from_client_def onIPCMessage_def
    onIPCMessageOfModule_def onUpdateIPCObjectMessage_def onRemoveIPCObjectMessage_def onModuleNameMessage_def
    PingThread_ManagerFunc_def split: list.split)

lemma client_run_speaks: "client_step\<^sup>*\<^sup>* n n' \<Longrightarrow> speaks s (nd_self n) \<Longrightarrow> speaks s (nd_self n')"
  by (induction rule: rtranclp_induct) (auto simp: client_step_speaks)

section \<open>What the relay passes on\<close>

definition forwarded :: "string \<Rightarrow> proto_msg \<Rightarrow> proto_msg list" where
  "forwarded s msg =
     (case msg of
        M_ModuleState m \<Rightarrow> [M_ModuleState (m\<lparr>ms_id := s\<rparr>)]
      | M_ModuleName _ \<Rightarrow> [msg]
      | M_InternalConnectionData _ _ \<Rightarrow> [msg]
      | M_InternalConnectionStatus _ \<Rightarrow> [msg]
      | M_InitInternalConnection _ \<Rightarrow> [msg]
      | _ \<Rightarrow> [])"

definition relay_ok :: "string \<Rightarrow> string \<Rightarrow> tunnel_relay \<Rightarrow> bool" where
  "relay_ok s1 s2 r \<longleftrightarrow> s1 \<noteq> s2 \<and> tu_id (rl_one r) = s1 \<and> tu_id (rl_two r) = s2
     \<and> \<not> c_bConnected (tu_base (rl_one r)) \<and> \<not> c_bConnected (tu_base (rl_two r))"

abbreviation sent_one :: "tunnel_relay \<Rightarrow> proto_msg list" where
  "sent_one r \<equiv> sent_messages (tu_base (rl_one r))"

abbreviation sent_two :: "tunnel_relay \<Rightarrow> proto_msg list" where
  "sent_two r \<equiv> sent_messages (tu_base (rl_two r))"

lemmas relay_defs = relay_receive_def server_onMessage_def server_IPCMessage_def relay_signal_to_def onModuleState_relay_def
  onModuleName_relay_def onInternalConnectionDataOne_def onInternalConnectionDataTwo_def onInternalConnectionStatus_relay_def
  onInitInternalConnection_relay_def onIPCMessageOne_def onIPCMessageTwo_def send_one_def send_two_def tu_set_def

lemma relay_receive_one:
  assumes "relay_ok s1 s2 r" and "from_client s1 msg"
  shows "relay_ok s1 s2 (relay_receive dispatch (True, msg) r)
    \<and> sent_two (relay_receive dispatch (True, msg) r) = sent_two r @ forwarded s1 msg
    \<and> sent_one (relay_receive dispatch (True, msg) r) = sent_one r"
  using assms by (cases msg) (auto simp: relay_defs relay_ok_def from_client_def forwarded_def c_emit_def sent_messages_def)

lemma relay_receive_two:
  assumes "relay_ok s1 s2 r" and "from_client s2 msg"
  shows "relay_ok s1 s2 (relay_receive dispatch (False, msg) r)
    \<and> sent_one (relay_receive dispatch (False, msg) r) = sent_one r @ forwarded s2 msg
    \<and> sent_two (relay_receive dispatch (False, msg) r) = sent_two r"
  using assms by (cases msg) (auto simp: relay_defs relay_ok_def from_client_def forwarded_def c_emit_def sent_messages_def)

text \<open>The messages of one side among all that the relay receives, in the order they arrive.\<close>

definition of_side :: "bool \<Rightarrow> (bool \<times> proto_msg) list \<Rightarrow> proto_msg list" where
  "of_side one es = map snd (filter (\<lambda>e. fst e = one) es)"

lemma of_side_simps [simp]:
  "of_side one [] = []" "of_side one (e # es) = (if fst e = one then [snd e] else []) @ of_side one es"
  by (simp_all add: of_side_def)

lemma relay_run:
  assumes "relay_ok s1 s2 r" and "\<forall>(one, msg) \<in> set es. from_client (if one then s1 else s2) msg"
  shows "relay_ok s1 s2 (fold (relay_receive dispatch) es r)
    \<and> sent_two (fold (relay_receive dispatch) es r) = sent_two r @ concat (map (forwarded s1) (of_side True es))
    \<and> sent_one (fold (relay_receive dispatch) es r) = sent_one r @ concat (map (forwarded s2) (of_side False es))"
  using assms
proof (induction es arbitrary: r)
  case (Cons e es)
  obtain one msg where e: "e = (one, msg)" by (cases e)
  show ?case
  proof (cases one)
    case True
    with Cons.prems e have "from_client s1 msg" by simp
    note step = relay_receive_one [OF Cons.prems(1) this, of dispatch]
    with Cons.IH [of "relay_receive dispatch (True, msg) r"] Cons.prems(2) e True show ?thesis by simp
  next
    case False
    with Cons.prems e have "from_client s2 msg" by simp
    note step = relay_receive_two [OF Cons.prems(1) this, of dispatch]
    with Cons.IH [of "relay_receive dispatch (False, msg) r"] Cons.prems(2) e False show ?thesis by simp
  qed
qed simp

definition new_relay :: "string \<Rightarrow> string \<Rightarrow> string \<Rightarrow> string \<Rightarrow> tunnel_relay" where
  "new_relay s1 s2 g1 g2 =
     OnStart_relay (TunnelServerConnector (TunnelConnector s1 (local_name s2) g1) (TunnelConnector s2 (local_name s1) g2))"

lemma new_relay_ok:
  "s1 \<noteq> s2 \<Longrightarrow> relay_ok s1 s2 (new_relay s1 s2 g1 g2) \<and> sent_one (new_relay s1 s2 g1 g2) = [] \<and> sent_two (new_relay s1 s2 g1 g2) = []"
  by (simp add: new_relay_def OnStart_relay_def TunnelServerConnector_def TunnelConnector_def OnStart_tu_def SetServerFlag_def
      tu_emit_def relay_ok_def IPCConnector_def sent_messages_def Let_def)

lemma relay_passes_on:
  assumes "s1 \<noteq> s2" and "\<forall>(one, msg) \<in> set es. from_client (if one then s1 else s2) msg"
  shows "sent_two (fold (relay_receive dispatch) es (new_relay s1 s2 g1 g2)) = concat (map (forwarded s1) (of_side True es))
    \<and> sent_one (fold (relay_receive dispatch) es (new_relay s1 s2 g1 g2)) = concat (map (forwarded s2) (of_side False es))"
  using relay_run [OF _ assms(2), of "new_relay s1 s2 g1 g2" dispatch] new_relay_ok [OF assms(1), of g1 g2] by simp

lemma in_of_side: "(one, msg) \<in> set es \<longleftrightarrow> msg \<in> set (of_side one es)"
  by (induction es) (auto split: if_splits)

lemma forwarded_no_ipc: "M_IPCMessage msg \<notin> set (forwarded s m)"
  by (auto simp: forwarded_def split: proto_msg.splits)


section \<open>The introduction of two clients\<close>

definition tunnel_name :: "string \<Rightarrow> ipc_name" where
  "tunnel_name s = IPCName m_tunnelIPCName s []"

definition introduction :: "string \<Rightarrow> module_name_message" where
  "introduction s = \<lparr>mn_ipc_name = tunnel_name s, mn_ip = [], mn_port = 0, mn_access_id = m_tunnelAccessId,
     mn_is_exist = False, mn_conn_id = []\<rparr>"

definition tunnel_client :: "string \<Rightarrow> string \<Rightarrow> string \<Rightarrow> type_connection \<Rightarrow> ipc_module \<Rightarrow> ipc_connector list \<Rightarrow> tunnel_node" where
  "tunnel_client own peer guid type m peers =
     \<lparr>un_self = OnStart_tu (SetTypeConnection type (TunnelConnector peer (local_name own) guid)), un_module = m, un_peers = peers\<rparr>"


lemma tunnel_client_start:
  defines "b \<equiv> \<lambda>own peer guid type m peers. tu_base (un_self (tunnel_client own peer guid type m peers))"
  shows "c_id (b own peer guid type m peers) = ''Tunnel.'' @ peer" "c_trace (b own peer guid type m peers) = [CheckerStart, ToMessage (M_ModuleName (introduction own))]"
    "c_accessId (b own peer guid type m peers) = m_tunnelAccessId" "\<not> c_isSendIPCObjects (b own peer guid type m peers)"
    "\<not> c_isCoordinator (b own peer guid type m peers)" "c_checker (b own peer guid type m peers)"
    "tu_trace (un_self (tunnel_client own peer guid type m peers)) = [PingStart]" "tu_type (un_self (tunnel_client own peer guid type m peers)) = type"
    "un_module (tunnel_client own peer guid type m peers) = m" "un_peers (tunnel_client own peer guid type m peers) = peers"
  by (simp_all add: b_def tunnel_client_def OnStart_tu_def TunnelConnector_def SetTypeConnection_def tu_emit_def tu_set_def
      IPCConnector_def c_emit_def SetModuleName_def SetId_def introduction_def tunnel_name_def m_tunnelIPCName_def)

lemma tunnel_client_sel:
  "sent_messages (tu_base (un_self (tunnel_client own peer guid type m peers))) = [M_ModuleName (introduction own)]"
  by (simp add: tunnel_client_def OnStart_tu_def TunnelConnector_def SetTypeConnection_def tu_emit_def tu_set_def Let_def
      IPCConnector_def sent_messages_def c_emit_def SetModuleName_def SetId_def introduction_def tunnel_name_def)

text \<open>
  The introduction. A client of a tunnel that receives the other client's introduction,
  directly or from the relay, accepts it under the other session's tunnel name, enters it into
  its module's connected modules, and signals that the tunnel to that session is connected, once
  and with the type of the connection.
\<close>

lemma tunnel_introduction:
  assumes "ipc_reachable checkFire m" and "printable_name (tunnel_name peer)"
    and "tunnel_name peer \<notin> set (GetConnectedModules m)"
  shows "let n = onMessage_ModuleName_tu (introduction peer) (tunnel_client own peer guid type m peers)
    in tu_id (un_self n) = GetModuleNameString (tunnel_name peer) \<and> c_bConnected (tu_base (un_self n))
     \<and> tunnel_name peer \<in> set (GetConnectedModules (un_module n))
     \<and> tu_trace (un_self n) = [PingStart, TunnelConnectedMessage peer type]
     \<and> StopSocket \<notin> set (c_trace (tu_base (un_self n)))"
proof -
  let ?t = "tunnel_client own peer guid type m peers"
  let ?b = "\<lparr>nd_self = tu_base (un_self ?t), nd_module = m, nd_peers = peers\<rparr>"
  let ?a = "check_access (introduction peer) ?b"
  let ?r = "register_module (introduction peer) ?a"
  let ?h = "handle_ModuleName (\<lambda>b. b) ipc_FillIPCObjectList (introduction peer) ?b"
  note start = tunnel_client_start [of own peer guid type m peers]
  have inv: "ipc_inv (nd_module ?a)" using assms(1) by (simp add: ipc_reachable_inv)
  note r = register_module_sel [OF inv, of "introduction peer"]
  have new: "obj_lookup (m_modules m) (tunnel_name peer) = None"
    using assms(3) by (simp add: GetConnectedModules_def om_lookup_None_iff)
  have nm: "mn_ipc_name (introduction peer) = tunnel_name peer" by (simp add: introduction_def)
  have send: "\<not> c_isSendIPCObjects (nd_self (fst ?r))" by (simp add: r start)
  have h: "?h = answer_module ipc_FillIPCObjectList (introduction peer) (fst ?r)"
    by (simp add: handle_ModuleName_def Let_def case_prod_beta send)
      (simp add: answer_module_def send)
  have acc: "\<not> access_denied (introduction peer) ?b"
    by (simp add: access_denied_def start introduction_def)
  have mem: "tunnel_name peer \<in> m_ipcName ` set (m_modules (nd_module (fst ?r)))"
    using r(7) by (simp add: om_lookup_None_iff nm)
  have host: "host_name (GetIPCName (GetModuleNameString (tunnel_name peer))) = peer"
    using assms(2) by (simp add: GetIPCName_GetModuleNameString) (simp add: tunnel_name_def)
  show ?thesis
    using mem host
    by (simp add: onMessage_ModuleName_tu_def on_tunnel_base_def start(9,10) Let_def h tu_set_def connect_tunnel_def r nm new
        OnConnected_tu_def tu_emit_def start GetConnectedModules_def check_access_trace acc send)
qed

end
