(* ===== verification/Tunnel_Listeners.thy ===== *)
theory Tunnel_Listeners
  imports Tunnel_Module Threads Framing
begin

text \<open>
  The threads that set up a tunnel through the server (\<open>tunnel_lib/thread\<close>): the server's listeners
  for a relay (\<open>relay_listen_thread.cpp\<close>) and for addresses behind a NAT
  (\<open>external_listen_thread.cpp\<close>, \<open>external_recv_thread.cpp\<close>), and the client's thread that makes
  its address known (\<open>external_connect_thread.cpp\<close>). A thread function is a sequence of steps
  between which messages of other threads are handled. Sockets are what they send and receive.
\<close>

section \<open>RelayListenThread\<close>

datatype relay_pc = RelayBegin | RelayWaitAddresses | RelayWaitConnectors | RelayEnd

datatype relay_effect =
    RelayListenStarted nat listen_address
  | RelayThreadStopped nat
  | RelayToThreads nat
  | RelayServerListener string string string int
  | RelayConnectorStopped nat
  | RelayConnectorToThreads nat
  | RelayConnectorCreated string nat nat
  | RelayErrorSignal string

record relay_listen =
  rt_address :: server_listen_address
  rt_listenThreadOne :: "nat option"
  rt_listenThreadTwo :: "nat option"
  rt_connectorOne :: "nat option"
  rt_connectorTwo :: "nat option"
  rt_addresses :: "(string \<times> string \<times> int) list"
  rt_addrSemafor :: nat
  rt_connectSemafor :: nat
  rt_pc :: relay_pc
  rt_trace :: "relay_effect list"

definition RelayListenThread_new :: "server_listen_address \<Rightarrow> relay_listen" where
  "RelayListenThread_new a = \<lparr>rt_address = a, rt_listenThreadOne = None, rt_listenThreadTwo = None, rt_connectorOne = None,
     rt_connectorTwo = None, rt_addresses = [], rt_addrSemafor = 0, rt_connectSemafor = 0, rt_pc = RelayBegin, rt_trace = []\<rparr>"

definition rt_emit :: "relay_effect list \<Rightarrow> relay_listen \<Rightarrow> relay_listen" where
  "rt_emit es r = r\<lparr>rt_trace := rt_trace r @ es\<rparr>"

definition stop_listen_threads :: "relay_listen \<Rightarrow> relay_listen" where
  "stop_listen_threads r =
     (rt_emit (concat (map (\<lambda>t. case t of None \<Rightarrow> [] | Some t \<Rightarrow> [RelayThreadStopped t, RelayToThreads t])
          [rt_listenThreadOne r, rt_listenThreadTwo r])) r)
       \<lparr>rt_listenThreadOne := None, rt_listenThreadTwo := None\<rparr>"

definition stop_connectors :: "relay_listen \<Rightarrow> relay_listen" where
  "stop_connectors r =
     (rt_emit (concat (map (\<lambda>c. case c of None \<Rightarrow> [] | Some c \<Rightarrow> [RelayConnectorStopped c, RelayConnectorToThreads c])
          [rt_connectorOne r, rt_connectorTwo r])) r)
       \<lparr>rt_connectorOne := None, rt_connectorTwo := None\<rparr>"

text \<open>\<open>Stop\<close>, and the destructor, which does the same.\<close>

definition RelayListenThread_Stop :: "relay_listen \<Rightarrow> relay_listen" where
  "RelayListenThread_Stop r = stop_connectors (stop_listen_threads r)"

definition relay_listen_address :: "server_listen_address \<Rightarrow> string \<Rightarrow> listen_address" where
  "relay_listen_address a i = \<lparr>la_id = i, la_localIP = sa_localIP a, la_localPort = Some (sa_localPort a), la_acceptCount = 1\<rparr>"

text \<open>
  The thread function up to where it waits next; \<open>one\<close> and \<open>two\<close> are the listeners it makes. The
  outer \<^const>\<open>None\<close> is a call through a null pointer, the inner one a thread that waits.
\<close>

definition RelayListenThread_run :: "nat \<Rightarrow> nat \<Rightarrow> relay_listen \<Rightarrow> relay_listen option option" where
  "RelayListenThread_run one two r =
     (case rt_pc r of
        RelayBegin \<Rightarrow>
          Some (Some ((rt_emit [RelayListenStarted one (relay_listen_address (rt_address r) (sa_sessionIdOne (rt_address r))),
                  RelayListenStarted two (relay_listen_address (rt_address r) (sa_sessionIdTwo (rt_address r)))] r)
             \<lparr>rt_listenThreadOne := Some one, rt_listenThreadTwo := Some two, rt_pc := RelayWaitAddresses\<rparr>))
      | RelayWaitAddresses \<Rightarrow>
          Some (map_option (\<lambda>(status, s).
             (if status = SUCCESS
              then rt_emit (map (\<lambda>(i, ip, port). RelayServerListener (sa_id (rt_address r)) i ip port) (rt_addresses r)) r
              else r)\<lparr>rt_addrSemafor := s, rt_pc := RelayWaitConnectors\<rparr>) (Semaphore_Wait INFINITE (rt_addrSemafor r)))
      | RelayWaitConnectors \<Rightarrow>
          (case Semaphore_Wait INFINITE (rt_connectSemafor r) of
             None \<Rightarrow> Some None
           | Some (status, s) \<Rightarrow>
               if status = SUCCESS
               then (case (rt_connectorOne r, rt_connectorTwo r) of
                       (Some c, Some d) \<Rightarrow>
                         Some (Some ((rt_emit [RelayConnectorCreated (sa_id (rt_address r)) c d] r)
                           \<lparr>rt_connectorOne := None, rt_connectorTwo := None, rt_connectSemafor := s, rt_pc := RelayEnd\<rparr>))
                     | _ \<Rightarrow> None)
               else Some (Some (r\<lparr>rt_connectSemafor := s, rt_pc := RelayEnd\<rparr>)))
      | RelayEnd \<Rightarrow> Some (Some r))"

definition onListenErrorMessage_relay :: "relay_listen \<Rightarrow> relay_listen" where
  "onListenErrorMessage_relay r = rt_emit [RelayErrorSignal (sa_id (rt_address r))] (stop_listen_threads r)"

text \<open>\<open>m_addresses[msg.m_id] = addr\<close>.\<close>

definition map_assign :: "'k::linorder \<Rightarrow> 'v \<Rightarrow> ('k \<times> 'v) list \<Rightarrow> ('k \<times> 'v) list" where
  "map_assign k v m = map_change k (\<lambda>_. v) (map_insert k v m)"

definition onCreatedListenerMessage_relay :: "string \<Rightarrow> string \<Rightarrow> int \<Rightarrow> relay_listen \<Rightarrow> relay_listen" where
  "onCreatedListenerMessage_relay i ip port r =
     (let r = r\<lparr>rt_addresses := map_assign i (ip, port) (rt_addresses r)\<rparr>
      in if length (rt_addresses r) = 2 then r\<lparr>rt_addrSemafor := Semaphore_Set (rt_addrSemafor r)\<rparr> else r)"

definition onAddConnector_relay :: "string \<Rightarrow> nat \<Rightarrow> relay_listen \<Rightarrow> relay_listen" where
  "onAddConnector_relay i c r =
     (let r = (if i = sa_sessionIdOne (rt_address r) then r\<lparr>rt_connectorOne := Some c\<rparr>
               else if i = sa_sessionIdTwo (rt_address r) then r\<lparr>rt_connectorTwo := Some c\<rparr> else r)
      in if rt_connectorOne r \<noteq> None \<and> rt_connectorTwo r \<noteq> None
         then r\<lparr>rt_connectSemafor := Semaphore_Set (rt_connectSemafor r)\<rparr> else r)"

section \<open>UDP\<close>

text \<open>
  Datagrams with the address they come from. Receiving takes from a datagram what is asked for
  and loses the rest of it; an empty datagram is taken for an error.
\<close>

datatype udp_result = Got string "(string \<times> int) option" "(string \<times> string \<times> int) list" | RecvFailed | RecvBlocked

fun UDPSocket_RecvFrom :: "nat \<Rightarrow> (string \<times> int) option \<Rightarrow> (string \<times> string \<times> int) list \<Rightarrow> udp_result" where
  "UDPSocket_RecvFrom n a [] = (if n = 0 then Got [] a [] else RecvBlocked)"
| "UDPSocket_RecvFrom n a ((d, from) # ds) =
     (if n = 0 then Got [] a ((d, from) # ds)
      else if d = [] then RecvFailed
      else case UDPSocket_RecvFrom (n - length d) (Some from) ds of
             Got rest b es \<Rightarrow> Got (take n d @ rest) b es
           | r \<Rightarrow> r)"

section \<open>ExternalRecvThread\<close>

datatype recv_effect = RecvCreated string int string | RecvError string

text \<open>
  The loop, once for every test of \<open>IsStop ()\<close>. The address of a session id of length 0 would be
  uninitialised.
\<close>

fun ExternalRecvThread_ThreadFunc :: "string \<Rightarrow> bool list \<Rightarrow> (string \<times> string \<times> int) list \<Rightarrow> recv_effect list" where
  "ExternalRecvThread_ThreadFunc i [] ds = []"
| "ExternalRecvThread_ThreadFunc i (stop # stops) ds =
     (if stop then []
      else case UDPSocket_RecvFrom 4 None ds of
             RecvBlocked \<Rightarrow> []
           | RecvFailed \<Rightarrow> [RecvError i]
           | Got len _ ds \<Rightarrow>
               if sint (bytes_int len) < 0 \<or> sint (bytes_int len) > 0xffff then [RecvError i]
               else (case UDPSocket_RecvFrom (nat (sint (bytes_int len))) None ds of
                       RecvBlocked \<Rightarrow> []
                     | RecvFailed \<Rightarrow> [RecvError i]
                     | Got data from ds \<Rightarrow>
                         (if data = i then (case from of None \<Rightarrow> [] | Some (ip, port) \<Rightarrow> [RecvCreated ip port i]) else [])
                         @ ExternalRecvThread_ThreadFunc i stops ds))"

section \<open>ExternalListenThread\<close>

datatype external_effect =
    ExternalServerListener string string string int
  | ExternalRecvStarted nat string
  | ExternalRecvStopped nat
  | ExternalToThreads nat
  | GotExternalAddress string string string int
  | ExternalErrorSignal string

datatype external_pc = ExternalBegin | ExternalWait | ExternalEnd

record external_listen =
  xl_address :: server_listen_address
  xl_recvThreadOne :: "nat option"
  xl_recvThreadTwo :: "nat option"
  xl_addresses :: "(string \<times> string \<times> int) list"
  xl_semafor :: nat
  xl_pc :: external_pc
  xl_trace :: "external_effect list"

definition ExternalListenThread_new :: "server_listen_address \<Rightarrow> external_listen" where
  "ExternalListenThread_new a = \<lparr>xl_address = a, xl_recvThreadOne = None, xl_recvThreadTwo = None, xl_addresses = [],
     xl_semafor = 0, xl_pc = ExternalBegin, xl_trace = []\<rparr>"

definition xl_emit :: "external_effect list \<Rightarrow> external_listen \<Rightarrow> external_listen" where
  "xl_emit es x = x\<lparr>xl_trace := xl_trace x @ es\<rparr>"

definition stop_recv_threads :: "external_listen \<Rightarrow> external_listen" where
  "stop_recv_threads x =
     (xl_emit (concat (map (\<lambda>t. case t of None \<Rightarrow> [] | Some t \<Rightarrow> [ExternalRecvStopped t, ExternalToThreads t])
          [xl_recvThreadOne x, xl_recvThreadTwo x])) x)
       \<lparr>xl_recvThreadOne := None, xl_recvThreadTwo := None\<rparr>"

definition ExternalListenThread_Stop :: "external_listen \<Rightarrow> external_listen" where
  "ExternalListenThread_Stop x = stop_recv_threads x"

definition SignalError_external :: "external_listen \<Rightarrow> external_listen" where
  "SignalError_external x = xl_emit [ExternalErrorSignal (sa_id (xl_address x))] x"

text \<open>
  The thread function. \<open>bound\<close> gives the address of either socket, \<^const>\<open>None\<close> if it cannot be bound,
  and \<open>one\<close>, \<open>two\<close> the receiving threads. \<^const>\<open>None\<close> is a thread that waits.
\<close>

definition ExternalListenThread_run ::
    "(string \<times> int) option \<Rightarrow> (string \<times> int) option \<Rightarrow> nat \<Rightarrow> nat \<Rightarrow> external_listen \<Rightarrow> external_listen option" where
  "ExternalListenThread_run bound1 bound2 one two x =
     (case xl_pc x of
        ExternalBegin \<Rightarrow>
          (case bound1 of
             None \<Rightarrow> Some ((SignalError_external x)\<lparr>xl_pc := ExternalEnd\<rparr>)
           | Some (ip, port) \<Rightarrow>
               let x = xl_emit [ExternalServerListener (sa_id (xl_address x)) (sa_sessionIdOne (xl_address x)) ip port,
                         ExternalRecvStarted one (sa_sessionIdOne (xl_address x))] (x\<lparr>xl_recvThreadOne := Some one\<rparr>)
               in case bound2 of
                    None \<Rightarrow> Some ((SignalError_external x)\<lparr>xl_pc := ExternalEnd\<rparr>)
                  | Some (ip, port) \<Rightarrow>
                      Some ((xl_emit [ExternalServerListener (sa_id (xl_address x)) (sa_sessionIdTwo (xl_address x)) ip port,
                         ExternalRecvStarted two (sa_sessionIdTwo (xl_address x))] x)
                         \<lparr>xl_recvThreadTwo := Some two, xl_pc := ExternalWait\<rparr>))
      | ExternalWait \<Rightarrow>
          map_option (\<lambda>(status, s).
             (if status = SUCCESS
              then xl_emit (map (\<lambda>(i, ip, port). GotExternalAddress (sa_id (xl_address x)) i ip port) (xl_addresses x)) x
              else x)\<lparr>xl_semafor := s, xl_pc := ExternalEnd\<rparr>) (Semaphore_Wait INFINITE (xl_semafor x))
      | ExternalEnd \<Rightarrow> Some x)"

definition onListenErrorMessage_external :: "external_listen \<Rightarrow> external_listen" where
  "onListenErrorMessage_external x = SignalError_external (stop_recv_threads x)"

definition onCreatedListenerMessage_external :: "string \<Rightarrow> string \<Rightarrow> int \<Rightarrow> external_listen \<Rightarrow> external_listen" where
  "onCreatedListenerMessage_external i ip port x =
     (let x = x\<lparr>xl_addresses := map_assign i (ip, port) (xl_addresses x)\<rparr>
      in if length (xl_addresses x) = 2 then x\<lparr>xl_semafor := Semaphore_Set (xl_semafor x)\<rparr> else x)"

section \<open>ExternalConnectThread\<close>

datatype socket_factory = UDPSocketFactory | UDTSecureSocketFactory

record external_connect =
  xc_factory :: socket_factory
  xc_moduleName :: string
  xc_ip :: string
  xc_port :: int
  xc_changeAddr :: nat
  xc_stop :: bool

datatype external_connect_effect =
    XC_Datagram string
  | XC_ConnectError string
  | XC_SocketClosed
  | XC_Connect string int

text \<open>\<open>ConnectAddress::operator =\<close> does not copy \<open>m_moduleName\<close>.\<close>

definition ChangeConnectAddress :: "socket_factory \<Rightarrow> string \<Rightarrow> int \<Rightarrow> external_connect \<Rightarrow> external_connect" where
  "ChangeConnectAddress factory ip port x =
     x\<lparr>xc_factory := factory, xc_ip := ip, xc_port := port, xc_changeAddr := Semaphore_Set (xc_changeAddr x)\<rparr>"

definition ExternalConnectThread_Stop :: "external_connect \<Rightarrow> external_connect" where
  "ExternalConnectThread_Stop x = x\<lparr>xc_stop := True, xc_changeAddr := Semaphore_Set (xc_changeAddr x)\<rparr>"

definition SignalError_connect :: "external_connect \<Rightarrow> external_connect_effect list" where
  "SignalError_connect x = [XC_SocketClosed, XC_ConnectError (xc_moduleName x)]"

text \<open>
  The loop: every round comes with what others do before it and whether the two datagrams can be
  sent. \<open>wait\<close> is \<open>Semaphore::Wait\<close>, which differs between the systems. The result is what has been
  sent and whether the thread goes on; \<^const>\<open>None\<close> while it needs more rounds.
\<close>

fun punch_loop ::
    "(int \<Rightarrow> nat \<Rightarrow> (wait_status \<times> nat) option) \<Rightarrow> ((external_connect \<Rightarrow> external_connect) \<times> bool \<times> bool) list \<Rightarrow>
     external_connect \<Rightarrow> (external_connect_effect list \<times> bool \<times> external_connect) option" where
  "punch_loop wait [] x = None"
| "punch_loop wait ((move, ok1, ok2) # rounds) x =
     (let x = move x; data = xc_moduleName x
      in if xc_stop x then Some ([], True, x)
         else case wait 1000 (xc_changeAddr x) of
                None \<Rightarrow> None
              | Some (status, s) \<Rightarrow>
                  if status = TIMEOUT
                  then if \<not> ok1 then Some (SignalError_connect x, False, x)
                       else if \<not> ok2 then Some (XC_Datagram (int_bytes (word_of_nat (length data))) # SignalError_connect x, False, x)
                       else map_option (\<lambda>(es, r). (XC_Datagram (int_bytes (word_of_nat (length data))) # XC_Datagram data # es, r))
                              (punch_loop wait rounds x)
                  else Some ([], True, x))"

definition ExternalConnectThread_ThreadFunc ::
    "(int \<Rightarrow> nat \<Rightarrow> (wait_status \<times> nat) option) \<Rightarrow> bool \<Rightarrow> ((external_connect \<Rightarrow> external_connect) \<times> bool \<times> bool) list \<Rightarrow>
     external_connect \<Rightarrow> external_connect_effect list option" where
  "ExternalConnectThread_ThreadFunc wait bound rounds x =
     (if \<not> bound then Some (SignalError_connect x)
      else case punch_loop wait rounds x of
             None \<Rightarrow> None
           | Some (es, False, x) \<Rightarrow> Some es
           | Some (es, True, x) \<Rightarrow>
               if xc_factory x \<noteq> UDTSecureSocketFactory then Some (es @ SignalError_connect x)
               else Some (es @ [XC_Connect (xc_ip x) (xc_port x)]))"

end
