(* ===== verification/Tunnel_Punching.thy ===== *)
theory Tunnel_Punching
  imports Tunnel_Listeners
begin

text \<open>
  What the threads that set up tunnels through the server achieve: a relay is made of the two
  clients that connected, in whatever order things happen; a thread that is stopped before does
  not end; a client's address reaches the server where waiting on a semaphore waits, and never on
  a system with the POSIX semaphore as it is called.
\<close>

section \<open>The relay\<close>

lemma rt_emit_sel [simp]:
  "rt_address (rt_emit es r) = rt_address r" "rt_listenThreadOne (rt_emit es r) = rt_listenThreadOne r"
  "rt_listenThreadTwo (rt_emit es r) = rt_listenThreadTwo r" "rt_connectorOne (rt_emit es r) = rt_connectorOne r"
  "rt_connectorTwo (rt_emit es r) = rt_connectorTwo r" "rt_addresses (rt_emit es r) = rt_addresses r"
  "rt_addrSemafor (rt_emit es r) = rt_addrSemafor r" "rt_connectSemafor (rt_emit es r) = rt_connectSemafor r"
  "rt_pc (rt_emit es r) = rt_pc r" "rt_trace (rt_emit es r) = rt_trace r @ es"
  by (simp_all add: rt_emit_def)

text \<open>Everything that can happen to the thread of a relay but a client's connection.\<close>

inductive relay_step :: "relay_listen \<Rightarrow> relay_listen \<Rightarrow> bool" where
  rs_run: "RelayListenThread_run one two r = Some (Some r') \<Longrightarrow> relay_step r r'"
| rs_Stop: "relay_step r (RelayListenThread_Stop r)"
| rs_Error: "relay_step r (onListenErrorMessage_relay r)"
| rs_Created: "relay_step r (onCreatedListenerMessage_relay i ip port r)"

lemma Semaphore_Wait_INFINITE: "Semaphore_Wait INFINITE s = (if 0 < s then Some (SUCCESS, s) else None)"
  by (cases s) auto

lemma relay_step_waits:
  "relay_step r r' \<Longrightarrow> rt_pc r \<noteq> RelayEnd \<Longrightarrow> rt_connectorOne r = None \<Longrightarrow> rt_pc r' \<noteq> RelayEnd \<and> rt_connectorOne r' = None"
  by (induction rule: relay_step.induct)
     (auto simp: RelayListenThread_run_def RelayListenThread_Stop_def stop_connectors_def stop_listen_threads_def
        onListenErrorMessage_relay_def onCreatedListenerMessage_relay_def Let_def Semaphore_Wait_INFINITE split: relay_pc.splits option.splits if_splits)

text \<open>
  A relay's thread that is stopped before both clients have connected never ends: it waits on
  its semaphores, which \<open>Stop\<close> does not set, and if the first wait does return, the second one
  does not, or the relay is made of null pointers.
\<close>

lemma stopped_relay_never_ends:
  assumes "rt_pc r \<noteq> RelayEnd" and "relay_step\<^sup>*\<^sup>* (RelayListenThread_Stop r) r'"
  shows "rt_pc r' \<noteq> RelayEnd \<and> (rt_pc r' = RelayWaitConnectors \<longrightarrow> RelayListenThread_run one two r' \<in> {None, Some None})"
proof -
  have "rt_pc r' \<noteq> RelayEnd \<and> rt_connectorOne r' = None"
    using assms(2)
  proof (induction rule: rtranclp_induct)
    case base
    show ?case using assms(1) by (simp add: RelayListenThread_Stop_def stop_connectors_def stop_listen_threads_def)
  next
    case (step y z)
    then show ?case using relay_step_waits by blast
  qed
  then show ?thesis by (auto simp: RelayListenThread_run_def Semaphore_Wait_INFINITE)
qed

definition an_address :: server_listen_address where
  "an_address = \<lparr>sa_localIP = ''10.0.0.1'', sa_localPort = 5000, sa_sessionIdOne = ''x'', sa_sessionIdTwo = ''y'', sa_id = ''t''\<rparr>"

datatype relay_event = Listens string string int | Connects string nat

fun relay_happens :: "relay_event \<Rightarrow> relay_listen \<Rightarrow> relay_listen" where
  "relay_happens (Listens i ip port) = onCreatedListenerMessage_relay i ip port"
| "relay_happens (Connects i c) = onAddConnector_relay i c"

definition relay_addresses :: "string \<times> string \<times> int \<Rightarrow> string \<times> string \<times> int \<Rightarrow> bool \<Rightarrow> bool \<Rightarrow> (string \<times> string \<times> int) list" where
  "relay_addresses a b one two =
     (let as = (if one then [a] else []); bs = (if two then [b] else []) in if fst a < fst b then as @ bs else bs @ as)"

lemma assign_relay_addresses:
  assumes "fst a \<noteq> fst b"
  shows "map_assign (fst a) (snd a) (relay_addresses a b False two) = relay_addresses a b True two"
    and "map_assign (fst b) (snd b) (relay_addresses a b one False) = relay_addresses a b one True"
  using assms
  by (cases a; cases b; auto simp: relay_addresses_def map_assign_def map_insert_def map_change_def insort_insert_key_def Let_def)+

text \<open>A relay that has seen some of its four events: both listeners listen, and both clients connect.\<close>

definition relay_seen ::
    "relay_listen \<Rightarrow> string \<times> string \<times> int \<Rightarrow> string \<times> string \<times> int \<Rightarrow> nat \<Rightarrow> nat \<Rightarrow> bool \<Rightarrow> bool \<Rightarrow> bool \<Rightarrow> bool \<Rightarrow> relay_listen" where
  "relay_seen r a b c d l1 l2 k1 k2 = r\<lparr>
      rt_connectorOne := (if k1 then Some c else None),
      rt_connectorTwo := (if k2 then Some d else None),
      rt_addresses := relay_addresses a b l1 l2,
      rt_addrSemafor := (if l1 \<and> l2 then 1 else 0),
      rt_connectSemafor := (if k1 \<and> k2 then 1 else 0)\<rparr>"

lemma length_relay_addresses:
  "length (relay_addresses a b one two) = (if one then 1 else 0) + (if two then 1 else 0)"
  by (simp add: relay_addresses_def Let_def)

lemma relay_seen_step:
  assumes "sa_sessionIdOne (rt_address r) = s1" and "sa_sessionIdTwo (rt_address r) = s2" and "s1 \<noteq> s2"
  shows "relay_happens (Listens s1 i1 p1) (relay_seen r (s1, i1, p1) (s2, i2, p2) c d False l2 k1 k2)
      = relay_seen r (s1, i1, p1) (s2, i2, p2) c d True l2 k1 k2"
    and "relay_happens (Listens s2 i2 p2) (relay_seen r (s1, i1, p1) (s2, i2, p2) c d l1 False k1 k2)
      = relay_seen r (s1, i1, p1) (s2, i2, p2) c d l1 True k1 k2"
    and "relay_happens (Connects s1 c) (relay_seen r a b c d l1 l2 False k2) = relay_seen r a b c d l1 l2 True k2"
    and "relay_happens (Connects s2 d) (relay_seen r a b c d l1 l2 k1 False) = relay_seen r a b c d l1 l2 k1 True"
  using assms assign_relay_addresses [of "(s1, i1, p1)" "(s2, i2, p2)", simplified, OF assms(3)]
  by (simp_all add: relay_seen_def onCreatedListenerMessage_relay_def onAddConnector_relay_def length_relay_addresses Semaphore_Set_def Let_def)

lemma relay_events:
  assumes r: "sa_sessionIdOne (rt_address r) = s1" "sa_sessionIdTwo (rt_address r) = s2" "s1 \<noteq> s2"
    and new: "rt_connectorOne r = None" "rt_connectorTwo r = None" "rt_addresses r = []" "rt_addrSemafor r = 0" "rt_connectSemafor r = 0"
    and "distinct es"
    and "set es \<subseteq> {Listens s1 i1 p1, Listens s2 i2 p2, Connects s1 c, Connects s2 d}"
  shows "fold relay_happens es r = relay_seen r (s1, i1, p1) (s2, i2, p2) c d
      (Listens s1 i1 p1 \<in> set es) (Listens s2 i2 p2 \<in> set es) (Connects s1 c \<in> set es) (Connects s2 d \<in> set es)"
  using assms(9,10)
proof (induction es rule: rev_induct)
  case Nil
  show ?case using new by (simp add: relay_seen_def relay_addresses_def)
next
  case (snoc e es)
  from snoc.prems have e: "e \<notin> set es"
    and "e = Listens s1 i1 p1 \<or> e = Listens s2 i2 p2 \<or> e = Connects s1 c \<or> e = Connects s2 d" by auto
  from this(2) show ?case
    using snoc e r(3) by (elim disjE) (simp_all add: relay_seen_step [OF r] del: relay_happens.simps)
qed



section \<open>Finding out a client's address\<close>

definition punch_datagrams :: "string \<Rightarrow> string list" where
  "punch_datagrams data = [int_bytes (word_of_nat (length data)), data]"

definition datagrams_of :: "external_connect_effect list \<Rightarrow> string list" where
  "datagrams_of es = concat (map (\<lambda>e. case e of XC_Datagram d \<Rightarrow> [d] | _ \<Rightarrow> []) es)"

text \<open>A semaphore that waits, as on the other system: it times out while it is not set.\<close>

definition waits :: "(int \<Rightarrow> nat \<Rightarrow> (wait_status \<times> nat) option) \<Rightarrow> bool" where
  "waits wait \<longleftrightarrow> (\<forall>t. wait t 0 = Some (TIMEOUT, 0)) \<and> (\<forall>t s. 0 < s \<longrightarrow> wait t s = Some (SUCCESS, s))"

lemma datagrams_of_simps [simp]:
  "datagrams_of [] = []" "datagrams_of (e # es) = (case e of XC_Datagram d \<Rightarrow> [d] | _ \<Rightarrow> []) @ datagrams_of es"
  "datagrams_of (es @ fs) = datagrams_of es @ datagrams_of fs" "datagrams_of (SignalError_connect x) = []"
  by (simp_all add: datagrams_of_def SignalError_connect_def)

lemma punch_loop_sends:
  assumes "waits wait" and "xc_changeAddr x = 0" and "\<not> xc_stop x"
  shows "punch_loop wait (replicate k (\<lambda>x. x, True, True) @ [(ChangeConnectAddress factory ip port, ok1, ok2)]) x
    = Some (concat (replicate k (map XC_Datagram (punch_datagrams (xc_moduleName x)))), True, ChangeConnectAddress factory ip port x)"
  using assms
  by (induction k) (simp_all add: waits_def punch_datagrams_def ChangeConnectAddress_def Semaphore_Set_def Let_def)

lemma RecvFrom_exact: "0 < length d \<Longrightarrow> UDPSocket_RecvFrom (length d) a ((d, from) # ds) = Got d (Some from) ds"
  by (cases ds) auto

lemma recv_thread_pairs:
  assumes "0 < length i" and "length i \<le> 0xffff"
  shows "ExternalRecvThread_ThreadFunc i (replicate k False) (concat (replicate k (map (\<lambda>d. (d, ip, port)) (punch_datagrams i))))
    = replicate k (RecvCreated ip port i)"
proof (induction k)
  case (Suc k)
  have "sint (word_of_nat (length i) :: 32 word) = int (length i)"
    using assms by (intro sint_of_length) simp
  moreover have "UDPSocket_RecvFrom 4 None ((int_bytes (word_of_nat (length i)), ip, port) # ds)
      = Got (int_bytes (word_of_nat (length i))) (Some (ip, port)) ds" for ds
    using RecvFrom_exact [of "int_bytes (word_of_nat (length i))" None "(ip, port)" ds] by simp
  moreover have "bytes_int (int_bytes w) = w" for w using bytes_int_bytes [of w "[]"] by simp
  ultimately show ?case
    using assms Suc RecvFrom_exact [of i None "(ip, port)"] by (simp add: punch_datagrams_def)
qed simp

text \<open>
  A client behind a NAT becomes known to the server where the semaphore waits: for every second
  in which the other address is not there, the client's thread sends two datagrams, the server's
  receiving thread makes of them one message that the session came from the address the NAT gave
  it, and once the other address is set the client connects to it.
\<close>

lemma punch_reaches_server:
  assumes "waits wait" and "xc_changeAddr x = 0" and "\<not> xc_stop x"
    and "0 < length (xc_moduleName x)" and "length (xc_moduleName x) \<le> 0xffff"
  shows "\<exists>es. ExternalConnectThread_ThreadFunc wait True
        (replicate k (\<lambda>x. x, True, True) @ [(ChangeConnectAddress UDTSecureSocketFactory ip port, ok1, ok2)]) x = Some es
    \<and> last es = XC_Connect ip port
    \<and> ExternalRecvThread_ThreadFunc (xc_moduleName x) (replicate k False) (map (\<lambda>d. (d, nat_ip, nat_port)) (datagrams_of es))
        = replicate k (RecvCreated nat_ip nat_port (xc_moduleName x))"
proof -
  have d: "datagrams_of (concat (replicate k (map XC_Datagram ds))) = concat (replicate k ds)" for ds
    by (induction k) (auto simp: datagrams_of_def comp_def)
  have m: "map f (concat (replicate k ds)) = concat (replicate k (map f ds))" for f :: "string \<Rightarrow> string \<times> string \<times> int" and ds
    by (simp add: map_concat)
  show ?thesis
    using punch_loop_sends [OF assms(1-3), of k UDTSecureSocketFactory ip port ok1 ok2] recv_thread_pairs [OF assms(4,5), of k nat_ip nat_port]
    by (simp add: ExternalConnectThread_ThreadFunc_def ChangeConnectAddress_def d m)
qed

definition waiting_semaphore :: "int \<Rightarrow> nat \<Rightarrow> (wait_status \<times> nat) option" where
  "waiting_semaphore t s = Some (if s = 0 then TIMEOUT else SUCCESS, s)"

definition a_punch :: external_connect where
  "a_punch = \<lparr>xc_factory = UDPSocketFactory, xc_moduleName = ''x'', xc_ip = ''10.0.0.1'', xc_port = 5000, xc_changeAddr = 0, xc_stop = False\<rparr>"

lemma punch_loop_posix:
  "punch_loop Semaphore_Wait rounds x = Some (es, r) \<Longrightarrow> datagrams_of es = []"
  by (cases "(Semaphore_Wait, rounds, x)" rule: punch_loop.cases)
     (auto simp: Let_def Semaphore_Wait_def split: if_splits option.splits)

text \<open>
  With \<open>Semaphore::Wait\<close> as it is on a POSIX system, the client's thread never sends a datagram,
  whatever happens to it, and the server does not learn of its address.
\<close>

lemma posix_punch_sends_nothing:
  assumes "ExternalConnectThread_ThreadFunc Semaphore_Wait bound rounds x = Some es"
  shows "datagrams_of es = []
    \<and> ExternalRecvThread_ThreadFunc i stops (map (\<lambda>d. (d, nat_ip, nat_port)) (datagrams_of es)) = []"
proof -
  have "datagrams_of es = []"
    using assms punch_loop_posix
    by (force simp: ExternalConnectThread_ThreadFunc_def split: if_splits option.splits prod.splits bool.splits)
  moreover have "ExternalRecvThread_ThreadFunc i stops [] = []" by (cases stops) auto
  ultimately show ?thesis by simp
qed

text \<open>Where the datagram with the size is lost, the name that follows is read as a size.\<close>

lemma lost_size_datagram_ends_listening:
  assumes "4 \<le> length i" and "0 < (of_char (i ! 3) :: nat)" and "(of_char (i ! 3) :: nat) < 128"
  shows "ExternalRecvThread_ThreadFunc i (False # stops) ((i, from) # ds) = [RecvError i]"
proof -
  let ?n = "of_char (i ! 0) + 256 * of_char (i ! 1) + 65536 * of_char (i ! 2) + 16777216 * of_char (i ! 3) :: nat"
  have "(of_char (i ! k) :: nat) < 256" for k by simp
  from this [of 0] this [of 1] this [of 2] have "16777216 \<le> ?n" "?n < 2147483648" using assms(2,3) by linarith+
  moreover have "bytes_int (take 4 i) = word_of_nat ?n" unfolding bytes_int_def by simp
  ultimately obtain n where n: "bytes_int (take 4 i) = word_of_nat n" "16777216 \<le> n" "n < 2147483648" by blast
  then have "sint (bytes_int (take 4 i)) = int n" using sint_of_length [of n] by simp
  moreover have "UDPSocket_RecvFrom 4 None ((i, from) # ds) = Got (take 4 i) (Some from) ds"
    using assms(1) by (cases i; cases ds) auto
  ultimately show ?thesis using n(2) by simp
qed

end
