(* ===== verification/Critical_Section.thy ===== *)
theory Critical_Section
  imports Main
begin

text \<open>
  The recursive lock under every critical section of the library (\<open>include/critical_section.h\<close>),
  the POSIX variant: a mutex, the thread that holds it and a count. Its fields are read and
  written without the mutex, so every access is a step of its own, and the threads' steps
  interleave in every way.
\<close>

section \<open>The lock\<close>

text \<open>
  \<open>cs_mutex\<close> is the holder of the \<open>pthread_mutex_t\<close>, \<open>cs_count\<close> its \<open>__data.__count\<close>, and
  \<open>m_threadlock\<close> is 0 for no thread.
\<close>

record critical_section =
  cs_mutex :: "nat option"
  m_threadlock :: nat
  cs_count :: int

definition CriticalSection :: critical_section where
  "CriticalSection = \<lparr>cs_mutex = None, m_threadlock = 0, cs_count = 0\<rparr>"

text \<open>\<open>Enter\<close>: the test, \<open>pthread_mutex_lock\<close> (\<^const>\<open>None\<close> while it blocks), and what follows either.\<close>

definition Enter_test :: "nat \<Rightarrow> critical_section \<Rightarrow> bool" where
  "Enter_test self c \<longleftrightarrow> m_threadlock c \<noteq> self"

definition mutex_lock :: "nat \<Rightarrow> critical_section \<Rightarrow> critical_section option" where
  "mutex_lock self c = (if cs_mutex c = None then Some (c\<lparr>cs_mutex := Some self\<rparr>) else None)"

definition Enter_own :: "nat \<Rightarrow> critical_section \<Rightarrow> critical_section" where
  "Enter_own self c = c\<lparr>m_threadlock := self\<rparr>"

definition Enter_again :: "critical_section \<Rightarrow> critical_section" where
  "Enter_again c = c\<lparr>cs_count := cs_count c + 1\<rparr>"

text \<open>\<open>Leave\<close>: the test, and what follows it.\<close>

definition Leave_test :: "nat \<Rightarrow> critical_section \<Rightarrow> bool" where
  "Leave_test self c \<longleftrightarrow> m_threadlock c = self \<and> cs_count c = 0"

definition Leave_disown :: "critical_section \<Rightarrow> critical_section" where
  "Leave_disown c = c\<lparr>m_threadlock := 0\<rparr>"

definition mutex_unlock :: "critical_section \<Rightarrow> critical_section" where
  "mutex_unlock c = c\<lparr>cs_mutex := None\<rparr>"

definition Leave_once :: "critical_section \<Rightarrow> critical_section" where
  "Leave_once c = c\<lparr>cs_count := cs_count c - 1\<rparr>"

lemmas cs_defs = CriticalSection_def Enter_test_def mutex_lock_def Enter_own_def Enter_again_def
  Leave_test_def Leave_disown_def mutex_unlock_def Leave_once_def

section \<open>Every interleaving\<close>

text \<open>
  Where a thread is: outside or inside (\<open>At n\<close>, with \<open>n\<close> lockers alive), before the mutex, with
  the mutex before it owns the section, about to count, about to disown, about to unlock.
\<close>

datatype cs_place = At nat | WantsMutex | HasMutex | WantsCount nat | WantsDisown | WantsUnlock | WantsUncount nat

record cs_run =
  cr_section :: critical_section
  cr_place :: "nat \<Rightarrow> cs_place"

definition cr_at :: "nat \<Rightarrow> cs_place \<Rightarrow> critical_section \<Rightarrow> cs_run \<Rightarrow> cs_run" where
  "cr_at t p c r = r\<lparr>cr_section := c, cr_place := (cr_place r)(t := p)\<rparr>"

text \<open>A thread's id is not 0. \<open>CSLocker\<close> leaves what it has entered: only a thread inside leaves.\<close>

inductive cs_step :: "cs_run \<Rightarrow> cs_run \<Rightarrow> bool" where
  enter_other: "t \<noteq> 0 \<Longrightarrow> cr_place r t = At n \<Longrightarrow> Enter_test t (cr_section r) \<Longrightarrow>
    cs_step r (cr_at t WantsMutex (cr_section r) r)"
| enter_same: "t \<noteq> 0 \<Longrightarrow> cr_place r t = At n \<Longrightarrow> \<not> Enter_test t (cr_section r) \<Longrightarrow>
    cs_step r (cr_at t (WantsCount n) (cr_section r) r)"
| lock: "cr_place r t = WantsMutex \<Longrightarrow> mutex_lock t (cr_section r) = Some c \<Longrightarrow> cs_step r (cr_at t HasMutex c r)"
| own: "cr_place r t = HasMutex \<Longrightarrow> cs_step r (cr_at t (At 1) (Enter_own t (cr_section r)) r)"
| again: "cr_place r t = WantsCount n \<Longrightarrow> cs_step r (cr_at t (At (Suc n)) (Enter_again (cr_section r)) r)"
| leave_last: "cr_place r t = At (Suc n) \<Longrightarrow> Leave_test t (cr_section r) \<Longrightarrow>
    cs_step r (cr_at t WantsDisown (cr_section r) r)"
| leave_inner: "cr_place r t = At (Suc n) \<Longrightarrow> \<not> Leave_test t (cr_section r) \<Longrightarrow>
    cs_step r (cr_at t (WantsUncount n) (cr_section r) r)"
| disown: "cr_place r t = WantsDisown \<Longrightarrow> cs_step r (cr_at t WantsUnlock (Leave_disown (cr_section r)) r)"
| unlock: "cr_place r t = WantsUnlock \<Longrightarrow> cs_step r (cr_at t (At 0) (mutex_unlock (cr_section r)) r)"
| uncount: "cr_place r t = WantsUncount n \<Longrightarrow> cs_step r (cr_at t (At n) (Leave_once (cr_section r)) r)"

definition new_section :: cs_run where
  "new_section = \<lparr>cr_section = CriticalSection, cr_place = (\<lambda>t. At 0)\<rparr>"

text \<open>The mutex's holder, the owner and the count, as far as a place tells; \<^const>\<open>None\<close> is a thread outside.\<close>

fun place_holds :: "nat \<Rightarrow> cs_place \<Rightarrow> (nat \<times> int) option" where
  "place_holds t (At n) = (if n = 0 then None else Some (t, int n - 1))"
| "place_holds t WantsMutex = None"
| "place_holds t HasMutex = Some (0, 0)"
| "place_holds t (WantsCount n) = Some (t, int n - 1)"
| "place_holds t WantsDisown = Some (t, 0)"
| "place_holds t WantsUnlock = Some (0, 0)"
| "place_holds t (WantsUncount n) = Some (t, int n)"

fun place_ok :: "cs_place \<Rightarrow> bool" where
  "place_ok (WantsCount n) \<longleftrightarrow> 0 < n"
| "place_ok (WantsUncount n) \<longleftrightarrow> 0 < n"
| "place_ok p \<longleftrightarrow> True"

definition section_ok :: "cs_run \<Rightarrow> bool" where
  "section_ok r \<longleftrightarrow> cr_place r 0 = At 0 \<and> (\<forall>t. place_ok (cr_place r t)) \<and>
     (case cs_mutex (cr_section r) of
        None \<Rightarrow> (\<forall>t. place_holds t (cr_place r t) = None) \<and> m_threadlock (cr_section r) = 0 \<and> cs_count (cr_section r) = 0
      | Some h \<Rightarrow> place_holds h (cr_place r h) = Some (m_threadlock (cr_section r), cs_count (cr_section r))
                 \<and> (\<forall>t. t \<noteq> h \<longrightarrow> place_holds t (cr_place r t) = None))"

lemma holder:
  "section_ok r \<Longrightarrow> place_holds t (cr_place r t) = Some (o', k) \<Longrightarrow>
     cs_mutex (cr_section r) = Some t \<and> m_threadlock (cr_section r) = o' \<and> cs_count (cr_section r) = k"
  by (cases "cs_mutex (cr_section r)"; cases "cs_mutex (cr_section r) = Some t") (auto simp: section_ok_def)

lemma owner_holds:
  assumes "section_ok r" and "m_threadlock (cr_section r) \<noteq> 0"
  shows "cs_mutex (cr_section r) = Some (m_threadlock (cr_section r))"
proof -
  have "place_holds t p = Some (o', k) \<Longrightarrow> o' \<noteq> 0 \<Longrightarrow> o' = t" for t p o' k
    by (cases p) (auto split: if_splits)
  then show ?thesis using assms by (auto simp: section_ok_def split: option.splits)
qed

lemma not_zero: "section_ok r \<Longrightarrow> cr_place r t \<noteq> At 0 \<Longrightarrow> t \<noteq> 0"
  by (metis section_ok_def)

text \<open>A move of the holder, of a thread that holds nothing, and the two that pass the mutex on.\<close>

lemma holder_moves:
  assumes "section_ok r" and "place_holds t (cr_place r t) = Some old" and "cs_mutex c = Some t"
    and "place_holds t p = Some (m_threadlock c, cs_count c)" and "place_ok p"
  shows "section_ok (cr_at t p c r)"
proof -
  have "t \<noteq> 0" using assms(2) not_zero [OF assms(1), of t] by (cases "cr_place r t = At 0") auto
  moreover have "cs_mutex (cr_section r) = Some t" using holder [OF assms(1), of t] assms(2) by (cases old) simp
  ultimately show ?thesis using assms by (auto simp: section_ok_def cr_at_def)
qed

lemma idle_moves:
  assumes "section_ok r" and "t \<noteq> 0" and "place_holds t (cr_place r t) = None" and "place_holds t p = None" and "place_ok p"
  shows "section_ok (cr_at t p (cr_section r) r)"
  using assms by (auto simp: section_ok_def cr_at_def split: option.splits)

lemma mutex_moves:
  assumes "section_ok r" and "cr_place r t \<noteq> At 0"
  shows "cs_mutex (cr_section r) = None \<Longrightarrow> section_ok (cr_at t HasMutex ((cr_section r)\<lparr>cs_mutex := Some t\<rparr>) r)"
    and "place_holds t (cr_place r t) = Some (0, 0) \<Longrightarrow> section_ok (cr_at t (At 0) ((cr_section r)\<lparr>cs_mutex := None\<rparr>) r)"
  using assms not_zero [OF assms] holder [OF assms(1), of t] by (auto simp: section_ok_def cr_at_def)

lemma section_ok_step:
  assumes "cs_step r r'" and "section_ok r"
  shows "section_ok r'"
  using assms
proof cases
  case (enter_other t n)
  then have "n = 0" using holder [OF assms(2), of t t "int n - 1"] by (cases n) (auto simp: Enter_test_def)
  then show ?thesis using enter_other idle_moves [OF assms(2), of t WantsMutex] by simp
next
  case (enter_same t n)
  then have m: "m_threadlock (cr_section r) = t" by (simp add: Enter_test_def)
  then have "cs_mutex (cr_section r) = Some t" using owner_holds [OF assms(2)] enter_same by simp
  moreover from this have n: "place_holds t (cr_place r t) \<noteq> None" using assms(2) by (simp add: section_ok_def)
  ultimately show ?thesis
    using enter_same m holder [OF assms(2), of t t "int n - 1"] holder_moves [OF assms(2), of t "(t, int n - 1)" "cr_section r" "WantsCount n"]
    by (auto split: if_splits)
next
  case (lock t c)
  then show ?thesis using mutex_moves(1) [OF assms(2), of t] by (auto simp: mutex_lock_def split: if_splits)
next
  case (own t)
  then show ?thesis using holder [OF assms(2), of t 0 0] holder_moves [OF assms(2), of t "(0, 0)"] by (simp add: Enter_own_def)
next
  case (again t n)
  then have "0 < n" using assms(2) by (metis place_ok.simps(1) section_ok_def)
  then show ?thesis using again holder [OF assms(2), of t t "int n - 1"] holder_moves [OF assms(2), of t "(t, int n - 1)"]
    by (simp add: Enter_again_def)
next
  case (leave_last t n)
  then show ?thesis using holder [OF assms(2), of t t "int n"] holder_moves [OF assms(2), of t "(t, int n)"]
    by (simp add: Leave_test_def)
next
  case (leave_inner t n)
  then show ?thesis using holder [OF assms(2), of t t "int n"] holder_moves [OF assms(2), of t "(t, int n)"]
    by (auto simp: Leave_test_def)
next
  case (disown t)
  then show ?thesis using holder [OF assms(2), of t t 0] holder_moves [OF assms(2), of t "(t, 0)"]
    by (simp add: Leave_disown_def)
next
  case (unlock t)
  then show ?thesis using mutex_moves(2) [OF assms(2), of t] by (simp add: mutex_unlock_def)
next
  case (uncount t n)
  then have "0 < n" using assms(2) by (metis place_ok.simps(2) section_ok_def)
  then show ?thesis using uncount holder [OF assms(2), of t t "int n"] holder_moves [OF assms(2), of t "(t, int n)"]
    by (simp add: Leave_once_def)
qed

lemma section_ok_reachable: "cs_step\<^sup>*\<^sup>* new_section r \<Longrightarrow> section_ok r"
proof (induction rule: rtranclp_induct)
  case base
  show ?case by (simp add: section_ok_def new_section_def CriticalSection_def)
qed (rule section_ok_step)

text \<open>
  C11: the critical section, in every interleaving of entering and leaving, nested as deep as the
  threads like: two threads are never inside at the same time; a thread inside \<open>n\<close> lockers gives
  the section up exactly with the last of them; and when no thread is inside or on its way in or
  out, the section is as new, so that a thread that waits for it can have it.
\<close>

theorem critical_section_excludes:
  assumes "cs_step\<^sup>*\<^sup>* new_section r"
  shows "(\<forall>t u m n. cr_place r t = At (Suc m) \<and> cr_place r u = At (Suc n) \<longrightarrow> t = u)
    \<and> (\<forall>t n. cr_place r t = At (Suc n) \<longrightarrow> (Leave_test t (cr_section r) \<longleftrightarrow> n = 0))
    \<and> ((\<forall>t. cr_place r t \<in> {At 0, WantsMutex}) \<longrightarrow>
        cr_section r = CriticalSection \<and> (\<forall>t. mutex_lock t (cr_section r) \<noteq> None))"
proof -
  have ok: "section_ok r" by (rule section_ok_reachable [OF assms])
  have inside: "cs_mutex (cr_section r) = Some t \<and> m_threadlock (cr_section r) = t \<and> cs_count (cr_section r) = int n"
    if "cr_place r t = At (Suc n)" for t n
    using holder [OF ok, of t t "int n"] that by simp
  have "cr_section r = CriticalSection" if "\<forall>t. cr_place r t \<in> {At 0, WantsMutex}"
  proof -
    have "place_holds t (cr_place r t) = None" for t using that [rule_format, of t] by auto
    then show ?thesis using ok by (cases "cs_mutex (cr_section r)") (auto simp: section_ok_def CriticalSection_def)
  qed
  then have "(\<forall>t. cr_place r t \<in> {At 0, WantsMutex}) \<longrightarrow>
      cr_section r = CriticalSection \<and> (\<forall>t. mutex_lock t (cr_section r) \<noteq> None)"
    by (simp add: mutex_lock_def CriticalSection_def)
  moreover have "t = u" if "cr_place r t = At (Suc m)" and "cr_place r u = At (Suc n)" for t u m n
    using inside [OF that(1)] inside [OF that(2)] by simp
  moreover have "Leave_test t (cr_section r) \<longleftrightarrow> n = 0" if "cr_place r t = At (Suc n)" for t n
    using inside [OF that] by (simp add: Leave_test_def)
  ultimately show ?thesis by blast
qed

theorem critical_section_excludes_witness:
  "Leave_test 1 \<lparr>cs_mutex = Some 1, m_threadlock = 1, cs_count = 0\<rparr>"
proof -
  let ?r1 = "cr_at 1 WantsMutex CriticalSection new_section"
  let ?r2 = "cr_at 1 HasMutex (CriticalSection\<lparr>cs_mutex := Some 1\<rparr>) ?r1"
  let ?r3 = "cr_at 1 (At 1) \<lparr>cs_mutex = Some 1, m_threadlock = 1, cs_count = 0\<rparr> ?r2"
  note simps = cr_at_def new_section_def cs_defs
  have s1: "cs_step new_section ?r1" using enter_other [of 1 new_section 0] by (simp add: simps)
  have s2: "cs_step ?r1 ?r2" using lock [of ?r1 1] by (simp add: simps)
  have s3: "cs_step ?r2 ?r3" using own [of ?r2 1] by (simp add: simps)
  note into = rtranclp.rtrancl_into_rtrancl [where r = cs_step]
  have "cs_step\<^sup>*\<^sup>* new_section ?r3" by (rule into [OF into [OF into [OF rtranclp.rtrancl_refl s1] s2] s3])
  from critical_section_excludes [OF this, THEN conjunct2, THEN conjunct1, rule_format, of 1 0]
  show ?thesis by (simp add: cr_at_def)
qed

end
