(* ===== verification/Signals.thy ===== *)
theory Signals
  imports Managers
begin

text \<open>
  Signals (\<open>connector_lib/signal\<close>): an owner has a signal, receivers subscribe functions to it,
  owners and receivers are destroyed in any order by different threads, and the manager of the
  signals deletes a signal when nobody knows it any more. Objects live in a memory; using a
  pointer to an object that has been deleted is \<^const>\<open>None\<close>. An operation that holds the lock of
  what it changes is a step.
\<close>

section \<open>State\<close>

text \<open>\<open>sg_owner\<close> says whether \<open>m_owner\<close> is set. A function is a receiver with the name of a message.\<close>

record signal =
  sg_owner :: bool
  sg_functions :: "nat list"

record receiver =
  rc_signals :: "nat list"
  rc_isRemove :: bool

record signals =
  sn_signals :: "nat \<Rightarrow> signal option"
  sn_receivers :: "nat \<Rightarrow> receiver option"
  sn_functions :: "nat \<Rightarrow> (nat \<times> string) option"
  sn_manager :: "nat list"
  sn_calls :: "(nat \<times> string) list"

definition new_signals :: signals where
  "new_signals = \<lparr>sn_signals = Map.empty, sn_receivers = Map.empty, sn_functions = Map.empty, sn_manager = [], sn_calls = []\<rparr>"

abbreviation set_signal :: "nat \<Rightarrow> signal option \<Rightarrow> signals \<Rightarrow> signals" where
  "set_signal g x s \<equiv> s\<lparr>sn_signals := (sn_signals s)(g := x)\<rparr>"

abbreviation set_receiver :: "nat \<Rightarrow> receiver option \<Rightarrow> signals \<Rightarrow> signals" where
  "set_receiver r x s \<equiv> s\<lparr>sn_receivers := (sn_receivers s)(r := x)\<rparr>"

abbreviation set_function :: "nat \<Rightarrow> (nat \<times> string) option \<Rightarrow> signals \<Rightarrow> signals" where
  "set_function f x s \<equiv> s\<lparr>sn_functions := (sn_functions s)(f := x)\<rparr>"

definition delete_function :: "nat \<Rightarrow> signals \<Rightarrow> signals option" where
  "delete_function f s = (if sn_functions s f = None then None else Some (set_function f None s))"

section \<open>Signal\<close>

definition Signal_new :: "nat \<Rightarrow> signals \<Rightarrow> signals" where
  "Signal_new g s = (set_signal g (Some \<lparr>sg_owner = True, sg_functions = []\<rparr>) s)\<lparr>sn_manager := fst (ptr_add g (sn_manager s))\<rparr>"

definition onSignalFunc :: "string \<Rightarrow> nat \<Rightarrow> signals option \<Rightarrow> signals option" where
  "onSignalFunc name f so =
     Option.bind so (\<lambda>s. case sn_functions s f of
       None \<Rightarrow> None
     | Some (r, type) \<Rightarrow>
         if type = name
         then (if sn_receivers s r = None then None else Some (s\<lparr>sn_calls := sn_calls s @ [(r, name)]\<rparr>))
         else Some s)"

definition Signal_onSignal :: "string \<Rightarrow> nat \<Rightarrow> signals \<Rightarrow> signals option" where
  "Signal_onSignal name g s =
     (case sn_signals s g of
        None \<Rightarrow> None
      | Some x \<Rightarrow> ProcessingObjects (onSignalFunc name) (sg_functions x) (Some s))"

definition Signal_subscribe :: "nat \<Rightarrow> nat \<Rightarrow> signals \<Rightarrow> signals option" where
  "Signal_subscribe f g s =
     map_option (\<lambda>x. set_signal g (Some (x\<lparr>sg_functions := fst (ptr_add f (sg_functions x))\<rparr>)) s) (sn_signals s g)"

definition unsubsribeFunc :: "nat \<Rightarrow> nat \<Rightarrow> signals option \<Rightarrow> bool \<times> signals option" where
  "unsubsribeFunc receiver f so =
     (case so of
        None \<Rightarrow> (False, None)
      | Some s \<Rightarrow>
          (case sn_functions s f of
             None \<Rightarrow> (False, None)
           | Some (r, _) \<Rightarrow> if r = receiver then (True, delete_function f s) else (False, Some s)))"

definition check_functions :: "(nat \<Rightarrow> signals option \<Rightarrow> bool \<times> signals option) \<Rightarrow> nat \<Rightarrow> signals \<Rightarrow> signals option" where
  "check_functions p g s =
     (case sn_signals s g of
        None \<Rightarrow> None
      | Some x \<Rightarrow>
          (case CheckObjects p (sg_functions x) (Some s) of
             (fs, so) \<Rightarrow> map_option (\<lambda>s. set_signal g (Some (x\<lparr>sg_functions := fs\<rparr>)) s) so))"

definition Signal_unsubscribe :: "nat \<Rightarrow> nat \<Rightarrow> signals \<Rightarrow> signals option" where
  "Signal_unsubscribe receiver = check_functions (unsubsribeFunc receiver)"

section \<open>SignalReceiver\<close>

definition onRemoveSignal :: "nat \<Rightarrow> nat \<Rightarrow> signals \<Rightarrow> (bool \<times> signals) option" where
  "onRemoveSignal g r s =
     map_option (\<lambda>x. if \<not> rc_isRemove x
         then (True, set_receiver r (Some (x\<lparr>rc_signals := fst (ptr_remove g (rc_signals x))\<rparr>)) s)
         else (False, s)) (sn_receivers s r)"

definition unsubsribeReceiver :: "nat \<Rightarrow> nat \<Rightarrow> signals option \<Rightarrow> bool \<times> signals option" where
  "unsubsribeReceiver g f so =
     (case so of
        None \<Rightarrow> (False, None)
      | Some s \<Rightarrow>
          (case sn_functions s f of
             None \<Rightarrow> (False, None)
           | Some (r, _) \<Rightarrow>
               (case onRemoveSignal g r s of
                  None \<Rightarrow> (False, None)
                | Some (res, s) \<Rightarrow> (res, if res then delete_function f s else Some s))))"

definition removeOwner :: "nat \<Rightarrow> signals \<Rightarrow> signals option" where
  "removeOwner g s =
     (case sn_signals s g of
        None \<Rightarrow> None
      | Some x \<Rightarrow> check_functions (unsubsribeReceiver g) g (set_signal g (Some (x\<lparr>sg_owner := False\<rparr>)) s))"

text \<open>\<open>addSignal\<close>, with the function that \<open>SIGNAL_FUNC\<close> has made for it.\<close>

definition addSignal :: "nat \<Rightarrow> nat \<Rightarrow> nat \<Rightarrow> signals \<Rightarrow> signals option" where
  "addSignal r g f s =
     (case sn_receivers s r of
        None \<Rightarrow> None
      | Some x \<Rightarrow>
          if \<not> rc_isRemove x
          then Signal_subscribe f g (set_receiver r (Some (x\<lparr>rc_signals := fst (ptr_add g (rc_signals x))\<rparr>)) s)
          else delete_function f s)"

definition addSubscriber :: "nat \<Rightarrow> nat \<Rightarrow> nat \<Rightarrow> string \<Rightarrow> signals \<Rightarrow> signals option" where
  "addSubscriber g r f type s = addSignal r g f (set_function f (Some (r, type)) s)"

definition removeSignal :: "nat \<Rightarrow> nat \<Rightarrow> signals \<Rightarrow> signals option" where
  "removeSignal r g s =
     (case sn_receivers s r of
        None \<Rightarrow> None
      | Some x \<Rightarrow>
          if \<not> rc_isRemove x
          then Signal_unsubscribe r g (set_receiver r (Some (x\<lparr>rc_signals := fst (ptr_remove g (rc_signals x))\<rparr>)) s)
          else Some s)"

text \<open>\<open>removeReceiver\<close>: its critical section, and what follows it.\<close>

definition removeReceiver_begin :: "nat \<Rightarrow> signals \<Rightarrow> signals option" where
  "removeReceiver_begin r s = map_option (\<lambda>x. set_receiver r (Some (x\<lparr>rc_isRemove := True\<rparr>)) s) (sn_receivers s r)"

definition removeSignals :: "nat \<Rightarrow> nat \<Rightarrow> signals option \<Rightarrow> bool \<times> signals option" where
  "removeSignals r g so = (True, Option.bind so (Signal_unsubscribe r g))"

definition removeReceiver_end :: "nat \<Rightarrow> signals \<Rightarrow> signals option" where
  "removeReceiver_end r s =
     (case sn_receivers s r of
        None \<Rightarrow> None
      | Some x \<Rightarrow>
          (case CheckObjects (removeSignals r) (rc_signals x) (Some s) of
             (gs, so) \<Rightarrow> map_option (set_receiver r (Some (x\<lparr>rc_signals := gs\<rparr>))) so))"

section \<open>SignalManager\<close>

definition Signal_CheckSignal :: "signal \<Rightarrow> bool" where
  "Signal_CheckSignal x \<longleftrightarrow> \<not> sg_owner x \<and> sg_functions x = []"

definition SignalManager_CheckSignal :: "nat \<Rightarrow> (nat list \<times> signals) option \<Rightarrow> bool \<times> (nat list \<times> signals) option" where
  "SignalManager_CheckSignal g so =
     (case so of
        None \<Rightarrow> (False, None)
      | Some (gone, s) \<Rightarrow>
          (case sn_signals s g of
             None \<Rightarrow> (False, None)
           | Some x \<Rightarrow> if Signal_CheckSignal x then (True, Some (gone @ [g], s)) else (False, Some (gone, s))))"

definition SignalManager_ManagerFunc :: "signals \<Rightarrow> signals option" where
  "SignalManager_ManagerFunc s =
     (case CheckObjects SignalManager_CheckSignal (sn_manager s) (Some ([], s)) of
        (gs, so) \<Rightarrow> map_option (\<lambda>(gone, s). (fold (\<lambda>g. set_signal g None) gone s)\<lparr>sn_manager := gs\<rparr>) so)"

section \<open>Every run\<close>

datatype signal_event =
    NewOwner nat
  | NewReceiver nat
  | Subscribes nat nat nat string
  | Unsubscribes nat nat
  | OwnerDestroyed nat
  | ReceiverLeaves nat
  | ReceiverLeft nat
  | ReceiverFreed nat
  | Signals nat string
  | ManagerRuns

fun signal_do :: "signal_event \<Rightarrow> signals \<Rightarrow> signals option" where
  "signal_do (NewOwner g) s = Some (Signal_new g s)"
| "signal_do (NewReceiver r) s = Some (set_receiver r (Some \<lparr>rc_signals = [], rc_isRemove = False\<rparr>) s)"
| "signal_do (Subscribes g r f type) s = addSubscriber g r f type s"
| "signal_do (Unsubscribes r g) s = removeSignal r g s"
| "signal_do (OwnerDestroyed g) s = removeOwner g s"
| "signal_do (ReceiverLeaves r) s = removeReceiver_begin r s"
| "signal_do (ReceiverLeft r) s = removeReceiver_end r s"
| "signal_do (ReceiverFreed r) s = Some (set_receiver r None s)"
| "signal_do (Signals g name) s = Signal_onSignal name g s"
| "signal_do ManagerRuns s = SignalManager_ManagerFunc s"

text \<open>
  What the callers keep to: new objects are made in free memory; who subscribes or signals has an
  owner that is alive, a receiver leaves before it is freed.
\<close>

definition owned :: "nat \<Rightarrow> signals \<Rightarrow> bool" where
  "owned g s \<longleftrightarrow> (\<exists>x. sn_signals s g = Some x \<and> sg_owner x)"

definition gone_receiver :: "nat \<Rightarrow> signals \<Rightarrow> bool" where
  "gone_receiver r s \<longleftrightarrow> (\<exists>x. sn_receivers s r = Some x \<and> rc_isRemove x \<and> rc_signals x = [])"

fun signal_allowed :: "signal_event \<Rightarrow> signals \<Rightarrow> bool" where
  "signal_allowed (NewOwner g) s \<longleftrightarrow> sn_signals s g = None"
| "signal_allowed (NewReceiver r) s \<longleftrightarrow> sn_receivers s r = None"
| "signal_allowed (Subscribes g r f type) s \<longleftrightarrow> owned g s \<and> sn_receivers s r \<noteq> None \<and> sn_functions s f = None"
| "signal_allowed (Unsubscribes r g) s \<longleftrightarrow> owned g s \<and> sn_receivers s r \<noteq> None"
| "signal_allowed (OwnerDestroyed g) s \<longleftrightarrow> owned g s"
| "signal_allowed (ReceiverLeaves r) s \<longleftrightarrow> sn_receivers s r \<noteq> None"
| "signal_allowed (ReceiverLeft r) s \<longleftrightarrow> (\<exists>x. sn_receivers s r = Some x \<and> rc_isRemove x)"
| "signal_allowed (ReceiverFreed r) s \<longleftrightarrow> gone_receiver r s"
| "signal_allowed (Signals g name) s \<longleftrightarrow> owned g s"
| "signal_allowed ManagerRuns s \<longleftrightarrow> True"

inductive signal_runs :: "signals option \<Rightarrow> bool" where
  "signal_runs (Some new_signals)"
| "signal_runs (Some s) \<Longrightarrow> signal_allowed e s \<Longrightarrow> signal_runs (signal_do e s)"

end
