(* ===== verification/Signal_Runs.thy ===== *)
theory Signal_Runs
  imports Signals
begin

text \<open>
  Every run of signals, receivers and their manager: whatever is subscribed, destroyed and
  deleted in whatever order, no pointer to a deleted object is used, and a signal calls exactly
  what is subscribed to it.
\<close>

section \<open>What the operations do\<close>

definition signal_holds :: "signals \<Rightarrow> nat \<Rightarrow> nat \<Rightarrow> bool" where
  "signal_holds s g f \<longleftrightarrow> (\<exists>x. sn_signals s g = Some x \<and> f \<in> set (sg_functions x))"

definition of_receiver :: "signals \<Rightarrow> nat \<Rightarrow> nat \<Rightarrow> bool" where
  "of_receiver s r f \<longleftrightarrow> (\<exists>type. sn_functions s f = Some (r, type))"

definition leaving :: "signals \<Rightarrow> nat \<Rightarrow> bool" where
  "leaving s r \<longleftrightarrow> (\<exists>x. sn_receivers s r = Some x \<and> rc_isRemove x)"

text \<open>Functions belong to one signal each, and signals hold functions that exist.\<close>

definition functions_ok :: "signals \<Rightarrow> bool" where
  "functions_ok s \<longleftrightarrow>
     (\<forall>g x. sn_signals s g = Some x \<longrightarrow> om_inv (\<lambda>f. f) (sg_functions x)) \<and>
     (\<forall>f. sn_functions s f \<noteq> None \<longleftrightarrow> (\<exists>g. signal_holds s g f)) \<and>
     (\<forall>g h f. signal_holds s g f \<and> signal_holds s h f \<longrightarrow> g = h)"

text \<open>Deleting functions and forgetting them.\<close>

definition drop_functions :: "(nat \<Rightarrow> bool) \<Rightarrow> signals \<Rightarrow> signals" where
  "drop_functions p s = s\<lparr>sn_functions := (\<lambda>f. if p f then None else sn_functions s f),
     sn_signals := (\<lambda>g. map_option (\<lambda>x. x\<lparr>sg_functions := filter (\<lambda>f. \<not> p f) (sg_functions x)\<rparr>) (sn_signals s g))\<rparr>"

lemma drop_functions_sel [simp]:
  "sn_receivers (drop_functions p s) = sn_receivers s" "sn_manager (drop_functions p s) = sn_manager s"
  "sn_calls (drop_functions p s) = sn_calls s"
  "sn_functions (drop_functions p s) f = (if p f then None else sn_functions s f)"
  "signal_holds (drop_functions p s) g f \<longleftrightarrow> signal_holds s g f \<and> \<not> p f"
  "of_receiver (drop_functions p s) r f \<longleftrightarrow> of_receiver s r f \<and> \<not> p f"
  "leaving (drop_functions p s) r \<longleftrightarrow> leaving s r" "owned g (drop_functions p s) \<longleftrightarrow> owned g s"
  "sn_signals (drop_functions p s) g = None \<longleftrightarrow> sn_signals s g = None"
  by (auto simp: drop_functions_def signal_holds_def of_receiver_def leaving_def owned_def)

lemma drop_functions_drop: "drop_functions p (drop_functions q s) = drop_functions (\<lambda>f. p f \<or> q f) s"
  by (simp add: drop_functions_def option.map_comp comp_def conj_commute) (auto simp: fun_eq_iff)

lemma functions_okD:
  assumes "functions_ok s"
  shows "sn_signals s g = Some x \<Longrightarrow> om_inv (\<lambda>f. f) (sg_functions x)"
    and "sn_functions s f \<noteq> None \<longleftrightarrow> (\<exists>g. signal_holds s g f)"
    and "signal_holds s g f \<Longrightarrow> signal_holds s h f \<Longrightarrow> g = h"
  using assms unfolding functions_ok_def by blast+

lemma functions_okI:
  assumes "\<And>g x. sn_signals s g = Some x \<Longrightarrow> om_inv (\<lambda>f. f) (sg_functions x)"
    and "\<And>f. sn_functions s f \<noteq> None \<longleftrightarrow> (\<exists>g. signal_holds s g f)"
    and "\<And>g h f. signal_holds s g f \<Longrightarrow> signal_holds s h f \<Longrightarrow> g = h"
  shows "functions_ok s"
  using assms unfolding functions_ok_def by blast

lemma functions_ok_drop:
  assumes ok: "functions_ok s"
  shows "functions_ok (drop_functions p s)"
proof (rule functions_okI)
  show "om_inv (\<lambda>f. f) (sg_functions y)" if "sn_signals (drop_functions p s) g = Some y" for g y
    using functions_okD(1) [OF ok] that by (auto simp: drop_functions_def intro!: om_inv_filter)
  show "sn_functions (drop_functions p s) f \<noteq> None \<longleftrightarrow> (\<exists>g. signal_holds (drop_functions p s) g f)" for f
    using functions_okD(2) [OF ok, of f] by simp
  show "g = h" if "signal_holds (drop_functions p s) g f" and "signal_holds (drop_functions p s) h f" for g h f
    using functions_okD(3) [OF ok, of g f h] that by simp
qed

lemma ptr_remove_filter: "om_inv (\<lambda>p. p) ps \<Longrightarrow> fst (ptr_remove p ps) = filter (\<lambda>q. q \<noteq> p) ps"
proof (cases "om_lookup (\<lambda>p. p) ps p")
  case None
  assume inv: "om_inv (\<lambda>p. p) ps"
  from None have "p \<notin> set ps" by (simp add: om_lookup_None_iff)
  then have "filter (\<lambda>q. q \<noteq> p) ps = ps" by (induction ps) auto
  with None inv show ?thesis by (simp add: ptrs.RemoveObject_absent)
next
  case (Some y)
  assume inv: "om_inv (\<lambda>p. p) ps"
  obtain ys zs where split: "ps = ys @ y # zs" "y = p" "ptr_remove p ps = (ys @ zs, True)"
    using ptrs.RemoveObject_present [OF inv Some] by metis
  then have "p \<notin> set ys \<and> p \<notin> set zs" using om_inv_distinct [OF inv] by simp
  then have "filter (\<lambda>q. q \<noteq> p) ys = ys" "filter (\<lambda>q. q \<noteq> p) zs = zs" by (auto simp: filter_id_conv)
  with split show ?thesis by simp
qed

lemma unsubscribe_pass:
  assumes "distinct fs" and "\<forall>f \<in> set fs. sn_functions s f \<noteq> None"
  shows "filter_pass (unsubsribeFunc r) fs (Some s)
    = (filter (\<lambda>f. \<not> of_receiver s r f) fs,
       Some (s\<lparr>sn_functions := (\<lambda>f. if f \<in> set fs \<and> of_receiver s r f then None else sn_functions s f)\<rparr>))"
  using assms
proof (induction fs arbitrary: s)
  case (Cons f fs)
  obtain r' type where f: "sn_functions s f = Some (r', type)" using Cons.prems by fastforce
  show ?case
  proof (cases "r' = r")
    case True
    let ?s = "set_function f None s"
    have "filter_pass (unsubsribeFunc r) fs (Some ?s)
      = (filter (\<lambda>f. \<not> of_receiver ?s r f) fs,
         Some (?s\<lparr>sn_functions := (\<lambda>f. if f \<in> set fs \<and> of_receiver ?s r f then None else sn_functions ?s f)\<rparr>))"
      using Cons.prems by (intro Cons.IH) auto
    moreover have "filter (\<lambda>f. \<not> of_receiver ?s r f) fs = filter (\<lambda>f. \<not> of_receiver s r f) fs"
      using Cons.prems by (intro filter_cong) (auto simp: of_receiver_def)
    moreover have "(\<lambda>h. if h \<in> set fs \<and> of_receiver ?s r h then None else sn_functions ?s h)
        = (\<lambda>h. if h \<in> set (f # fs) \<and> of_receiver s r h then None else sn_functions s h)"
      using f True by (auto simp: of_receiver_def fun_eq_iff)
    moreover have "unsubsribeFunc r f (Some s) = (True, Some ?s)" "of_receiver s r f"
      using f True by (auto simp: unsubsribeFunc_def delete_function_def of_receiver_def)
    ultimately show ?thesis by simp
  next
    case False
    then have "unsubsribeFunc r f (Some s) = (False, Some s)" "\<not> of_receiver s r f"
      using f by (auto simp: unsubsribeFunc_def of_receiver_def)
    moreover from this have "(\<lambda>h. if h \<in> set fs \<and> of_receiver s r h then None else sn_functions s h)
        = (\<lambda>h. if h \<in> set (f # fs) \<and> of_receiver s r h then None else sn_functions s h)"
      by (auto simp: fun_eq_iff)
    ultimately show ?thesis using Cons by simp
  qed
qed simp

text \<open>Signals that hold none of the functions dropped stay as they are.\<close>

lemma drop_in_one:
  assumes "functions_ok s" and "sn_signals s g = Some x" and "\<forall>f. p f \<longrightarrow> f \<in> set (sg_functions x)"
  shows "drop_functions p s = (set_signal g (Some (x\<lparr>sg_functions := filter (\<lambda>f. \<not> p f) (sg_functions x)\<rparr>)) s)
    \<lparr>sn_functions := (\<lambda>f. if p f then None else sn_functions s f)\<rparr>"
proof -
  have "filter (\<lambda>f. \<not> p f) (sg_functions y) = sg_functions y" if "sn_signals s h = Some y" "h \<noteq> g" for h y
  proof -
    have "\<not> p f" if "f \<in> set (sg_functions y)" for f
      using functions_okD(3) [OF assms(1), of g f h] assms(2,3) that \<open>sn_signals s h = Some y\<close> \<open>h \<noteq> g\<close> by (auto simp: signal_holds_def)
    then show ?thesis by (simp add: filter_id_conv)
  qed
  then have "(\<lambda>h. map_option (\<lambda>x. x\<lparr>sg_functions := filter (\<lambda>f. \<not> p f) (sg_functions x)\<rparr>) (sn_signals s h))
      = (sn_signals s)(g := Some (x\<lparr>sg_functions := filter (\<lambda>f. \<not> p f) (sg_functions x)\<rparr>))"
    using assms(2) by (auto simp: fun_eq_iff split: option.split intro!: option.map_ident_strong)
  then show ?thesis by (simp add: drop_functions_def)
qed

lemma Signal_unsubscribe_eq:
  assumes "functions_ok s" and "sn_signals s g \<noteq> None"
  shows "Signal_unsubscribe r g s = Some (drop_functions (\<lambda>f. signal_holds s g f \<and> of_receiver s r f) s)"
proof -
  obtain x where x: "sn_signals s g = Some x" using assms(2) by auto
  have d: "distinct (sg_functions x)" using functions_okD(1) [OF assms(1) x] om_inv_distinct [of "\<lambda>f. f"] by simp
  have h: "signal_holds s g f \<longleftrightarrow> f \<in> set (sg_functions x)" for f using x by (simp add: signal_holds_def)
  have "\<forall>f \<in> set (sg_functions x). sn_functions s f \<noteq> None" using functions_okD(2) [OF assms(1)] h by blast
  note pass = unsubscribe_pass [OF d this, of r]
  have "filter (\<lambda>f. \<not> (signal_holds s g f \<and> of_receiver s r f)) (sg_functions x) = filter (\<lambda>f. \<not> of_receiver s r f) (sg_functions x)"
    by (intro filter_cong) (simp_all add: h)
  then show ?thesis
    using drop_in_one [OF assms(1) x, of "\<lambda>f. signal_holds s g f \<and> of_receiver s r f"] x pass
    by (simp add: Signal_unsubscribe_def check_functions_def CheckObjects_eq_filter_pass h)
qed

definition stays :: "signals \<Rightarrow> nat \<Rightarrow> bool" where
  "stays s f \<longleftrightarrow> (\<exists>r. of_receiver s r f \<and> leaving s r)"

definition forget_signal :: "nat \<Rightarrow> receiver \<Rightarrow> receiver" where
  "forget_signal g x = (if rc_isRemove x then x else x\<lparr>rc_signals := filter (\<lambda>h. h \<noteq> g) (rc_signals x)\<rparr>)"

lemma forget_signal_idem [simp]: "forget_signal g (forget_signal g x) = forget_signal g x"
  by (simp add: forget_signal_def)

lemma unsubscribe_receivers_pass:
  assumes "distinct fs" and "\<forall>f \<in> set fs. \<exists>r. of_receiver s r f \<and> sn_receivers s r \<noteq> None"
    and "\<forall>r x. sn_receivers s r = Some x \<longrightarrow> om_inv (\<lambda>p. p) (rc_signals x)"
  shows "filter_pass (unsubsribeReceiver g) fs (Some s)
    = (filter (stays s) fs,
       Some (s\<lparr>sn_functions := (\<lambda>f. if f \<in> set fs \<and> \<not> stays s f then None else sn_functions s f),
               sn_receivers := (\<lambda>r. if \<exists>f \<in> set fs. of_receiver s r f then map_option (forget_signal g) (sn_receivers s r)
                                   else sn_receivers s r)\<rparr>))"
  using assms
proof (induction fs arbitrary: s)
  case (Cons f fs)
  obtain r type x where f: "sn_functions s f = Some (r, type)" and r: "sn_receivers s r = Some x"
    using Cons.prems(2) by (fastforce simp: of_receiver_def)
  have remove: "fst (ptr_remove g (rc_signals x)) = filter (\<lambda>h. h \<noteq> g) (rc_signals x)"
    using Cons.prems(3) r by (intro ptr_remove_filter) blast
  let ?s = "if rc_isRemove x then s else set_function f None (set_receiver r (Some (forget_signal g x)) s)"
  have first: "unsubsribeReceiver g f (Some s) = (\<not> rc_isRemove x, Some ?s)"
    using f r remove by (simp add: unsubsribeReceiver_def onRemoveSignal_def delete_function_def forget_signal_def)
  have stays_f: "stays s f \<longleftrightarrow> rc_isRemove x" using f r by (simp add: stays_def of_receiver_def leaving_def)
  have "leaving ?s q \<longleftrightarrow> leaving s q" for q using r by (simp add: leaving_def forget_signal_def)
  moreover have "of_receiver ?s q h \<longleftrightarrow> of_receiver s q h" if "h \<in> set fs" for q h
    using that Cons.prems(1) by (auto simp: of_receiver_def)
  ultimately have same: "of_receiver ?s q h \<longleftrightarrow> of_receiver s q h" "stays ?s h \<longleftrightarrow> stays s h" if "h \<in> set fs" for q h
    using that by (simp_all only: stays_def)
  have inv: "om_inv (\<lambda>p. p) (rc_signals (forget_signal g x))"
    using Cons.prems(3) r by (auto simp: forget_signal_def intro!: om_inv_filter)
  have "filter_pass (unsubsribeReceiver g) fs (Some ?s)
    = (filter (stays ?s) fs,
       Some (?s\<lparr>sn_functions := (\<lambda>f. if f \<in> set fs \<and> \<not> stays ?s f then None else sn_functions ?s f),
               sn_receivers := (\<lambda>r. if \<exists>f \<in> set fs. of_receiver ?s r f then map_option (forget_signal g) (sn_receivers ?s r)
                                   else sn_receivers ?s r)\<rparr>))"
  proof (rule Cons.IH)
    show "distinct fs" using Cons.prems(1) by simp
    show "\<forall>f \<in> set fs. \<exists>r. of_receiver ?s r f \<and> sn_receivers ?s r \<noteq> None"
      using Cons.prems(2) same(1) by fastforce
    show "\<forall>r x. sn_receivers ?s r = Some x \<longrightarrow> om_inv (\<lambda>p. p) (rc_signals x)"
      using Cons.prems(3) inv by simp
  qed
  moreover have "filter (stays ?s) fs = filter (stays s) fs" by (intro filter_cong) (simp_all add: same)
  moreover have "(\<lambda>h. if h \<in> set fs \<and> \<not> stays ?s h then None else sn_functions ?s h)
      = (\<lambda>h. if h \<in> set (f # fs) \<and> \<not> stays s h then None else sn_functions s h)"
    using same(2) stays_f by (auto simp: fun_eq_iff)
  moreover have "(\<lambda>q. if \<exists>h \<in> set fs. of_receiver ?s q h then map_option (forget_signal g) (sn_receivers ?s q) else sn_receivers ?s q)
      = (\<lambda>q. if \<exists>h \<in> set (f # fs). of_receiver s q h then map_option (forget_signal g) (sn_receivers s q) else sn_receivers s q)"
  proof
    fix q
    have "of_receiver s q f \<longleftrightarrow> q = r" using f by (auto simp: of_receiver_def)
    then show "(if \<exists>h \<in> set fs. of_receiver ?s q h then map_option (forget_signal g) (sn_receivers ?s q) else sn_receivers ?s q)
      = (if \<exists>h \<in> set (f # fs). of_receiver s q h then map_option (forget_signal g) (sn_receivers s q) else sn_receivers s q)"
      using r same(1) by (auto simp: forget_signal_def)
  qed
  ultimately show ?case using first stays_f by simp
qed simp

lemma remove_signals_pass:
  assumes "functions_ok s" and "\<forall>g \<in> set gs. sn_signals s g \<noteq> None"
  shows "filter_pass (removeSignals r) gs (Some s)
    = ([], Some (drop_functions (\<lambda>f. \<exists>g \<in> set gs. signal_holds s g f \<and> of_receiver s r f) s))"
  using assms
proof (induction gs arbitrary: s)
  case Nil
  then show ?case by (simp add: drop_functions_def option.map_ident_strong)
next
  case (Cons g gs)
  let ?s = "drop_functions (\<lambda>f. signal_holds s g f \<and> of_receiver s r f) s"
  have "filter_pass (removeSignals r) gs (Some ?s)
    = ([], Some (drop_functions (\<lambda>f. \<exists>g \<in> set gs. signal_holds ?s g f \<and> of_receiver ?s r f) ?s))"
    using Cons.prems by (intro Cons.IH) (auto simp: functions_ok_drop)
  moreover have "(\<lambda>f. (\<exists>g' \<in> set gs. signal_holds ?s g' f \<and> of_receiver ?s r f) \<or> signal_holds s g f \<and> of_receiver s r f)
      = (\<lambda>f. \<exists>g' \<in> set (g # gs). signal_holds s g' f \<and> of_receiver s r f)" by auto
  moreover have "removeSignals r g (Some s) = (True, Some ?s)"
    using Cons.prems by (simp add: removeSignals_def Signal_unsubscribe_eq)
  ultimately show ?case by (simp only: filter_pass.simps prod.case if_True drop_functions_drop)
qed

lemma check_signals_pass:
  assumes "\<forall>g \<in> set gs. sn_signals s g \<noteq> None"
  shows "filter_pass SignalManager_CheckSignal gs (Some (gone, s))
    = (filter (\<lambda>g. \<not> Signal_CheckSignal (the (sn_signals s g))) gs,
       Some (gone @ filter (\<lambda>g. Signal_CheckSignal (the (sn_signals s g))) gs, s))"
  using assms by (induction gs arbitrary: gone) (auto simp: SignalManager_CheckSignal_def)

section \<open>No pointer dangles\<close>

definition signals_ok :: "signals \<Rightarrow> bool" where
  "signals_ok s \<longleftrightarrow> functions_ok s \<and>
     (\<forall>r f. of_receiver s r f \<longrightarrow> sn_receivers s r \<noteq> None) \<and>
     (\<forall>r x. sn_receivers s r = Some x \<longrightarrow> om_inv (\<lambda>p. p) (rc_signals x) \<and>
        (\<forall>g. g \<in> set (rc_signals x) \<longleftrightarrow> (\<exists>f. signal_holds s g f \<and> of_receiver s r f))) \<and>
     om_inv (\<lambda>p. p) (sn_manager s) \<and> (\<forall>g. g \<in> set (sn_manager s) \<longleftrightarrow> sn_signals s g \<noteq> None)"

text \<open>The subscriptions: a signal's function, with its receiver and the message it is for.\<close>

definition subscriptions :: "signals \<Rightarrow> (nat \<times> nat \<times> nat \<times> string) set" where
  "subscriptions s = {(g, f, r, type). signal_holds s g f \<and> sn_functions s f = Some (r, type)}"

text \<open>What an event does to the subscriptions, as its caller sees it.\<close>

fun spec_subscriptions :: "signal_event \<Rightarrow> (nat \<Rightarrow> bool) \<Rightarrow> (nat \<times> nat \<times> nat \<times> string) set \<Rightarrow> (nat \<times> nat \<times> nat \<times> string) set" where
  "spec_subscriptions (Subscribes g r f type) left S = (if left r then S else insert (g, f, r, type) S)"
| "spec_subscriptions (Unsubscribes r g) left S = (if left r then S else {(h, f, q, type) \<in> S. h \<noteq> g \<or> q \<noteq> r})"
| "spec_subscriptions (OwnerDestroyed g) left S = {(h, f, q, type) \<in> S. h \<noteq> g \<or> left q}"
| "spec_subscriptions (ReceiverLeft r) left S = {(h, f, q, type) \<in> S. q \<noteq> r}"
| "spec_subscriptions _ left S = S"

lemma signals_okD:
  assumes "signals_ok s"
  shows "functions_ok s" and "of_receiver s r f \<Longrightarrow> sn_receivers s r \<noteq> None"
    and "sn_receivers s r = Some x \<Longrightarrow> om_inv (\<lambda>p. p) (rc_signals x)"
    and "sn_receivers s r = Some x \<Longrightarrow> g \<in> set (rc_signals x) \<longleftrightarrow> (\<exists>f. signal_holds s g f \<and> of_receiver s r f)"
    and "om_inv (\<lambda>p. p) (sn_manager s)" and "g \<in> set (sn_manager s) \<longleftrightarrow> sn_signals s g \<noteq> None"
  using assms unfolding signals_ok_def by blast+

lemma signals_okI:
  assumes "functions_ok s" and "\<And>r f. of_receiver s r f \<Longrightarrow> sn_receivers s r \<noteq> None"
    and "\<And>r x. sn_receivers s r = Some x \<Longrightarrow> om_inv (\<lambda>p. p) (rc_signals x)"
    and "\<And>r x g. sn_receivers s r = Some x \<Longrightarrow> g \<in> set (rc_signals x) \<longleftrightarrow> (\<exists>f. signal_holds s g f \<and> of_receiver s r f)"
    and "om_inv (\<lambda>p. p) (sn_manager s)" and "\<And>g. g \<in> set (sn_manager s) \<longleftrightarrow> sn_signals s g \<noteq> None"
  shows "signals_ok s"
  using assms unfolding signals_ok_def by blast

subsection \<open>Each operation\<close>

lemma drop_functions_receivers:
  "drop_functions p (s\<lparr>sn_receivers := R\<rparr>) = (drop_functions p s)\<lparr>sn_receivers := R\<rparr>"
  by (rule signals.equality) (simp_all add: drop_functions_def cong: if_cong)

lemma removeOwner_eq:
  assumes ok: "signals_ok s" and x: "sn_signals s g = Some x"
  shows "removeOwner g s = Some (drop_functions (\<lambda>f. signal_holds s g f \<and> \<not> stays s f)
    ((set_signal g (Some (x\<lparr>sg_owner := False\<rparr>)) s)\<lparr>sn_receivers := (\<lambda>r. map_option (forget_signal g) (sn_receivers s r))\<rparr>))"
proof -
  let ?s = "set_signal g (Some (x\<lparr>sg_owner := False\<rparr>)) s"
  have same: "signal_holds ?s = signal_holds s" "of_receiver ?s = of_receiver s" "stays ?s = stays s"
    using x by (auto simp: signal_holds_def of_receiver_def stays_def leaving_def fun_eq_iff)
  have h: "signal_holds s g f \<longleftrightarrow> f \<in> set (sg_functions x)" for f using x by (simp add: signal_holds_def)
  have sorted: "om_inv (\<lambda>f. f) (sg_functions x)" by (rule functions_okD(1) [OF signals_okD(1) [OF ok] x])
  have fok: "functions_ok ?s"
  proof (rule functions_okI)
    show "om_inv (\<lambda>f. f) (sg_functions y)" if "sn_signals ?s k = Some y" for k y
      using that sorted functions_okD(1) [OF signals_okD(1) [OF ok]] by (auto split: if_splits)
    show "sn_functions ?s f \<noteq> None \<longleftrightarrow> (\<exists>k. signal_holds ?s k f)" for f
      using functions_okD(2) [OF signals_okD(1) [OF ok]] by (simp add: same)
    show "signal_holds ?s k f \<Longrightarrow> signal_holds ?s l f \<Longrightarrow> k = l" for k l f
      using functions_okD(3) [OF signals_okD(1) [OF ok]] by (simp add: same)
  qed
  have pass: "filter_pass (unsubsribeReceiver g) (sg_functions x) (Some ?s)
    = (filter (stays s) (sg_functions x),
       Some (?s\<lparr>sn_functions := (\<lambda>f. if f \<in> set (sg_functions x) \<and> \<not> stays s f then None else sn_functions s f),
               sn_receivers := (\<lambda>r. if \<exists>f \<in> set (sg_functions x). of_receiver s r f then map_option (forget_signal g) (sn_receivers s r)
                                   else sn_receivers s r)\<rparr>))"
  proof -
    have "distinct (sg_functions x)" using om_inv_distinct [OF sorted] by simp
    moreover have "\<forall>f \<in> set (sg_functions x). \<exists>r. of_receiver ?s r f \<and> sn_receivers ?s r \<noteq> None"
    proof
      fix f assume "f \<in> set (sg_functions x)"
      then have "sn_functions s f \<noteq> None" using functions_okD(2) [OF signals_okD(1) [OF ok]] h by blast
      then obtain r where "of_receiver s r f" by (auto simp: of_receiver_def)
      then show "\<exists>r. of_receiver ?s r f \<and> sn_receivers ?s r \<noteq> None" using signals_okD(2) [OF ok] by (auto simp: same)
    qed
    moreover have "\<forall>r y. sn_receivers ?s r = Some y \<longrightarrow> om_inv (\<lambda>p. p) (rc_signals y)" using signals_okD(3) [OF ok] by simp
    moreover have "sn_functions ?s = sn_functions s" "sn_receivers ?s = sn_receivers s" by simp_all
    ultimately show ?thesis using unsubscribe_receivers_pass [of "sg_functions x" ?s g] by (simp only: same)
  qed
  have receivers: "(\<lambda>r. if \<exists>f \<in> set (sg_functions x). of_receiver s r f then map_option (forget_signal g) (sn_receivers s r) else sn_receivers s r)
    = (\<lambda>r. map_option (forget_signal g) (sn_receivers s r))"
  proof
    fix r
    show "(if \<exists>f \<in> set (sg_functions x). of_receiver s r f then map_option (forget_signal g) (sn_receivers s r) else sn_receivers s r)
      = map_option (forget_signal g) (sn_receivers s r)"
    proof (cases "\<exists>f \<in> set (sg_functions x). of_receiver s r f")
      case False
      then have "g \<notin> set (rc_signals y)" if "sn_receivers s r = Some y" for y using signals_okD(4) [OF ok that] h by blast
      then have "filter (\<lambda>h. h \<noteq> g) (rc_signals y) = rc_signals y" if "sn_receivers s r = Some y" for y
        using that by (auto simp: filter_id_conv)
      then show ?thesis using False by (cases "sn_receivers s r") (auto simp: forget_signal_def)
    qed simp
  qed
  have filters: "filter (\<lambda>f. \<not> (signal_holds s g f \<and> \<not> stays s f)) (sg_functions x) = filter (stays s) (sg_functions x)"
    by (intro filter_cong) (simp_all add: h)
  have dropped: "drop_functions (\<lambda>f. signal_holds s g f \<and> \<not> stays s f) ?s
    = (set_signal g (Some (x\<lparr>sg_owner := False, sg_functions := filter (stays s) (sg_functions x)\<rparr>)) s)
      \<lparr>sn_functions := (\<lambda>f. if signal_holds s g f \<and> \<not> stays s f then None else sn_functions s f)\<rparr>"
    using drop_in_one [OF fok, of g "x\<lparr>sg_owner := False\<rparr>" "\<lambda>f. signal_holds s g f \<and> \<not> stays s f"] filters
    by (simp add: h cong: if_cong)
  have "removeOwner g s = Some ((drop_functions (\<lambda>f. signal_holds s g f \<and> \<not> stays s f) ?s)
      \<lparr>sn_receivers := (\<lambda>r. map_option (forget_signal g) (sn_receivers s r))\<rparr>)"
    unfolding dropped using x by (simp add: removeOwner_def check_functions_def CheckObjects_eq_filter_pass pass receivers h)
  then show ?thesis by (simp add: drop_functions_receivers)
qed

lemma removeReceiver_end_eq:
  assumes ok: "signals_ok s" and x: "sn_receivers s r = Some x"
  shows "removeReceiver_end r s = Some (set_receiver r (Some (x\<lparr>rc_signals := []\<rparr>)) (drop_functions (of_receiver s r) s))"
proof -
  have "sn_signals s g \<noteq> None" if "g \<in> set (rc_signals x)" for g
    using signals_okD(4) [OF ok x, of g] that by (auto simp: signal_holds_def)
  moreover have "(\<lambda>f. \<exists>g \<in> set (rc_signals x). signal_holds s g f \<and> of_receiver s r f) = of_receiver s r"
  proof
    fix f
    have "\<exists>g. signal_holds s g f" if "of_receiver s r f"
      using functions_okD(2) [OF signals_okD(1) [OF ok], of f] that by (auto simp: of_receiver_def)
    then show "(\<exists>g \<in> set (rc_signals x). signal_holds s g f \<and> of_receiver s r f) = of_receiver s r f"
      using signals_okD(4) [OF ok x] by blast
  qed
  ultimately show ?thesis
    using remove_signals_pass [OF signals_okD(1) [OF ok], of "rc_signals x" r]
    by (simp add: removeReceiver_end_def x CheckObjects_eq_filter_pass)
qed

subsection \<open>Each operation keeps the invariant\<close>

lemma of_receiver_unique: "of_receiver s r f \<Longrightarrow> of_receiver s q f \<Longrightarrow> q = r"
  by (auto simp: of_receiver_def)

lemma signals_ok_drop:
  assumes ok: "signals_ok s" and R: "\<And>r. R r = None \<longleftrightarrow> sn_receivers s r = None"
    and sorted: "\<And>r x. R r = Some x \<Longrightarrow> om_inv (\<lambda>p. p) (rc_signals x)"
    and known: "\<And>r x g. R r = Some x \<Longrightarrow> g \<in> set (rc_signals x) \<longleftrightarrow> (\<exists>f. signal_holds s g f \<and> of_receiver s r f \<and> \<not> p f)"
  shows "signals_ok ((drop_functions p s)\<lparr>sn_receivers := R\<rparr>)" (is "signals_ok ?s")
proof (rule signals_okI)
  have same: "signal_holds ?s = signal_holds (drop_functions p s)" "of_receiver ?s = of_receiver (drop_functions p s)"
    by (simp_all add: signal_holds_def of_receiver_def fun_eq_iff)
  have d: "functions_ok (drop_functions p s)" by (rule functions_ok_drop [OF signals_okD(1) [OF ok]])
  show "functions_ok ?s"
  proof (rule functions_okI)
    show "om_inv (\<lambda>f. f) (sg_functions x)" if "sn_signals ?s g = Some x" for g x using functions_okD(1) [OF d, of g x] that by simp
    show "sn_functions ?s f \<noteq> None \<longleftrightarrow> (\<exists>g. signal_holds ?s g f)" for f using functions_okD(2) [OF d, of f] by (simp add: same)
    show "signal_holds ?s g f \<Longrightarrow> signal_holds ?s h f \<Longrightarrow> g = h" for g h f using functions_okD(3) [OF d, of g f h] by (simp add: same)
  qed
  show "of_receiver ?s r f \<Longrightarrow> sn_receivers ?s r \<noteq> None" for r f
    using signals_okD(2) [OF ok, of r f] R [of r] by (simp add: same)
  show "sn_receivers ?s r = Some x \<Longrightarrow> om_inv (\<lambda>p. p) (rc_signals x)" for r x using sorted [of r x] by simp
  show "g \<in> set (rc_signals x) \<longleftrightarrow> (\<exists>f. signal_holds ?s g f \<and> of_receiver ?s r f)" if "sn_receivers ?s r = Some x" for r x g
    using known [of r x g] that by (auto simp: same)
  show "om_inv (\<lambda>p. p) (sn_manager ?s)" using signals_okD(5) [OF ok] by simp
  show "g \<in> set (sn_manager ?s) \<longleftrightarrow> sn_signals ?s g \<noteq> None" for g using signals_okD(6) [OF ok, of g] by simp
qed

lemma subscriptions_drop:
  "subscriptions ((drop_functions p s)\<lparr>sn_receivers := R\<rparr>) = {(g, f, r, type) \<in> subscriptions s. \<not> p f}"
proof -
  have "signal_holds ((drop_functions p s)\<lparr>sn_receivers := R\<rparr>) g f \<longleftrightarrow> signal_holds s g f \<and> \<not> p f" for g f
    using drop_functions_sel(5) [of p s g f] by (simp add: signal_holds_def)
  then show ?thesis by (auto simp: subscriptions_def)
qed

lemma left_step:
  assumes ok: "signals_ok s" and x: "sn_receivers s r = Some x"
  shows "\<exists>s'. removeReceiver_end r s = Some s' \<and> signals_ok s' \<and> subscriptions s' = {(h, f, q, type) \<in> subscriptions s. q \<noteq> r} \<and>
    sn_calls s' = sn_calls s"
proof -
  let ?R = "(sn_receivers s)(r := Some (x\<lparr>rc_signals := []\<rparr>))"
  have "signals_ok ((drop_functions (of_receiver s r) s)\<lparr>sn_receivers := ?R\<rparr>)"
  proof (rule signals_ok_drop [OF ok])
    show "g \<in> set (rc_signals y) \<longleftrightarrow> (\<exists>f. signal_holds s g f \<and> of_receiver s q f \<and> \<not> of_receiver s r f)" if "?R q = Some y" for q y g
    proof (cases "q = r")
      case False
      then have "sn_receivers s q = Some y" using that by simp
      moreover have "of_receiver s q f \<and> \<not> of_receiver s r f \<longleftrightarrow> of_receiver s q f" for f
        using False of_receiver_unique by metis
      ultimately show ?thesis using signals_okD(4) [OF ok] by simp
    qed (use that in auto)
  qed (use x signals_okD(3) [OF ok] in \<open>auto split: if_splits\<close>)
  moreover have "{(h, f, q, type) \<in> subscriptions s. \<not> of_receiver s r f} = {(h, f, q, type) \<in> subscriptions s. q \<noteq> r}"
    by (auto simp: subscriptions_def of_receiver_def)
  ultimately show ?thesis
    using subscriptions_drop [of ?R "of_receiver s r" s] by (simp add: removeReceiver_end_eq [OF ok x])
qed

lemma unsubscribe_step:
  assumes ok: "signals_ok s" and x: "sn_receivers s r = Some x" and g: "sn_signals s g \<noteq> None"
  shows "\<exists>s'. removeSignal r g s = Some s' \<and> signals_ok s' \<and>
    subscriptions s' = (if rc_isRemove x then subscriptions s else {(h, f, q, type) \<in> subscriptions s. h \<noteq> g \<or> q \<noteq> r}) \<and>
    sn_calls s' = sn_calls s"
proof (cases "rc_isRemove x")
  case False
  let ?R = "(sn_receivers s)(r := Some (x\<lparr>rc_signals := filter (\<lambda>h. h \<noteq> g) (rc_signals x)\<rparr>))"
  let ?p = "\<lambda>f. signal_holds s g f \<and> of_receiver s r f"
  have sorted: "om_inv (\<lambda>p. p) (rc_signals x)" by (rule signals_okD(3) [OF ok x])
  have fok: "functions_ok (s\<lparr>sn_receivers := ?R\<rparr>)" using signals_okD(1) [OF ok] by (simp add: functions_ok_def signal_holds_def)
  have "removeSignal r g s = Some ((drop_functions ?p s)\<lparr>sn_receivers := ?R\<rparr>)"
    using Signal_unsubscribe_eq [OF fok, of g r] g False x
    by (simp add: removeSignal_def ptr_remove_filter [OF sorted] drop_functions_receivers signal_holds_def of_receiver_def)
  moreover have "signals_ok ((drop_functions ?p s)\<lparr>sn_receivers := ?R\<rparr>)"
  proof (rule signals_ok_drop [OF ok])
    show "h \<in> set (rc_signals y) \<longleftrightarrow> (\<exists>f. signal_holds s h f \<and> of_receiver s q f \<and> \<not> ?p f)" if y: "?R q = Some y" for q y h
    proof (cases "q = r")
      case True
      then have "h \<in> set (rc_signals y) \<longleftrightarrow> h \<noteq> g \<and> h \<in> set (rc_signals x)" using y by auto
      also have "\<dots> \<longleftrightarrow> h \<noteq> g \<and> (\<exists>f. signal_holds s h f \<and> of_receiver s r f)" using signals_okD(4) [OF ok x] by simp
      also have "\<dots> \<longleftrightarrow> (\<exists>f. signal_holds s h f \<and> of_receiver s q f \<and> \<not> ?p f)"
        using True functions_okD(3) [OF signals_okD(1) [OF ok]] by blast
      finally show ?thesis .
    next
      case False
      then have "sn_receivers s q = Some y" using y by simp
      moreover have "of_receiver s q f \<and> \<not> ?p f \<longleftrightarrow> of_receiver s q f" for f using False of_receiver_unique by metis
      ultimately show ?thesis using signals_okD(4) [OF ok] by simp
    qed
  qed (use x signals_okD(3) [OF ok] in \<open>auto split: if_splits intro!: om_inv_filter\<close>)
  moreover have "{(h, f, q, type) \<in> subscriptions s. \<not> ?p f} = {(h, f, q, type) \<in> subscriptions s. h \<noteq> g \<or> q \<noteq> r}"
    using functions_okD(3) [OF signals_okD(1) [OF ok]] by (auto simp: subscriptions_def of_receiver_def)
  ultimately show ?thesis using False subscriptions_drop [of ?R ?p s] by simp
qed (use assms in \<open>simp add: removeSignal_def\<close>)

text \<open>The owner of a signal does not matter to the invariant.\<close>

lemma signals_ok_owner:
  assumes ok: "signals_ok s" and x: "sn_signals s g = Some x"
  shows "signals_ok (set_signal g (Some (x\<lparr>sg_owner := b\<rparr>)) s)" (is "signals_ok ?s")
    and "subscriptions (set_signal g (Some (x\<lparr>sg_owner := b\<rparr>)) s) = subscriptions s"
    and "signal_holds (set_signal g (Some (x\<lparr>sg_owner := b\<rparr>)) s) = signal_holds s"
proof -
  show h: "signal_holds ?s = signal_holds s" using x by (auto simp: signal_holds_def fun_eq_iff)
  then show "subscriptions ?s = subscriptions s" by (simp add: subscriptions_def)
  have r: "of_receiver ?s = of_receiver s" by (simp add: of_receiver_def fun_eq_iff)
  show "signals_ok ?s"
  proof (rule signals_okI)
    show "functions_ok ?s"
    proof (rule functions_okI)
      show "om_inv (\<lambda>f. f) (sg_functions y)" if "sn_signals ?s k = Some y" for k y
        using that functions_okD(1) [OF signals_okD(1) [OF ok]] x by (auto split: if_splits)
    qed (use functions_okD(2,3) [OF signals_okD(1) [OF ok]] in \<open>simp_all add: h\<close>)
  qed (use signals_okD [OF ok] x in \<open>simp_all add: h r\<close>)
qed

lemma owner_step:
  assumes ok: "signals_ok s" and x: "sn_signals s g = Some x"
  shows "\<exists>s'. removeOwner g s = Some s' \<and> signals_ok s' \<and> subscriptions s' = {(h, f, q, type) \<in> subscriptions s. h \<noteq> g \<or> leaving s q} \<and>
    sn_calls s' = sn_calls s"
proof -
  let ?s = "set_signal g (Some (x\<lparr>sg_owner := False\<rparr>)) s" and ?p = "\<lambda>f. signal_holds s g f \<and> \<not> stays s f"
  let ?R = "\<lambda>r. map_option (forget_signal g) (sn_receivers s r)"
  note ok' = signals_ok_owner [OF ok x, of False]
  have r: "of_receiver ?s = of_receiver s" by (simp add: of_receiver_def fun_eq_iff)
  have stays: "stays s f \<longleftrightarrow> leaving s q" if "of_receiver s q f" for q f
    using that of_receiver_unique by (auto simp: stays_def)
  have "signals_ok ((drop_functions ?p ?s)\<lparr>sn_receivers := ?R\<rparr>)"
  proof (rule signals_ok_drop [OF ok'(1)])
    fix q y assume y: "?R q = Some y"
    then obtain z where z: "sn_receivers s q = Some z" "y = forget_signal g z" by auto
    show "om_inv (\<lambda>p. p) (rc_signals y)" using signals_okD(3) [OF ok z(1)] z(2) by (auto simp: forget_signal_def intro!: om_inv_filter)
    show "h \<in> set (rc_signals y) \<longleftrightarrow> (\<exists>f. signal_holds ?s h f \<and> of_receiver ?s q f \<and> \<not> ?p f)" for h
    proof -
      have "h \<in> set (rc_signals y) \<longleftrightarrow> (leaving s q \<or> h \<noteq> g) \<and> (\<exists>f. signal_holds s h f \<and> of_receiver s q f)"
        using signals_okD(4) [OF ok z(1), of h] z by (auto simp: forget_signal_def leaving_def)
      also have "\<dots> \<longleftrightarrow> (\<exists>f. signal_holds s h f \<and> of_receiver s q f \<and> \<not> ?p f)"
        using functions_okD(3) [OF signals_okD(1) [OF ok]] stays by blast
      finally show ?thesis by (simp only: ok'(3) r)
    qed
  qed simp
  moreover have "{(h, f, q, type) \<in> subscriptions s. \<not> ?p f} = {(h, f, q, type) \<in> subscriptions s. h \<noteq> g \<or> leaving s q}"
    using functions_okD(3) [OF signals_okD(1) [OF ok]] stays by (fastforce simp: subscriptions_def of_receiver_def)
  ultimately show ?thesis
    using subscriptions_drop [of ?R ?p ?s] ok'(2) by (simp add: removeOwner_eq [OF ok x] drop_functions_receivers)
qed

lemma set_ptr_add: "om_inv (\<lambda>p. p) ps \<Longrightarrow> set (fst (ptr_add p ps)) = insert p (set ps)"
proof (cases "p \<in> set ps")
  case True
  assume "om_inv (\<lambda>p. p) ps"
  with True show ?thesis using ptrs.AddObject_present [of ps p] by (auto simp: om_lookup_None_iff)
next
  case False
  assume "om_inv (\<lambda>p. p) ps"
  with False show ?thesis using mset_ptr_add [of ps p] by (metis set_mset_add_mset_insert set_mset_mset)
qed

lemma subscribe_step:
  assumes ok: "signals_ok s" and x: "sn_receivers s r = Some x" and y: "sn_signals s g = Some y" and f: "sn_functions s f = None"
  shows "\<exists>s'. addSubscriber g r f type s = Some s' \<and> signals_ok s' \<and>
    subscriptions s' = (if rc_isRemove x then subscriptions s else insert (g, f, r, type) (subscriptions s)) \<and>
    sn_calls s' = sn_calls s"
proof (cases "rc_isRemove x")
  case True
  have "set_function f None (set_function f (Some (r, type)) s) = s" using f by (simp add: fun_upd_idem)
  then show ?thesis using True ok x by (simp add: addSubscriber_def addSignal_def delete_function_def)
next
  case False
  let ?x = "x\<lparr>rc_signals := fst (ptr_add g (rc_signals x))\<rparr>" and ?y = "y\<lparr>sg_functions := fst (ptr_add f (sg_functions y))\<rparr>"
  let ?s = "set_signal g (Some ?y) (set_receiver r (Some ?x) (set_function f (Some (r, type)) s))"
  have sorted: "om_inv (\<lambda>p. p) (rc_signals x)" "om_inv (\<lambda>p. p) (sg_functions y)"
    using signals_okD(3) [OF ok x] functions_okD(1) [OF signals_okD(1) [OF ok] y] by simp_all
  have free: "\<not> signal_holds s k f" "\<not> of_receiver s q f" for k q
    using functions_okD(2) [OF signals_okD(1) [OF ok], of f] f by (auto simp: of_receiver_def)
  have h: "signal_holds ?s k e \<longleftrightarrow> signal_holds s k e \<or> k = g \<and> e = f" for k e
    using y set_ptr_add [OF sorted(2)] by (auto simp: signal_holds_def)
  have o: "of_receiver ?s q e \<longleftrightarrow> of_receiver s q e \<or> q = r \<and> e = f" for q e
    using f by (auto simp: of_receiver_def)
  have "signals_ok ?s"
  proof (rule signals_okI)
    show "functions_ok ?s"
    proof (rule functions_okI)
      show "om_inv (\<lambda>f. f) (sg_functions z)" if "sn_signals ?s k = Some z" for k z
        using that functions_okD(1) [OF signals_okD(1) [OF ok], of k z] ptrs.add_inv [OF sorted(2)] by (auto split: if_splits)
      show "sn_functions ?s e \<noteq> None \<longleftrightarrow> (\<exists>k. signal_holds ?s k e)" for e
        unfolding h using functions_okD(2) [OF signals_okD(1) [OF ok], of e] by auto
      show "signal_holds ?s k e \<Longrightarrow> signal_holds ?s l e \<Longrightarrow> k = l" for k l e
        unfolding h using functions_okD(3) [OF signals_okD(1) [OF ok], of k e l] free by auto
    qed
    show "of_receiver ?s q e \<Longrightarrow> sn_receivers ?s q \<noteq> None" for q e unfolding o using signals_okD(2) [OF ok, of q e] x by auto
    fix q z assume z: "sn_receivers ?s q = Some z"
    show "om_inv (\<lambda>p. p) (rc_signals z)"
      using z signals_okD(3) [OF ok, of q z] ptrs.add_inv [OF sorted(1)] by (auto split: if_splits)
    show "k \<in> set (rc_signals z) \<longleftrightarrow> (\<exists>e. signal_holds ?s k e \<and> of_receiver ?s q e)" for k
    proof (cases "q = r")
      case True
      then have "k \<in> set (rc_signals z) \<longleftrightarrow> k = g \<or> k \<in> set (rc_signals x)" using z set_ptr_add [OF sorted(1)] by auto
      then show ?thesis unfolding h o using signals_okD(4) [OF ok x, of k] True free by auto
    next
      case False
      then show ?thesis unfolding h o using signals_okD(4) [OF ok, of q z k] z free by auto
    qed
  qed (use signals_okD(5,6) [OF ok] y in auto)
  moreover have "addSubscriber g r f type s = Some ?s"
    using False x y by (simp add: addSubscriber_def addSignal_def Signal_subscribe_def)
  moreover have "subscriptions ?s = insert (g, f, r, type) (subscriptions s)"
    unfolding subscriptions_def h using free f by (auto split: if_splits)
  ultimately show ?thesis using False by auto
qed

text \<open>The operations that change no subscription.\<close>

lemma same_subscriptions:
  assumes "\<And>g. map_option sg_functions (sn_signals s' g) = map_option sg_functions (sn_signals s g) \<or>
      sg_functions (the (sn_signals s g)) = [] \<and> sn_signals s' g = None \<or> sn_signals s g = None \<and> sg_functions (the (sn_signals s' g)) = []"
    and "sn_functions s' = sn_functions s"
  shows "signal_holds s' = signal_holds s" and "of_receiver s' = of_receiver s" and "subscriptions s' = subscriptions s"
proof -
  have "signal_holds s' g f \<longleftrightarrow> signal_holds s g f" for g f
    using assms(1) [of g] by (cases "sn_signals s g"; cases "sn_signals s' g") (auto simp: signal_holds_def)
  then show "signal_holds s' = signal_holds s" by (simp add: fun_eq_iff)
  with assms(2) show "subscriptions s' = subscriptions s" by (simp add: subscriptions_def)
  show "of_receiver s' = of_receiver s" using assms(2) by (simp add: of_receiver_def fun_eq_iff)
qed

lemma signals_ok_same:
  assumes ok: "signals_ok s" and h: "signal_holds s' = signal_holds s" and r: "of_receiver s' = of_receiver s"
    and f: "sn_functions s' = sn_functions s"
    and "\<And>g x. sn_signals s' g = Some x \<Longrightarrow> om_inv (\<lambda>f. f) (sg_functions x)"
    and "\<And>r f. of_receiver s r f \<Longrightarrow> sn_receivers s' r \<noteq> None"
    and "\<And>r x. sn_receivers s' r = Some x \<Longrightarrow> om_inv (\<lambda>p. p) (rc_signals x)"
    and "\<And>r x g. sn_receivers s' r = Some x \<Longrightarrow> g \<in> set (rc_signals x) \<longleftrightarrow> (\<exists>f. signal_holds s g f \<and> of_receiver s r f)"
    and "om_inv (\<lambda>p. p) (sn_manager s')" and "\<And>g. g \<in> set (sn_manager s') \<longleftrightarrow> sn_signals s' g \<noteq> None"
  shows "signals_ok s'"
proof (rule signals_okI)
  show "functions_ok s'"
    by (rule functions_okI) (use assms(5) functions_okD(2,3) [OF signals_okD(1) [OF ok]] in \<open>simp_all add: h f\<close>)
qed (use assms(6-10) in \<open>simp_all add: h r\<close>)

lemma new_owner_step:
  assumes ok: "signals_ok s" and g: "sn_signals s g = None"
  shows "signals_ok (Signal_new g s) \<and> subscriptions (Signal_new g s) = subscriptions s"
proof -
  let ?s = "Signal_new g s"
  have sel: "sn_functions ?s = sn_functions s" "sn_receivers ?s = sn_receivers s"
    "sn_signals ?s = (sn_signals s)(g \<mapsto> \<lparr>sg_owner = True, sg_functions = []\<rparr>)" "sn_manager ?s = fst (ptr_add g (sn_manager s))"
    by (simp_all add: Signal_new_def)
  have same: "signal_holds ?s = signal_holds s" "of_receiver ?s = of_receiver s" "subscriptions ?s = subscriptions s"
    by (rule same_subscriptions; auto simp: sel g)+
  have "signals_ok ?s"
    by (rule signals_ok_same [OF ok same(1,2) sel(1)])
      (use signals_okD [OF ok] functions_okD(1) [OF signals_okD(1) [OF ok]] ptrs.add_inv [OF signals_okD(5) [OF ok], of g]
        in \<open>auto simp: sel set_ptr_add split: if_splits\<close>)
  with same(3) show ?thesis by simp
qed

lemma receiver_steps:
  assumes ok: "signals_ok s"
  shows "sn_receivers s r = None \<Longrightarrow> signals_ok (set_receiver r (Some \<lparr>rc_signals = [], rc_isRemove = False\<rparr>) s)"
    and "sn_receivers s r = Some x \<Longrightarrow> signals_ok (set_receiver r (Some (x\<lparr>rc_isRemove := True\<rparr>)) s)"
    and "gone_receiver r s \<Longrightarrow> signals_ok (set_receiver r None s)"
    and "subscriptions (set_receiver r z s) = subscriptions s"
proof -
  have same: "signal_holds (set_receiver r z s) = signal_holds s" "of_receiver (set_receiver r z s) = of_receiver s"
    "subscriptions (set_receiver r z s) = subscriptions s" for z
    by (rule same_subscriptions; simp)+
  show "subscriptions (set_receiver r z s) = subscriptions s" by (rule same(3))
  note keep = signals_ok_same [OF ok same(1,2)]
  show "sn_receivers s r = None \<Longrightarrow> signals_ok (set_receiver r (Some \<lparr>rc_signals = [], rc_isRemove = False\<rparr>) s)"
  proof (rule keep)
    fix q x g assume n: "sn_receivers s r = None"
      and x: "sn_receivers (set_receiver r (Some \<lparr>rc_signals = [], rc_isRemove = False\<rparr>) s) q = Some x"
    show "g \<in> set (rc_signals x) \<longleftrightarrow> (\<exists>f. signal_holds s g f \<and> of_receiver s q f)"
      using x n signals_okD(4) [OF ok, of q x g] signals_okD(2) [OF ok, of r] by (auto split: if_splits)
  qed (use signals_okD [OF ok] functions_okD(1) [OF signals_okD(1) [OF ok]] in \<open>auto split: if_splits\<close>)
  show "sn_receivers s r = Some x \<Longrightarrow> signals_ok (set_receiver r (Some (x\<lparr>rc_isRemove := True\<rparr>)) s)"
    by (rule keep) (use signals_okD [OF ok] functions_okD(1) [OF signals_okD(1) [OF ok]] in \<open>auto split: if_splits\<close>)
  show "signals_ok (set_receiver r None s)" if gone: "gone_receiver r s"
  proof (rule keep)
    obtain y where y: "sn_receivers s r = Some y" "rc_signals y = []" using gone by (auto simp: gone_receiver_def)
    show "sn_receivers (set_receiver r None s) q \<noteq> None" if "of_receiver s q f" for q f
    proof -
      have "sn_functions s f \<noteq> None" using that by (auto simp: of_receiver_def)
      then obtain g where "signal_holds s g f" using functions_okD(2) [OF signals_okD(1) [OF ok], of f] by blast
      then have "q \<noteq> r" using signals_okD(4) [OF ok y(1), of g] y(2) that by auto
      then show ?thesis using signals_okD(2) [OF ok that] by simp
    qed
  qed (use signals_okD [OF ok] functions_okD(1) [OF signals_okD(1) [OF ok]] in \<open>auto split: if_splits\<close>)
qed

lemma manager_step:
  assumes ok: "signals_ok s"
  shows "\<exists>s'. SignalManager_ManagerFunc s = Some s' \<and> signals_ok s' \<and> subscriptions s' = subscriptions s \<and>
    sn_calls s' = sn_calls s"
proof -
  let ?dead = "\<lambda>g. Signal_CheckSignal (the (sn_signals s g))" and ?ms = "sn_manager s"
  let ?s = "s\<lparr>sn_signals := (\<lambda>g. if g \<in> set ?ms \<and> ?dead g then None else sn_signals s g), sn_manager := filter (\<lambda>g. \<not> ?dead g) ?ms\<rparr>"
  have "fold (\<lambda>g. set_signal g None) gs t = t\<lparr>sn_signals := (\<lambda>g. if g \<in> set gs then None else sn_signals t g)\<rparr>" for gs t
    by (induction gs arbitrary: t) (auto simp: fun_eq_iff)
  then have eq: "SignalManager_ManagerFunc s = Some ?s"
    using check_signals_pass [of ?ms s "[]"] signals_okD(6) [OF ok]
    by (simp add: SignalManager_ManagerFunc_def CheckObjects_eq_filter_pass)
  have same: "signal_holds ?s = signal_holds s" "of_receiver ?s = of_receiver s" "subscriptions ?s = subscriptions s"
    by (rule same_subscriptions; auto simp: Signal_CheckSignal_def)+
  have "signals_ok ?s"
    by (rule signals_ok_same [OF ok same(1,2)])
      (use signals_okD [OF ok] functions_okD(1) [OF signals_okD(1) [OF ok]] in \<open>auto intro!: om_inv_filter split: if_splits\<close>)
  with eq same(3) show ?thesis by simp
qed

lemma signal_pass:
  assumes "\<forall>f \<in> set fs. \<exists>r type. sn_functions s f = Some (r, type) \<and> sn_receivers s r \<noteq> None"
  shows "ProcessingObjects (onSignalFunc name) fs (Some s)
    = Some (s\<lparr>sn_calls := sn_calls s @ map (\<lambda>f. (fst (the (sn_functions s f)), name))
        (filter (\<lambda>f. snd (the (sn_functions s f)) = name) fs)\<rparr>)"
  using assms
proof (induction fs arbitrary: s)
  case (Cons f fs)
  then obtain r type where f: "sn_functions s f = Some (r, type)" "sn_receivers s r \<noteq> None" by auto
  show ?case
  proof (cases "type = name")
    case True
    have "ProcessingObjects (onSignalFunc name) fs (Some (s\<lparr>sn_calls := sn_calls s @ [(r, name)]\<rparr>))
      = Some (s\<lparr>sn_calls := (sn_calls s @ [(r, name)]) @ map (\<lambda>f. (fst (the (sn_functions s f)), name))
        (filter (\<lambda>f. snd (the (sn_functions s f)) = name) fs)\<rparr>)"
      using Cons.IH [of "s\<lparr>sn_calls := sn_calls s @ [(r, name)]\<rparr>"] Cons.prems by simp
    moreover have "onSignalFunc name f (Some s) = Some (s\<lparr>sn_calls := sn_calls s @ [(r, name)]\<rparr>)"
      using True f by (auto simp: onSignalFunc_def)
    ultimately show ?thesis using True f by simp
  next
    case False
    then have "onSignalFunc name f (Some s) = Some s" using f by (simp add: onSignalFunc_def)
    with False f Cons show ?thesis by simp
  qed
qed simp

lemma count_map: "count (mset (map h xs)) y = length (filter (\<lambda>x. h x = y) xs)"
  by (induction xs) auto

text \<open>What an event calls: for a signal, every subscription to that message of the signal.\<close>

fun spec_calls :: "signal_event \<Rightarrow> (nat \<times> nat \<times> nat \<times> string) set \<Rightarrow> nat \<times> string \<Rightarrow> nat" where
  "spec_calls (Signals g name) S (r, n) = (if n = name then card {f. (g, f, r, name) \<in> S} else 0)"
| "spec_calls _ S c = 0"

lemma signal_step:
  assumes ok: "signals_ok s" and x: "sn_signals s g = Some x"
  shows "\<exists>calls. Signal_onSignal name g s = Some (s\<lparr>sn_calls := sn_calls s @ calls\<rparr>) \<and>
    (\<forall>c. count (mset calls) c = spec_calls (Signals g name) (subscriptions s) c)"
proof -
  let ?fs = "filter (\<lambda>f. snd (the (sn_functions s f)) = name) (sg_functions x)"
  let ?calls = "map (\<lambda>f. (fst (the (sn_functions s f)), name)) ?fs"
  have alive: "\<exists>r type. sn_functions s f = Some (r, type) \<and> sn_receivers s r \<noteq> None" if "f \<in> set (sg_functions x)" for f
  proof -
    have "signal_holds s g f" using x that by (simp add: signal_holds_def)
    then obtain r type where "sn_functions s f = Some (r, type)"
      using functions_okD(2) [OF signals_okD(1) [OF ok], of f] by fastforce
    then show ?thesis using signals_okD(2) [OF ok, of r f] by (auto simp: of_receiver_def)
  qed
  have "distinct (sg_functions x)" using om_inv_distinct [OF functions_okD(1) [OF signals_okD(1) [OF ok] x]] by simp
  then have d: "distinct ?fs" by simp
  have "count (mset ?calls) (r, n) = (if n = name then card {f. (g, f, r, name) \<in> subscriptions s} else 0)" for r n
  proof (cases "n = name")
    case True
    have "count (mset ?calls) (r, name) = length (filter (\<lambda>f. fst (the (sn_functions s f)) = r) ?fs)"
      unfolding count_map by simp
    also have "\<dots> = card (set (filter (\<lambda>f. fst (the (sn_functions s f)) = r) ?fs))"
      using d by (simp only: distinct_card distinct_filter)
    also have "set (filter (\<lambda>f. fst (the (sn_functions s f)) = r) ?fs) = {f. (g, f, r, name) \<in> subscriptions s}"
      using alive x by (force simp: subscriptions_def signal_holds_def)
    finally show ?thesis using True by simp
  next
    case False
    then have "(r, n) \<notin> set ?calls" by auto
    then have "count (mset ?calls) (r, n) = 0" unfolding count_mset_0_iff .
    with False show ?thesis by (simp only: if_False)
  qed
  then have "\<forall>c. count (mset ?calls) c = spec_calls (Signals g name) (subscriptions s) c"
    by (simp add: split_paired_All del: mset_map)
  moreover have "Signal_onSignal name g s = Some (s\<lparr>sn_calls := sn_calls s @ ?calls\<rparr>)"
    using signal_pass alive x by (simp add: Signal_onSignal_def)
  ultimately show ?thesis by blast
qed

lemma signals_ok_calls: "signals_ok s \<Longrightarrow> signals_ok (s\<lparr>sn_calls := c\<rparr>)"
  by (simp add: signals_ok_def functions_ok_def signal_holds_def of_receiver_def)

lemma subscriptions_calls [simp]: "subscriptions (s\<lparr>sn_calls := c\<rparr>) = subscriptions s"
  by (simp add: subscriptions_def signal_holds_def)

lemma signal_do_ok:
  assumes "signals_ok s" and "signal_allowed e s"
  shows "\<exists>s' calls. signal_do e s = Some s' \<and> signals_ok s' \<and>
    subscriptions s' = spec_subscriptions e (leaving s) (subscriptions s) \<and>
    sn_calls s' = sn_calls s @ calls \<and> (\<forall>c. count (mset calls) c = spec_calls e (subscriptions s) c)"
proof (cases e)
  case (NewOwner g)
  then show ?thesis using new_owner_step [OF assms(1), of g] assms(2) by (auto simp: Signal_new_def)
next
  case (NewReceiver r)
  then show ?thesis using receiver_steps(1,4) [OF assms(1), of r] assms(2) by simp
next
  case (Subscribes g r f type)
  then show ?thesis using subscribe_step [OF assms(1), of r _ g _ f type] assms(2)
    by (fastforce simp: owned_def leaving_def)
next
  case (Unsubscribes r g)
  then show ?thesis using unsubscribe_step [OF assms(1), of r _ g] assms(2) by (fastforce simp: owned_def leaving_def)
next
  case (OwnerDestroyed g)
  then show ?thesis using owner_step [OF assms(1), of g] assms(2) by (fastforce simp: owned_def)
next
  case (ReceiverLeaves r)
  then show ?thesis using receiver_steps(2,4) [OF assms(1), of r] assms(2) by (auto simp: removeReceiver_begin_def)
next
  case (ReceiverLeft r)
  then show ?thesis using left_step [OF assms(1), of r] assms(2) by fastforce
next
  case (ReceiverFreed r)
  then show ?thesis using receiver_steps(3,4) [OF assms(1), of r] assms(2) by simp
next
  case (Signals g name)
  then obtain x where "sn_signals s g = Some x" using assms(2) by (auto simp: owned_def)
  from signal_step [OF assms(1) this, of name] obtain calls where
    "Signal_onSignal name g s = Some (s\<lparr>sn_calls := sn_calls s @ calls\<rparr>)"
    "\<forall>c. count (mset calls) c = spec_calls e (subscriptions s) c" unfolding Signals by blast
  then show ?thesis using Signals assms(1) 
    by (intro exI [of _ "s\<lparr>sn_calls := sn_calls s @ calls\<rparr>"] exI [of _ calls])
      (auto simp: signals_ok_calls simp del: spec_calls.simps)
next
  case ManagerRuns
  then show ?thesis using manager_step [OF assms(1)] by fastforce
qed

lemma signals_ok_new: "signals_ok new_signals"
  by (simp add: signals_ok_def functions_ok_def new_signals_def signal_holds_def of_receiver_def)

lemma signal_runs_ok: "signal_runs so \<Longrightarrow> \<exists>s. so = Some s \<and> signals_ok s"
proof (induction rule: signal_runs.induct)
  case (2 s e)
  then show ?case using signal_do_ok [of s e] by fastforce
qed (simp add: signals_ok_new)

text \<open>An owner with one subscriber.\<close>

definition demo_signals :: signals where
  "demo_signals = \<lparr>sn_signals = [1 \<mapsto> \<lparr>sg_owner = True, sg_functions = [3]\<rparr>],
     sn_receivers = [2 \<mapsto> \<lparr>rc_signals = [1], rc_isRemove = False\<rparr>], sn_functions = [3 \<mapsto> (2, ''m'')],
     sn_manager = [1], sn_calls = []\<rparr>"

lemma demo_signals_runs: "signal_runs (Some demo_signals)"
proof -
  let ?s1 = "Signal_new 1 new_signals" and ?r = "Some \<lparr>rc_signals = [], rc_isRemove = False\<rparr>"
  note simps = Signal_new_def new_signals_def owned_def AddObject_def lower_bound_def vec_insert_def
  have "signal_runs (Some ?s1)" using signal_runs.intros(2) [OF signal_runs.intros(1), of "NewOwner 1"] by (simp add: simps)
  then have "signal_runs (Some (set_receiver 2 ?r ?s1))"
    using signal_runs.intros(2) [of ?s1 "NewReceiver 2"] by (simp add: simps)
  then have "signal_runs (signal_do (Subscribes 1 2 3 ''m'') (set_receiver 2 ?r ?s1))"
    by (rule signal_runs.intros(2)) (simp add: simps)
  moreover have "signal_do (Subscribes 1 2 3 ''m'') (set_receiver 2 ?r ?s1) = Some demo_signals"
    by (simp add: simps demo_signals_def addSubscriber_def addSignal_def Signal_subscribe_def)
  ultimately show ?thesis by simp
qed



text \<open>
  C10: what a signal does for its subscribers. Every operation succeeds in every state a run can
  reach and changes the subscriptions exactly as its caller sees it: a receiver that is leaving
  gets no new ones, an owner that is destroyed takes all with it but those of leaving receivers,
  which take their own. Signalling a message calls every receiver once for each of its
  subscriptions to that message of that owner, and nothing else calls anybody.
\<close>

theorem signals_refine_subscriptions:
  assumes "signal_runs (Some s)" and "signal_allowed e s"
  shows "\<exists>s' calls. signal_do e s = Some s' \<and>
    subscriptions s' = spec_subscriptions e (leaving s) (subscriptions s) \<and>
    sn_calls s' = sn_calls s @ calls \<and> (\<forall>c. count (mset calls) c = spec_calls e (subscriptions s) c)"
  using signal_runs_ok [OF assms(1)] signal_do_ok [OF _ assms(2)] by auto

theorem signals_refine_subscriptions_witness:
  "\<exists>s' calls. signal_do (Signals 1 ''m'') demo_signals = Some s' \<and> sn_calls s' = calls \<and> count (mset calls) (2, ''m'') = 1"
proof -
  have "signal_allowed (Signals 1 ''m'') demo_signals" by (simp add: demo_signals_def owned_def)
  from signals_refine_subscriptions [OF demo_signals_runs this] obtain s' calls where
    c: "signal_do (Signals 1 ''m'') demo_signals = Some s'" "sn_calls s' = sn_calls demo_signals @ calls"
      "\<forall>c. count (mset calls) c = spec_calls (Signals 1 ''m'') (subscriptions demo_signals) c" by blast
  have "{f. (1, f, 2, ''m'') \<in> subscriptions demo_signals} = {3}"
    by (auto simp: subscriptions_def demo_signals_def signal_holds_def split: if_splits)
  then have "count (mset calls) (2, ''m'') = 1" using c(3) [rule_format, of "(2, ''m'')"] by simp
  then show ?thesis using c(1,2) by (simp add: demo_signals_def)
qed

end
