(* ===== verification/Twainet_Module.thy ===== *)
theory Twainet_Module
  imports Tunnel_Module Threads
begin

text \<open>
  The module behind the C interface (\<open>twainet/module/twainet_module.cpp\<close>): a tunnel module whose
  callbacks become notifications to the application, with calls that wait for an answer. The
  notifications are appended to \<open>tw_notifications\<close>; the objects of the calls that wait live on the
  stacks of their threads and are the elements of \<open>tw_waiting\<close>.
\<close>

section \<open>Notifications\<close>

datatype creation_type = CREATION_MODULE | CREATION_SERVER | CREATION_TUNNEL

datatype notification =
    N_ClientServerConnected string bool
  | N_ModuleConnected string
  | N_TunnelConnected string type_connection
  | N_ModuleDisconnected string
  | N_ConnectionFailed string
  | N_GettingMessage string "string list" string
  | N_CreationFailed creation_type
  | N_TunnelCreationFailed string
  | N_AuthFailed
  | N_InternalConnectionStatusChanged string connection_status int
  | N_ModuleListChanged

section \<open>The module\<close>

record wait_data =
  wd_messageName :: string
  wd_from :: ipc_name
  wd_semaphore :: nat
  wd_data :: string

definition WaitData :: "string \<Rightarrow> ipc_name \<Rightarrow> wait_data" where
  "WaitData messageName from = \<lparr>wd_messageName = messageName, wd_from = from, wd_semaphore = 0, wd_data = []\<rparr>"

definition WaitData_eq :: "wait_data \<Rightarrow> wait_data \<Rightarrow> bool" where
  "WaitData_eq a b \<longleftrightarrow> wd_messageName a = wd_messageName b \<and> IPCObjectName_eq (wd_from a) (wd_from b)"

record twainet_module =
  tw_base :: tunnel_module
  tw_waiting :: "wait_data list"
  tw_notifications :: "notification list"

definition TwainetModule :: "ipc_name \<Rightarrow> twainet_module" where
  "TwainetModule n = \<lparr>tw_base = TunnelModule n, tw_waiting = [], tw_notifications = []\<rparr>"

abbreviation tw_ipc :: "twainet_module \<Rightarrow> ipc_module" where
  "tw_ipc m \<equiv> cs_base (tm_base (tw_base m))"

definition on_tunnel :: "(tunnel_module \<Rightarrow> tunnel_module) \<Rightarrow> twainet_module \<Rightarrow> twainet_module" where
  "on_tunnel f m = m\<lparr>tw_base := f (tw_base m)\<rparr>"

definition on_cs :: "(cs_module \<Rightarrow> cs_module) \<Rightarrow> twainet_module \<Rightarrow> twainet_module" where
  "on_cs f = on_tunnel (\<lambda>t. t\<lparr>tm_base := f (tm_base t)\<rparr>)"

definition on_ipc :: "(ipc_module \<Rightarrow> ipc_module) \<Rightarrow> twainet_module \<Rightarrow> twainet_module" where
  "on_ipc f = on_cs (on_base f)"

definition AddNotifycationMessage_tw :: "notification \<Rightarrow> twainet_module \<Rightarrow> twainet_module" where
  "AddNotifycationMessage_tw n m = m\<lparr>tw_notifications := tw_notifications m @ [n]\<rparr>"

section \<open>Paths\<close>

fun relay_path_tw :: "bool \<Rightarrow> bool \<Rightarrow> ipc_name \<Rightarrow> ipc_object list \<Rightarrow> ipc_name list \<Rightarrow> ipc_name list" where
  "relay_path_tw throughtCoordinator throughtServer target [] retpath = retpath"
| "relay_path_tw throughtCoordinator throughtServer target (it # its) retpath =
     relay_path_tw throughtCoordinator throughtServer target its
       (if conn_id (m_ipcName it) \<noteq> [] then retpath
        else if throughtCoordinator \<and> m_accessId it = m_baseAccessId then retpath @ [m_ipcName it] @ [target]
        else if throughtServer \<and> mod_name (m_ipcName it) = m_serverIPCName
        then retpath @ [m_ipcName it] @ [IPCName (mod_name target) [] []]
        else retpath)"

definition GetTargetPath_tw :: "ipc_name \<Rightarrow> twainet_module \<Rightarrow> ipc_name list" where
  "GetTargetPath_tw target m =
     (if IPCObjectName_eq (m_moduleName (tw_ipc m)) target then []
      else if target_connected target (m_modules (tw_ipc m)) then [target]
      else relay_path_tw (host_name target = []) (host_name target \<noteq> []) target (m_ipcObject (tw_ipc m)) [])"

section \<open>Calls that wait for an answer\<close>

definition find_wait :: "wait_data \<Rightarrow> wait_data list \<Rightarrow> wait_data option" where
  "find_wait w ws = List.find (\<lambda>x. WaitData_eq w x) ws"

fun erase_wait :: "wait_data \<Rightarrow> wait_data list \<Rightarrow> wait_data list" where
  "erase_wait w [] = []"
| "erase_wait w (x # xs) = (if WaitData_eq w x then xs else x # erase_wait w xs)"

fun update_wait :: "wait_data \<Rightarrow> (wait_data \<Rightarrow> wait_data) \<Rightarrow> wait_data list \<Rightarrow> wait_data list" where
  "update_wait w f [] = []"
| "update_wait w f (x # xs) = (if WaitData_eq w x then f x # xs else x # update_wait w f xs)"

text \<open>\<open>SendSyncMsg\<close> up to where it waits, \<^const>\<open>None\<close> if it returns false; and the rest, \<^const>\<open>None\<close> while it waits.\<close>

definition SendSyncMsg_begin :: "ipc_message \<Rightarrow> string \<Rightarrow> ipc_name \<Rightarrow> twainet_module \<Rightarrow> twainet_module option" where
  "SendSyncMsg_begin msg messageName from m =
     (let waitdata = WaitData messageName from
      in if find_wait waitdata (tw_waiting m) \<noteq> None then None
         else Some (on_ipc (SendMsg msg) (m\<lparr>tw_waiting := tw_waiting m @ [waitdata]\<rparr>)))"

definition SendSyncMsg_end :: "string \<Rightarrow> ipc_name \<Rightarrow> twainet_module \<Rightarrow> (twainet_module \<times> string) option" where
  "SendSyncMsg_end messageName from m =
     (case find_wait (WaitData messageName from) (tw_waiting m) of
        None \<Rightarrow> None
      | Some w \<Rightarrow>
          map_option (\<lambda>_. (m\<lparr>tw_waiting := erase_wait w (tw_waiting m)\<rparr>, wd_data w))
            (Semaphore_Wait INFINITE (wd_semaphore w)))"

text \<open>\<open>OnMessage\<close>; \<open>path[0]\<close> of an empty path is out of range, \<^const>\<open>None\<close>.\<close>

definition answer_wait :: "string \<Rightarrow> wait_data \<Rightarrow> wait_data" where
  "answer_wait data w =
     (let w = (if data \<noteq> [] then w\<lparr>wd_data := data\<rparr> else w) in w\<lparr>wd_semaphore := Semaphore_Set (wd_semaphore w)\<rparr>)"

definition OnMessage_tw :: "string \<Rightarrow> string list \<Rightarrow> string \<Rightarrow> twainet_module \<Rightarrow> twainet_module option" where
  "OnMessage_tw messageName path data m =
     (case path of
        [] \<Rightarrow> None
      | from # _ \<Rightarrow>
          let waitdata = WaitData messageName (GetIPCName from)
          in Some (if find_wait waitdata (tw_waiting m) \<noteq> None
                   then m\<lparr>tw_waiting := update_wait waitdata (answer_wait data) (tw_waiting m)\<rparr>
                   else AddNotifycationMessage_tw (N_GettingMessage messageName path data) m))"

text \<open>\<open>ManagerStop\<close>: it wakes the calls, waits until they have gone (\<^const>\<open>None\<close>), and stops the base.\<close>

definition ManagerStop_begin :: "twainet_module \<Rightarrow> twainet_module" where
  "ManagerStop_begin m =
     m\<lparr>tw_waiting := map (\<lambda>w. w\<lparr>wd_semaphore := Semaphore_Set (wd_semaphore w)\<rparr>) (tw_waiting m)\<rparr>"

definition ManagerStop_end :: "twainet_module \<Rightarrow> twainet_module option" where
  "ManagerStop_end m = (if tw_waiting m = [] then Some (on_ipc ManagerStop m) else None)"

section \<open>Callbacks\<close>

definition OnTunnelConnectFailed_tw :: "string \<Rightarrow> twainet_module \<Rightarrow> twainet_module" where
  "OnTunnelConnectFailed_tw sessionId = AddNotifycationMessage_tw (N_TunnelCreationFailed sessionId)"

definition OnTunnelConnected_tw :: "string \<Rightarrow> type_connection \<Rightarrow> twainet_module \<Rightarrow> twainet_module" where
  "OnTunnelConnected_tw sessionId type = AddNotifycationMessage_tw (N_TunnelConnected sessionId type)"

definition OnServerConnected_tw :: "twainet_module \<Rightarrow> twainet_module" where
  "OnServerConnected_tw m = AddNotifycationMessage_tw (N_ClientServerConnected (tm_ownSessionId (tw_base m)) False) m"

definition OnClientConnector_tw :: "string \<Rightarrow> twainet_module \<Rightarrow> twainet_module" where
  "OnClientConnector_tw sessionId = AddNotifycationMessage_tw (N_ClientServerConnected sessionId True)"

definition OnFireConnector_tw :: "int \<Rightarrow> string \<Rightarrow> twainet_module \<Rightarrow> twainet_module" where
  "OnFireConnector_tw now moduleName m =
     on_cs (\<lambda>c. fst (OnFireConnector_cs now moduleName c)) (AddNotifycationMessage_tw (N_ModuleDisconnected moduleName) m)"

definition OnConnectFailed_tw :: "string \<Rightarrow> twainet_module \<Rightarrow> twainet_module" where
  "OnConnectFailed_tw moduleName = AddNotifycationMessage_tw (N_ConnectionFailed moduleName)"

definition OnAuthFailed_tw :: "twainet_module \<Rightarrow> twainet_module" where
  "OnAuthFailed_tw = AddNotifycationMessage_tw N_AuthFailed"

definition OnConnected_tw :: "string \<Rightarrow> twainet_module \<Rightarrow> twainet_module" where
  "OnConnected_tw moduleName = AddNotifycationMessage_tw (N_ModuleConnected moduleName)"

definition ModuleCreationFailed_tw :: "twainet_module \<Rightarrow> twainet_module" where
  "ModuleCreationFailed_tw = AddNotifycationMessage_tw (N_CreationFailed CREATION_MODULE)"

definition ServerCreationFailed_tw :: "twainet_module \<Rightarrow> twainet_module" where
  "ServerCreationFailed_tw = AddNotifycationMessage_tw (N_CreationFailed CREATION_SERVER)"

definition OnInternalConnection_tw :: "string \<Rightarrow> connection_status \<Rightarrow> int \<Rightarrow> twainet_module \<Rightarrow> twainet_module" where
  "OnInternalConnection_tw moduleName status port =
     AddNotifycationMessage_tw (N_InternalConnectionStatusChanged moduleName status port)"

definition OnIPCObjectsChanged_tw :: "twainet_module \<Rightarrow> twainet_module" where
  "OnIPCObjectsChanged_tw = AddNotifycationMessage_tw N_ModuleListChanged"

end
