(* ===== verification/Twainet_Sync.thy ===== *)
theory Twainet_Sync
  imports Twainet_Module
begin

text \<open>
  Calls that wait for an answer, among everything else that happens to a module: each pair of a
  message name and a sender is a mailbox of its own, and what no call waits for goes to the
  application.
\<close>

section \<open>The list of the calls that wait\<close>

definition call_of :: "wait_data \<Rightarrow> string \<times> ipc_name" where
  "call_of w = (wd_messageName w, wd_from w)"

lemma call_of_simps [simp]:
  "call_of (WaitData n f) = (n, f)" "call_of (wd_semaphore_update g w) = call_of w"
  "call_of (answer_wait d w) = call_of w" "WaitData_eq a b \<longleftrightarrow> call_of a = call_of b"
  by (auto simp: call_of_def WaitData_def answer_wait_def WaitData_eq_def Let_def)

lemma answer_wait_sel [simp]:
  "wd_semaphore (answer_wait d w) = Suc (wd_semaphore w)"
  "wd_data (answer_wait d w) = (if d \<noteq> [] then d else wd_data w)"
  by (auto simp: answer_wait_def Semaphore_Set_def Let_def)

lemma find_wait_simps [simp]:
  "find_wait w [] = None"
  "find_wait w (x # xs) = (if call_of w = call_of x then Some x else find_wait w xs)"
  by (auto simp: find_wait_def)

lemma find_wait_append [simp]:
  "find_wait w (xs @ ys) = (case find_wait w xs of None \<Rightarrow> find_wait w ys | Some x \<Rightarrow> Some x)"
  by (induction xs) auto

lemma find_wait_None: "find_wait w ws = None \<longleftrightarrow> call_of w \<notin> call_of ` set ws"
  by (induction ws) auto

lemma find_wait_Some: "find_wait w ws = Some x \<Longrightarrow> x \<in> set ws \<and> call_of x = call_of w"
  by (induction ws) (auto split: if_splits)

definition waits_ok :: "twainet_module \<Rightarrow> bool" where
  "waits_ok m \<longleftrightarrow> distinct (map call_of (tw_waiting m))"

lemma find_erase_wait:
  "distinct (map call_of ws) \<Longrightarrow>
     find_wait v (erase_wait w ws) = (if call_of v = call_of w then None else find_wait v ws)"
  by (induction ws) (auto simp: find_wait_None)

lemma set_erase_wait: "set (erase_wait w ws) \<subseteq> set ws"
  by (induction ws) auto

lemma distinct_erase_wait: "distinct (map call_of ws) \<Longrightarrow> distinct (map call_of (erase_wait w ws))"
  using set_erase_wait by (induction ws) fastforce+

lemma update_wait_calls [simp]:
  "(\<And>x. call_of (g x) = call_of x) \<Longrightarrow> map call_of (update_wait w g ws) = map call_of ws"
  by (induction ws) auto

lemma find_update_wait:
  "(\<And>x. call_of (g x) = call_of x) \<Longrightarrow>
     find_wait v (update_wait w g ws) =
       (if call_of v = call_of w then map_option g (find_wait v ws) else find_wait v ws)"
  by (induction ws) auto

lemma find_wait_map:
  "(\<And>x. call_of (g x) = call_of x) \<Longrightarrow> find_wait v (map g ws) = map_option g (find_wait v ws)"
  by (induction ws) auto

section \<open>What happens to a module\<close>

text \<open>
  \<open>Base t\<close> stands for whatever the layers below do to their own state, \<open>Notifies n\<close> for the
  callbacks that only notify.
\<close>

datatype sync_event =
    SyncBegin ipc_message string ipc_name
  | SyncEnd string ipc_name
  | Arrives string "string list" string
  | Stopping
  | Notifies notification
  | Base tunnel_module

fun sync_do :: "sync_event \<Rightarrow> twainet_module \<Rightarrow> twainet_module option" where
  "sync_do (SyncBegin msg n f) m = Some (case SendSyncMsg_begin msg n f m of None \<Rightarrow> m | Some m' \<Rightarrow> m')"
| "sync_do (SyncEnd n f) m = Some (case SendSyncMsg_end n f m of None \<Rightarrow> m | Some (m', _) \<Rightarrow> m')"
| "sync_do (Arrives n p d) m = OnMessage_tw n p d m"
| "sync_do Stopping m = Some (ManagerStop_begin m)"
| "sync_do (Notifies n) m = Some (AddNotifycationMessage_tw n m)"
| "sync_do (Base t) m = Some (m\<lparr>tw_base := t\<rparr>)"

fun sync_run :: "sync_event list \<Rightarrow> twainet_module \<Rightarrow> twainet_module option" where
  "sync_run [] m = Some m"
| "sync_run (e # es) m = (case sync_do e m of None \<Rightarrow> None | Some m' \<Rightarrow> sync_run es m')"

section \<open>Mailboxes\<close>

type_synonym mailbox_state = "(nat \<times> string) option"

definition mailbox :: "twainet_module \<Rightarrow> string \<times> ipc_name \<Rightarrow> mailbox_state" where
  "mailbox m c = map_option (\<lambda>w. (wd_semaphore w, wd_data w)) (find_wait (WaitData (fst c) (snd c)) (tw_waiting m))"

definition addressed :: "string \<Rightarrow> string list \<Rightarrow> string \<times> ipc_name" where
  "addressed n p = (n, GetIPCName (hd p))"

fun mailbox_step :: "string \<times> ipc_name \<Rightarrow> sync_event \<Rightarrow> mailbox_state \<Rightarrow> mailbox_state" where
  "mailbox_step c (SyncBegin msg n f) b = (if (n, f) = c \<and> b = None then Some (0, []) else b)"
| "mailbox_step c (SyncEnd n f) b = (if (n, f) = c \<and> (\<exists>k d. b = Some (Suc k, d)) then None else b)"
| "mailbox_step c (Arrives n p d) b =
     (if addressed n p = c then map_option (\<lambda>(k, d0). (Suc k, if d \<noteq> [] then d else d0)) b else b)"
| "mailbox_step c Stopping b = map_option (\<lambda>(k, d). (Suc k, d)) b"
| "mailbox_step c _ b = b"

fun notified :: "(string \<times> ipc_name \<Rightarrow> mailbox_state) \<Rightarrow> sync_event \<Rightarrow> notification list" where
  "notified B (Arrives n p d) = (if B (addressed n p) = None then [N_GettingMessage n p d] else [])"
| "notified B (Notifies n) = [n]"
| "notified B _ = []"

fun all_notified :: "(string \<times> ipc_name \<Rightarrow> mailbox_state) \<Rightarrow> sync_event list \<Rightarrow> notification list" where
  "all_notified B [] = []"
| "all_notified B (e # es) = notified B e @ all_notified (\<lambda>c. mailbox_step c e (B c)) es"

lemma mailbox_None: "mailbox m c = None \<longleftrightarrow> find_wait (WaitData (fst c) (snd c)) (tw_waiting m) = None"
  by (simp add: mailbox_def)

lemma tw_on_ipc [simp]:
  "tw_waiting (on_ipc f m) = tw_waiting m" "tw_notifications (on_ipc f m) = tw_notifications m"
  by (simp_all add: on_ipc_def on_cs_def on_tunnel_def)

lemma SendSyncMsg_begin_mailbox:
  assumes "waits_ok m" "SendSyncMsg_begin msg n f m = Some m'"
  shows "waits_ok m' \<and> tw_notifications m' = tw_notifications m \<and> mailbox m (n, f) = None \<and>
    mailbox m' = (mailbox m)((n, f) := Some (0, []))"
proof -
  from assms have new: "find_wait (WaitData n f) (tw_waiting m) = None"
    and m': "m' = on_ipc (SendMsg msg) (m\<lparr>tw_waiting := tw_waiting m @ [WaitData n f]\<rparr>)"
    by (auto simp: SendSyncMsg_begin_def Let_def split: if_splits)
  have "mailbox m' c = ((mailbox m)((n, f) := Some (0, []))) c" for c
    using new by (cases c) (auto simp: mailbox_def m' WaitData_def call_of_def split: option.splits)
  then show ?thesis using new assms(1) by (auto simp: mailbox_None m' waits_ok_def find_wait_None)
qed

lemma SendSyncMsg_end_result:
  "map_option snd (SendSyncMsg_end n f m) =
     (case mailbox m (n, f) of Some (Suc k, d) \<Rightarrow> Some d | _ \<Rightarrow> None)"
proof -
  have "Semaphore_Wait INFINITE s = (case s of 0 \<Rightarrow> None | Suc k \<Rightarrow> Some (SUCCESS, Suc k))" for s
    by (cases s) auto
  then show ?thesis
    by (auto simp: SendSyncMsg_end_def mailbox_def split: option.splits nat.splits)
qed

lemma SendSyncMsg_end_waits:
  "SendSyncMsg_end n f m = None \<longleftrightarrow> (\<forall>k d. mailbox m (n, f) \<noteq> Some (Suc k, d))"
  using SendSyncMsg_end_result[of n f m] by (auto split: option.splits nat.splits prod.splits)

lemma SendSyncMsg_end_mailbox:
  assumes "waits_ok m" "SendSyncMsg_end n f m = Some (m', d)"
  shows "waits_ok m' \<and> tw_notifications m' = tw_notifications m \<and> mailbox m' = (mailbox m)((n, f) := None) \<and>
    (\<exists>k. mailbox m (n, f) = Some (Suc k, d))"
proof -
  obtain w where w: "find_wait (WaitData n f) (tw_waiting m) = Some w"
      "m' = m\<lparr>tw_waiting := erase_wait w (tw_waiting m)\<rparr>"
    using assms(2) by (auto simp: SendSyncMsg_end_def split: option.splits)
  have "call_of w = (n, f)" using find_wait_Some[OF w(1)] by simp
  moreover have "\<exists>k. mailbox m (n, f) = Some (Suc k, d)"
    using SendSyncMsg_end_result[of n f m] assms(2) by (auto split: option.splits nat.splits prod.splits)
  ultimately show ?thesis
    using assms(1) by (auto simp: w(2) waits_ok_def mailbox_def find_erase_wait distinct_erase_wait)
qed

lemma OnMessage_tw_mailbox:
  assumes "OnMessage_tw n p d m = Some m'"
  shows "p \<noteq> [] \<and> map call_of (tw_waiting m') = map call_of (tw_waiting m) \<and>
    mailbox m' c = mailbox_step c (Arrives n p d) (mailbox m c) \<and>
    tw_notifications m' = tw_notifications m @ notified (mailbox m) (Arrives n p d)"
proof -
  obtain x q where p: "p = x # q" using assms by (cases p) (auto simp: OnMessage_tw_def)
  show ?thesis
  proof (cases "mailbox m (n, GetIPCName x) = None")
    case True
    then show ?thesis using assms
      by (auto simp: OnMessage_tw_def p Let_def mailbox_def AddNotifycationMessage_tw_def addressed_def)
  next
    case False
    then have "m' = m\<lparr>tw_waiting := update_wait (WaitData n (GetIPCName x)) (answer_wait d) (tw_waiting m)\<rparr>"
      using assms by (auto simp: OnMessage_tw_def p Let_def mailbox_None)
    then show ?thesis using False
      by (cases c) (auto simp: p mailbox_def find_update_wait addressed_def
          option.map_comp comp_def intro!: option.map_cong0)
  qed
qed

lemma ManagerStop_begin_mailbox:
  "map call_of (tw_waiting (ManagerStop_begin m)) = map call_of (tw_waiting m)"
  "tw_notifications (ManagerStop_begin m) = tw_notifications m"
  "mailbox (ManagerStop_begin m) c = map_option (\<lambda>(k, d). (Suc k, d)) (mailbox m c)"
  by (auto simp: ManagerStop_begin_def mailbox_def find_wait_map Semaphore_Set_def option.map_comp comp_def)

lemma sync_do_mailbox:
  assumes "waits_ok m" "sync_do e m = Some m'"
  shows "waits_ok m' \<and> mailbox m' c = mailbox_step c e (mailbox m c) \<and>
    tw_notifications m' = tw_notifications m @ notified (mailbox m) e"
proof (cases e)
  case (SyncBegin msg n f)
  show ?thesis
  proof (cases "SendSyncMsg_begin msg n f m")
    case None
    then have "mailbox m (n, f) \<noteq> None"
      by (auto simp: SendSyncMsg_begin_def Let_def mailbox_None split: if_splits)
    then show ?thesis using None assms SyncBegin by auto
  next
    case (Some m1)
    then show ?thesis using SendSyncMsg_begin_mailbox[OF assms(1) Some] assms SyncBegin by auto
  qed
next
  case (SyncEnd n f)
  show ?thesis
  proof (cases "SendSyncMsg_end n f m")
    case None
    moreover have "m' = m" using None assms(2) SyncEnd by simp
    ultimately show ?thesis using assms(1) SyncEnd by (auto simp: SendSyncMsg_end_waits)
  next
    case (Some r)
    obtain m1 d where r: "r = (m1, d)" by (cases r)
    show ?thesis using SendSyncMsg_end_mailbox[OF assms(1) Some[unfolded r]] assms SyncEnd Some r by auto
  qed
next
  case (Arrives n p d)
  then show ?thesis using OnMessage_tw_mailbox[of n p d m m' c] assms by (auto simp: waits_ok_def)
next
  case Stopping
  then show ?thesis using assms by (auto simp: waits_ok_def ManagerStop_begin_mailbox)
qed (use assms in \<open>auto simp: waits_ok_def AddNotifycationMessage_tw_def mailbox_def\<close>)

lemma sync_run_mailbox:
  assumes "waits_ok m" "sync_run es m = Some m'"
  shows "waits_ok m' \<and> mailbox m' c = fold (mailbox_step c) es (mailbox m c) \<and>
    tw_notifications m' = tw_notifications m @ all_notified (mailbox m) es"
  using assms
proof (induction es arbitrary: m)
  case (Cons e es)
  then obtain m1 where m1: "sync_do e m = Some m1" "sync_run es m1 = Some m'" by (auto split: option.splits)
  have step: "waits_ok m1" "mailbox m1 = (\<lambda>c. mailbox_step c e (mailbox m c))"
      "tw_notifications m1 = tw_notifications m @ notified (mailbox m) e"
    using sync_do_mailbox[OF Cons.prems(1) m1(1)] by (auto simp: fun_eq_iff)
  show ?case using Cons.IH[OF step(1) m1(2)] step by simp
qed simp

lemma sync_run_ends: "sync_run es m \<noteq> None \<longleftrightarrow> (\<forall>n d. Arrives n [] d \<notin> set es)"
proof (induction es arbitrary: m)
  case (Cons e es)
  have "sync_do e m = None \<longleftrightarrow> (\<exists>n d. e = Arrives n [] d)"
    by (cases e) (auto simp: OnMessage_tw_def Let_def split: list.splits)
  then show ?case using Cons by (cases "sync_do e m") auto
qed simp

section \<open>Properties\<close>

text \<open>
  C4: The module keeps one mailbox per message name and sender, and the mailboxes do not
  disturb each other: after any sequence of calls that begin, calls that are woken, messages that
  arrive, other notifications, changes of the layers below and stops, the state of a call is what
  the events of its own mailbox made of it; the application is notified, in order, of exactly the
  messages that came for a mailbox nobody was waiting at, and the run fails only on a message with
  an empty path.
\<close>

theorem sync_calls_refine_mailboxes:
  "(case sync_run es (TwainetModule n) of
      None \<Rightarrow> \<exists>m d. Arrives m [] d \<in> set es
    | Some s \<Rightarrow> (\<forall>c. mailbox s c = fold (mailbox_step c) es None) \<and>
        tw_notifications s = all_notified (\<lambda>c. None) es \<and> waits_ok s)"
proof (cases "sync_run es (TwainetModule n)")
  case None
  then show ?thesis using sync_run_ends[of es "TwainetModule n"] by auto
next
  case (Some s)
  have "waits_ok (TwainetModule n)" "mailbox (TwainetModule n) = (\<lambda>c. None)" "tw_notifications (TwainetModule n) = []"
    by (auto simp: waits_ok_def TwainetModule_def mailbox_def)
  then show ?thesis using sync_run_mailbox[OF _ Some] Some by auto
qed

definition answers :: "string \<Rightarrow> ipc_name \<Rightarrow> sync_event list \<Rightarrow> string list" where
  "answers n f es = concat (map (\<lambda>e. case e of Arrives n' p d \<Rightarrow> if addressed n' p = (n, f) then [d] else [] | _ \<Rightarrow> []) es)"

lemma answers_simps [simp]:
  "answers n f [] = []"
  "answers n f (e # es) = (case e of Arrives n' p d \<Rightarrow> if addressed n' p = (n, f) then [d] else [] | _ \<Rightarrow> []) @ answers n f es"
  by (simp_all add: answers_def)

definition latest :: "string list \<Rightarrow> string \<Rightarrow> string" where
  "latest ds d0 = last (d0 # filter (\<lambda>d. d \<noteq> []) ds)"

lemma mailbox_waiting:
  assumes "SyncEnd n f \<notin> set es"
  shows "fold (mailbox_step (n, f)) es (Some (k, d0)) =
    Some (k + length (answers n f es) + count_list es Stopping, latest (answers n f es) d0)"
  using assms
proof (induction es arbitrary: k d0)
  case (Cons e es)
  then show ?case by (cases e) (auto simp: latest_def)
qed (simp add: latest_def)

lemma all_notified_waiting:
  assumes "B (n, f) \<noteq> None" "SyncEnd n f \<notin> set es" "addressed n p = (n, f)"
    and "N_GettingMessage n p d \<in> set (all_notified B es)"
  shows "Notifies (N_GettingMessage n p d) \<in> set es"
  using assms
proof (induction es arbitrary: B)
  case (Cons e es)
  have "mailbox_step (n, f) e (B (n, f)) \<noteq> None" using Cons.prems(1,2) by (cases e) auto
  moreover have "N_GettingMessage n p d \<in> set (notified B e) \<Longrightarrow> e = Notifies (N_GettingMessage n p d)"
    using Cons.prems(1,3) by (cases e) (auto split: if_splits)
  ultimately show ?case using Cons.prems Cons.IH[of "\<lambda>c. mailbox_step c e (B c)"] by auto
qed simp

text \<open>
  A call that waits for an answer returns if and only if, since it began, a message with the
  name and from the sender it waits for has arrived or the module has been told to stop; it returns
  the data of the last such message that had any, and the messages that answer it do not
  reach the application.
\<close>

lemma sync_call_returns_answer:
  assumes "waits_ok m" "SendSyncMsg_begin msg n f m = Some m1"
    and "sync_run es m1 = Some m2" "SyncEnd n f \<notin> set es"
  shows "map_option snd (SendSyncMsg_end n f m2) =
      (if answers n f es = [] \<and> Stopping \<notin> set es then None else Some (latest (answers n f es) [])) \<and>
    (\<forall>p d. addressed n p = (n, f) \<and> N_GettingMessage n p d \<in> set (tw_notifications m2) \<longrightarrow>
       N_GettingMessage n p d \<in> set (tw_notifications m) \<or> Notifies (N_GettingMessage n p d) \<in> set es)"
proof -
  note m1 = SendSyncMsg_begin_mailbox[OF assms(1,2)]
  have m2: "mailbox m2 (n, f) = Some (length (answers n f es) + count_list es Stopping, latest (answers n f es) [])"
      "tw_notifications m2 = tw_notifications m @ all_notified (mailbox m1) es"
    using sync_run_mailbox[OF conjunct1[OF m1] assms(3)] mailbox_waiting[OF assms(4), of 0 "[]"] m1 by auto
  then have "map_option snd (SendSyncMsg_end n f m2) =
      (if answers n f es = [] \<and> Stopping \<notin> set es then None else Some (latest (answers n f es) []))"
    by (auto simp: SendSyncMsg_end_result count_list_0_iff split: nat.splits)
  moreover have "addressed n p = (n, f) \<Longrightarrow> N_GettingMessage n p d \<in> set (all_notified (mailbox m1) es) \<Longrightarrow>
      Notifies (N_GettingMessage n p d) \<in> set es" for p d
    using all_notified_waiting[of "mailbox m1" n f es p d] assms(4) m1 by auto
  ultimately show ?thesis using m2(2) by auto
qed

text \<open>
  A mailbox woken by the stop stays woken until its call has gone.
\<close>

definition woken :: "mailbox_state \<Rightarrow> bool" where
  "woken b \<longleftrightarrow> (\<forall>d. b \<noteq> Some (0, d))"

lemma woken_leaves:
  assumes "woken b" "\<forall>msg n f. SyncBegin msg n f \<notin> set es" "b \<noteq> None \<Longrightarrow> SyncEnd (fst c) (snd c) \<in> set es"
  shows "fold (mailbox_step c) es b = None"
  using assms
proof (induction es arbitrary: b)
  case (Cons e es)
  have gone: "fold (mailbox_step c) es None = None"
    using Cons.IH[of None] Cons.prems(2) by (simp add: woken_def)
  have "\<nexists>msg n f. e = SyncBegin msg n f" using Cons.prems(2) by auto
  then have woken: "woken (mailbox_step c e b)" "b = None \<Longrightarrow> mailbox_step c e b = None"
    using Cons.prems(1) by (cases e; auto simp: woken_def)+
  show ?case
  proof (cases "b \<noteq> None \<and> e = SyncEnd (fst c) (snd c)")
    case True
    then obtain k d where "b = Some (Suc k, d)" using Cons.prems(1) unfolding woken_def
      by (metis not0_implies_Suc not_None_eq surj_pair)
    then show ?thesis using True gone by simp
  next
    case False
    then have "mailbox_step c e b \<noteq> None \<Longrightarrow> SyncEnd (fst c) (snd c) \<in> set es" 
      using Cons.prems(3) woken(2) False by (metis set_ConsD)
    then show ?thesis using Cons.IH[OF woken(1)] Cons.prems(2) by auto
  qed
next
  case Nil
  then show ?case by (cases b) auto
qed

lemma tw_waiting_empty: "tw_waiting m = [] \<longleftrightarrow> (\<forall>c. mailbox m c = None)"
proof
  assume none: "\<forall>c. mailbox m c = None"
  have "w \<notin> set (tw_waiting m)" for w
    using none by (cases "call_of w") (auto simp: mailbox_None find_wait_None rev_image_eqI)
  then show "tw_waiting m = []" by (cases "tw_waiting m") auto
qed (simp add: mailbox_def)

text \<open>
  Stopping a module ends: once its calls have been woken, whatever else arrives, the
  stop goes through as soon as each of them has been scheduled, provided no further call begins
  in the meantime.
\<close>

lemma stop_releases_calls:
  assumes "waits_ok m" "sync_run (Stopping # es) m = Some m'"
    and "\<forall>msg n f. SyncBegin msg n f \<notin> set es"
    and "\<forall>w\<in>set (tw_waiting m). SyncEnd (wd_messageName w) (wd_from w) \<in> set es"
  shows "ManagerStop_end m' = Some (on_ipc ManagerStop m')"
proof -
  have "mailbox m' c = None" for c
  proof -
    let ?b = "mailbox_step c Stopping (mailbox m c)"
    have "woken ?b" by (auto simp: woken_def)
    moreover have "SyncEnd (fst c) (snd c) \<in> set es" if b: "?b \<noteq> None"
    proof -
      obtain w where "find_wait (WaitData (fst c) (snd c)) (tw_waiting m) = Some w"
        using b by (auto simp: mailbox_def)
      then have "w \<in> set (tw_waiting m)" "call_of w = c" using find_wait_Some by fastforce+
      then show ?thesis using assms(4) by (auto simp: call_of_def)
    qed
    ultimately show ?thesis
      using sync_run_mailbox[OF assms(1,2), of c] woken_leaves[OF _ assms(3), of ?b c] by simp
  qed
  then show ?thesis by (simp add: ManagerStop_end_def tw_waiting_empty)
qed

end
