(* ===== verification/Notifications.thy ===== *)
theory Notifications
  imports Twainet_Module "HOL-Library.Word"
begin

text \<open>
  Notifications to the application (\<open>twainet/message/NotificationMessages.cpp\<close>): each is turned
  into calls of the callbacks the application has registered, with names copied to arrays of
  \<open>MAX_NAME_LENGTH\<close> characters. A handler is \<^const>\<open>None\<close> where the code runs into undefined
  behaviour: a name that does not fit, a call of a callback that is not registered, \<open>path[0]\<close> of an
  empty path.
\<close>

section \<open>Callbacks\<close>

datatype callback_id =
    Cb_OnServerConnected | Cb_OnServerDisconnected | Cb_OnServerCreationFailed
  | Cb_OnClientConnected | Cb_OnClientDisconnected | Cb_OnClientConnectionFailed | Cb_OnClientAuthFailed
  | Cb_OnModuleConnected | Cb_OnModuleDisconnected | Cb_OnModuleConnectionFailed | Cb_OnModuleCreationFailed
  | Cb_OnTunnelConnected | Cb_OnTunnelDisconnected | Cb_OnTunnelCreationFailed
  | Cb_OnMessageRecv | Cb_OnInternalConnectionStatusChanged | Cb_OnModuleListChanged

text \<open>A table of callbacks says which pointers are not null; an argument is what the callback reads.\<close>

type_synonym twainet_callback = "callback_id \<Rightarrow> bool"

datatype callback_arg =
    A_Session string
  | A_Name ipc_name
  | A_Tunnel string type_connection
  | A_Message ipc_name string string int
  | A_Status string connection_status int
  | A_None

text \<open>The callback, the module it is about (\<^const>\<open>None\<close> for an indeterminate pointer), and its arguments.\<close>

record callback_call =
  cl_callback :: callback_id
  cl_module :: "nat option"
  cl_arg :: callback_arg

definition call_back :: "twainet_callback \<Rightarrow> callback_id \<Rightarrow> nat option \<Rightarrow> callback_arg \<Rightarrow> callback_call list" where
  "call_back callbacks i m a = (if callbacks i then [\<lparr>cl_callback = i, cl_module = m, cl_arg = a\<rparr>] else [])"

section \<open>Names in arrays\<close>

definition MAX_NAME_LENGTH :: nat where
  "MAX_NAME_LENGTH = 255"

definition strcpy :: "string \<Rightarrow> string option" where
  "strcpy s = (if length (c_str s) < MAX_NAME_LENGTH then Some (c_str s) else None)"

definition copy_name :: "ipc_name \<Rightarrow> ipc_name option" where
  "copy_name n =
     (case (strcpy (mod_name n), strcpy (host_name n), strcpy (conn_id n)) of
        (Some name, Some host, Some connId) \<Rightarrow> Some (IPCName name host connId)
      | _ \<Rightarrow> None)"

section \<open>The handlers\<close>

definition ClientServerConnected_HandleMessage ::
    "twainet_callback \<Rightarrow> nat option \<Rightarrow> string \<Rightarrow> bool \<Rightarrow> callback_call list option" where
  "ClientServerConnected_HandleMessage callbacks m sessionId bClient =
     (let (calls, name) =
        (if \<not> bClient
         then (call_back callbacks Cb_OnServerConnected m (A_Session (c_str sessionId)), m_serverIPCName)
         else (call_back callbacks Cb_OnClientConnected m (A_Session (c_str sessionId)), m_clientIPCName))
      in case copy_name (IPCName name sessionId []) of
           None \<Rightarrow> None
         | Some retName \<Rightarrow>
             if callbacks Cb_OnModuleConnected
             then Some (calls @ call_back callbacks Cb_OnModuleConnected m (A_Name retName))
             else None)"

definition ModuleConnected_HandleMessage ::
    "twainet_callback \<Rightarrow> nat option \<Rightarrow> string \<Rightarrow> callback_call list option" where
  "ModuleConnected_HandleMessage callbacks m moduleName =
     (let name = GetIPCName moduleName
      in map_option (\<lambda>retName. call_back callbacks Cb_OnModuleConnected m (A_Name retName)) (copy_name name))"

definition ModuleDisconnected_HandleMessage ::
    "twainet_callback \<Rightarrow> nat option \<Rightarrow> string \<Rightarrow> callback_call list option" where
  "ModuleDisconnected_HandleMessage callbacks m i =
     (let idName = GetIPCName i;
          calls = (if mod_name idName = m_clientIPCName
                   then call_back callbacks Cb_OnClientDisconnected m (A_Session (c_str (host_name idName)))
                   else if mod_name idName = m_serverIPCName
                   then call_back callbacks Cb_OnServerDisconnected m A_None
                   else if mod_name idName = m_tunnelIPCName
                   then call_back callbacks Cb_OnTunnelDisconnected m (A_Session (c_str (host_name idName)))
                   else [])
      in map_option (\<lambda>retName. calls @ call_back callbacks Cb_OnModuleDisconnected m (A_Name retName)) (copy_name idName))"

definition TunnelConnected_HandleMessage ::
    "twainet_callback \<Rightarrow> nat option \<Rightarrow> string \<Rightarrow> type_connection \<Rightarrow> callback_call list option" where
  "TunnelConnected_HandleMessage callbacks m sessionId type =
     map_option (\<lambda>retName. call_back callbacks Cb_OnTunnelConnected m (A_Tunnel (c_str sessionId) type)
         @ call_back callbacks Cb_OnModuleConnected m (A_Name retName))
       (copy_name (IPCName m_tunnelIPCName sessionId []))"

definition ConnectionFailed_HandleMessage ::
    "twainet_callback \<Rightarrow> nat option \<Rightarrow> string \<Rightarrow> callback_call list option" where
  "ConnectionFailed_HandleMessage callbacks m i =
     (if i = m_serverIPCName then Some (call_back callbacks Cb_OnClientConnectionFailed m A_None)
      else map_option (\<lambda>retName. call_back callbacks Cb_OnModuleConnectionFailed m (A_Name retName))
             (copy_name (GetIPCName i)))"

definition GettingMessage_HandleMessage ::
    "twainet_callback \<Rightarrow> nat option \<Rightarrow> string \<Rightarrow> string list \<Rightarrow> string \<Rightarrow> callback_call list option" where
  "GettingMessage_HandleMessage callbacks m messageName path data =
     (case path of
        [] \<Rightarrow> None
      | from # _ \<Rightarrow>
          map_option (\<lambda>target. call_back callbacks Cb_OnMessageRecv m
              (A_Message target (c_str messageName) data (sint (of_nat (length data) :: 32 word))))
            (copy_name (GetIPCName from)))"

definition CreationFailed_HandleMessage ::
    "twainet_callback \<Rightarrow> nat option \<Rightarrow> creation_type \<Rightarrow> callback_call list" where
  "CreationFailed_HandleMessage callbacks m type =
     (if type = CREATION_MODULE then call_back callbacks Cb_OnModuleCreationFailed m A_None else [])
     @ (if type = CREATION_SERVER then call_back callbacks Cb_OnServerCreationFailed m A_None else [])"

definition TunnelCreationFailed_HandleMessage ::
    "twainet_callback \<Rightarrow> nat option \<Rightarrow> string \<Rightarrow> callback_call list" where
  "TunnelCreationFailed_HandleMessage callbacks m sessionId =
     call_back callbacks Cb_OnTunnelCreationFailed m (A_Session (c_str sessionId))"

text \<open>The constructor of \<open>AuthFailed\<close> initialises \<open>m_module\<close> with itself.\<close>

definition AuthFailed :: "nat option \<Rightarrow> nat option" where
  "AuthFailed module = None"

definition AuthFailed_HandleMessage :: "twainet_callback \<Rightarrow> nat option \<Rightarrow> callback_call list" where
  "AuthFailed_HandleMessage callbacks m = call_back callbacks Cb_OnClientAuthFailed m A_None"

definition InternalConnectionStatusChanged_HandleMessage ::
    "twainet_callback \<Rightarrow> nat option \<Rightarrow> string \<Rightarrow> connection_status \<Rightarrow> int \<Rightarrow> callback_call list option" where
  "InternalConnectionStatusChanged_HandleMessage callbacks m moduleName status port =
     map_option (\<lambda>retName.
         call_back callbacks Cb_OnInternalConnectionStatusChanged m (A_Status (c_str moduleName) status port)
         @ (if status = CONN_OPEN \<and> callbacks Cb_OnModuleConnected
            then call_back callbacks Cb_OnModuleConnected m (A_Name retName)
            else if status = CONN_CLOSE \<and> callbacks Cb_OnModuleDisconnected
            then call_back callbacks Cb_OnModuleDisconnected m (A_Name retName) else []))
       (copy_name (GetIPCName moduleName))"

definition ModuleListChanged_HandleMessage :: "twainet_callback \<Rightarrow> nat option \<Rightarrow> callback_call list" where
  "ModuleListChanged_HandleMessage callbacks m = call_back callbacks Cb_OnModuleListChanged m A_None"

fun notification_module :: "notification \<Rightarrow> nat \<Rightarrow> nat option" where
  "notification_module N_AuthFailed module = AuthFailed (Some module)"
| "notification_module _ module = Some module"

fun HandleMessage :: "twainet_callback \<Rightarrow> nat option \<Rightarrow> notification \<Rightarrow> callback_call list option" where
  "HandleMessage cb m (N_ClientServerConnected s bClient) = ClientServerConnected_HandleMessage cb m s bClient"
| "HandleMessage cb m (N_ModuleConnected n) = ModuleConnected_HandleMessage cb m n"
| "HandleMessage cb m (N_TunnelConnected s type) = TunnelConnected_HandleMessage cb m s type"
| "HandleMessage cb m (N_ModuleDisconnected i) = ModuleDisconnected_HandleMessage cb m i"
| "HandleMessage cb m (N_ConnectionFailed i) = ConnectionFailed_HandleMessage cb m i"
| "HandleMessage cb m (N_GettingMessage n path data) = GettingMessage_HandleMessage cb m n path data"
| "HandleMessage cb m (N_CreationFailed type) = Some (CreationFailed_HandleMessage cb m type)"
| "HandleMessage cb m (N_TunnelCreationFailed s) = Some (TunnelCreationFailed_HandleMessage cb m s)"
| "HandleMessage cb m N_AuthFailed = Some (AuthFailed_HandleMessage cb m)"
| "HandleMessage cb m (N_InternalConnectionStatusChanged n status port) =
     InternalConnectionStatusChanged_HandleMessage cb m n status port"
| "HandleMessage cb m N_ModuleListChanged = Some (ModuleListChanged_HandleMessage cb m)"

lemmas HandleMessage_defs = ClientServerConnected_HandleMessage_def ModuleConnected_HandleMessage_def
  ModuleDisconnected_HandleMessage_def TunnelConnected_HandleMessage_def ConnectionFailed_HandleMessage_def
  GettingMessage_HandleMessage_def CreationFailed_HandleMessage_def TunnelCreationFailed_HandleMessage_def
  AuthFailed_HandleMessage_def InternalConnectionStatusChanged_HandleMessage_def ModuleListChanged_HandleMessage_def

section \<open>Names survive the arrays\<close>

definition fits :: "string \<Rightarrow> bool" where
  "fits s \<longleftrightarrow> length (c_str s) < MAX_NAME_LENGTH"

definition name_fits :: "ipc_name \<Rightarrow> bool" where
  "name_fits n \<longleftrightarrow> fits (mod_name n) \<and> fits (host_name n) \<and> fits (conn_id n)"

lemma copy_name_iff:
  "copy_name n = (if name_fits n then Some (IPCName (c_str (mod_name n)) (c_str (host_name n)) (c_str (conn_id n))) else None)"
  by (auto simp: copy_name_def strcpy_def name_fits_def fits_def)

definition c_name :: "ipc_name \<Rightarrow> bool" where
  "c_name n \<longleftrightarrow> (\<forall>s\<in>{mod_name n, host_name n, conn_id n}. CHR 0x00 \<notin> set s \<and> length s < MAX_NAME_LENGTH)"

lemma copy_c_name: "c_name n \<Longrightarrow> copy_name n = Some n"
  by (cases n) (simp add: copy_name_def strcpy_def c_name_def c_str_id)

text \<open>The name a handler copies, and what else it needs.\<close>

fun copied_name :: "notification \<Rightarrow> ipc_name" where
  "copied_name (N_ClientServerConnected s bClient) = IPCName (if bClient then m_clientIPCName else m_serverIPCName) s []"
| "copied_name (N_ModuleConnected n) = GetIPCName n"
| "copied_name (N_TunnelConnected s type) = IPCName m_tunnelIPCName s []"
| "copied_name (N_ModuleDisconnected i) = GetIPCName i"
| "copied_name (N_ConnectionFailed i) = (if i = m_serverIPCName then IPCName [] [] [] else GetIPCName i)"
| "copied_name (N_GettingMessage n path data) = GetIPCName (hd path)"
| "copied_name (N_InternalConnectionStatusChanged n status port) = GetIPCName n"
| "copied_name _ = IPCName [] [] []"

fun handler_needs :: "twainet_callback \<Rightarrow> notification \<Rightarrow> bool" where
  "handler_needs cb (N_ClientServerConnected s bClient) \<longleftrightarrow> cb Cb_OnModuleConnected"
| "handler_needs cb (N_GettingMessage n path data) \<longleftrightarrow> path \<noteq> []"
| "handler_needs cb _ \<longleftrightarrow> True"

lemma fits_Nil [simp]: "name_fits (IPCName [] [] [])"
  by (simp add: name_fits_def fits_def c_str_def MAX_NAME_LENGTH_def)

lemma fits_lits [simp]: "fits m_serverIPCName" "fits m_clientIPCName" "fits m_tunnelIPCName" "fits []"
  by (simp_all add: fits_def c_str_def MAX_NAME_LENGTH_def m_serverIPCName_def m_clientIPCName_def m_tunnelIPCName_def)

lemma handler_returns:
  "HandleMessage cb m n \<noteq> None \<longleftrightarrow> name_fits (copied_name n) \<and> handler_needs cb n"
  by (cases n) (auto simp: HandleMessage_defs copy_name_iff name_fits_def Let_def split: list.splits)

lemma call_back_set [simp]: "c \<in> set (call_back cb i m a) \<longleftrightarrow> cb i \<and> c = \<lparr>cl_callback = i, cl_module = m, cl_arg = a\<rparr>"
  by (auto simp: call_back_def)

lemma handler_calls:
  "HandleMessage cb m n = Some cs \<Longrightarrow> c \<in> set cs \<Longrightarrow> cb (cl_callback c) \<and> cl_module c = m"
  by (cases n) (auto simp: HandleMessage_defs copy_name_iff Let_def split: list.splits if_splits)

section \<open>Properties\<close>


text \<open>
  What the application is told about a module by the name the library prints is that very
  module, when it connects, when it disconnects and when a connection to it fails: the printed
  name is parsed back and survives the copy to the arrays.
\<close>

lemma callbacks_get_module_names:
  assumes "printable_name n" "c_name n"
  shows "HandleMessage cb m (N_ModuleConnected (GetModuleNameString n)) =
      Some (call_back cb Cb_OnModuleConnected m (A_Name n)) \<and>
    (\<exists>cs. HandleMessage cb m (N_ModuleDisconnected (GetModuleNameString n)) =
      Some (cs @ call_back cb Cb_OnModuleDisconnected m (A_Name n)) \<and>
      list_all (\<lambda>c. cl_callback c \<in> {Cb_OnClientDisconnected, Cb_OnServerDisconnected, Cb_OnTunnelDisconnected}) cs) \<and>
    HandleMessage cb m (N_ConnectionFailed (GetModuleNameString n)) =
      Some (if n = IPCName m_serverIPCName [] [] then call_back cb Cb_OnClientConnectionFailed m A_None
            else call_back cb Cb_OnModuleConnectionFailed m (A_Name n))"
proof -
  note name = GetIPCName_GetModuleNameString[OF assms(1)] copy_c_name[OF assms(2)]
  have "GetModuleNameString n = m_serverIPCName \<longleftrightarrow> n = IPCName m_serverIPCName [] []"
  proof -
    have server: "printable_name (IPCName m_serverIPCName [] [])"
        "GetModuleNameString (IPCName m_serverIPCName [] []) = m_serverIPCName"
      by (simp_all add: printable_name_def dot_free_def m_serverIPCName_def GetModuleNameString_def)
    then show ?thesis using GetModuleNameString_inj[OF assms(1) server(1)] by metis
  qed
  then have "HandleMessage cb m (N_ConnectionFailed (GetModuleNameString n)) =
      Some (if n = IPCName m_serverIPCName [] [] then call_back cb Cb_OnClientConnectionFailed m A_None
            else call_back cb Cb_OnModuleConnectionFailed m (A_Name n))"
    by (simp add: ConnectionFailed_HandleMessage_def name)
  then show ?thesis
    by (auto simp: ModuleConnected_HandleMessage_def ModuleDisconnected_HandleMessage_def name Let_def list_all_iff)
qed

end
