(* ===== verification/Twainet_Application.thy ===== *)
theory Twainet_Application
  imports Notifications "HOL-Library.Sublist" "HOL-Library.Multiset"
begin

text \<open>
  The application behind the library (\<open>twainet/application/application.cpp\<close>): the modules it has
  made, the queue of notifications, and the thread that hands them to the callbacks. Pointers to
  modules are natural numbers; a notification is queued with its module.
\<close>

section \<open>State and operations\<close>

record application =
  ap_modules :: "nat list"
  ap_messages :: "(nat \<times> notification) list"
  ap_semaphore :: nat
  ap_callbacks :: twainet_callback
  ap_bInit :: bool
  ap_thread :: thread
  ap_exited :: "nat list"

text \<open>The constructor starts the thread, and \<open>Start\<close> returns once it runs.\<close>

definition Application :: application where
  "Application = \<lparr>ap_modules = [], ap_messages = [], ap_semaphore = 0, ap_callbacks = (\<lambda>_. False), ap_bInit = False,
     ap_thread = (case Start_enter Thread of None \<Rightarrow> Thread | Some t \<Rightarrow> ThreadProc_begin (Start_create t)), ap_exited = []\<rparr>"

definition Init :: "twainet_callback \<Rightarrow> application \<Rightarrow> application" where
  "Init callback a = a\<lparr>ap_callbacks := callback, ap_bInit := True\<rparr>"

definition IsInited :: "application \<Rightarrow> bool" where
  "IsInited a = ap_bInit a"

definition Stop_ap :: "application \<Rightarrow> application" where
  "Stop_ap a = a\<lparr>ap_semaphore := Semaphore_Set (ap_semaphore a)\<rparr>"

text \<open>\<open>CreateModule\<close> gets the address of the new module.\<close>

definition CreateModule_ap :: "nat \<Rightarrow> application \<Rightarrow> application" where
  "CreateModule_ap module a = a\<lparr>ap_modules := ap_modules a @ [module]\<rparr>"

fun DeleteModule_loop :: "nat \<Rightarrow> nat list \<Rightarrow> nat list \<times> nat list" where
  "DeleteModule_loop module [] = ([], [])"
| "DeleteModule_loop module (it # its) =
     (if it = module then (its, [it]) else case DeleteModule_loop module its of (ms, ex) \<Rightarrow> (it # ms, ex))"

definition DeleteModule_ap :: "nat \<Rightarrow> application \<Rightarrow> application" where
  "DeleteModule_ap module a =
     (case DeleteModule_loop module (ap_modules a) of
        (ms, ex) \<Rightarrow> a\<lparr>ap_modules := ms, ap_exited := ap_exited a @ ex\<rparr>)"

definition AddNotifycationMessage :: "nat \<Rightarrow> notification \<Rightarrow> application \<Rightarrow> application" where
  "AddNotifycationMessage module n a =
     a\<lparr>ap_messages := ap_messages a @ [(module, n)], ap_semaphore := Semaphore_Set (ap_semaphore a)\<rparr>"

text \<open>A pass of \<open>ThreadFunc\<close>: what it takes from the queue; \<open>Wait (200)\<close> always returns.\<close>

definition ThreadFunc_take :: "application \<Rightarrow> application \<times> (nat \<times> notification) list" where
  "ThreadFunc_take a =
     (case Semaphore_Wait 200 (ap_semaphore a) of
        Some (SUCCESS, s) \<Rightarrow> (a\<lparr>ap_messages := [], ap_semaphore := Semaphore_Release s\<rparr>, ap_messages a)
      | _ \<Rightarrow> (a, []))"

definition ThreadFunc_handle :: "nat \<times> notification \<Rightarrow> application \<Rightarrow> callback_call list option" where
  "ThreadFunc_handle it a = HandleMessage (ap_callbacks a) (notification_module (snd it) (fst it)) (snd it)"

text \<open>\<open>OnStop\<close> lets every module exit and deletes what is queued.\<close>

definition OnStop_ap :: "application \<Rightarrow> application" where
  "OnStop_ap a = a\<lparr>ap_exited := ap_exited a @ ap_modules a, ap_modules := [], ap_messages := []\<rparr>"

text \<open>\<open>Deinit\<close>: \<open>Join\<close> up to where it waits for the thread, and the rest.\<close>

definition Deinit_begin :: "application \<Rightarrow> application" where
  "Deinit_begin a =
     (if \<not> th_handle (ap_thread a) \<or> IsStopped (ap_thread a) then a
      else Stop_ap (a\<lparr>ap_thread := StopThread (ap_thread a)\<rparr>))"

definition Deinit_end :: "application \<Rightarrow> application option" where
  "Deinit_end a =
     (if \<not> th_handle (ap_thread a) \<or> IsStopped (ap_thread a)
      then Some (a\<lparr>ap_thread := (if th_handle (ap_thread a) then (ap_thread a)\<lparr>th_handle := False\<rparr> else ap_thread a),
                  ap_bInit := False\<rparr>)
      else None)"

section \<open>Every interleaving with the thread\<close>

text \<open>
  Where the application's thread is: it tests \<open>IsStop\<close>, it goes through the notifications it has
  taken, or it has ended. What has been added, handled (with the calls made) and created is
  recorded.
\<close>

datatype app_pc = AP_Loop | AP_Handling "(nat \<times> notification) list" | AP_Ended

record app_run =
  ar_app :: application
  ar_pc :: app_pc
  ar_added :: "(nat \<times> notification) list"
  ar_handled :: "((nat \<times> notification) \<times> callback_call list) list"
  ar_created :: "nat list"

inductive app_step :: "app_run \<Rightarrow> app_run \<Rightarrow> bool" where
  as_Take: "ar_pc r = AP_Loop \<Longrightarrow> \<not> IsStop (ap_thread (ar_app r)) \<Longrightarrow> ThreadFunc_take (ar_app r) = (a, messages) \<Longrightarrow>
     app_step r (r\<lparr>ar_app := a, ar_pc := AP_Handling messages\<rparr>)"
| as_Handle: "ar_pc r = AP_Handling (it # its) \<Longrightarrow> ThreadFunc_handle it (ar_app r) = Some calls \<Longrightarrow>
     app_step r (r\<lparr>ar_pc := AP_Handling its, ar_handled := ar_handled r @ [(it, calls)]\<rparr>)"
| as_Next: "ar_pc r = AP_Handling [] \<Longrightarrow> app_step r (r\<lparr>ar_pc := AP_Loop\<rparr>)"
| as_End: "ar_pc r = AP_Loop \<Longrightarrow> IsStop (ap_thread (ar_app r)) \<Longrightarrow> OnStop_ap (ar_app r) = a \<Longrightarrow>
     app_step r (r\<lparr>ar_app := a\<lparr>ap_thread := ThreadProc_end (ap_thread a)\<rparr>, ar_pc := AP_Ended\<rparr>)"
| as_Add: "app_step r (r\<lparr>ar_app := AddNotifycationMessage module n (ar_app r), ar_added := ar_added r @ [(module, n)]\<rparr>)"
| as_Init: "app_step r (r\<lparr>ar_app := Init callback (ar_app r)\<rparr>)"
| as_Create: "app_step r (r\<lparr>ar_app := CreateModule_ap module (ar_app r), ar_created := ar_created r @ [module]\<rparr>)"
| as_Delete: "app_step r (r\<lparr>ar_app := DeleteModule_ap module (ar_app r)\<rparr>)"
| as_Deinit: "app_step r (r\<lparr>ar_app := Deinit_begin (ar_app r)\<rparr>)"
| as_Deinited: "Deinit_end (ar_app r) = Some a \<Longrightarrow> app_step r (r\<lparr>ar_app := a\<rparr>)"

inductive_cases app_stepE: "app_step r r'"

definition new_app :: app_run where
  "new_app = \<lparr>ar_app = Application, ar_pc = AP_Loop, ar_added = [], ar_handled = [], ar_created = []\<rparr>"

abbreviation app_runs :: "app_run \<Rightarrow> app_run \<Rightarrow> bool" where
  "app_runs \<equiv> rtranclp app_step"

text \<open>What the thread has taken and not yet handled.\<close>

fun taken :: "app_pc \<Rightarrow> (nat \<times> notification) list" where
  "taken (AP_Handling its) = its"
| "taken _ = []"

definition app_ok :: "app_run \<Rightarrow> bool" where
  "app_ok r \<longleftrightarrow>
     prefix (map fst (ar_handled r)) (ar_added r) \<and>
     (ar_pc r \<noteq> AP_Ended \<longrightarrow> ar_added r = map fst (ar_handled r) @ taken (ar_pc r) @ ap_messages (ar_app r)) \<and>
     length (ap_messages (ar_app r)) \<le> ap_semaphore (ar_app r) \<and>
     mset (ap_modules (ar_app r)) + mset (ap_exited (ar_app r)) = mset (ar_created r) \<and>
     (ar_pc r = AP_Ended \<longleftrightarrow> IsStopped (ap_thread (ar_app r)))"

lemma DeleteModule_loop_mset:
  "mset (fst (DeleteModule_loop module ms)) + mset (snd (DeleteModule_loop module ms)) = mset ms"
  by (induction ms) (auto split: prod.splits)

lemma DeleteModule_ap_sel [simp]:
  "mset (ap_modules (DeleteModule_ap module a)) + mset (ap_exited (DeleteModule_ap module a)) =
     mset (ap_modules a) + mset (ap_exited a)"
  "ap_messages (DeleteModule_ap module a) = ap_messages a" "ap_semaphore (DeleteModule_ap module a) = ap_semaphore a"
  "ap_thread (DeleteModule_ap module a) = ap_thread a"
  using DeleteModule_loop_mset[of module "ap_modules a"] by (auto simp: DeleteModule_ap_def split: prod.splits)

lemma ThreadFunc_take_eq:
  "ThreadFunc_take a = (if ap_semaphore a = 0 then (a, [])
     else (a\<lparr>ap_messages := [], ap_semaphore := ap_semaphore a - 1\<rparr>, ap_messages a))"
  by (simp add: ThreadFunc_take_def Semaphore_Release_def)

lemma Application_sel [simp]:
  "ap_thread Application = \<lparr>th_handle = True, th_startSemaphore = 1, th_stopSemaphore = 0, th_state = THREAD_RUNNING\<rparr>"
  "ap_messages Application = []" "ap_modules Application = []" "ap_exited Application = []"
  by (simp_all add: Application_def Thread_def thread_defs)

lemma new_app_ok: "app_ok new_app"
  by (simp add: app_ok_def new_app_def IsStopped_def)

lemma app_step_ok: "app_step r r' \<Longrightarrow> app_ok r \<Longrightarrow> app_ok r'"
proof (induction rule: app_step.induct)
  case (as_Delete r module)
  then show ?case by (simp add: app_ok_def)
next
  case (as_End r a)
  then show ?case by (auto simp: app_ok_def OnStop_ap_def thread_defs add.commute)
qed (auto simp: app_ok_def ThreadFunc_take_eq OnStop_ap_def AddNotifycationMessage_def Init_def CreateModule_ap_def
      Deinit_begin_def Deinit_end_def Stop_ap_def thread_defs prefix_def split: if_splits)

lemma app_runs_ok: "app_runs r r' \<Longrightarrow> app_ok r \<Longrightarrow> app_ok r'"
  by (induction rule: rtranclp_induct) (auto dest: app_step_ok)

section \<open>Notifications are handed over\<close>

lemma handles_taken:
  assumes "ar_pc r = AP_Handling its" "\<forall>it\<in>set its. ThreadFunc_handle it (ar_app r) \<noteq> None"
  shows "\<exists>cs. length cs = length its \<and>
    app_runs r (r\<lparr>ar_pc := AP_Loop, ar_handled := ar_handled r @ zip its cs\<rparr>)"
  using assms
proof (induction its arbitrary: r)
  case Nil
  then have "app_step r (r\<lparr>ar_pc := AP_Loop\<rparr>)" by (simp add: as_Next)
  then show ?case by auto
next
  case (Cons it its)
  then obtain c where c: "ThreadFunc_handle it (ar_app r) = Some c" by auto
  let ?r = "r\<lparr>ar_pc := AP_Handling its, ar_handled := ar_handled r @ [(it, c)]\<rparr>"
  have "app_step r ?r" using Cons.prems(1) c by (rule as_Handle)
  moreover obtain cs where "length cs = length its"
      "app_runs ?r (?r\<lparr>ar_pc := AP_Loop, ar_handled := ar_handled ?r @ zip its cs\<rparr>)"
    using Cons.IH[of ?r] Cons.prems(2) by auto
  ultimately show ?case
    by (intro exI[of _ "c # cs"]) (auto intro: converse_rtranclp_into_rtranclp)
qed

text \<open>One pass through the loop, from where it tests \<open>IsStop\<close>.\<close>

lemma loop_delivers:
  assumes "app_ok r" "ar_pc r = AP_Loop" "\<not> IsStop (ap_thread (ar_app r))"
    and "\<forall>it\<in>set (ap_messages (ar_app r)). ThreadFunc_handle it (ar_app r) \<noteq> None"
  shows "\<exists>r'. app_runs r r' \<and> map fst (ar_handled r') = ar_added r \<and> ar_added r' = ar_added r \<and> ar_pc r' = AP_Loop"
proof -
  obtain a its where take: "ThreadFunc_take (ar_app r) = (a, its)" by (cases "ThreadFunc_take (ar_app r)")
  have its: "its = ap_messages (ar_app r)" "ap_callbacks a = ap_callbacks (ar_app r)"
    using take assms(1) by (auto simp: ThreadFunc_take_eq app_ok_def split: if_splits)
  let ?r = "r\<lparr>ar_app := a, ar_pc := AP_Handling its\<rparr>"
  have "app_step r ?r" using assms(2,3) take by (rule as_Take)
  moreover obtain cs where cs: "length cs = length its"
      "app_runs ?r (?r\<lparr>ar_pc := AP_Loop, ar_handled := ar_handled ?r @ zip its cs\<rparr>)"
    using handles_taken[of ?r its] assms(4) its by (auto simp: ThreadFunc_handle_def)
  ultimately have "app_runs r (?r\<lparr>ar_pc := AP_Loop, ar_handled := ar_handled ?r @ zip its cs\<rparr>)"
    by (meson converse_rtranclp_into_rtranclp)
  moreover have "ar_added r = map fst (ar_handled r) @ its"
    using assms(1,2) its(1) by (simp add: app_ok_def)
  ultimately show ?thesis using cs(1) by (intro exI) (auto intro: conjI)
qed

section \<open>Properties\<close>

text \<open>
  C6: Every notification is handed to the callbacks at most once and in the order in which
  they were added, whatever the threads do; while the application's thread runs none is lost, and
  the semaphore is set as long as any waits. Every module the application has made is either still
  its own or has been told to exit, once.
\<close>

theorem notifications_in_order:
  assumes "app_runs new_app r"
  shows "prefix (map fst (ar_handled r)) (ar_added r) \<and>
    (ar_pc r \<noteq> AP_Ended \<longrightarrow> ar_added r = map fst (ar_handled r) @ taken (ar_pc r) @ ap_messages (ar_app r) \<and>
       (ap_messages (ar_app r) \<noteq> [] \<longrightarrow> Semaphore_IsSet (ap_semaphore (ar_app r)))) \<and>
    mset (ap_modules (ar_app r)) + mset (ap_exited (ar_app r)) = mset (ar_created r)"
  using app_runs_ok[OF assms new_app_ok]
  by (auto simp: app_ok_def Semaphore_IsSet_def intro!: Nat.gr0I)


text \<open>
  Once the library has been closed the application stays deaf: its thread has ended, and
  although the library can be initialised again, no notification added from then on is ever handed
  to a callback, because only the constructor starts the thread.
\<close>

lemma closed_application_stays_deaf:
  assumes "app_runs r r'" "ar_pc r = AP_Ended"
  shows "ar_handled r' = ar_handled r \<and> ar_pc r' = AP_Ended"
  using assms
proof (induction rule: rtranclp_induct)
  case (step r1 r2)
  then show ?case by (auto elim!: app_stepE)
qed simp

theorem notifications_in_order_witness:
  "\<exists>r. app_runs new_app r \<and> ar_added r = [(1, N_ModuleListChanged)] \<and>
     Semaphore_IsSet (ap_semaphore (ar_app r))"
proof -
  let ?r = "new_app\<lparr>ar_app := AddNotifycationMessage 1 N_ModuleListChanged Application, ar_added := [(1, N_ModuleListChanged)]\<rparr>"
  have "app_runs new_app ?r"
    using as_Add[of new_app 1 N_ModuleListChanged] by (simp add: new_app_def r_into_rtranclp)
  from notifications_in_order[OF this] this show ?thesis
    by (intro exI[of _ ?r]) (simp add: new_app_def AddNotifycationMessage_def)
qed


end
