(* ===== verification/Twainet_Api.thy ===== *)
theory Twainet_Api
  imports Twainet_Sync Twainet_Application
begin

text \<open>
  The functions of the library (\<open>include/twainet.h\<close>, \<open>twainet/application/twainet.cpp\<close>) over the
  application and its modules. A handle is the address of a module, \<^const>\<open>None\<close> for the null
  pointer; a function is \<^const>\<open>None\<close> where it uses a null pointer or one to no module. Names and
  other C strings are what is before their terminator.
\<close>

section \<open>Virtual calls\<close>

text \<open>
  The layers below record the virtual functions they call in their traces; here they are
  the module's own. \<open>now\<close> is the time \<open>OnFireConnector\<close> reads.
\<close>

fun ipc_callback :: "int \<Rightarrow> effect \<Rightarrow> twainet_module \<Rightarrow> twainet_module option" where
  "ipc_callback now (OnConnected mid) m = Some (OnConnected_tw mid m)"
| "ipc_callback now (OnConnectFailed n) m = Some (OnConnectFailed_tw n m)"
| "ipc_callback now (OnFireConnector mid) m = Some (OnFireConnector_tw now mid m)"
| "ipc_callback now (OnMessage n path data) m = OnMessage_tw n path data m"
| "ipc_callback now (OnInternalConnection n status port) m = Some (OnInternalConnection_tw n status port m)"
| "ipc_callback now OnIPCObjectsChanged m = Some (OnIPCObjectsChanged_tw m)"
| "ipc_callback now ModuleCreationFailed m = Some (ModuleCreationFailed_tw m)"
| "ipc_callback now _ m = Some m"

fun cs_callback :: "cs_effect \<Rightarrow> twainet_module \<Rightarrow> twainet_module" where
  "cs_callback (OnServerConnected s) m = OnServerConnected_tw m"
| "cs_callback (OnClientConnector s) m = OnClientConnector_tw s m"
| "cs_callback OnAuthFailed m = OnAuthFailed_tw m"
| "cs_callback ServerCreationFailed m = ServerCreationFailed_tw m"
| "cs_callback (ClientOnConnectFailed n) m = OnConnectFailed_tw n m"
| "cs_callback ClientOnIPCObjectsChanged m = OnIPCObjectsChanged_tw m"
| "cs_callback _ m = m"

fun tm_callback :: "tm_effect \<Rightarrow> twainet_module \<Rightarrow> twainet_module" where
  "tm_callback (TunnelConnectFailed s) m = OnTunnelConnectFailed_tw s m"
| "tm_callback (TunnelConnected s type) m = OnTunnelConnected_tw s type m"
| "tm_callback _ m = m"

fun ipc_callbacks :: "int \<Rightarrow> effect list \<Rightarrow> twainet_module \<Rightarrow> twainet_module option" where
  "ipc_callbacks now [] m = Some m"
| "ipc_callbacks now (e # es) m = (case ipc_callback now e m of None \<Rightarrow> None | Some m' \<Rightarrow> ipc_callbacks now es m')"

text \<open>An operation of a layer, with the virtual functions it calls.\<close>

definition call_ipc :: "int \<Rightarrow> (ipc_module \<Rightarrow> ipc_module) \<Rightarrow> twainet_module \<Rightarrow> twainet_module option" where
  "call_ipc now f m =
     (let m' = on_ipc f m in ipc_callbacks now (drop (length (m_trace (tw_ipc m))) (m_trace (tw_ipc m'))) m')"

definition call_cs :: "(cs_module \<Rightarrow> cs_module) \<Rightarrow> twainet_module \<Rightarrow> twainet_module option" where
  "call_cs f m =
     (let m' = on_cs f m
      in Some (fold cs_callback (drop (length (cs_trace (tm_base (tw_base m)))) (cs_trace (tm_base (tw_base m')))) m'))"

definition call_tunnel :: "(tunnel_module \<Rightarrow> tunnel_module) \<Rightarrow> twainet_module \<Rightarrow> twainet_module option" where
  "call_tunnel f m =
     (let m' = on_tunnel f m
      in Some (fold tm_callback (drop (length (tm_trace (tw_base m))) (tm_trace (tw_base m'))) m'))"

section \<open>The library\<close>

record library =
  lb_app :: application
  lb_modules :: "nat \<Rightarrow> twainet_module option"
  lb_container :: thread

text \<open>What a module's callbacks notify goes to the application at once.\<close>

definition notify_all :: "nat \<Rightarrow> notification list \<Rightarrow> application \<Rightarrow> application" where
  "notify_all p ns = fold (AddNotifycationMessage p) ns"

definition on_module :: "(twainet_module \<Rightarrow> twainet_module option) \<Rightarrow> nat \<Rightarrow> library \<Rightarrow> library option" where
  "on_module f p l =
     (case Option.bind (lb_modules l p) f of
        None \<Rightarrow> None
      | Some m \<Rightarrow> Some (l\<lparr>lb_modules := (lb_modules l)(p \<mapsto> m\<lparr>tw_notifications := []\<rparr>),
                         lb_app := notify_all p (tw_notifications m) (lb_app l)\<rparr>))"

text \<open>\<open>if (!module) return;\<close> and the rest.\<close>

definition guarded :: "(nat \<Rightarrow> library \<Rightarrow> library option) \<Rightarrow> nat option \<Rightarrow> library \<Rightarrow> library option" where
  "guarded f module l = (case module of None \<Rightarrow> Some l | Some p \<Rightarrow> f p l)"

definition unguarded :: "(nat \<Rightarrow> library \<Rightarrow> library option) \<Rightarrow> nat option \<Rightarrow> library \<Rightarrow> library option" where
  "unguarded f module l = (case module of None \<Rightarrow> None | Some p \<Rightarrow> f p l)"

text \<open>\<open>Start\<close> returns once the thread runs.\<close>

definition Start_th :: "thread \<Rightarrow> thread" where
  "Start_th t = (case Start_enter t of None \<Rightarrow> t | Some t \<Rightarrow> ThreadProc_begin (Start_create t))"

definition InitLibrary :: "twainet_callback \<Rightarrow> library \<Rightarrow> library" where
  "InitLibrary twainet l =
     (if \<not> IsInited (lb_app l)
      then l\<lparr>lb_app := Init twainet (lb_app l), lb_container := Start_th (lb_container l)\<rparr>
      else l)"

definition IsLibraryInited :: "library \<Rightarrow> bool" where
  "IsLibraryInited l = IsInited (lb_app l)"

text \<open>\<open>CloseLibrary\<close> up to where it waits for the application's thread, then for the managers', and the end.\<close>

definition CloseLibrary_begin :: "library \<Rightarrow> library" where
  "CloseLibrary_begin l = (if IsInited (lb_app l) then l\<lparr>lb_app := Deinit_begin (lb_app l)\<rparr> else l)"

definition CloseLibrary_join :: "library \<Rightarrow> library option" where
  "CloseLibrary_join l =
     map_option (\<lambda>a. l\<lparr>lb_app := a,
         lb_container := (if th_handle (lb_container l) then StopThread (lb_container l) else lb_container l)\<rparr>)
       (Deinit_end (lb_app l))"

definition CloseLibrary_end :: "library \<Rightarrow> library option" where
  "CloseLibrary_end l =
     (if \<not> th_handle (lb_container l) then Some l
      else if IsStopped (lb_container l) then Some (l\<lparr>lb_container := (lb_container l)\<lparr>th_handle := False\<rparr>\<rparr>)
      else None)"

section \<open>Modules\<close>

text \<open>\<open>p\<close> is the address \<open>new\<close> returns.\<close>

definition CreateModule :: "nat \<Rightarrow> string \<Rightarrow> bool \<Rightarrow> library \<Rightarrow> nat option \<times> library" where
  "CreateModule p moduleName isCoordinator l =
     (let m = TwainetModule (IPCName moduleName [] []);
          a = CreateModule_ap p (lb_app l);
          m = (if isCoordinator then on_ipc StartAsCoordinator m else on_ipc Start m)
      in (Some p, l\<lparr>lb_app := a, lb_modules := (lb_modules l)(p \<mapsto> m)\<rparr>))"

text \<open>\<open>DeleteModule\<close> looks the address up, so that it may be of no module. \<open>Exit\<close> lets the managers' thread delete it.\<close>

definition DeleteModule :: "nat option \<Rightarrow> library \<Rightarrow> library option" where
  "DeleteModule = guarded (\<lambda>p l. Some
     (l\<lparr>lb_app := DeleteModule_ap p (lb_app l),
        lb_modules := (if p \<in> set (ap_modules (lb_app l))
                       then (lb_modules l)(p := map_option (on_ipc Exit) (lb_modules l p)) else lb_modules l)\<rparr>))"

definition CreateServer :: "nat option \<Rightarrow> int \<Rightarrow> bool \<Rightarrow> library \<Rightarrow> library option" where
  "CreateServer module port local = guarded (on_module (call_cs (StartServer port local))) module"

definition ConnectToServer :: "nat option \<Rightarrow> string \<Rightarrow> int \<Rightarrow> string \<Rightarrow> string \<Rightarrow> library \<Rightarrow> library option" where
  "ConnectToServer module host port user pass =
     guarded (on_module (call_cs (\<lambda>c. Connect host port (SetPassword pass (SetUserName user c))))) module"

definition DisconnectFromServer :: "nat option \<Rightarrow> library \<Rightarrow> library option" where
  "DisconnectFromServer = guarded (on_module (call_cs Disconnect))"

definition DisconnectFromClient :: "nat option \<Rightarrow> string \<Rightarrow> library \<Rightarrow> library option" where
  "DisconnectFromClient module sessionId =
     guarded (on_module (call_ipc 0 (DisconnectModule (IPCName m_clientIPCName sessionId [])))) module"

definition ConnectToModule :: "nat option \<Rightarrow> string \<Rightarrow> library \<Rightarrow> library option" where
  "ConnectToModule module moduleName =
     guarded (on_module (call_ipc 0 (ConnectTo (IPCName moduleName [] [])))) module"

definition DisconnectFromModule :: "nat option \<Rightarrow> string \<Rightarrow> library \<Rightarrow> library option" where
  "DisconnectFromModule module moduleName =
     guarded (on_module (call_ipc 0 (DisconnectModule (IPCName moduleName [] [])))) module"

definition CreateTunnel :: "nat option \<Rightarrow> string \<Rightarrow> type_connection \<Rightarrow> library \<Rightarrow> library option" where
  "CreateTunnel module sessionId type = guarded (on_module (call_tunnel (InitNewTunnel sessionId type))) module"

definition DisconnectTunnel :: "nat option \<Rightarrow> string \<Rightarrow> library \<Rightarrow> library option" where
  "DisconnectTunnel module sessionId = guarded (on_module (call_tunnel (DestroyTunnel sessionId))) module"

definition ChangeModuleName :: "nat option \<Rightarrow> string \<Rightarrow> library \<Rightarrow> library option" where
  "ChangeModuleName module moduleName =
     guarded (on_module (call_ipc 0 (UpdateModuleName (IPCName moduleName [] [])))) module"

definition CreateInternalConnection_api :: "nat option \<Rightarrow> ipc_name \<Rightarrow> string \<Rightarrow> int \<Rightarrow> library \<Rightarrow> library option" where
  "CreateInternalConnection_api module moduleName ip port =
     guarded (on_module (call_ipc 0 (CreateInternalConnection moduleName ip port))) module"

definition SetTunnelType :: "nat option \<Rightarrow> string \<Rightarrow> string \<Rightarrow> type_connection \<Rightarrow> library \<Rightarrow> library option" where
  "SetTunnelType module one two type = unguarded (on_module (call_tunnel (SetTypeTunnel one two type))) module"

text \<open>The cast keeps the number: \<open>TypeConnection\<close> and \<open>TunnelType\<close> count the same types.\<close>

definition SetAvailableTunnelTypes :: "nat option \<Rightarrow> type_connection list \<Rightarrow> library \<Rightarrow> library option" where
  "SetAvailableTunnelTypes module types =
     unguarded (on_module (call_tunnel (SetTunnelAvailableType (map tunnel_type_of types)))) module"

definition SetUsersList :: "nat option \<Rightarrow> (string \<times> string) list \<Rightarrow> library \<Rightarrow> library option" where
  "SetUsersList module users =
     guarded (on_module (call_cs (\<lambda>c. fold (\<lambda>(user, pass). AddUser user pass) users (ClearUsers c)))) module"

definition UseProxy_api :: "nat option \<Rightarrow> string \<Rightarrow> int \<Rightarrow> string \<Rightarrow> string \<Rightarrow> library \<Rightarrow> library option" where
  "UseProxy_api module host port user pass =
     guarded (on_module (call_cs (\<lambda>c. SetProxyPassword pass (SetProxyUserName user (UseProxy host port c))))) module"

definition UseStandartConnections_api :: "nat option \<Rightarrow> library \<Rightarrow> library option" where
  "UseStandartConnections_api = guarded (on_module (call_cs UseStandartConnections))"

section \<open>Messages\<close>

record api_message =
  am_target :: ipc_name
  am_typeMessage :: string
  am_data :: string

definition message_for :: "api_message \<Rightarrow> twainet_module \<Rightarrow> ipc_message" where
  "message_for msg m = \<lparr>message_name = am_typeMessage msg, ipc_path = GetTargetPath_tw (am_target msg) m,
     ipc_sender = [], message = am_data msg\<rparr>"

definition SendMessage :: "nat option \<Rightarrow> api_message \<Rightarrow> library \<Rightarrow> library option" where
  "SendMessage module msg = guarded (on_module (\<lambda>m. call_ipc 0 (SendMsg (message_for msg m)) m)) module"

text \<open>
  \<open>SendSyncMessage\<close> up to where it waits, \<^const>\<open>Inl\<close> if it returns before that; and the rest,
  \<^const>\<open>None\<close> while it waits.
\<close>

definition SendSyncMessage_begin :: "nat option \<Rightarrow> api_message \<Rightarrow> api_message \<Rightarrow> library \<Rightarrow> (bool + library) option" where
  "SendSyncMessage_begin module msg resp l =
     (case module of
        None \<Rightarrow> Some (Inl False)
      | Some p \<Rightarrow>
          (case lb_modules l p of
             None \<Rightarrow> None
           | Some m \<Rightarrow>
               (case SendSyncMsg_begin (message_for msg m) (am_typeMessage resp) (am_target resp) m of
                  None \<Rightarrow> Some (Inl False)
                | Some m' \<Rightarrow> Some (Inr (l\<lparr>lb_modules := (lb_modules l)(p \<mapsto> m')\<rparr>)))))"

definition SendSyncMessage_end :: "nat \<Rightarrow> api_message \<Rightarrow> library \<Rightarrow> (library \<times> api_message \<times> bool) option" where
  "SendSyncMessage_end p resp l =
     (case lb_modules l p of
        None \<Rightarrow> None
      | Some m \<Rightarrow>
          map_option (\<lambda>(m', data). (l\<lparr>lb_modules := (lb_modules l)(p \<mapsto> m')\<rparr>,
              (if data \<noteq> [] then resp\<lparr>am_data := data\<rparr> else resp), data \<noteq> []))
            (SendSyncMsg_end (am_typeMessage resp) (am_target resp) m))"

text \<open>
  \<open>FreeMessage\<close>, with the arrays that are allocated: the pointer stays in the message, so that a
  second call deletes an array that is gone.
\<close>

definition FreeMessage :: "nat option \<Rightarrow> nat set \<Rightarrow> nat set option" where
  "FreeMessage m_data arrays =
     (case m_data of None \<Rightarrow> Some arrays | Some a \<Rightarrow> if a \<in> arrays then Some (arrays - {a}) else None)"

section \<open>Queries\<close>

definition query :: "(twainet_module \<Rightarrow> 'a) \<Rightarrow> nat \<Rightarrow> library \<Rightarrow> 'a option" where
  "query f p l = map_option f (lb_modules l p)"

definition GetModuleName :: "nat option \<Rightarrow> library \<Rightarrow> ipc_name option" where
  "GetModuleName module l =
     (case module of
        None \<Rightarrow> Some (IPCName [] [] [])
      | Some p \<Rightarrow> Option.bind (query (\<lambda>m. m_moduleName (tw_ipc m)) p l) copy_name)"

definition GetSessionId :: "nat option \<Rightarrow> library \<Rightarrow> string option" where
  "GetSessionId module l =
     (case module of None \<Rightarrow> None | Some p \<Rightarrow> query (\<lambda>m. c_str (tm_ownSessionId (tw_base m))) p l)"

text \<open>
  An array that is filled: its elements after the call, what the size argument becomes, and the
  result; \<open>modules\<close> is the array as it was, at least \<open>sizeModules\<close> long.
\<close>

fun copy_names :: "nat \<Rightarrow> ipc_name list \<Rightarrow> ipc_name list \<Rightarrow> ipc_name list option" where
  "copy_names i [] modules = Some modules"
| "copy_names i (it # its) modules =
     (case copy_name it of
        None \<Rightarrow> None
      | Some n \<Rightarrow> if i < length modules then copy_names (Suc i) its (modules[i := n]) else None)"

definition fill_names :: "ipc_name list \<Rightarrow> ipc_name list \<Rightarrow> int \<Rightarrow> (ipc_name list \<times> int \<times> int) option" where
  "fill_names objects modules sizeModules =
     (if sizeModules < int (length objects) then Some (modules, int (length objects), 0)
      else map_option (\<lambda>modules. (modules, sizeModules, int (length objects))) (copy_names 0 objects modules))"

definition GetExistingModules :: "nat option \<Rightarrow> ipc_name list \<Rightarrow> int \<Rightarrow> library \<Rightarrow> (ipc_name list \<times> int \<times> int) option" where
  "GetExistingModules module modules sizeModules l =
     (case module of
        None \<Rightarrow> Some (modules, sizeModules, 0)
      | Some p \<Rightarrow> Option.bind (query (\<lambda>m. GetIPCObjects (tw_ipc m)) p l) (\<lambda>objects. fill_names objects modules sizeModules))"

definition GetInternalConnections_api :: "nat option \<Rightarrow> ipc_name list \<Rightarrow> int \<Rightarrow> library \<Rightarrow> (ipc_name list \<times> int \<times> int) option" where
  "GetInternalConnections_api module connections sizeConnections l =
     (case module of
        None \<Rightarrow> Some (connections, sizeConnections, 0)
      | Some p \<Rightarrow> Option.bind (query (\<lambda>m. GetInternalConnections (tw_ipc m)) p l)
                   (\<lambda>objects. fill_names objects connections sizeConnections))"

text \<open>
  \<open>strcpy\<close> also writes the terminator; \<open>str\<close> is the array as it was, \<^const>\<open>None\<close> if it does not
  have the room.
\<close>

definition GetModuleNameString_api :: "ipc_name \<Rightarrow> string \<Rightarrow> int \<Rightarrow> (string \<times> int \<times> int) option" where
  "GetModuleNameString_api moduleName str strlen =
     (let strModuleName = GetModuleNameString moduleName
      in if strlen < int (length strModuleName) then Some (str, int (length strModuleName), 0)
         else if length strModuleName < length str
         then Some (strModuleName @ [CHR 0x00] @ drop (Suc (length strModuleName)) str, strlen, strlen)
         else None)"

end
