(* ===== verification/Twainet_Delivery.thy ===== *)
theory Twainet_Delivery
  imports Twainet_Api Client_Server_Properties
begin

text \<open>
  What the functions of the library do through all the layers: from a message on a connection to the
  callback, from \<open>SendMessage\<close> to the path, and how the arrays of the caller are filled.
\<close>

section \<open>Arrays of the caller\<close>

lemma copy_names_eq:
  "list_all c_name its \<Longrightarrow> i + length its \<le> length modules \<Longrightarrow>
     copy_names i its modules = Some (take i modules @ its @ drop (i + length its) modules)"
proof (induction its arbitrary: i modules)
  case (Cons it its)
  then have "copy_names (Suc i) its (modules[i := it]) =
      Some (take (Suc i) (modules[i := it]) @ its @ drop (Suc i + length its) (modules[i := it]))"
    by simp
  moreover have "take (Suc i) (modules[i := it]) = take i modules @ [it]"
    using Cons.prems(2) by (simp add: take_Suc_conv_app_nth)
  ultimately show ?case using Cons.prems by (simp add: copy_c_name)
qed simp

lemma fill_names_protocol:
  assumes "list_all c_name objects"
  shows "sz < int (length objects) \<Longrightarrow> fill_names objects modules sz = Some (modules, int (length objects), 0)"
    and "length modules = length objects \<Longrightarrow>
      fill_names objects modules (int (length objects)) = Some (objects, int (length objects), int (length objects))"
  using copy_names_eq[OF assms, of 0 modules] by (simp_all add: fill_names_def)

text \<open>
  Asking twice: with too small an array the functions say how many names there are, and with an array of
  that many they fill it with all of them.
\<close>

lemma module_lists_in_two_calls:
  assumes "lb_modules l p = Some m"
  shows "list_all c_name (GetIPCObjects (tw_ipc m)) \<Longrightarrow> sz < int (length (GetIPCObjects (tw_ipc m))) \<Longrightarrow>
      GetExistingModules (Some p) modules sz l = Some (modules, int (length (GetIPCObjects (tw_ipc m))), 0)"
    and "list_all c_name (GetIPCObjects (tw_ipc m)) \<Longrightarrow> length modules = length (GetIPCObjects (tw_ipc m)) \<Longrightarrow>
      GetExistingModules (Some p) modules (int (length modules)) l =
        Some (GetIPCObjects (tw_ipc m), int (length modules), int (length modules))"
    and "list_all c_name (GetInternalConnections (tw_ipc m)) \<Longrightarrow> length modules = length (GetInternalConnections (tw_ipc m)) \<Longrightarrow>
      GetInternalConnections_api (Some p) modules (int (length modules)) l =
        Some (GetInternalConnections (tw_ipc m), int (length modules), int (length modules))"
  using assms fill_names_protocol
  by (simp_all add: GetExistingModules_def GetInternalConnections_api_def query_def)

text \<open>
  A caller of \<open>GetModuleNameString\<close> whose buffer is shorter than the name is told the
  name's length; a buffer of exactly that length is overrun by the terminator, and only a longer one
  comes back with the name.
\<close>

lemma module_name_string_buffer:
  assumes "c_name n"
  shows "case GetModuleNameString_api n str (int (length str)) of
      None \<Rightarrow> length str = length (GetModuleNameString n)
    | Some (str', strlen, result) \<Rightarrow>
        length str' = length str \<and>
        (if length str < length (GetModuleNameString n)
         then str' = str \<and> strlen = int (length (GetModuleNameString n)) \<and> result = 0
         else length (GetModuleNameString n) < length str \<and> c_str str' = GetModuleNameString n \<and>
           strlen = int (length str) \<and> result = strlen)"
proof -
  let ?s = "GetModuleNameString n"
  have "CHR 0x00 \<notin> set ?s"
    using assms by (auto simp: GetModuleNameString_def c_name_def Let_def)
  then have "c_str (?s @ CHR 0x00 # rest) = ?s" for rest
    by (simp add: c_str_def takeWhile_append)
  then show ?thesis by (auto simp: GetModuleNameString_api_def Let_def)
qed

section \<open>Paths of messages\<close>

text \<open>The objects a message is relayed through, and the name it has there.\<close>

definition relays_for :: "ipc_name \<Rightarrow> ipc_object list \<Rightarrow> ipc_name list list" where
  "relays_for target xs =
     map (\<lambda>it. [m_ipcName it, if host_name target = [] then target else IPCName (mod_name target) [] []])
       (filter (\<lambda>it. conn_id (m_ipcName it) = [] \<and>
          (if host_name target = [] then m_accessId it = m_baseAccessId else mod_name (m_ipcName it) = m_serverIPCName)) xs)"

lemma relay_path_tw_eq:
  "relay_path_tw (host_name target = []) (host_name target \<noteq> []) target xs acc = acc @ concat (relays_for target xs)"
  by (induction xs arbitrary: acc) (auto simp: relays_for_def)

lemma GetTargetPath_tw_eq:
  "GetTargetPath_tw target m =
     (if m_moduleName (tw_ipc m) = target then []
      else if target \<in> set (GetConnectedModules (tw_ipc m)) then [target]
      else concat (relays_for target (m_ipcObject (tw_ipc m))))"
proof -
  have "target_connected target xs \<longleftrightarrow> target \<in> m_ipcName ` set xs" for xs
    by (induction xs) auto
  then show ?thesis by (simp add: GetTargetPath_tw_def relay_path_tw_eq GetConnectedModules_def)
qed

lemma on_ipc_ipc [simp]: "tw_ipc (on_ipc f m) = f (tw_ipc m)"
  by (simp add: on_ipc_def on_cs_def on_tunnel_def on_base_def)

lemma on_ipc_on_ipc: "on_ipc f (on_ipc g m) = on_ipc (\<lambda>c. f (g c)) m"
  by (simp add: on_ipc_def on_cs_def on_tunnel_def on_base_def)

lemma no_notifications: "tw_notifications m = [] \<Longrightarrow> m\<lparr>tw_notifications := []\<rparr> = m"
  by simp

lemma call_ipc_emit:
  "(\<And>c. f c = emit e c) \<Longrightarrow> call_ipc now f m = ipc_callback now e (on_ipc f m)"
  by (simp add: call_ipc_def emit_def split: option.splits)

text \<open>
  The path of a message the application sends. None for the module itself, the target alone
  when it is connected; otherwise, for a module of this host, through each coordinator the module knows
  of, and for one of another host through each server connection, to the module of that name there. The
  message goes to the connections with that path, and nothing else happens.
\<close>

lemma SendMessage_path:
  assumes "lb_modules l p = Some m" "tw_notifications m = []"
  shows "SendMessage (Some p) msg l = Some (l\<lparr>lb_modules := (lb_modules l)(p \<mapsto>
     on_ipc (emit (SignalIPCMessage \<lparr>message_name = am_typeMessage msg,
       ipc_path = (if m_moduleName (tw_ipc m) = am_target msg then []
                   else if am_target msg \<in> set (GetConnectedModules (tw_ipc m)) then [am_target msg]
                   else concat (relays_for (am_target msg) (m_ipcObject (tw_ipc m)))),
       ipc_sender = [], message = am_data msg\<rparr>)) m)\<rparr>)"
proof -
  have "call_ipc 0 (SendMsg (message_for msg m)) m = Some (on_ipc (SendMsg (message_for msg m)) m)"
    by (subst call_ipc_emit[where e = "SignalIPCMessage (message_for msg m)"]) (simp_all add: SendMsg_def)
  moreover have "SendMsg (message_for msg m) = emit (SignalIPCMessage \<lparr>message_name = am_typeMessage msg,
       ipc_path = (if m_moduleName (tw_ipc m) = am_target msg then []
                   else if am_target msg \<in> set (GetConnectedModules (tw_ipc m)) then [am_target msg]
                   else concat (relays_for (am_target msg) (m_ipcObject (tw_ipc m)))),
       ipc_sender = [], message = am_data msg\<rparr>)"
    by (simp add: fun_eq_iff SendMsg_def message_for_def GetTargetPath_tw_eq)
  ultimately show ?thesis
    using assms by (simp add: SendMessage_def guarded_def on_module_def notify_all_def no_notifications)
qed

section \<open>Messages to the application\<close>

lemma copied_sender: "printable_name n \<Longrightarrow> c_name n \<Longrightarrow> copy_name (GetIPCName (GetModuleNameString n)) = Some n"
  by (simp add: GetIPCName_GetModuleNameString copy_c_name)

lemma mailbox_on_ipc [simp]: "mailbox (on_ipc f m) = mailbox m"
  by (simp add: mailbox_def fun_eq_iff)

lemma sint_small: "length d < 2 ^ 31 \<Longrightarrow> sint (of_nat (length d) :: 32 word) = int (length d)"
  by (simp add: signed_of_nat signed_take_bit_int_eq_self)

text \<open>
  C5: A message for a module goes from its connection to the application: when no call of
  \<open>SendSyncMessage\<close> waits for it, it is added to the application's queue, and its handler calls
  the message callback about this module with the sender's name, the type and all the data; when a
  call waits, the application sees nothing and the call is woken with the data.
\<close>

theorem message_reaches_application:
  assumes "lb_modules l p = Some m" "tw_notifications m = []"
    and "ipc_sender msg = n # ns" "printable_name n" "c_name n" "CHR 0x00 \<notin> set (message_name msg)"
    and "length (message msg) < 2 ^ 31"
  shows "\<exists>l' m'. on_module (call_ipc now (onIPCMessageProto msg)) p l = Some l' \<and> lb_modules l' p = Some m' \<and>
    (case mailbox m (message_name msg, n) of
       None \<Rightarrow> \<exists>note. ap_messages (lb_app l') = ap_messages (lb_app l) @ [(p, note)] \<and>
         ThreadFunc_handle (p, note) (lb_app l') = Some (call_back (ap_callbacks (lb_app l)) Cb_OnMessageRecv (Some p)
           (A_Message n (message_name msg) (message msg) (int (length (message msg)))))
     | Some (k, d) \<Rightarrow> lb_app l' = lb_app l \<and>
         mailbox m' (message_name msg, n) = Some (Suc k, if message msg \<noteq> [] then message msg else d))"
proof -
  let ?path = "map GetModuleNameString (n # ns)"
  let ?m1 = "on_ipc (onIPCMessageProto msg) m"
  have call: "call_ipc now (onIPCMessageProto msg) m = OnMessage_tw (message_name msg) ?path (message msg) ?m1"
    using assms(3) by (subst call_ipc_emit) (auto simp: onIPCMessageProto_def)
  then obtain m2 where m2: "OnMessage_tw (message_name msg) ?path (message msg) ?m1 = Some m2"
    by (auto simp: OnMessage_tw_def Let_def)
  have key: "addressed (message_name msg) ?path = (message_name msg, n)"
    using assms(4) by (simp add: addressed_def GetIPCName_GetModuleNameString)
  note arrived = OnMessage_tw_mailbox[OF m2, of "(message_name msg, n)"]
  let ?m' = "m2\<lparr>tw_notifications := []\<rparr>"
  have on: "on_module (call_ipc now (onIPCMessageProto msg)) p l = Some (l\<lparr>lb_modules := (lb_modules l)(p \<mapsto> ?m'),
      lb_app := notify_all p (tw_notifications m2) (lb_app l)\<rparr>)"
    using assms(1) call m2 by (simp add: on_module_def)
  show ?thesis
  proof (cases "mailbox m (message_name msg, n)")
    case None
    then have "tw_notifications m2 = [N_GettingMessage (message_name msg) ?path (message msg)]"
      using arrived key assms(2) by simp
    then show ?thesis unfolding on using None assms(4-7)
      by (simp add: notify_all_def AddNotifycationMessage_def ThreadFunc_handle_def GettingMessage_HandleMessage_def
          copied_sender sint_small c_str_id)
  next
    case (Some b)
    then have "tw_notifications m2 = []" "mailbox m2 (message_name msg, n) = mailbox_step (message_name msg, n)
        (Arrives (message_name msg) ?path (message msg)) (Some b)"
      using arrived key assms(2) by auto
    moreover have "mailbox ?m' = mailbox m2" by (simp add: mailbox_def fun_eq_iff)
    ultimately show ?thesis unfolding on using Some key by (auto simp: notify_all_def)
  qed
qed

theorem message_reaches_application_witness:
  "let m = TwainetModule (local_name ''console''); n = IPCName ''shell'' ''host7'' [];
       msg = \<lparr>message_name = ''Ping'', ipc_path = [], ipc_sender = [n], message = ''data''\<rparr>;
       l = \<lparr>lb_app = Init (\<lambda>_. True) Application, lb_modules = [1 \<mapsto> m], lb_container = Thread\<rparr>
   in \<exists>l' note. on_module (call_ipc 0 (onIPCMessageProto msg)) 1 l = Some l' \<and> ap_messages (lb_app l') = [(1, note)] \<and>
        ThreadFunc_handle (1, note) (lb_app l') =
          Some [\<lparr>cl_callback = Cb_OnMessageRecv, cl_module = Some 1, cl_arg = A_Message n ''Ping'' ''data'' 4\<rparr>]"
proof -
  let ?m = "TwainetModule (local_name ''console'')" and ?n = "IPCName ''shell'' ''host7'' []"
  let ?msg = "\<lparr>message_name = ''Ping'', ipc_path = [], ipc_sender = [?n], message = ''data''\<rparr>"
  let ?l = "\<lparr>lb_app = Init (\<lambda>_. True) Application, lb_modules = [1 \<mapsto> ?m], lb_container = Thread\<rparr>"
  have "printable_name ?n" "c_name ?n"
    by (simp_all add: printable_name_def dot_free_def c_name_def MAX_NAME_LENGTH_def)
  moreover have "lb_modules ?l 1 = Some ?m" "tw_notifications ?m = []" "mailbox ?m (''Ping'', ?n) = None"
    by (simp_all add: TwainetModule_def mailbox_def)
  ultimately show ?thesis
    using message_reaches_application[of ?l 1 ?m ?msg ?n "[]" 0] by (auto simp: Let_def Init_def call_back_def)
qed

section \<open>The users of a server\<close>

text \<open>\<open>SetUsersList\<close> replaces whatever users there were; of two entries for one user the later counts.\<close>

lemma SetUsersList_replaces:
  assumes "lb_modules l p = Some m"
  shows "\<exists>l' m'. SetUsersList (Some p) users l = Some l' \<and> lb_modules l' p = Some m' \<and>
    (lg_login_result (onLogin msg (tm_base (tw_base m'))) = LOGIN_SUCCESS \<longleftrightarrow>
       map_of (rev users) (lg_name msg) = Some (lg_password msg))"
proof -
  let ?ops = "OpClear # map (\<lambda>(u, p). OpAdd u p) users"
  let ?f = "\<lambda>c. fold (\<lambda>(user, pass). AddUser user pass) users (ClearUsers c)"
  have f: "?f c = fold apply_user_op ?ops c" for c
    by (simp add: fold_map comp_def split_def)
  have inv: "om_inv up_userName (cs_userPasswords (ClearUsers c)) \<and> passwords (ClearUsers c) = Map.empty" for c
    by (simp add: ClearUsers_def passwords_def fun_eq_iff)
  have "fold credentials_op (map (\<lambda>(u, p). OpAdd u p) users) e = e ++ map_of (rev users)" for e
    by (induction users arbitrary: e) (auto simp: map_add_def fun_eq_iff split: option.splits)
  then have cred: "om_inv up_userName (cs_userPasswords (?f c)) \<and> passwords (?f c) = map_of (rev users)" for c
    using fold_user_ops_refines[of "ClearUsers c" "map (\<lambda>(u, p). OpAdd u p) users"] inv[of c] f[of c] by simp
  have keep: "tm_base (tw_base (fold cs_callback es m)) = tm_base (tw_base m)" for es m
  proof (induction es arbitrary: m)
    case (Cons e es)
    have "tw_base (cs_callback e m) = tw_base m"
      by (cases e) (simp_all add: OnServerConnected_tw_def OnClientConnector_tw_def OnAuthFailed_tw_def
          ServerCreationFailed_tw_def OnConnectFailed_tw_def OnIPCObjectsChanged_tw_def AddNotifycationMessage_tw_def)
    then show ?case using Cons by simp
  qed simp
  show ?thesis
    using assms onLogin_passwords[OF conjunct1[OF cred]] cred
    by (simp add: SetUsersList_def guarded_def on_module_def call_cs_def Let_def keep on_cs_def on_tunnel_def)
qed

end
