(* ===== verification/Console.thy ===== *)
theory Console
  imports Prelude
begin

text \<open>
  The line editor of the remote terminal (\<open>apps/remote_terminal/terminal/console.cpp\<close>): a command
  that is edited at a caret, a history of commands, and the bytes written to the terminal, which
  \<open>co_out\<close> records. Operations are \<^const>\<open>None\<close> where the code leaves the bounds of the command or of
  the history. Setting up the terminal's modes is left out.
\<close>

section \<open>State\<close>

datatype accum_type =
    ARROW_UP | ARROW_DOWN | ARROW_LEFT | ARROW_RIGHT | KEY_DELETE | KEY_END | KEY_HOME
  | PAGEUP | PAGEDOWN | KEY_INSERT

record console =
  co_command :: string
  co_termName :: string
  co_stream :: bool
  co_accumchars :: string
  co_history :: "string list"
  co_historyCounter :: nat
  co_tab :: bool
  co_carpos :: nat
  co_out :: string

definition Console :: console where
  "Console = \<lparr>co_command = [], co_termName = [], co_stream = False, co_accumchars = [], co_history = [],
     co_historyCounter = 0, co_tab = False, co_carpos = 0, co_out = []\<rparr>"

text \<open>The sequences of bytes of the keys, in the order of the map they are in.\<close>

definition key_templates :: "(accum_type \<times> string) list" where
  "key_templates =
    [(ARROW_UP, CHR 0x1B # ''[A''), (ARROW_DOWN, CHR 0x1B # ''[B''), (ARROW_LEFT, CHR 0x1B # ''[D''),
     (ARROW_RIGHT, CHR 0x1B # ''[C''), (KEY_DELETE, CHR 0x1B # ''[3~''), (KEY_END, CHR 0x1B # ''[F''),
     (KEY_HOME, CHR 0x1B # ''[H''), (PAGEUP, CHR 0x1B # ''[5~''), (PAGEDOWN, CHR 0x1B # ''[6~''),
     (KEY_INSERT, CHR 0x1B # ''[2~'')]"

definition template_of :: "accum_type \<Rightarrow> string" where
  "template_of t = the (map_of key_templates t)"

section \<open>Output\<close>

abbreviation BS :: char where
  "BS \<equiv> CHR 0x08"

definition print :: "string \<Rightarrow> console \<Rightarrow> console" where
  "print s c = c\<lparr>co_out := co_out c @ s\<rparr>"

definition printName :: "console \<Rightarrow> console" where
  "printName c = print (''#'' @ c_str (co_termName c) @ '':'') c"

definition clearLine :: "console \<Rightarrow> console" where
  "clearLine c =
     (if \<not> co_stream c then c
      else print (replicate (length (co_command c) - co_carpos c) CHR '' '' @
                  concat (replicate (length (co_command c) + 2 + length (co_termName c)) [BS, CHR '' '', BS])) c)"

definition Console_Init :: "console \<Rightarrow> console" where
  "Console_Init c = printName (c\<lparr>co_stream := True\<rparr>)"

definition Console_Write :: "string \<Rightarrow> console \<Rightarrow> console" where
  "Console_Write log c =
     (let c = clearLine c
      in if co_stream c
         then print (c_str (co_command c) @ replicate (length (co_command c) - co_carpos c) BS)
                (printName (print (c_str log @ [CHR 0x0A]) c))
         else c)"

text \<open>\<open>SetTermName\<close> prints also when there is no stream.\<close>

definition SetTermName :: "string \<Rightarrow> console \<Rightarrow> console option" where
  "SetTermName termName c =
     (if \<not> co_stream c then None
      else Some ((printName ((clearLine c)\<lparr>co_termName := termName\<rparr>))\<lparr>co_carpos := 0\<rparr>))"

section \<open>Keys\<close>

definition show_history :: "nat \<Rightarrow> console \<Rightarrow> console option" where
  "show_history n c =
     (if 0 < n \<and> n \<le> length (co_history c)
      then let command = co_history c ! (length (co_history c) - n)
           in Some (print (c_str command) (c\<lparr>co_historyCounter := n, co_command := command, co_carpos := length command\<rparr>))
      else None)"

text \<open>The branches of \<open>Read\<close> for a key; at a counter of 0 \<open>ARROW_DOWN\<close> reads beyond the history.\<close>

fun apply_key :: "accum_type \<Rightarrow> console \<Rightarrow> console option" where
  "apply_key ARROW_UP c =
     (if co_history c \<noteq> [] \<and> co_historyCounter c < length (co_history c)
      then show_history (co_historyCounter c + 1) (printName (clearLine c))
      else Some c)"
| "apply_key ARROW_DOWN c =
     (if co_history c \<noteq> [] \<and> co_historyCounter c \<noteq> 1
      then (if co_historyCounter c = 0 then None
            else show_history (co_historyCounter c - 1) (printName (clearLine c)))
      else Some c)"
| "apply_key ARROW_LEFT c =
     (if co_carpos c \<noteq> 0 then Some (print [BS] (c\<lparr>co_carpos := co_carpos c - 1\<rparr>)) else Some c)"
| "apply_key ARROW_RIGHT c =
     (if co_carpos c < length (co_command c)
      then Some ((print [co_command c ! co_carpos c] c)\<lparr>co_carpos := co_carpos c + 1\<rparr>) else Some c)"
| "apply_key KEY_DELETE c =
     (if co_carpos c < length (co_command c)
      then let c = c\<lparr>co_command := take (co_carpos c) (co_command c) @ drop (Suc (co_carpos c)) (co_command c)\<rparr>
           in Some (print (c_str (drop (co_carpos c) (co_command c)) @ '' '' @ [BS] @
                replicate (length (co_command c) - co_carpos c) BS) c)
      else Some c)"
| "apply_key KEY_END c =
     Some ((print (drop (co_carpos c) (co_command c)) c)\<lparr>co_carpos := length (co_command c)\<rparr>)"
| "apply_key KEY_HOME c =
     Some ((print (replicate (length (co_command c)) BS) c)\<lparr>co_carpos := 0\<rparr>)"
| "apply_key _ c = Some c"

text \<open>
  \<open>useChar\<close>; \<open>ac\<close> is the terminal's \<open>autoComplete\<close>, which may write to the console. The first result
  is the command when it is complete.
\<close>

type_synonym completion = "string \<Rightarrow> console \<Rightarrow> (string option \<times> console) option"

definition useChar :: "completion \<Rightarrow> char \<Rightarrow> console \<Rightarrow> (string option \<times> console) option" where
  "useChar ac ch c =
     (if ch = CHR 0x09 \<and> \<not> co_tab c then Some (None, c\<lparr>co_tab := True\<rparr>)
      else if ch = CHR 0x09 then
        (case ac (take (co_carpos c) (co_command c)) (c\<lparr>co_tab := False\<rparr>) of
           None \<Rightarrow> None
         | Some (None, c) \<Rightarrow> Some (None, c)
         | Some (Some command, c) \<Rightarrow>
             Some (None, print (c_str command) ((printName (clearLine c))\<lparr>co_command := command, co_carpos := length command\<rparr>)))
      else
        let c = c\<lparr>co_tab := False\<rparr>
        in if ch = CHR 0x0A then
             let buf = co_command c;
                 c = printName (print [CHR 0x0A] (c\<lparr>co_command := [], co_carpos := 0\<rparr>));
                 c = c\<lparr>co_historyCounter := 0\<rparr>
             in Some (Some buf, if buf \<noteq> [] then c\<lparr>co_history := co_history c @ [buf]\<rparr> else c)
           else if ch = CHR 0x1B then Some (None, (printName (clearLine c))\<lparr>co_command := [], co_carpos := 0\<rparr>)
           else if ch = CHR 0x0D then Some (None, c)
           else if ch = CHR 0x7F \<and> co_command c \<noteq> [] then
             (if co_carpos c = 0 then None
              else
                let c = c\<lparr>co_command := take (co_carpos c - 1) (co_command c) @ drop (co_carpos c) (co_command c),
                          co_carpos := co_carpos c - 1\<rparr>
                in Some (None, print ([BS] @ c_str (drop (co_carpos c) (co_command c)) @ '' '' @ [BS] @
                     replicate (length (co_command c) - co_carpos c) BS) c))
           else if (31 :: nat) < of_char ch \<and> (of_char ch :: nat) < 127 then
             let c = print ([ch] @ c_str (drop (co_carpos c) (co_command c))) c;
                 c = c\<lparr>co_command := take (co_carpos c) (co_command c) @ [ch] @ drop (co_carpos c) (co_command c),
                       co_carpos := co_carpos c + 1\<rparr>
             in Some (None, print (replicate (length (co_command c) - co_carpos c) BS) c)
           else Some (None, c))"

section \<open>Reading\<close>

text \<open>\<open>ThreadFunc\<close> adds the bytes that come in; \<open>checkAccumeChars\<close> looks for a key among them.\<close>

definition Console_input :: "char \<Rightarrow> console \<Rightarrow> console" where
  "Console_input ch c = c\<lparr>co_accumchars := co_accumchars c @ [ch]\<rparr>"

fun check_templates :: "string \<Rightarrow> (accum_type \<times> string) list \<Rightarrow> int \<times> accum_type option" where
  "check_templates accumchars [] = (1, None)"
| "check_templates accumchars ((t, s) # tmpls) =
     (let size = min (length accumchars) (length s)
      in if take size s = take size accumchars
         then (if length s = size then (0, Some t) else (-1, None))
         else check_templates accumchars tmpls)"

definition checkAccumeChars :: "string \<Rightarrow> int \<times> accum_type option" where
  "checkAccumeChars accumchars = check_templates accumchars key_templates"

lemma check_templates_found:
  "check_templates s ts = (r, Some t) \<Longrightarrow> \<exists>k. (t, k) \<in> set ts \<and> k = take (length k) s \<and> length k \<le> length s"
proof (induction ts)
  case (Cons x ts)
  obtain u k where x: "x = (u, k)" by (cases x)
  show ?case
  proof (cases "take (min (length s) (length k)) k = take (min (length s) (length k)) s")
    case True
    then have "t = u \<and> length k \<le> length s" using Cons.prems by (auto simp: x Let_def split: if_splits)
    then show ?thesis using True by (intro exI[of _ k]) (simp add: x)
  next
    case False
    then show ?thesis using Cons by (auto simp: x Let_def)
  qed
qed simp

lemma checkAccumeChars_shrinks:
  assumes "checkAccumeChars s = (r, Some t)"
  shows "length s - length (template_of t) < length s"
proof -
  obtain k where k: "(t, k) \<in> set key_templates" "length k \<le> length s"
    using assms check_templates_found unfolding checkAccumeChars_def by blast
  then have "template_of t = k" "k \<noteq> []" by (auto simp: template_of_def key_templates_def)
  then show ?thesis using k(2) by (cases k) auto
qed

function read_loop :: "completion \<Rightarrow> string \<Rightarrow> console \<Rightarrow> (string option \<times> console) option" where
  "read_loop ac accumchars c =
     (case checkAccumeChars accumchars of
        (_, None) \<Rightarrow>
          (case accumchars of
             [] \<Rightarrow> Some (None, c\<lparr>co_accumchars := []\<rparr>)
           | ch # rest \<Rightarrow> useChar ac ch (c\<lparr>co_accumchars := rest\<rparr>))
      | (_, Some t) \<Rightarrow>
          (case apply_key t c of
             None \<Rightarrow> None
           | Some c \<Rightarrow>
               let accumchars = drop (length (template_of t)) accumchars
               in if accumchars = [] then Some (None, c\<lparr>co_accumchars := []\<rparr>) else read_loop ac accumchars c))"
  by pat_completeness auto

termination
  by (relation "measure (\<lambda>(ac, accumchars, c). length accumchars)") (auto dest: checkAccumeChars_shrinks [OF sym])

declare read_loop.simps [simp del]

definition Console_Read :: "completion \<Rightarrow> console \<Rightarrow> (string option \<times> console) option" where
  "Console_Read ac c = (if \<not> co_stream c then Some (None, c) else read_loop ac (co_accumchars c) c)"

end
