(* ===== verification/Quoted_Strings.thy ===== *)
theory Quoted_Strings
  imports Common_Utils "HOL-Library.Signed_Division"
begin

text \<open>
  The rest of \<open>utils/utils.cpp\<close>: \<open>DelimitQString\<close>, which cuts a line at a delimiter but keeps
  quoted parts together, and \<open>FormatTime\<close>.
\<close>

section \<open>DelimitQString\<close>

abbreviation is_quote :: "char \<Rightarrow> bool" where
  "is_quote ch \<equiv> ch = CHR 0x27 \<or> ch = CHR 0x22"

text \<open>
  A quote at the begin of a part: with a delimiter behind the closing quote the part is what
  stands between the quotes. The code reads as many bytes as the delimiter has behind the
  closing quote; where the source ends before, it leaves the source, \<^const>\<open>None\<close>.
\<close>

definition DelimitQString_quoted :: "string \<Rightarrow> string \<Rightarrow> nat \<Rightarrow> string list \<Rightarrow> (nat \<times> string list) option" where
  "DelimitQString_quoted src delimit beg dest =
     (if beg < length src \<and> is_quote (src ! beg)
      then (case str_find src [src ! beg] (beg + 1) of
              None \<Rightarrow> Some (beg, dest)
            | Some pos \<Rightarrow>
                if length src < pos + 1 + length delimit then None
                else if substr src (pos + 1) (pos + 1 + length delimit) = delimit
                then Some (pos + 1 + length delimit, dest @ [substr src (beg + 1) pos])
                else Some (beg, dest))
      else Some (beg, dest))"

text \<open>As in \<open>DelimitString\<close>, the empty delimiter is found for ever.\<close>

partial_function (option) DelimitQString_loop ::
    "string \<Rightarrow> string \<Rightarrow> nat \<Rightarrow> string list \<Rightarrow> (nat \<times> string list) option" where
  "DelimitQString_loop src delimit beg dest =
     (case DelimitQString_quoted src delimit beg dest of
        None \<Rightarrow> None
      | Some (beg, dest) \<Rightarrow>
          (case str_find src (c_str delimit) beg of
             None \<Rightarrow> Some (beg, dest)
           | Some pos \<Rightarrow>
               DelimitQString_loop src delimit (pos + length delimit)
                 (if beg \<noteq> pos then dest @ [substr src beg pos] else dest)))"

declare DelimitQString_loop.simps [code]

definition DelimitQString :: "string \<Rightarrow> string \<Rightarrow> string list option" where
  "DelimitQString src delimit =
     (case DelimitQString_loop src delimit 0 [] of
        None \<Rightarrow> None
      | Some (beg, dest) \<Rightarrow>
          if length src < beg then None
          else if beg \<noteq> length src then Some (dest @ [substr src beg (length src)])
          else Some dest)"

text \<open>A line without quotes at the begin of its parts is cut like by the reference.\<close>

definition unquoted :: "string \<Rightarrow> bool" where
  "unquoted s \<longleftrightarrow> s = [] \<or> \<not> is_quote (hd s)"

lemma unquoted_append: "unquoted (u @ v) \<Longrightarrow> unquoted u"
  by (cases u) (auto simp: unquoted_def)

lemma hd_split_on: "unquoted (hd (split_on c u)) \<Longrightarrow> \<not> is_quote c \<Longrightarrow> unquoted u"
  by (cases u) (auto simp: unquoted_def split: list.splits)

lemma not_quoted: "unquoted u \<Longrightarrow> DelimitQString_quoted (w @ u) d (length w) dest = Some (length w, dest)"
  by (cases u) (auto simp: DelimitQString_quoted_def unquoted_def nth_append)

lemma DelimitQString_loop_unquoted:
  assumes "c \<noteq> CHR 0x00" "\<not> is_quote c"
  shows "list_all unquoted (split_on c u) \<Longrightarrow> DelimitQString_loop (w @ u) [c] (length w) dest
    = Some (length w + (length u - length (last (split_on c u))),
            dest @ filter (\<lambda>p. p \<noteq> []) (butlast (split_on c u)))"
proof (induction "length u" arbitrary: w u dest rule: less_induct)
  case less
  have c: "c_str [c] = [c]" using assms(1) by (simp add: c_str_def)
  have "unquoted (hd (split_on c u))" using less.prems by (cases "split_on c u") auto
  then have nq: "DelimitQString_quoted (w @ u) [c] (length w) dest = Some (length w, dest)"
    using hd_split_on assms(2) not_quoted by blast
  show ?case
  proof (cases "c \<in> set u")
    case True
    then obtain u1 u2 where u: "u = u1 @ c # u2" "c \<notin> set u1" by (rule split_first)
    let ?w = "w @ u1 @ [c]" and ?dest = "if u1 \<noteq> [] then dest @ [u1] else dest"
    have find: "str_find (w @ u) [c] (length w) = Some (length w + length u1)"
      using str_find_single_hit u by simp
    have sub: "substr (w @ u) (length w) (length w + length u1) = u1"
      using u by (simp add: substr_def)
    have "DelimitQString_loop (w @ u) [c] (length w) dest
        = DelimitQString_loop (?w @ u2) [c] (length ?w) ?dest"
      by (subst DelimitQString_loop.simps) (use u find sub c nq in simp)
    also have "\<dots> = Some (length ?w + (length u2 - length (last (split_on c u2))),
            ?dest @ filter (\<lambda>p. p \<noteq> []) (butlast (split_on c u2)))"
      by (rule less) (use less.prems u in \<open>simp_all add: split_on_append\<close>)
    finally show ?thesis
      using length_last_split_on [of c u2] u by (auto simp: split_on_append Suc_diff_le)
  next
    case False
    then have "str_find (w @ u) [c] (length w) = None" by (rule str_find_single_miss)
    then show ?thesis
      by (subst DelimitQString_loop.simps) (simp add: c split_on_free False nq)
  qed
qed

lemma DelimitQString_unquoted:
  assumes "c \<noteq> CHR 0x00" "\<not> is_quote c" "list_all unquoted (split_on c s)"
  shows "DelimitQString s [c] = Some (filter (\<lambda>p. p \<noteq> []) (split_on c s))"
proof -
  let ?l = "last (split_on c s)"
  obtain p where s: "s = p @ ?l" using split_on_suffix by blast
  then have "length s - length ?l = length p" by (metis diff_add_inverse2 length_append)
  moreover have "substr s (length p) (length s) = ?l"
    using s by (metis append_eq_conv_conj diff_add_inverse le_refl length_append substr_def take_all)
  moreover have "length p \<le> length s" and "length p = length s \<longleftrightarrow> ?l = []"
    using arg_cong [OF s, of length] by auto
  moreover have "filter (\<lambda>p. p \<noteq> []) (split_on c s) =
      filter (\<lambda>p. p \<noteq> []) (butlast (split_on c s)) @ (if ?l = [] then [] else [?l])"
    by (subst append_butlast_last_id[OF split_on_nonempty, symmetric], subst filter_append) simp
  ultimately show ?thesis
    using DelimitQString_loop_unquoted [OF assms, of "[]" "[]"] by (simp add: DelimitQString_def)
qed

text \<open>So arguments that are put together with blanks are found again.\<close>

definition argument :: "string \<Rightarrow> bool" where
  "argument s \<longleftrightarrow> s \<noteq> [] \<and> unquoted s \<and> CHR '' '' \<notin> set s \<and> CHR 0x00 \<notin> set s"

lemma DelimitQString_arguments:
  assumes "ss \<noteq> []" "list_all argument ss"
  shows "DelimitQString (ConcatString ss '' '') '' '' = Some ss"
proof -
  have "split_on CHR '' '' (ConcatString ss '' '') = ss"
    by (rule split_on_ConcatString) (use assms in \<open>auto simp: list_all_iff argument_def\<close>)
  moreover have "filter (\<lambda>p. p \<noteq> []) ss = ss" using assms(2) by (auto simp: list_all_iff argument_def filter_id_conv)
  ultimately show ?thesis
    using DelimitQString_unquoted[of "CHR '' ''" "ConcatString ss '' ''"] assms(2)
    by (auto simp: list_all_iff argument_def)
qed

text \<open>
  A quoted part with a blank behind it is one part; the part behind it is taken without a look
  at its quotes.
\<close>

lemma DelimitQString_quoted_part:
  assumes "is_quote q" "q \<notin> set s"
  shows "DelimitQString_quoted (w @ q # s @ q # d @ v) d (length w) dest = Some (length w + length s + 2 + length d, dest @ [s])"
proof -
  have "str_find ((w @ [q]) @ s @ q # (d @ v)) [q] (length (w @ [q])) = Some (length (w @ [q]) + length s)"
    by (rule str_find_single_hit[OF assms(2)])
  then have "str_find (w @ q # s @ q # d @ v) [q] (Suc (length w)) = Some (Suc (length w + length s))" by simp
  then show ?thesis using assms(1) by (simp add: DelimitQString_quoted_def nth_append substr_def)
qed

lemma second_quotes_are_lost:
  "DelimitQString (CHR 0x27 # ''a b'' @ CHR 0x27 # '' '' @ CHR 0x27 # ''c d'' @ CHR 0x27 # '' '') '' '' =
     Some [''a b'', CHR 0x27 # ''c'', ''d'' @ [CHR 0x27]]"
  by code_simp

lemma closing_quote_at_the_end:
  "DelimitQString (''use '' @ CHR 0x27 # ''a b'' @ [CHR 0x27]) '' '' = None"
  by code_simp

section \<open>FormatTime\<close>

text \<open>\<open>%02d\<close> for an \<open>int\<close>.\<close>

fun decimal :: "nat \<Rightarrow> string" where
  "decimal n = (if n < 10 then [''0123456789'' ! n] else decimal (n div 10) @ [''0123456789'' ! (n mod 10)])"

declare decimal.simps [simp del]

definition format_02d :: "int \<Rightarrow> string" where
  "format_02d i = (if i < 0 then CHR ''-'' # decimal (nat (- i)) else if i < 10 then CHR ''0'' # decimal (nat i) else decimal (nat i))"

definition FormatTime :: "int \<Rightarrow> string" where
  "FormatTime time =
     (let sec = time smod 60;
          min = (time sdiv 60) smod 60;
          hour = (time sdiv (60 * 60)) smod 60;
          day = (time sdiv (24 * 60 * 60)) smod 60
      in format_02d day @ ''  '' @ format_02d hour @ '':'' @ format_02d min @ '':'' @ format_02d sec)"

text \<open>Within a day the time is printed as it is; then the hours do not start again.\<close>

lemma signed_division_nonneg:
  fixes a b :: int
  assumes "0 \<le> a" "0 < b"
  shows "a sdiv b = a div b" "a smod b = a mod b"
proof -
  show "a sdiv b = a div b" using assms by (auto simp: signed_divide_int_def sgn_if zero_less_mult_iff)
  show "a smod b = a mod b" using assms by (cases "a = 0") (auto simp: signed_modulo_int_def sgn_if)
qed

lemma digit_60:
  fixes d n :: int
  assumes "0 \<le> d" "d < 60"
  shows "(n * 60 + d) mod 60 = d" "(n * 60 + d) div 60 = n"
  using assms by simp_all

lemma FormatTime_day:
  assumes "0 \<le> h" "h < 24" "0 \<le> m" "m < 60" "0 \<le> s" "s < 60" and t: "t = (h * 60 + m) * 60 + s"
  shows "FormatTime t = ''00  '' @ format_02d h @ '':'' @ format_02d m @ '':'' @ format_02d s"
proof -
  have "0 \<le> t" using assms by simp
  then have signed: "t smod 60 = t mod 60" "(t sdiv 60) smod 60 = t div 60 mod 60"
      "(t sdiv 3600) smod 60 = t div 3600 mod 60" "(t sdiv 86400) smod 60 = t div 86400 mod 60"
    by (simp_all add: signed_division_nonneg pos_imp_zdiv_nonneg_iff)
  have sec: "t mod 60 = s" and m: "t div 60 = h * 60 + m"
    using digit_60[of s "h * 60 + m"] assms by simp_all
  have min: "t div 60 mod 60 = m" and h: "t div 60 div 60 = h"
    using digit_60[of m h] assms m by simp_all
  have hour: "t div 3600 = h" using h by (simp add: zdiv_zmult2_eq[symmetric])
  then have "t div 3600 div 24 = 0" using assms by simp
  then have day: "t div 86400 mod 60 = 0" by (simp add: zdiv_zmult2_eq[symmetric])
  have "h mod 60 = h" "format_02d 0 = ''00''" using assms by (simp_all add: format_02d_def decimal.simps)
  moreover have "(60 * 60 :: int) = 3600" "(24 * 60 * 60 :: int) = 86400" by simp_all
  ultimately show ?thesis
    unfolding FormatTime_def Let_def by (simp only: signed sec min hour day) simp
qed

lemma hours_go_on: "FormatTime (25 * 3600) = ''01  25:00:00''"
  by (simp add: FormatTime_def format_02d_def decimal.simps signed_division_nonneg)

end
