(* ===== verification/Terminal.thy ===== *)
theory Terminal
  imports Console Quoted_Strings Object_Name Object_Manager Std_Map
begin

text \<open>
  The remote terminal (\<open>apps/remote_terminal\<close>): the states of the terminal with their commands
  (\<open>terminal/terminal_state.cpp\<close>, \<open>terminal/commands.cpp\<close>), the terminal that reads lines from its
  console and runs them (\<open>terminal/terminal.cpp\<close>), and the module that keeps the names of the
  terminals that have connected (\<open>module/terminal_module.cpp\<close>). Messages handed to the library are
  recorded in \<open>tl_sent\<close>. \<^const>\<open>None\<close> is a use of memory that is not there.
\<close>

section \<open>State\<close>

text \<open>
  A command, and the terminal its state is for. The container holds pointers, which it orders by
  address: an element is an address with the command there. \<open>UseTerminal\<close> is the root state.
\<close>

datatype command =
    UseCommand
  | ExitCommand
  | TerminalCommand (tc_command: string) (tc_args: "string list") (tc_state: string)

type_synonym command_ptr = "nat \<times> command"

fun command_name :: "command \<Rightarrow> string" where
  "command_name UseCommand = ''use''"
| "command_name ExitCommand = ''exit''"
| "command_name (TerminalCommand command args state) = command"

datatype terminal_state =
    UseTerminal (ts_commands: "command_ptr list")
  | TerminalCommands (ts_name: string) (ts_commands: "command_ptr list") (ts_parent: terminal_state)

datatype terminal_message = Command_Message string "string list" | Get_Command_List

record terminal =
  tl_console :: console
  tl_state :: terminal_state
  tl_module :: bool
  tl_terminalMap :: "(ipc_name \<times> string) list"
  tl_sent :: "(ipc_name \<times> terminal_message) list"

definition AddCommand :: "command_ptr \<Rightarrow> command_ptr list \<Rightarrow> command_ptr list" where
  "AddCommand p cs = fst (AddObject (\<lambda>a b. fst a < fst b) (\<lambda>a b. fst a = fst b) p cs)"

interpretation cmds: ordered_object "\<lambda>a b. fst a < fst b" "\<lambda>a b. fst a = fst b" "fst :: command_ptr \<Rightarrow> nat"
  by unfold_locales simp_all

fun GetTerminalName :: "terminal_state \<Rightarrow> string" where
  "GetTerminalName (UseTerminal cs) = ''''"
| "GetTerminalName (TerminalCommands name cs parent) = name"

fun add_to_state :: "command_ptr \<Rightarrow> terminal_state \<Rightarrow> terminal_state" where
  "add_to_state p (UseTerminal cs) = UseTerminal (AddCommand p cs)"
| "add_to_state p (TerminalCommands name cs parent) = TerminalCommands name (AddCommand p cs) parent"

text \<open>The terminal with its root state, whose command is at address \<open>a\<close>.\<close>

definition Terminal_new :: "nat \<Rightarrow> terminal" where
  "Terminal_new a = \<lparr>tl_console = Console, tl_state = UseTerminal (AddCommand (a, UseCommand) []),
     tl_module = False, tl_terminalMap = [], tl_sent = []\<rparr>"

definition addTerminalModule :: "terminal \<Rightarrow> terminal" where
  "addTerminalModule t = t\<lparr>tl_module := True\<rparr>"

section \<open>Terminals that have connected\<close>

text \<open>The order of module names, \<open>strcmp\<close> by \<open>strcmp\<close>; on names without NUL it is that of \<^typ>\<open>ipc_name\<close>.\<close>

definition ModuleNameCmp :: "ipc_name \<Rightarrow> ipc_name \<Rightarrow> bool" where
  "ModuleNameCmp a b =
     (if c_str (mod_name a) = c_str (mod_name b)
      then if c_str (host_name a) = c_str (host_name b) then c_str (conn_id a) < c_str (conn_id b)
           else c_str (host_name a) < c_str (host_name b)
      else c_str (mod_name a) < c_str (mod_name b))"

definition nul_free :: "ipc_name \<Rightarrow> bool" where
  "nul_free n \<longleftrightarrow> CHR 0x00 \<notin> set (mod_name n) \<and> CHR 0x00 \<notin> set (host_name n) \<and> CHR 0x00 \<notin> set (conn_id n)"

lemma ModuleNameCmp_less:
  assumes "nul_free a" "nul_free b"
  shows "ModuleNameCmp a b \<longleftrightarrow> a < b"
proof -
  have "c_str (mod_name n) = mod_name n" "c_str (host_name n) = host_name n" "c_str (conn_id n) = conn_id n" if "nul_free n" for n
    using that by (simp_all add: nul_free_def c_str_id)
  with assms have "ModuleNameCmp a b \<longleftrightarrow> IPCObjectName_lt a b"
    by (auto simp: ModuleNameCmp_def IPCObjectName_lt_def simp del: IPCObjectName_lt_iff)
  then show ?thesis by simp
qed

definition module_getTerminalNames :: "terminal \<Rightarrow> string list" where
  "module_getTerminalNames t = map snd (tl_terminalMap t)"

definition getTerminalNames :: "terminal \<Rightarrow> string list" where
  "getTerminalNames t = (if tl_module t then module_getTerminalNames t else [])"

text \<open>\<open>Module::toMessage\<close> hands the message to the library; the first terminal of that name gets it.\<close>

definition Module_toMessage :: "terminal_message \<Rightarrow> ipc_name \<Rightarrow> terminal \<Rightarrow> terminal" where
  "Module_toMessage msg path t = t\<lparr>tl_sent := tl_sent t @ [(path, msg)]\<rparr>"

definition toMessage_terminal :: "terminal_message \<Rightarrow> string \<Rightarrow> terminal \<Rightarrow> bool \<times> terminal" where
  "toMessage_terminal msg termName t =
     (case List.find (\<lambda>(m, name). name = termName) (tl_terminalMap t) of
        Some (m, name) \<Rightarrow> (True, Module_toMessage msg m t)
      | None \<Rightarrow> (False, t))"

section \<open>Commands\<close>

definition log :: "string \<Rightarrow> string \<Rightarrow> terminal \<Rightarrow> terminal" where
  "log termName data t = t\<lparr>tl_console := Console_Write (termName @ '':'' @ data) (tl_console t)\<rparr>"

definition setCurrentState :: "terminal_state \<Rightarrow> terminal \<Rightarrow> terminal option" where
  "setCurrentState state t =
     map_option (\<lambda>c. t\<lparr>tl_state := state, tl_console := c\<rparr>) (SetTermName (GetTerminalName state) (tl_console t))"

definition autoCompleteHelper :: "string \<Rightarrow> string list \<Rightarrow> string list" where
  "autoCompleteHelper word words = filter (\<lambda>w. length word \<le> length w \<and> take (length word) w = word) words"

fun Command_Check :: "command \<Rightarrow> string \<Rightarrow> string list \<Rightarrow> terminal \<Rightarrow> bool \<times> terminal" where
  "Command_Check UseCommand command args t =
     (if command \<noteq> ''use'' then (False, t)
      else if args = [] then (False, log '''' ''invalid terminal name - name is absent'' t)
      else if length args > 1 then (False, log '''' ''invalid attributes - terminal name must be single'' t)
      else if args ! 0 \<notin> set (getTerminalNames t)
      then (False, log '''' (''invalid terminal name - terminal with name '' @ [CHR 0x27] @ args ! 0 @ [CHR 0x27] @ '' is absent'') t)
      else (True, t))"
| "Command_Check c command args t = (command_name c = command, t)"

fun Command_GetArgs :: "command \<Rightarrow> string list \<Rightarrow> terminal \<Rightarrow> string list" where
  "Command_GetArgs UseCommand args t =
     (if length args > 1 then [] else autoCompleteHelper (if args \<noteq> [] then args ! 0 else '''') (getTerminalNames t))"
| "Command_GetArgs _ args t = []"

text \<open>The constructor of a state; its command is at address \<open>a\<close>, and a null module is called.\<close>

definition TerminalCommands_new :: "nat \<Rightarrow> string \<Rightarrow> terminal_state \<Rightarrow> terminal \<Rightarrow> (terminal_state \<times> terminal) option" where
  "TerminalCommands_new a name parent t =
     (if \<not> tl_module t then None
      else Some (TerminalCommands name (AddCommand (a, ExitCommand) []) parent,
                 snd (toMessage_terminal Get_Command_List name t)))"

text \<open>\<open>Exit\<close> goes back to the parent and deletes the state.\<close>

fun TerminalState_Exit :: "terminal_state \<Rightarrow> terminal \<Rightarrow> terminal option" where
  "TerminalState_Exit (UseTerminal cs) t = Some t"
| "TerminalState_Exit (TerminalCommands name cs parent) t = setCurrentState parent t"

text \<open>Running a command of a state; the first result says whether the state has been deleted.\<close>

definition execute_use :: "nat \<Rightarrow> string list \<Rightarrow> terminal \<Rightarrow> terminal option" where
  [simp]: "execute_use a args t =
     (if args = [] then Some t
      else case TerminalCommands_new a (args ! 0) (tl_state t) t of
             None \<Rightarrow> None
           | Some (new, t) \<Rightarrow> setCurrentState new t)"

definition execute_terminal_command :: "string \<Rightarrow> string \<Rightarrow> string list \<Rightarrow> terminal \<Rightarrow> terminal" where
  [simp]: "execute_terminal_command command name args t =
     (case toMessage_terminal (Command_Message command args) name t of
        (True, t) \<Rightarrow> t
      | (False, t) \<Rightarrow> log name (''cannot send command to terminal '' @ name) t)"

definition execute_exit :: "terminal_state \<Rightarrow> terminal \<Rightarrow> terminal option" where
  [simp]: "execute_exit state t = TerminalState_Exit state t"

fun Command_Execute :: "nat \<Rightarrow> command \<Rightarrow> string list \<Rightarrow> terminal_state \<Rightarrow> terminal \<Rightarrow> (bool \<times> terminal) option" where
  "Command_Execute a UseCommand args state t = map_option (Pair False) (execute_use a args t)"
| "Command_Execute a (TerminalCommand command args0 name) args state t =
     Some (False, execute_terminal_command command name args t)"
| "Command_Execute a ExitCommand args state t = map_option (Pair True) (execute_exit state t)"

section \<open>Commands of a state\<close>

text \<open>Each of these goes through the commands by \<open>ProcessingObjects\<close>.\<close>

fun CheckCommand :: "string \<Rightarrow> string list \<Rightarrow> command_ptr \<Rightarrow> bool \<times> terminal \<Rightarrow> bool \<times> terminal" where
  "CheckCommand cmd args p (found, t) = (case Command_Check (snd p) cmd args t of (ok, t) \<Rightarrow> (found \<or> ok, t))"

definition TerminalState_Check :: "terminal_state \<Rightarrow> string \<Rightarrow> string list \<Rightarrow> terminal \<Rightarrow> bool \<times> terminal" where
  "TerminalState_Check state command args t =
     (case ProcessingObjects (CheckCommand command args) (ts_commands state) (False, t) of
        (True, t) \<Rightarrow> (True, t)
      | (False, t) \<Rightarrow> (False, log '''' (''invalid command '' @ [CHR 0x27] @ command @ [CHR 0x27]) t))"

text \<open>When a command has deleted the state, the loop goes on in the deleted vector.\<close>

fun ExecuteCommand :: "nat \<Rightarrow> terminal_state \<Rightarrow> string \<Rightarrow> string list \<Rightarrow> command_ptr \<Rightarrow> terminal option \<Rightarrow> terminal option" where
  "ExecuteCommand a state cmd args p None = None"
| "ExecuteCommand a state cmd args p (Some t) =
     (if command_name (snd p) = cmd
      then (case Command_Execute a (snd p) args state t of
              Some (False, t) \<Rightarrow> Some t
            | _ \<Rightarrow> None)
      else Some t)"

definition TerminalState_Execute :: "nat \<Rightarrow> terminal_state \<Rightarrow> string \<Rightarrow> string list \<Rightarrow> terminal \<Rightarrow> terminal option" where
  "TerminalState_Execute a state command args t =
     ProcessingObjects (ExecuteCommand a state command args) (ts_commands state) (Some t)"

definition GetCommands :: "terminal_state \<Rightarrow> string list" where
  "GetCommands state = ProcessingObjects (\<lambda>p commands. commands @ [command_name (snd p)]) (ts_commands state) []"

definition TerminalState_GetArgs :: "terminal_state \<Rightarrow> string \<Rightarrow> string list \<Rightarrow> terminal \<Rightarrow> string list" where
  "TerminalState_GetArgs state command args t =
     ProcessingObjects (\<lambda>p avail. if command_name (snd p) = command then Command_GetArgs (snd p) args t else avail)
       (ts_commands state) []"

section \<open>The terminal\<close>

text \<open>
  The words that fit are written out unless there is just one. With one word for an argument that
  has not been begun, \<open>args.back()\<close> is called on an empty vector.
\<close>

definition show_words :: "string list \<Rightarrow> console \<Rightarrow> console" where
  "show_words usewords c =
     (let msg = concat (map (\<lambda>w. w @ '' '') usewords)
      in if msg \<noteq> [] then Console_Write ('':'' @ msg) c else c)"

definition autoComplete :: "terminal \<Rightarrow> completion" where
  "autoComplete t command c =
     (case DelimitQString command '' '' of
        None \<Rightarrow> None
      | Some parts \<Rightarrow>
          let cmd = (if parts \<noteq> [] then parts ! 0 else []); args = tl parts
          in if command = [] \<or> (args = [] \<and> last command \<noteq> CHR '' '') then
               let usewords = autoCompleteHelper cmd (GetCommands (tl_state t))
               in if length usewords = 1 then Some (Some (usewords ! 0 @ '' ''), c)
                  else Some (None, show_words usewords c)
             else
               let usewords = TerminalState_GetArgs (tl_state t) cmd args t
               in if length usewords = 1
                  then (if args = [] then None
                        else Some (Some (cmd @ '' '' @ concat (map (\<lambda>arg. arg @ '' '') (butlast args @ [usewords ! 0]))), c))
                  else Some (None, show_words usewords c))"

definition Terminal_run :: "nat \<Rightarrow> string \<Rightarrow> terminal \<Rightarrow> terminal option" where
  "Terminal_run a command t =
     (case DelimitQString command '' '' of
        None \<Rightarrow> None
      | Some [] \<Rightarrow> Some t
      | Some (cmd # args) \<Rightarrow>
          (case TerminalState_Check (tl_state t) cmd args t of
             (True, t) \<Rightarrow> TerminalState_Execute a (tl_state t) cmd args t
           | (False, t) \<Rightarrow> Some t))"

text \<open>One round of \<open>ThreadFunc\<close>; a state that is made gets its command at address \<open>a\<close>.\<close>

definition Terminal_round :: "nat \<Rightarrow> terminal \<Rightarrow> terminal option" where
  "Terminal_round a t =
     (case Console_Read (autoComplete t) (tl_console t) of
        None \<Rightarrow> None
      | Some (None, c) \<Rightarrow> Some (t\<lparr>tl_console := c\<rparr>)
      | Some (Some command, c) \<Rightarrow> Terminal_run a command (t\<lparr>tl_console := c\<rparr>))"

definition Terminal_start :: "terminal \<Rightarrow> terminal" where
  "Terminal_start t = t\<lparr>tl_console := Console_Init (tl_console t)\<rparr>"

definition onTerminalDisconnected :: "string \<Rightarrow> terminal \<Rightarrow> terminal option" where
  "onTerminalDisconnected terminalName t =
     (if GetTerminalName (tl_state t) = terminalName then TerminalState_Exit (tl_state t) t else Some t)"

section \<open>The module\<close>

definition OnModuleDisconnected_terminal :: "ipc_name \<Rightarrow> terminal \<Rightarrow> terminal option" where
  "OnModuleDisconnected_terminal moduleName t =
     (case map_of (tl_terminalMap t) moduleName of
        None \<Rightarrow> Some t
      | Some name \<Rightarrow>
          map_option (\<lambda>t. t\<lparr>tl_terminalMap := map_erase moduleName (tl_terminalMap t)\<rparr>) (onTerminalDisconnected name t))"

definition onMessage_term_name :: "string \<Rightarrow> ipc_name \<Rightarrow> terminal \<Rightarrow> terminal" where
  "onMessage_term_name name path t =
     log name ''connect terminal'' (t\<lparr>tl_terminalMap := map_insert path name (tl_terminalMap t)\<rparr>)"

definition terminal_of :: "ipc_name \<Rightarrow> terminal \<Rightarrow> string" where
  "terminal_of path t = (case map_of (tl_terminalMap t) path of None \<Rightarrow> '''' | Some name \<Rightarrow> name)"

definition onMessage_log :: "string \<Rightarrow> ipc_name \<Rightarrow> terminal \<Rightarrow> terminal" where
  "onMessage_log data path t = log (terminal_of path t) data t"

text \<open>The commands of a list, each with the address it is put at.\<close>

definition onMessage_command_list :: "(nat \<times> string \<times> string list) list \<Rightarrow> ipc_name \<Rightarrow> terminal \<Rightarrow> terminal" where
  "onMessage_command_list msg path t =
     (if GetTerminalName (tl_state t) = terminal_of path t
      then fold (\<lambda>(a, cmd, args) t.
             t\<lparr>tl_state := add_to_state (a, TerminalCommand cmd args (GetTerminalName (tl_state t))) (tl_state t)\<rparr>) msg t
      else t)"

end
