(* ===== verification/Console_Editing.thy ===== *)
theory Console_Editing
  imports Console
begin

text \<open>
  What the line editor does: to the command, as an editor of the text before and after the
  caret, and to the screen, which shows the command and the caret.
\<close>

section \<open>The screen\<close>

text \<open>The last line of a terminal and the position of its cursor, as the bytes written to it make them.\<close>

definition put_char :: "char \<Rightarrow> string \<times> nat \<Rightarrow> string \<times> nat" where
  "put_char ch s =
     (let (line, cursor) = s
      in if ch = BS then (line, cursor - 1)
         else if ch = CHR 0x0A then ([], 0)
         else (if cursor < length line then line[cursor := ch] else line @ [ch], cursor + 1))"

definition screen :: "string \<Rightarrow> string \<times> nat" where
  "screen out = fold put_char out ([], 0)"

definition plain :: "string \<Rightarrow> bool" where
  "plain s \<longleftrightarrow> (\<forall>ch\<in>set s. ch \<noteq> BS \<and> ch \<noteq> CHR 0x0A \<and> ch \<noteq> CHR 0x00)"

lemma plain_simps [simp]:
  "plain []" "plain (ch # s) \<longleftrightarrow> ch \<noteq> BS \<and> ch \<noteq> CHR 0x0A \<and> ch \<noteq> CHR 0x00 \<and> plain s"
  "plain (s @ t) \<longleftrightarrow> plain s \<and> plain t"
  by (auto simp: plain_def)

lemma plain_take_drop [simp]: "plain s \<Longrightarrow> plain (take n s)" "plain s \<Longrightarrow> plain (drop n s)"
  by (auto simp: plain_def dest: in_set_takeD in_set_dropD)

lemma plain_c_str [simp]: "plain s \<Longrightarrow> c_str s = s"
  by (rule c_str_id) (auto simp: plain_def)

lemma plain_nth: "plain s \<Longrightarrow> i < length s \<Longrightarrow> plain [s ! i]"
  by (auto simp: plain_def)

lemma put_plain:
  "plain s \<Longrightarrow> n \<le> length l \<Longrightarrow>
     fold put_char s (l, n) = (take n l @ s @ drop (n + length s) l, n + length s)"
proof (induction s arbitrary: l n)
  case (Cons ch s)
  let ?l = "if n < length l then l[n := ch] else l @ [ch]"
  have take: "take (Suc n) ?l = take n l @ [ch]"
    using Cons.prems(2) by (auto simp: take_Suc_conv_app_nth)
  have "fold put_char (ch # s) (l, n) = fold put_char s (?l, Suc n)"
    using Cons.prems(1) by (simp add: put_char_def)
  also have "\<dots> = (take (Suc n) ?l @ s @ drop (Suc n + length s) ?l, Suc n + length s)"
    using Cons.prems by (intro Cons.IH) auto
  also have "drop (Suc n + length s) ?l = drop (Suc n + length s) l" by auto
  finally show ?case by (simp add: take)
qed simp

lemma put_backspaces [simp]: "(put_char BS ^^ k) (l, n) = (l, n - k)"
  by (induction k arbitrary: n) (auto simp: put_char_def)

lemma put_erasures:
  "k \<le> n \<Longrightarrow> n \<le> length l \<Longrightarrow>
     fold put_char (concat (replicate k [BS, CHR '' '', BS])) (l, n) =
       (take (n - k) l @ replicate k CHR '' '' @ drop n l, n - k)"
proof (induction k arbitrary: l n)
  case (Suc k)
  let ?l = "l[n - 1 := CHR '' '']"
  have "n - 1 < length l" using Suc.prems by simp
  then have "fold put_char [BS, CHR '' '', BS] (l, n) = (?l, n - 1)"
    by (simp add: put_char_def)
  then have "fold put_char (concat (replicate (Suc k) [BS, CHR '' '', BS])) (l, n) =
      fold put_char (concat (replicate k [BS, CHR '' '', BS])) (?l, n - 1)" by simp
  also have "\<dots> = (take (n - 1 - k) ?l @ replicate k CHR '' '' @ drop (n - 1) ?l, n - 1 - k)"
    using Suc.prems by (intro Suc.IH) auto
  also have "take (n - 1 - k) ?l = take (n - Suc k) l" by simp
  also have "drop (n - 1) ?l = CHR '' '' # drop n l"
    using Suc.prems by (cases n) (auto simp: drop_update_swap Cons_nth_drop_Suc[symmetric])
  finally show ?case by (simp add: replicate_append_same)
qed simp

section \<open>What the screen shows\<close>

definition prompt :: "console \<Rightarrow> string" where
  "prompt c = ''#'' @ co_termName c @ '':''"

text \<open>The line is the prompt and the command, perhaps with blanks behind, the cursor at the caret.\<close>

definition shows_line :: "console \<Rightarrow> bool" where
  "shows_line c \<longleftrightarrow> (\<exists>k. screen (co_out c) =
     (prompt c @ co_command c @ replicate k CHR '' '', length (prompt c) + co_carpos c))"

definition console_ok :: "console \<Rightarrow> bool" where
  "console_ok c \<longleftrightarrow> co_stream c \<and> co_carpos c \<le> length (co_command c) \<and> plain (co_command c) \<and> plain (co_termName c) \<and>
     co_historyCounter c \<le> length (co_history c) \<and> list_all plain (co_history c)"

lemma console_okD:
  "console_ok c \<Longrightarrow> co_stream c" "console_ok c \<Longrightarrow> co_carpos c \<le> length (co_command c)"
  "console_ok c \<Longrightarrow> plain (co_command c)" "console_ok c \<Longrightarrow> plain (co_termName c)"
  by (simp_all add: console_ok_def)

lemma print_sel [simp]:
  "co_command (print s c) = co_command c" "co_termName (print s c) = co_termName c" "co_stream (print s c) = co_stream c"
  "co_accumchars (print s c) = co_accumchars c" "co_history (print s c) = co_history c"
  "co_historyCounter (print s c) = co_historyCounter c" "co_tab (print s c) = co_tab c" "co_carpos (print s c) = co_carpos c"
  "co_out (print s c) = co_out c @ s" "prompt (print s c) = prompt c"
  by (simp_all add: print_def prompt_def)

lemma screen_print: "screen (co_out (print s c)) = fold put_char s (screen (co_out c))"
  by (simp add: screen_def)

text \<open>A cleared line: blanks only, the cursor at its begin.\<close>

definition cleared :: "console \<Rightarrow> bool" where
  "cleared c \<longleftrightarrow> (\<exists>k. screen (co_out c) = (replicate k CHR '' '', 0))"

definition new_line :: "console \<Rightarrow> console" where
  "new_line c = printName (clearLine c)"

lemma clearLine_sel [simp]:
  "co_command (clearLine c) = co_command c" "co_termName (clearLine c) = co_termName c" "co_stream (clearLine c) = co_stream c"
  "co_accumchars (clearLine c) = co_accumchars c" "co_history (clearLine c) = co_history c"
  "co_historyCounter (clearLine c) = co_historyCounter c" "co_tab (clearLine c) = co_tab c" "co_carpos (clearLine c) = co_carpos c"
  by (simp_all add: clearLine_def)

lemma clearLine_clears:
  assumes "console_ok c" "shows_line c"
  shows "cleared (clearLine c)"
proof -
  let ?n = "length (co_command c)" and ?P = "prompt c"
  obtain k where k: "screen (co_out c) = (?P @ co_command c @ replicate k CHR '' '', length ?P + co_carpos c)"
    using assms(2) by (auto simp: shows_line_def)
  have "plain (replicate (?n - co_carpos c) CHR '' '')" by (auto simp: plain_def)
  then obtain l where l: "fold put_char (replicate (?n - co_carpos c) CHR '' '') (screen (co_out c)) = (l, length ?P + ?n)"
      "length l = length ?P + ?n + k" "drop (length ?P + ?n) l = replicate k CHR '' ''"
    using put_plain[of "replicate (?n - co_carpos c) CHR '' ''" "length ?P + co_carpos c"
        "?P @ co_command c @ replicate k CHR '' ''"] k console_okD(2)[OF assms(1)] by auto
  have "fold put_char (concat (replicate (length ?P + ?n) [BS, CHR '' '', BS])) (l, length ?P + ?n) =
      (replicate (length ?P + ?n) CHR '' '' @ replicate k CHR '' '', 0)"
    using put_erasures[of "length ?P + ?n" "length ?P + ?n" l] l by simp
  moreover have "length (co_command c) + 2 + length (co_termName c) = length ?P + ?n" by (simp add: prompt_def)
  then have "co_out (clearLine c) = co_out c @ replicate (?n - co_carpos c) CHR '' '' @
      concat (replicate (length ?P + ?n) [BS, CHR '' '', BS])"
    using console_okD(1)[OF assms(1)] by (simp only: clearLine_def print_sel if_True not_False_eq_True)
      (simp add: print_def)
  then have "screen (co_out (clearLine c)) = fold put_char (concat (replicate (length ?P + ?n) [BS, CHR '' '', BS]))
      (fold put_char (replicate (?n - co_carpos c) CHR '' '') (screen (co_out c)))"
    by (simp only: screen_def fold_append comp_apply)
  ultimately have "screen (co_out (clearLine c)) = (replicate (length ?P + ?n + k) CHR '' '', 0)"
    using l(1) by (simp only: replicate_add append_assoc)
  then show ?thesis by (auto simp: cleared_def)
qed

lemma cleared_screen:
  assumes "cleared c" "plain (co_termName c)" "plain s"
  shows "\<exists>k. screen (co_out (print s (printName c))) = (prompt c @ s @ replicate k CHR '' '', length (prompt c) + length s)"
proof -
  obtain k where k: "screen (co_out c) = (replicate k CHR '' '', 0)" using assms(1) by (auto simp: cleared_def)
  have "co_out (print s (printName c)) = co_out c @ (prompt c @ s)"
    using assms(2) by (simp add: printName_def prompt_def)
  then have "screen (co_out (print s (printName c))) = fold put_char (prompt c @ s) (screen (co_out c))"
    by (simp only: screen_def fold_append comp_apply)
  also have "\<dots> = (take 0 (replicate k CHR '' '') @ (prompt c @ s) @ drop (0 + length (prompt c @ s)) (replicate k CHR '' ''),
      0 + length (prompt c @ s))"
    unfolding k using assms(2,3) by (intro put_plain) (auto simp: prompt_def)
  finally show ?thesis by (auto simp: drop_replicate)
qed

lemma printName_sel [simp]:
  "co_command (printName c) = co_command c" "co_termName (printName c) = co_termName c" "co_stream (printName c) = co_stream c"
  "co_accumchars (printName c) = co_accumchars c" "co_history (printName c) = co_history c"
  "co_historyCounter (printName c) = co_historyCounter c" "co_tab (printName c) = co_tab c" "co_carpos (printName c) = co_carpos c"
  by (simp_all add: printName_def)

lemma prompt_cong: "co_termName c = co_termName d \<Longrightarrow> prompt c = prompt d"
  by (simp add: prompt_def)

text \<open>A new line with another command, the caret at its end.\<close>

lemma new_command_shown:
  assumes "cleared d" "plain (co_termName d)" "plain s"
    and "co_out c = co_out (print s (printName d))" "co_termName c = co_termName d" "co_command c = s" "co_carpos c = length s"
  shows "shows_line c"
  using cleared_screen[OF assms(1-3)] assms(4-) prompt_cong[OF assms(5)] by (auto simp: shows_line_def)

text \<open>Writing text at the cursor, and then going back over some of it.\<close>

lemma rewrite_shown:
  assumes "screen (co_out c) = (prompt c @ l, length (prompt c) + n)" "n \<le> length l" "plain s"
    and "co_out c' = co_out c @ s @ replicate b BS" "prompt c' = prompt c"
    and "take n l @ s @ drop (n + length s) l = co_command c' @ replicate k CHR '' ''" "co_carpos c' = n + length s - b" "b \<le> n + length s"
  shows "shows_line c'"
proof -
  have "screen (co_out c') = fold put_char (replicate b BS) (fold put_char s (screen (co_out c)))"
    unfolding assms(4) by (simp only: screen_def fold_append comp_apply)
  also have "fold put_char s (screen (co_out c)) =
      (prompt c @ take n l @ s @ drop (n + length s) l, length (prompt c) + n + length s)"
    unfolding assms(1) using assms(2,3) by (subst put_plain) (auto simp: add.commute)
  finally show ?thesis unfolding shows_line_def using assms(5-8) by (auto simp: put_backspaces)
qed

lemma Console_Init_ok: "console_ok (Console_Init Console)" "shows_line (Console_Init Console)"
proof -
  show "console_ok (Console_Init Console)" by (simp add: console_ok_def Console_Init_def Console_def printName_def print_def)
  have "cleared (Console\<lparr>co_stream := True\<rparr>)" by (auto simp: cleared_def Console_def screen_def intro: exI[of _ 0])
  then show "shows_line (Console_Init Console)"
    by (rule new_command_shown[where s = "[]"]) (simp_all add: Console_Init_def Console_def)
qed

lemma Console_Write_ok:
  assumes "console_ok c" "shows_line c"
  shows "console_ok (Console_Write log c)" "shows_line (Console_Write log c)"
proof -
  let ?c = "clearLine c" and ?b = "length (co_command c) - co_carpos c"
  show "console_ok (Console_Write log c)"
    using assms(1) by (simp add: Console_Write_def Let_def console_ok_def)
  let ?d = "print (c_str log @ [CHR 0x0A]) ?c"
  have "fold put_char (c_str log @ [CHR 0x0A]) x = ([], 0)" for x
    by (cases "fold put_char (c_str log) x") (simp add: put_char_def)
  then have "cleared ?d" by (simp only: cleared_def screen_print) (auto intro: exI[of _ 0])
  then obtain k where "screen (co_out (print (co_command c) (printName ?d))) =
      (prompt ?d @ co_command c @ replicate k CHR '' '', length (prompt ?d) + length (co_command c))"
    using cleared_screen[of ?d "co_command c"] console_okD[OF assms(1)] by auto
  moreover have "prompt ?d = prompt c" by (simp add: prompt_def)
  moreover have "Console_Write log c = print (co_command c @ replicate ?b BS) (printName ?d)"
    using console_okD[OF assms(1)] by (simp add: Console_Write_def Let_def)
  ultimately show "shows_line (Console_Write log c)"
    using console_okD[OF assms(1)]
    by (auto simp: shows_line_def screen_def put_backspaces prompt_def intro!: exI[of _ k])
qed

section \<open>Keys and the screen\<close>

lemma shows_lineD:
  assumes "console_ok c" "shows_line c"
  obtains k where "screen (co_out c) = (prompt c @ co_command c @ replicate k CHR '' '', length (prompt c) + co_carpos c)"
    "co_carpos c \<le> length (co_command c @ replicate k CHR '' '')"
  using assms by (fastforce simp: shows_line_def console_ok_def)

lemma history_plain:
  "console_ok c \<Longrightarrow> 0 < n \<Longrightarrow> n \<le> length (co_history c) \<Longrightarrow> plain (co_history c ! (length (co_history c) - n))"
  by (simp add: console_ok_def list_all_length)

lemma show_history_ok:
  assumes "console_ok c" "shows_line c" "show_history n (printName (clearLine c)) = Some c'"
  shows "console_ok c' \<and> shows_line c'"
proof -
  let ?s = "co_history c ! (length (co_history c) - n)"
  have n: "0 < n" "n \<le> length (co_history c)" and c': "c' = print (c_str ?s) ((printName (clearLine c))\<lparr>co_historyCounter := n,
      co_command := ?s, co_carpos := length ?s\<rparr>)"
    using assms(3) by (auto simp: show_history_def Let_def split: if_splits)
  have plain: "plain ?s" using history_plain[OF assms(1) n] .
  have "shows_line c'"
    by (rule new_command_shown[OF clearLine_clears[OF assms(1,2)], of ?s])
      (use plain console_okD(4)[OF assms(1)] in \<open>simp_all add: c' print_def\<close>)
  then show ?thesis using assms(1) plain n by (simp add: console_ok_def c')
qed

lemma home_shown:
  assumes "console_ok c" "shows_line c"
  shows "shows_line ((print (replicate (length (co_command c)) BS) c)\<lparr>co_carpos := 0\<rparr>) \<longleftrightarrow> co_carpos c = length (co_command c)"
proof -
  obtain k where k: "screen (co_out c) = (prompt c @ co_command c @ replicate k CHR '' '', length (prompt c) + co_carpos c)"
    using assms by (rule shows_lineD)
  let ?c = "(print (replicate (length (co_command c)) BS) c)\<lparr>co_carpos := 0\<rparr>"
  have "screen (co_out ?c) = (prompt c @ co_command c @ replicate k CHR '' '',
      length (prompt c) + co_carpos c - length (co_command c))"
    using k by (simp add: screen_def)
  moreover have "prompt ?c = prompt c" by (simp add: prompt_def)
  moreover have "length (prompt c) + co_carpos c - length (co_command c) = length (prompt c) \<longleftrightarrow> co_carpos c = length (co_command c)"
    using console_okD(2)[OF assms(1)] by (auto simp: prompt_def)
  ultimately show ?thesis by (auto simp: shows_line_def)
qed

lemma apply_key_ok:
  assumes ok: "console_ok c" "shows_line c" and c': "apply_key t c = Some c'"
  shows "console_ok c' \<and> (shows_line c' \<longleftrightarrow> t = KEY_HOME \<longrightarrow> co_carpos c = length (co_command c))"
proof -
  obtain k where k: "screen (co_out c) = (prompt c @ co_command c @ replicate k CHR '' '', length (prompt c) + co_carpos c)"
    and le: "co_carpos c \<le> length (co_command c @ replicate k CHR '' '')"
    using ok by (rule shows_lineD)
  note d = console_okD[OF ok(1)]
  show ?thesis
  proof (cases t)
    case ARROW_UP
    then show ?thesis using c' ok show_history_ok[OF ok] by (auto split: if_splits)
  next
    case ARROW_DOWN
    then show ?thesis using c' ok show_history_ok[OF ok] by (auto split: if_splits)
  next
    case ARROW_LEFT
    have "co_carpos c \<noteq> 0 \<Longrightarrow> shows_line (print [BS] (c\<lparr>co_carpos := co_carpos c - 1\<rparr>))"
      by (rule rewrite_shown[OF k le, of "[]" _ 1 k]) (use d(2) in \<open>simp_all add: prompt_def print_def\<close>)
    then show ?thesis using ARROW_LEFT c' ok by (auto simp: console_ok_def split: if_splits)
  next
    case ARROW_RIGHT
    have "co_carpos c < length (co_command c) \<Longrightarrow>
        shows_line ((print [co_command c ! co_carpos c] c)\<lparr>co_carpos := co_carpos c + 1\<rparr>)"
      by (rule rewrite_shown[OF k le, of "[co_command c ! co_carpos c]" _ 0 k])
        (use plain_nth[OF d(3)] d(2) in \<open>simp_all add: prompt_def print_def Cons_nth_drop_Suc\<close>)
    then show ?thesis using ARROW_RIGHT c' ok by (auto simp: console_ok_def split: if_splits)
  next
    case KEY_DELETE
    let ?n = "co_carpos c" and ?s = "co_command c"
    let ?d = "c\<lparr>co_command := take ?n ?s @ drop (Suc ?n) ?s\<rparr>"
    have "shows_line (print (drop ?n (co_command ?d) @ '' '' @ [BS] @ replicate (length (co_command ?d) - ?n) BS) ?d)"
      if n: "?n < length ?s"
    proof (rule rewrite_shown[OF k le, of "drop (Suc ?n) ?s @ '' ''" _ "length ?s - ?n" "Suc k"])
      have "length ?s = ?n + Suc (length ?s - Suc ?n)" using n by simp
      then show "take ?n (?s @ replicate k CHR '' '') @ (drop (Suc ?n) ?s @ '' '') @
          drop (?n + length (drop (Suc ?n) ?s @ '' '')) (?s @ replicate k CHR '' '') =
          co_command (print (drop ?n (co_command ?d) @ '' '' @ [BS] @ replicate (length (co_command ?d) - ?n) BS) ?d) @ replicate (Suc k) CHR '' ''"
        using n by simp
    qed (use n d(3) in \<open>auto simp: prompt_def print_def Suc_diff_Suc replicate_append_same simp flip: replicate_Suc\<close>)
    then show ?thesis using KEY_DELETE c' ok d by (auto simp: console_ok_def Let_def split: if_splits)
  next
    case KEY_END
    have "shows_line ((print (drop (co_carpos c) (co_command c)) c)\<lparr>co_carpos := length (co_command c)\<rparr>)"
      by (rule rewrite_shown[OF k le, of "drop (co_carpos c) (co_command c)" _ 0 k])
        (use d in \<open>simp_all add: prompt_def print_def\<close>)
    then show ?thesis using KEY_END c' ok by (auto simp: console_ok_def)
  next
    case KEY_HOME
    then show ?thesis using c' ok home_shown[OF ok] by (auto simp: console_ok_def)
  qed (use c' ok in auto)
qed

text \<open>What the terminal's \<open>autoComplete\<close> may do: write to the console, and answer with a command.\<close>

definition completion_ok :: "completion \<Rightarrow> bool" where
  "completion_ok ac \<longleftrightarrow> (\<forall>s c r d. console_ok c \<and> shows_line c \<and> plain s \<and> ac s c = Some (r, d) \<longrightarrow>
     console_ok d \<and> shows_line d \<and> (\<forall>t. r = Some t \<longrightarrow> plain t))"

definition printable :: "char \<Rightarrow> bool" where
  "printable ch \<longleftrightarrow> (31 :: nat) < of_char ch \<and> (of_char ch :: nat) < 127"

lemma printable_plain: "printable ch \<Longrightarrow> plain [ch]"
  by (auto simp: printable_def)

text \<open>The kinds of bytes.\<close>

datatype char_kind = K_Tab | K_Enter | K_Escape | K_Backspace | K_Printable | K_Other

definition kind_of :: "char \<Rightarrow> char_kind" where
  "kind_of ch = (if ch = CHR 0x09 then K_Tab else if ch = CHR 0x0A then K_Enter else if ch = CHR 0x1B then K_Escape
     else if ch = CHR 0x7F then K_Backspace else if printable ch then K_Printable else K_Other)"

lemma kind_ofD:
  "kind_of ch = K_Tab \<Longrightarrow> ch = CHR 0x09" "kind_of ch = K_Enter \<Longrightarrow> ch = CHR 0x0A" "kind_of ch = K_Escape \<Longrightarrow> ch = CHR 0x1B"
  "kind_of ch = K_Backspace \<Longrightarrow> ch = CHR 0x7F"
  "kind_of ch = K_Printable \<Longrightarrow> printable ch \<and> ch \<notin> {CHR 0x09, CHR 0x0A, CHR 0x0D, CHR 0x1B, CHR 0x7F}"
  "kind_of ch = K_Other \<Longrightarrow> \<not> printable ch \<and> ch \<notin> {CHR 0x09, CHR 0x0A, CHR 0x1B, CHR 0x7F}"
  by (auto simp: kind_of_def printable_def split: if_splits)

lemma useChar_kinds:
  "kind_of ch = K_Tab \<Longrightarrow> \<not> co_tab c \<Longrightarrow> useChar ac ch c = Some (None, c\<lparr>co_tab := True\<rparr>)"
  "kind_of ch = K_Tab \<Longrightarrow> co_tab c \<Longrightarrow> useChar ac ch c =
     (case ac (take (co_carpos c) (co_command c)) (c\<lparr>co_tab := False\<rparr>) of
        None \<Rightarrow> None
      | Some (None, c) \<Rightarrow> Some (None, c)
      | Some (Some command, c) \<Rightarrow>
          Some (None, print (c_str command) ((printName (clearLine c))\<lparr>co_command := command, co_carpos := length command\<rparr>)))"
  "kind_of ch = K_Escape \<Longrightarrow> useChar ac ch c =
     Some (None, (printName (clearLine (c\<lparr>co_tab := False\<rparr>)))\<lparr>co_command := [], co_carpos := 0\<rparr>)"
  "kind_of ch = K_Other \<Longrightarrow> useChar ac ch c = Some (None, c\<lparr>co_tab := False\<rparr>)"
  "kind_of ch = K_Backspace \<Longrightarrow> co_command c = [] \<Longrightarrow> useChar ac ch c = Some (None, c\<lparr>co_tab := False\<rparr>)"
  "kind_of ch = K_Backspace \<Longrightarrow> co_command c \<noteq> [] \<Longrightarrow> co_carpos c = 0 \<Longrightarrow> useChar ac ch c = None"
  by (drule kind_ofD; auto simp: useChar_def Let_def printable_def)+

lemma useChar_enter:
  assumes "kind_of ch = K_Enter"
  shows "\<exists>d. useChar ac ch c = Some (Some (co_command c), d) \<and> co_out d = co_out (printName (print [CHR 0x0A] c)) \<and>
    co_command d = [] \<and> co_carpos d = 0 \<and> co_accumchars d = co_accumchars c \<and> co_termName d = co_termName c \<and> co_stream d = co_stream c \<and> \<not> co_tab d \<and>
    co_historyCounter d = 0 \<and> co_history d = co_history c @ (if co_command c \<noteq> [] then [co_command c] else [])"
  using kind_ofD(2)[OF assms] by (simp add: useChar_def Let_def printName_def print_def)

lemma useChar_backspace:
  assumes "kind_of ch = K_Backspace" "co_carpos c \<noteq> 0" "co_command c \<noteq> []"
  shows "\<exists>d. useChar ac ch c = Some (None, d) \<and>
    co_command d = take (co_carpos c - 1) (co_command c) @ drop (co_carpos c) (co_command c) \<and> co_carpos d = co_carpos c - 1 \<and>
    co_out d = co_out c @ [BS] @ c_str (drop (co_carpos d) (co_command d)) @ '' '' @ [BS] @
      replicate (length (co_command d) - co_carpos d) BS \<and>
    co_termName d = co_termName c \<and> co_stream d = co_stream c \<and> \<not> co_tab d \<and>
    co_historyCounter d = co_historyCounter c \<and> co_history d = co_history c"
  using kind_ofD(4)[OF assms(1)] assms(2,3) by (simp add: useChar_def Let_def print_def)

lemma useChar_printable:
  assumes "kind_of ch = K_Printable"
  shows "\<exists>d. useChar ac ch c = Some (None, d) \<and>
    co_command d = take (co_carpos c) (co_command c) @ [ch] @ drop (co_carpos c) (co_command c) \<and> co_carpos d = co_carpos c + 1 \<and>
    co_out d = co_out c @ ([ch] @ c_str (drop (co_carpos c) (co_command c))) @ replicate (length (co_command d) - co_carpos d) BS \<and>
    co_accumchars d = co_accumchars c \<and> co_termName d = co_termName c \<and> co_stream d = co_stream c \<and> \<not> co_tab d \<and>
    co_historyCounter d = co_historyCounter c \<and> co_history d = co_history c"
  using kind_ofD(5)[OF assms] by (simp add: useChar_def Let_def print_def printable_def)

lemma useChar_ok:
  assumes ok: "console_ok c" "shows_line c" and ac: "completion_ok ac" and c': "useChar ac ch c = Some (r, c')"
  shows "console_ok c' \<and> shows_line c'"
proof -
  obtain k where k: "screen (co_out c) = (prompt c @ co_command c @ replicate k CHR '' '', length (prompt c) + co_carpos c)"
    and le: "co_carpos c \<le> length (co_command c @ replicate k CHR '' '')"
    using ok by (rule shows_lineD)
  note d = console_okD[OF ok(1)]
  have tab: "console_ok (c\<lparr>co_tab := b\<rparr>)" "shows_line (c\<lparr>co_tab := b\<rparr>)" for b
    using ok by (simp_all add: console_ok_def shows_line_def prompt_def)
  show ?thesis
  proof (cases "kind_of ch")
    case K_Tab
    show ?thesis
    proof (cases "co_tab c")
      case False
      then show ?thesis using tab[of True] c' useChar_kinds(1)[OF K_Tab] by auto
    next
      case True
      obtain a c1 where a: "ac (take (co_carpos c) (co_command c)) (c\<lparr>co_tab := False\<rparr>) = Some (a, c1)"
        using c' useChar_kinds(2)[OF K_Tab True, of ac] by (auto split: option.splits)
      have "plain (take (co_carpos c) (co_command c))" using d(3) by simp
      then have c1: "console_ok c1" "shows_line c1" "\<And>t. a = Some t \<Longrightarrow> plain t"
        using ac tab[of False] a unfolding completion_ok_def by blast+
      show ?thesis
      proof (cases a)
        case None
        then show ?thesis using c' a c1 useChar_kinds(2)[OF K_Tab True] by simp
      next
        case (Some t)
        then have eq: "c' = print (c_str t) ((printName (clearLine c1))\<lparr>co_command := t, co_carpos := length t\<rparr>)"
          using c' a useChar_kinds(2)[OF K_Tab True, of ac] by simp
        have "shows_line c'"
          by (rule new_command_shown[OF clearLine_clears[OF c1(1,2)], of t])
            (use c1(3)[OF Some] console_okD(4)[OF c1(1)] in \<open>simp_all add: eq print_def\<close>)
        then show ?thesis using c1 Some by (simp add: eq console_ok_def)
      qed
    qed
  next
    case K_Enter
    then obtain e where e: "c' = e" "co_out e = co_out (printName (print [CHR 0x0A] c))" "co_command e = []" "co_carpos e = 0"
        "co_termName e = co_termName c" "co_stream e = co_stream c" "co_historyCounter e = 0"
        "co_history e = co_history c @ (if co_command c \<noteq> [] then [co_command c] else [])"
      using useChar_enter[OF K_Enter, of ac c] c' by auto
    have "cleared (print [CHR 0x0A] c)"
      by (cases "fold put_char (co_out c) ([], 0)") (auto simp: cleared_def screen_def put_char_def intro: exI[of _ 0])
    then have "shows_line c'" by (rule new_command_shown[where s = "[]"]) (use e d in \<open>simp_all add: print_def\<close>)
    then show ?thesis using ok(1) e by (simp add: console_ok_def)
  next
    case K_Escape
    let ?t = "c\<lparr>co_tab := False\<rparr>"
    have "shows_line ((printName (clearLine ?t))\<lparr>co_command := [], co_carpos := 0\<rparr>)"
      by (rule new_command_shown[OF clearLine_clears[OF tab], where s = "[]"]) (use d in \<open>simp_all add: print_def\<close>)
    then show ?thesis using c' useChar_kinds(3)[OF K_Escape, of ac c] ok(1) by (auto simp: console_ok_def)
  next
    case K_Backspace
    show ?thesis
    proof (cases "co_command c = []")
      case True
      then show ?thesis using c' useChar_kinds(5)[OF K_Backspace True, of ac] tab[of False] by auto
    next
      case False
      then have n: "co_carpos c \<noteq> 0" using c' useChar_kinds(6)[OF K_Backspace False, of ac] by auto
      then obtain e where e: "c' = e" "co_command e = take (co_carpos c - 1) (co_command c) @ drop (co_carpos c) (co_command c)"
          "co_carpos e = co_carpos c - 1" "co_out e = co_out c @ [BS] @ c_str (drop (co_carpos e) (co_command e)) @ '' '' @ [BS] @
            replicate (length (co_command e) - co_carpos e) BS"
          "co_termName e = co_termName c" "co_stream e = co_stream c" "co_historyCounter e = co_historyCounter c"
          "co_history e = co_history c"
        using useChar_backspace[OF K_Backspace n False, of ac] c' by auto
      let ?n = "co_carpos c - 1"
      let ?b = "c\<lparr>co_out := co_out c @ [BS]\<rparr>"
      have b: "screen (co_out ?b) = (prompt ?b @ co_command c @ replicate k CHR '' '', length (prompt ?b) + ?n)"
        using k n by (simp add: screen_def put_char_def prompt_def)
      have rest: "drop (co_carpos e) (co_command e) = drop (co_carpos c) (co_command c)"
        using n d(2) by (simp add: e(2,3))
      have "shows_line c'"
      proof (rule rewrite_shown[OF b, of "drop (co_carpos c) (co_command c) @ '' ''" _ "Suc (length (co_command c) - co_carpos c)" "Suc k"])
        have "length (co_command c) = ?n + Suc (length (co_command c) - co_carpos c)" using n d(2) by simp
        then show "take ?n (co_command c @ replicate k CHR '' '') @ (drop (co_carpos c) (co_command c) @ '' '') @
            drop (?n + length (drop (co_carpos c) (co_command c) @ '' '')) (co_command c @ replicate k CHR '' '') =
            co_command c' @ replicate (Suc k) CHR '' ''"
          using n d(2) by (simp add: e(1,2))
        show "co_out c' = co_out ?b @ (drop (co_carpos c) (co_command c) @ '' '') @
            replicate (Suc (length (co_command c) - co_carpos c)) BS"
          using n d(2,3) unfolding e(1,4) rest by (simp add: e(2,3))
      qed (use e n d in \<open>auto simp: prompt_def\<close>)
      then show ?thesis using ok(1) e d n by (auto simp: console_ok_def)
    qed
  next
    case K_Printable
    then obtain e where e: "c' = e" "co_command e = take (co_carpos c) (co_command c) @ [ch] @ drop (co_carpos c) (co_command c)"
        "co_carpos e = co_carpos c + 1"
        "co_out e = co_out c @ ([ch] @ c_str (drop (co_carpos c) (co_command c))) @ replicate (length (co_command e) - co_carpos e) BS"
        "co_termName e = co_termName c" "co_stream e = co_stream c" "co_historyCounter e = co_historyCounter c"
        "co_history e = co_history c"
      using useChar_printable[OF K_Printable, of ac c] c' by auto
    have ch: "plain [ch]" using kind_ofD(5)[OF K_Printable] printable_plain by blast
    have "shows_line c'"
      by (rule rewrite_shown[OF k le, of "ch # drop (co_carpos c) (co_command c)" _ "length (co_command c) - co_carpos c" "k - 1"])
        (use e d ch in \<open>auto simp: prompt_def drop_replicate\<close>)
    then show ?thesis using ok(1) e d ch by (simp add: console_ok_def)
  next
    case K_Other
    then show ?thesis using c' useChar_kinds(4)[of ch ac c] tab[of False] by auto
  qed
qed

section \<open>Key presses\<close>

datatype key_press = Key accum_type | Typed char

fun press :: "completion \<Rightarrow> key_press \<Rightarrow> console \<Rightarrow> (string option \<times> console) option" where
  "press ac (Key t) c = map_option (Pair None) (apply_key t c)"
| "press ac (Typed ch) c = useChar ac ch c"

text \<open>A run of key presses, with the commands that were completed.\<close>

fun press_all :: "completion \<Rightarrow> key_press list \<Rightarrow> console \<Rightarrow> (string list \<times> console) option" where
  "press_all ac [] c = Some ([], c)"
| "press_all ac (k # ks) c =
     (case press ac k c of
        None \<Rightarrow> None
      | Some (r, c) \<Rightarrow> map_option (\<lambda>(rs, c). (case r of None \<Rightarrow> rs | Some buf \<Rightarrow> buf # rs, c)) (press_all ac ks c))"

section \<open>The editor the console is meant to be\<close>

text \<open>The text before and after the caret, the commands so far, and how far the user has gone back.\<close>

record editor =
  ed_before :: string
  ed_after :: string
  ed_history :: "string list"
  ed_back :: nat

definition go_back :: "nat \<Rightarrow> editor \<Rightarrow> editor" where
  "go_back n e = e\<lparr>ed_before := ed_history e ! (length (ed_history e) - n), ed_after := [], ed_back := n\<rparr>"

fun edit_key :: "accum_type \<Rightarrow> editor \<Rightarrow> editor option" where
  "edit_key ARROW_UP e = Some (if ed_back e < length (ed_history e) then go_back (Suc (ed_back e)) e else e)"
| "edit_key ARROW_DOWN e =
     (if ed_history e = [] \<or> ed_back e = 1 then Some e else if ed_back e = 0 then None else Some (go_back (ed_back e - 1) e))"
| "edit_key ARROW_LEFT e =
     Some (if ed_before e = [] then e
           else e\<lparr>ed_before := butlast (ed_before e), ed_after := last (ed_before e) # ed_after e\<rparr>)"
| "edit_key ARROW_RIGHT e =
     Some (if ed_after e = [] then e else e\<lparr>ed_before := ed_before e @ [hd (ed_after e)], ed_after := tl (ed_after e)\<rparr>)"
| "edit_key KEY_DELETE e = Some (e\<lparr>ed_after := tl (ed_after e)\<rparr>)"
| "edit_key KEY_END e = Some (e\<lparr>ed_before := ed_before e @ ed_after e, ed_after := []\<rparr>)"
| "edit_key KEY_HOME e = Some (e\<lparr>ed_before := [], ed_after := ed_before e @ ed_after e\<rparr>)"
| "edit_key _ e = Some e"

fun edit_kind :: "char_kind \<Rightarrow> char \<Rightarrow> editor \<Rightarrow> (string option \<times> editor) option" where
  "edit_kind K_Enter ch e =
     (let buf = ed_before e @ ed_after e
      in Some (Some buf, \<lparr>ed_before = [], ed_after = [],
           ed_history = ed_history e @ (if buf \<noteq> [] then [buf] else []), ed_back = 0\<rparr>))"
| "edit_kind K_Escape ch e = Some (None, e\<lparr>ed_before := [], ed_after := []\<rparr>)"
| "edit_kind K_Backspace ch e =
     (if ed_before e = [] \<and> ed_after e \<noteq> [] then None else Some (None, e\<lparr>ed_before := butlast (ed_before e)\<rparr>))"
| "edit_kind K_Printable ch e = Some (None, e\<lparr>ed_before := ed_before e @ [ch]\<rparr>)"
| "edit_kind _ ch e = Some (None, e)"

fun edit :: "key_press \<Rightarrow> editor \<Rightarrow> (string option \<times> editor) option" where
  "edit (Key t) e = map_option (Pair None) (edit_key t e)"
| "edit (Typed ch) e = edit_kind (kind_of ch) ch e"

fun edit_all :: "key_press list \<Rightarrow> editor \<Rightarrow> (string list \<times> editor) option" where
  "edit_all [] e = Some ([], e)"
| "edit_all (k # ks) e =
     (case edit k e of
        None \<Rightarrow> None
      | Some (r, e) \<Rightarrow> map_option (\<lambda>(rs, e). (case r of None \<Rightarrow> rs | Some buf \<Rightarrow> buf # rs, e)) (edit_all ks e))"

definition editor_of :: "console \<Rightarrow> editor" where
  "editor_of c = \<lparr>ed_before = take (co_carpos c) (co_command c), ed_after = drop (co_carpos c) (co_command c),
     ed_history = co_history c, ed_back = co_historyCounter c\<rparr>"

lemma editor_of_cong:
  "co_command c = co_command d \<Longrightarrow> co_carpos c = co_carpos d \<Longrightarrow> co_history c = co_history d \<Longrightarrow>
     co_historyCounter c = co_historyCounter d \<Longrightarrow> editor_of c = editor_of d"
  by (simp add: editor_of_def)

lemma take_Suc_before: "n < length s \<Longrightarrow> take (Suc n) s = take n s @ [hd (drop n s)]"
  by (simp add: take_Suc_conv_app_nth hd_drop_conv_nth)

lemma apply_key_edits:
  assumes "console_ok c"
  shows "map_option editor_of (apply_key t c) = edit_key t (editor_of c)"
proof -
  note d = console_okD[OF assms]
  have h: "co_historyCounter c \<le> length (co_history c)" using assms by (simp add: console_ok_def)
  show ?thesis
  proof (cases t)
    case ARROW_LEFT
    have "co_carpos c \<noteq> 0 \<Longrightarrow> co_command c \<noteq> [] \<and> take (co_carpos c) (co_command c) \<noteq> []" using d(2) by auto
    moreover have "co_carpos c = Suc n \<Longrightarrow> drop n (co_command c) = co_command c ! n # drop (Suc n) (co_command c)" for n
      using d(2) by (simp add: Cons_nth_drop_Suc)
    ultimately show ?thesis using ARROW_LEFT d(2)
      by (cases "co_carpos c") (auto simp: editor_of_def butlast_take take_Suc_conv_app_nth)
  next
    case KEY_DELETE
    then show ?thesis using d(2) by (auto simp: editor_of_def Let_def tl_drop drop_Suc)
  qed (use d(2) h in \<open>auto simp: editor_of_def show_history_def go_back_def Let_def take_Suc_before tl_drop drop_Suc\<close>)
qed

lemma useChar_edits:
  assumes "console_ok c" "kind_of ch \<noteq> K_Tab"
  shows "map_option (\<lambda>(r, c). (r, editor_of c)) (useChar ac ch c) = edit_kind (kind_of ch) ch (editor_of c)"
proof (cases "kind_of ch")
  case K_Enter
  then show ?thesis using useChar_enter[OF K_Enter, of ac c] by (auto simp: editor_of_def Let_def)
next
  case K_Escape
  then show ?thesis by (simp add: useChar_kinds editor_of_def)
next
  case K_Backspace
  note n = console_okD(2)[OF assms(1)]
  consider "co_command c = []" | "co_command c \<noteq> []" "co_carpos c = 0" | "co_command c \<noteq> []" "co_carpos c \<noteq> 0" by blast
  then show ?thesis
  proof cases
    case 3
    obtain d where "useChar ac ch c = Some (None, d)" "co_command d = take (co_carpos c - 1) (co_command c) @ drop (co_carpos c) (co_command c)"
        "co_carpos d = co_carpos c - 1" "co_historyCounter d = co_historyCounter c" "co_history d = co_history c"
      using useChar_backspace[OF K_Backspace 3(2,1), of ac] by auto
    then show ?thesis using K_Backspace 3 n by (auto simp: editor_of_def butlast_take min_def)
  qed (use K_Backspace n in \<open>auto simp: useChar_kinds editor_of_def\<close>)
next
  case K_Printable
  then show ?thesis using useChar_printable[OF K_Printable, of ac c] console_okD(2)[OF assms(1)]
    by (auto simp: editor_of_def)
next
  case K_Other
  then show ?thesis by (simp add: useChar_kinds editor_of_def)
qed (use assms(2) in simp)

lemma plain_useChar:
  assumes "console_ok c" "kind_of ch \<noteq> K_Tab" "useChar ac ch c = Some (r, c')"
  shows "console_ok c'"
proof (cases "kind_of ch")
  case K_Enter
  then show ?thesis using useChar_enter[OF K_Enter, of ac c] assms by (auto simp: console_ok_def)
next
  case K_Backspace
  consider "co_command c = []" | "co_command c \<noteq> []" "co_carpos c \<noteq> 0"
    using assms(3) useChar_kinds(6)[OF K_Backspace, of c ac] by fastforce
  then show ?thesis
  proof cases
    case 2
    then show ?thesis using useChar_backspace[OF K_Backspace 2(2,1), of ac] assms by (auto simp: console_ok_def)
  qed (use assms useChar_kinds(5)[OF K_Backspace, of c ac] in \<open>auto simp: console_ok_def\<close>)
next
  case K_Printable
  then show ?thesis using useChar_printable[OF K_Printable, of ac c] assms kind_ofD(5)[OF K_Printable] printable_plain[of ch]
    by (auto simp: console_ok_def)
qed (use assms useChar_kinds(3,4)[of ch ac c] in \<open>auto simp: console_ok_def\<close>)

lemma plain_apply_key:
  assumes "console_ok c" "apply_key t c = Some c'"
  shows "console_ok c'"
proof -
  have "console_ok e" if "show_history n (printName (clearLine c)) = Some e" for n e
    using that assms(1) history_plain[OF assms(1), of n]
    by (auto simp: show_history_def Let_def console_ok_def split: if_splits)
  then show ?thesis using assms by (cases t) (auto simp: console_ok_def Let_def split: if_splits)
qed

definition not_tab :: "key_press \<Rightarrow> bool" where
  "not_tab k \<longleftrightarrow> k \<noteq> Typed CHR 0x09"

lemma press_edits:
  assumes "console_ok c" "not_tab k"
  shows "map_option (\<lambda>(r, c). (r, editor_of c)) (press ac k c) = edit k (editor_of c)"
    and "press ac k c = Some (r, c') \<Longrightarrow> console_ok c'"
proof -
  have tab: "kind_of ch \<noteq> K_Tab" if "k = Typed ch" for ch
    using assms(2) that kind_ofD(1)[of ch] by (auto simp: not_tab_def)
  show "map_option (\<lambda>(r, c). (r, editor_of c)) (press ac k c) = edit k (editor_of c)"
  proof (cases k)
    case (Key t)
    then show ?thesis by (simp add: apply_key_edits[OF assms(1), of t, symmetric] option.map_comp comp_def)
  next
    case (Typed ch)
    then show ?thesis using useChar_edits[OF assms(1) tab[OF Typed]] by simp
  qed
  assume pressed: "press ac k c = Some (r, c')"
  show "console_ok c'"
  proof (cases k)
    case (Key t)
    then show ?thesis using pressed plain_apply_key[OF assms(1), of t] by auto
  next
    case (Typed ch)
    then show ?thesis using pressed plain_useChar[OF assms(1) tab[OF Typed]] by simp
  qed
qed

lemma press_all_edits:
  "console_ok c \<Longrightarrow> list_all not_tab ks \<Longrightarrow>
     map_option (\<lambda>(rs, c). (rs, editor_of c)) (press_all ac ks c) = edit_all ks (editor_of c)"
proof (induction ks arbitrary: c)
  case (Cons k ks)
  note step = press_edits[OF Cons.prems(1), of k ac] 
  show ?case
  proof (cases "press ac k c")
    case None
    then show ?thesis using step(1) Cons.prems(2) by simp
  next
    case (Some rc)
    obtain r d where rc: "rc = (r, d)" by (cases rc)
    have "edit k (editor_of c) = Some (r, editor_of d)" using step(1) Cons.prems(2) Some rc by simp
    moreover have "console_ok d" using step(2) Cons.prems(2) Some rc by simp
    ultimately show ?thesis using Cons.IH[of d, symmetric] Cons.prems(2) Some rc
      by (cases r) (auto simp: option.map_comp comp_def split_def)
  qed
qed simp

section \<open>Reading keys\<close>

lemma template_not_Nil [simp]: "template_of t \<noteq> []"
  by (cases t) (simp_all add: template_of_def key_templates_def)

lemma read_key:
  "checkAccumeChars (template_of t @ s) = (0, Some t)"
  by (cases t) (simp_all add: checkAccumeChars_def key_templates_def template_of_def)

lemma read_char:
  "ch \<noteq> CHR 0x1B \<Longrightarrow> snd (checkAccumeChars (ch # s)) = None"
  by (simp add: checkAccumeChars_def key_templates_def)

fun press_keys :: "accum_type list \<Rightarrow> console \<Rightarrow> console option" where
  "press_keys [] c = Some c"
| "press_keys (t # ts) c = Option.bind (apply_key t c) (press_keys ts)"

text \<open>
  What \<open>Read\<close> finds in the bytes that have come in: the keys in front, and one character after
  them.
\<close>

lemma read_decodes_keys:
  assumes "ts \<noteq> [] \<or> s \<noteq> []" "s \<noteq> [] \<Longrightarrow> hd s \<noteq> CHR 0x1B"
  shows "read_loop ac (concat (map template_of ts) @ s) c =
     Option.bind (press_keys ts c) (\<lambda>c. if s = [] then Some (None, c\<lparr>co_accumchars := []\<rparr>)
        else useChar ac (hd s) (c\<lparr>co_accumchars := tl s\<rparr>))"
  using assms
proof (induction ts arbitrary: c)
  case Nil
  then obtain ch rest where s: "s = ch # rest" by (cases s) auto
  then have "snd (checkAccumeChars (ch # rest)) = None" using Nil read_char by simp
  then show ?case by (auto simp: s read_loop.simps[of ac "ch # rest"] split: prod.split option.split)
next
  case (Cons t ts)
  have first: "read_loop ac (template_of t @ (concat (map template_of ts) @ s)) c =
      Option.bind (apply_key t c) (\<lambda>c. if concat (map template_of ts) @ s = [] then Some (None, c\<lparr>co_accumchars := []\<rparr>)
        else read_loop ac (concat (map template_of ts) @ s) c)"
    by (simp add: read_loop.simps[of ac "template_of t @ (concat (map template_of ts) @ s)" c] read_key Let_def
        split: option.split)
  have "concat (map template_of ts) @ s = [] \<longleftrightarrow> ts = [] \<and> s = []"
    by (cases ts) auto
  note step = first[unfolded this]
  let ?rest = "\<lambda>c. if s = [] then Some (None, c\<lparr>co_accumchars := []\<rparr>) else useChar ac (hd s) (c\<lparr>co_accumchars := tl s\<rparr>)"
  show ?case
  proof (cases "ts = [] \<and> s = []")
    case True
    then show ?thesis using step by (cases "apply_key t c") simp_all
  next
    case False
    then have IH: "read_loop ac (concat (map template_of ts) @ s) d = Option.bind (press_keys ts d) ?rest" for d
      using Cons.IH[of d] Cons.prems(2) by blast
    have "Option.bind (apply_key t c) (\<lambda>c. if ts = [] \<and> s = [] then Some (None, c\<lparr>co_accumchars := []\<rparr>)
        else read_loop ac (concat (map template_of ts) @ s) c) =
      Option.bind (apply_key t c) (\<lambda>d. Option.bind (press_keys ts d) ?rest)"
      unfolding IH using False by (simp only: if_False)
    then show ?thesis using step by (simp only: press_keys.simps bind_assoc list.map concat.simps append_assoc)
  qed
qed

section \<open>The line editor\<close>

definition empty_editor :: editor where
  "empty_editor = \<lparr>ed_before = [], ed_after = [], ed_history = [], ed_back = 0\<rparr>"

text \<open>
  C38: For every run of keys without Tab the console does what an editor of the text before and
  after the caret does, with the same commands completed, and leaves the bounds of its command and
  history exactly when that editor has no answer.
\<close>

theorem keys_edit_command:
  assumes "list_all not_tab ks"
  shows "map_option (\<lambda>(rs, c). (rs, editor_of c)) (press_all ac ks (Console_Init Console)) = edit_all ks empty_editor"
proof -
  have "editor_of (Console_Init Console) = empty_editor"
    by (simp add: editor_of_def empty_editor_def Console_Init_def Console_def)
  then show ?thesis using press_all_edits[OF Console_Init_ok(1) assms, of ac] by simp
qed

theorem keys_edit_command_witness:
  "\<exists>c. press_all (\<lambda>s c. Some (None, c)) [Typed CHR ''l'', Typed CHR ''s'', Key ARROW_LEFT, Typed CHR ''x'', Typed CHR 0x0A]
     (Console_Init Console) = Some ([''lxs''], c) \<and> editor_of c = \<lparr>ed_before = [], ed_after = [], ed_history = [''lxs''], ed_back = 0\<rparr>"
proof -
  let ?ks = "[Typed CHR ''l'', Typed CHR ''s'', Key ARROW_LEFT, Typed CHR ''x'', Typed CHR 0x0A]"
  have "edit_all ?ks empty_editor = Some ([''lxs''], \<lparr>ed_before = [], ed_after = [], ed_history = [''lxs''], ed_back = 0\<rparr>)"
    by code_simp
  moreover have "list_all not_tab ?ks" by (simp add: not_tab_def)
  ultimately show ?thesis
    using keys_edit_command[of ?ks "\<lambda>s c. Some (None, c)"] by auto
qed

end
