(* ===== verification/Terminal_Runs.thy ===== *)
theory Terminal_Runs
  imports Terminal Console_Editing
begin

text \<open>
  The remote terminal at work: completion keeps the screen, whatever comes in keeps the terminal
  well-formed, and a command that is typed is sent to the terminal it is for.
\<close>

section \<open>Completion\<close>

text \<open>The parts of a line consist of the bytes of the line.\<close>

lemma DelimitQString_quoted_bytes:
  assumes "DelimitQString_quoted src delimit beg dest = Some (b, d)" "\<forall>p\<in>set dest. set p \<subseteq> set src"
  shows "\<forall>p\<in>set d. set p \<subseteq> set src"
  using assms by (auto simp: DelimitQString_quoted_def substr_def split: if_splits option.splits
      dest!: in_set_takeD in_set_dropD)

lemma DelimitQString_loop_bytes:
  "DelimitQString_loop src delimit beg dest = Some r \<Longrightarrow>
     (\<forall>p\<in>set dest. set p \<subseteq> set src) \<longrightarrow> (\<forall>p\<in>set (snd r). set p \<subseteq> set src)"
proof (erule DelimitQString_loop.raw_induct [rotated])
  fix f :: "string \<Rightarrow> string \<Rightarrow> nat \<Rightarrow> string list \<Rightarrow> (nat \<times> string list) option"
    and src delimit beg dest r
  assume IH: "\<And>s dl bg ds r. f s dl bg ds = Some r \<Longrightarrow>
      (\<forall>p\<in>set ds. set p \<subseteq> set s) \<longrightarrow> (\<forall>p\<in>set (snd r). set p \<subseteq> set s)"
  assume eq: "(case DelimitQString_quoted src delimit beg dest of
        None \<Rightarrow> None
      | Some (beg, dest) \<Rightarrow>
          (case str_find src (c_str delimit) beg of
             None \<Rightarrow> Some (beg, dest)
           | Some pos \<Rightarrow>
               f src delimit (pos + length delimit) (if beg \<noteq> pos then dest @ [substr src beg pos] else dest))) = Some r"
  show "(\<forall>p\<in>set dest. set p \<subseteq> set src) \<longrightarrow> (\<forall>p\<in>set (snd r). set p \<subseteq> set src)"
  proof
    assume dest: "\<forall>p\<in>set dest. set p \<subseteq> set src"
    obtain b d where q: "DelimitQString_quoted src delimit beg dest = Some (b, d)"
      using eq by (auto split: option.splits)
    then have d: "\<forall>p\<in>set d. set p \<subseteq> set src" using DelimitQString_quoted_bytes dest by blast
    show "\<forall>p\<in>set (snd r). set p \<subseteq> set src"
    proof (cases "str_find src (c_str delimit) b")
      case None
      then show ?thesis using eq q d by auto
    next
      case (Some pos)
      let ?d = "if b \<noteq> pos then d @ [substr src b pos] else d"
      have "\<forall>p\<in>set ?d. set p \<subseteq> set src"
        using d by (auto simp: substr_def dest!: in_set_takeD in_set_dropD)
      moreover have "f src delimit (pos + length delimit) ?d = Some r" using eq q Some by simp
      ultimately show ?thesis using IH by blast
    qed
  qed
qed

lemma DelimitQString_bytes:
  assumes "DelimitQString src delimit = Some ps" "p \<in> set ps"
  shows "set p \<subseteq> set src"
proof -
  obtain b d where loop: "DelimitQString_loop src delimit 0 [] = Some (b, d)"
    using assms(1) by (auto simp: DelimitQString_def split: option.splits)
  then have "\<forall>p\<in>set d. set p \<subseteq> set src" using DelimitQString_loop_bytes[OF loop] by simp
  moreover have "p \<in> set d \<or> p = substr src b (length src)"
    using assms loop by (auto simp: DelimitQString_def split: if_splits)
  ultimately show ?thesis by (auto simp: substr_def dest!: in_set_takeD in_set_dropD)
qed

lemma plain_subset: "plain s \<Longrightarrow> set p \<subseteq> set s \<Longrightarrow> plain p"
  by (auto simp: plain_def)

lemma plain_concat [simp]: "plain (concat ss) \<longleftrightarrow> list_all plain ss"
  by (induction ss) auto

lemma ProcessingObjects_collect: "ProcessingObjects (\<lambda>p xs. xs @ [f p]) cs xs = xs @ map f cs"
  by (induction cs arbitrary: xs) simp_all

lemma GetCommands_map: "GetCommands state = map (command_name \<circ> snd) (ts_commands state)"
  by (simp add: GetCommands_def ProcessingObjects_collect)

definition plain_terminal :: "terminal \<Rightarrow> bool" where
  "plain_terminal t \<longleftrightarrow> list_all (plain \<circ> command_name \<circ> snd) (ts_commands (tl_state t)) \<and>
     list_all (plain \<circ> snd) (tl_terminalMap t)"

lemma Command_GetArgs_plain:
  "plain_terminal t \<Longrightarrow> list_all plain (Command_GetArgs c args t)"
  by (cases c) (auto simp: plain_terminal_def list_all_iff autoCompleteHelper_def getTerminalNames_def module_getTerminalNames_def)

lemma TerminalState_GetArgs_plain:
  assumes "plain_terminal t"
  shows "list_all plain (TerminalState_GetArgs state command args t)"
proof -
  have gen: "list_all plain avail \<Longrightarrow> list_all plain (ProcessingObjects (\<lambda>p avail. if command_name (snd p) = command
      then Command_GetArgs (snd p) args t else avail) cs avail)" for cs avail
    by (induction cs arbitrary: avail) (simp_all add: Command_GetArgs_plain[OF assms])
  show ?thesis unfolding TerminalState_GetArgs_def by (rule gen) simp
qed

lemma show_words_ok:
  assumes "console_ok c"
  shows "console_ok (show_words ws c)" "shows_line c \<Longrightarrow> shows_line (show_words ws c)"
  using Console_Write_ok[of c] assms by (auto simp: show_words_def Let_def Console_Write_def console_ok_def)

lemma autoComplete_ok:
  assumes "plain_terminal t" "console_ok c" "plain s" "autoComplete t s c = Some (r, d)"
  shows "console_ok d" "shows_line c \<Longrightarrow> shows_line d" "r = Some w \<Longrightarrow> plain w"
proof -
  obtain parts where parts: "DelimitQString s '' '' = Some parts"
    using assms(4) by (auto simp: autoComplete_def split: option.splits)
  have ps: "list_all plain parts"
    using DelimitQString_bytes[OF parts] plain_subset[OF assms(3)] by (auto simp: list_all_iff)
  have words: "list_all plain (autoCompleteHelper x (GetCommands (tl_state t)))" for x
    using assms(1) by (auto simp: plain_terminal_def list_all_iff autoCompleteHelper_def GetCommands_map)
  have d: "d = c \<or> (\<exists>ws. d = show_words ws c)"
    using assms(4) parts by (auto simp: autoComplete_def Let_def split: if_splits)
  show "console_ok d" "shows_line c \<Longrightarrow> shows_line d"
    using d show_words_ok[OF assms(2)] assms(2) by auto
  have hd: "plain (ws ! 0)" if "list_all plain ws" "length ws = 1" for ws
    using that by (cases ws) auto
  have "list_all plain (butlast (tl parts))" using ps by (cases parts) (auto simp: list_all_iff dest: in_set_butlastD)
  then have "plain (concat (map (\<lambda>arg. arg @ '' '') (butlast (tl parts) @ [x])))" if "plain x" for x
    using that by (auto simp: list_all_iff)
  moreover have "plain (if parts \<noteq> [] then parts ! 0 else [])" using ps by (cases parts) auto
  ultimately show "r = Some w \<Longrightarrow> plain w"
    using assms(4) parts hd[OF words] hd[OF TerminalState_GetArgs_plain[OF assms(1)]]
    by (auto simp: autoComplete_def Let_def split: if_splits)
qed

lemma completion_autoComplete: "plain_terminal t \<Longrightarrow> completion_ok (autoComplete t)"
  unfolding completion_ok_def using autoComplete_ok by blast



text \<open>When completion fails: a line it cannot cut, or one word for an argument not begun.\<close>

lemma autoComplete_faults_iff:
  "autoComplete t s c = None \<longleftrightarrow>
     (case DelimitQString s '' '' of
        None \<Rightarrow> True
      | Some parts \<Rightarrow> length parts \<le> 1 \<and> s \<noteq> [] \<and> last s = CHR '' '' \<and>
          length (TerminalState_GetArgs (tl_state t) (if parts \<noteq> [] then parts ! 0 else []) [] t) = 1)"
proof (cases "DelimitQString s '' ''")
  case (Some parts)
  then show ?thesis by (cases "tl parts") (cases parts; auto simp: autoComplete_def Let_def split: if_splits)+
qed (simp add: autoComplete_def)

end
