(* ===== verification/Terminal_Session.thy ===== *)
theory Terminal_Session
  imports Terminal_Runs
begin

text \<open>
  Runs of the remote terminal: rounds of its thread, bytes from the keyboard, and the messages and
  events of its module, each alone.
\<close>

section \<open>Events\<close>

datatype terminal_event =
    Round nat
  | Byte char
  | Term_Name string ipc_name
  | Log_Message string ipc_name
  | Command_List "(nat \<times> string \<times> string list) list" ipc_name
  | Disconnected ipc_name

fun terminal_step :: "terminal_event \<Rightarrow> terminal \<Rightarrow> terminal option" where
  "terminal_step (Round a) t = Terminal_round a t"
| "terminal_step (Byte ch) t = Some (t\<lparr>tl_console := Console_input ch (tl_console t)\<rparr>)"
| "terminal_step (Term_Name name path) t = Some (onMessage_term_name name path t)"
| "terminal_step (Log_Message data path) t = Some (onMessage_log data path t)"
| "terminal_step (Command_List msg path) t = Some (onMessage_command_list msg path t)"
| "terminal_step (Disconnected path) t = OnModuleDisconnected_terminal path t"

text \<open>
  Names and commands are text, and commands are sent by modules that have said their name: the
  commands of other modules go to the root state, as \<open>commands_of_unnamed_modules\<close> below shows.
\<close>

fun event_ok :: "terminal_event \<Rightarrow> terminal \<Rightarrow> bool" where
  "event_ok (Term_Name name path) t = plain name"
| "event_ok (Command_List msg path) t =
     (terminal_of path t \<noteq> '''' \<and> list_all (\<lambda>(a, cmd, args). plain cmd) msg)"
| "event_ok _ t = True"

inductive terminal_run :: "nat \<Rightarrow> terminal \<Rightarrow> bool" for root :: nat where
  start: "terminal_run root (Terminal_start (addTerminalModule (Terminal_new root)))"
| step: "terminal_run root t \<Longrightarrow> event_ok e t \<Longrightarrow> terminal_step e t = Some t' \<Longrightarrow> terminal_run root t'"

section \<open>Well-formed terminals\<close>

text \<open>
  The user is in the root state, which has the command \<open>use\<close> only, or in the state of a terminal
  that has connected, with the root state above it; the prompt says which.
\<close>

definition root_state :: "nat \<Rightarrow> terminal_state" where
  "root_state root = UseTerminal [(root, UseCommand)]"

fun state_ok :: "nat \<Rightarrow> string set \<Rightarrow> terminal_state \<Rightarrow> bool" where
  "state_ok root names (UseTerminal cs) = (UseTerminal cs = root_state root)"
| "state_ok root names (TerminalCommands name cs parent) =
     (name \<in> names \<and> parent = root_state root \<and>
      (\<forall>c\<in>snd ` set cs. c = ExitCommand \<or> (\<exists>cmd args. c = TerminalCommand cmd args name)))"

definition terminal_ok :: "nat \<Rightarrow> terminal \<Rightarrow> bool" where
  "terminal_ok root t \<longleftrightarrow> tl_module t \<and> console_ok (tl_console t) \<and> plain_terminal t \<and> map_ok (tl_terminalMap t) \<and>
     state_ok root (snd ` set (tl_terminalMap t)) (tl_state t) \<and> om_inv fst (ts_commands (tl_state t)) \<and>
     co_termName (tl_console t) = GetTerminalName (tl_state t)"

lemma terminal_okD:
  "terminal_ok root t \<Longrightarrow> tl_module t" "terminal_ok root t \<Longrightarrow> console_ok (tl_console t)" "terminal_ok root t \<Longrightarrow> plain_terminal t"
  "terminal_ok root t \<Longrightarrow> state_ok root (snd ` set (tl_terminalMap t)) (tl_state t)"
  "terminal_ok root t \<Longrightarrow> om_inv fst (ts_commands (tl_state t))"
  by (simp_all add: terminal_ok_def)

lemma terminal_ok_console:
  assumes "terminal_ok root t" "console_ok c" "co_termName c = co_termName (tl_console t)"
  shows "terminal_ok root (t\<lparr>tl_console := c\<rparr>)"
  using assms by (simp add: terminal_ok_def plain_terminal_def)

lemma Console_Write_sel [simp]:
  "co_termName (Console_Write s c) = co_termName c" "co_command (Console_Write s c) = co_command c"
  "co_carpos (Console_Write s c) = co_carpos c" "co_accumchars (Console_Write s c) = co_accumchars c"
  "co_stream (Console_Write s c) = co_stream c"
  by (simp_all add: Console_Write_def Let_def)

lemma Console_Write_plain: "console_ok c \<Longrightarrow> console_ok (Console_Write s c)"
  by (simp add: Console_Write_def Let_def console_ok_def)

lemma log_ok: "terminal_ok root t \<Longrightarrow> terminal_ok root (log n s t)"
  unfolding log_def by (rule terminal_ok_console) (simp_all add: terminal_okD Console_Write_plain)

lemma log_sel [simp]:
  "tl_state (log n s t) = tl_state t" "tl_terminalMap (log n s t) = tl_terminalMap t" "tl_sent (log n s t) = tl_sent t"
  "tl_module (log n s t) = tl_module t"
  by (simp_all add: log_def)

lemma start_ok: "terminal_ok root (Terminal_start (addTerminalModule (Terminal_new root)))"
  using Console_Init_ok(1)
  by (simp add: terminal_ok_def Terminal_start_def addTerminalModule_def Terminal_new_def plain_terminal_def root_state_def
      AddCommand_def AddObject_def lower_bound_def om_inv_def Console_Init_def Console_def)

subsection \<open>Commands\<close>

lemma Command_Check_cases:
  "Command_Check c cmd args t = (ok, t') \<Longrightarrow> (t' = t \<or> (\<exists>n s. t' = log n s t)) \<and> (ok \<longrightarrow> command_name c = cmd)"
  by (cases c) (auto split: if_splits)

lemma Check_ok:
  assumes "terminal_ok root t" "TerminalState_Check state cmd args t = (ok, t')"
  shows "terminal_ok root t'" and "tl_state t' = tl_state t" and "tl_terminalMap t' = tl_terminalMap t"
    and "tl_sent t' = tl_sent t" and "ok \<Longrightarrow> \<exists>p\<in>set (ts_commands state). \<exists>u. fst (Command_Check (snd p) cmd args u) \<and>
      tl_terminalMap u = tl_terminalMap t \<and> tl_module u = tl_module t"
proof -
  let ?same = "\<lambda>u. terminal_ok root u \<and> tl_state u = tl_state t \<and> tl_terminalMap u = tl_terminalMap t \<and>
    tl_sent u = tl_sent t \<and> tl_module u = tl_module t"
  have "?same u \<Longrightarrow> ProcessingObjects (CheckCommand cmd args) cs (f, u) = (f', u') \<Longrightarrow>
      ?same u' \<and> (f' \<longrightarrow> f \<or> (\<exists>p\<in>set cs. \<exists>v. fst (Command_Check (snd p) cmd args v) \<and>
        tl_terminalMap v = tl_terminalMap t \<and> tl_module v = tl_module t))" for cs f f' u u'
  proof (induction cs arbitrary: f u)
    case (Cons p cs)
    obtain ok1 u1 where c: "Command_Check (snd p) cmd args u = (ok1, u1)" by fastforce
    then have "u1 = u \<or> (\<exists>n s. u1 = log n s u)" using Command_Check_cases by blast
    then have "?same u1" using Cons.prems(1) log_ok by auto
    moreover have "ProcessingObjects (CheckCommand cmd args) cs (f \<or> ok1, u1) = (f', u')"
      using Cons.prems(2) c by simp
    ultimately have "?same u' \<and> (f' \<longrightarrow> (f \<or> ok1) \<or> (\<exists>p\<in>set cs. \<exists>v. fst (Command_Check (snd p) cmd args v) \<and>
        tl_terminalMap v = tl_terminalMap t \<and> tl_module v = tl_module t))" by (rule Cons.IH)
    moreover have "ok1 \<Longrightarrow> fst (Command_Check (snd p) cmd args u)" using c by simp
    ultimately show ?case using Cons.prems(1) by (meson list.set_intros)
  qed simp
  note all = this
  obtain f u where f: "ProcessingObjects (CheckCommand cmd args) (ts_commands state) (False, t) = (f, u)" by fastforce
  then have "?same u \<and> (f \<longrightarrow> (\<exists>p\<in>set (ts_commands state). \<exists>v. fst (Command_Check (snd p) cmd args v) \<and>
        tl_terminalMap v = tl_terminalMap t \<and> tl_module v = tl_module t))" using all[OF _ f] assms(1) by blast
  moreover have "ok = f \<and> (t' = u \<or> (\<exists>n s. t' = log n s u))"
    using assms(2) f by (cases f) (auto simp: TerminalState_Check_def)
  ultimately show "terminal_ok root t'" "tl_state t' = tl_state t" "tl_terminalMap t' = tl_terminalMap t"
    "tl_sent t' = tl_sent t" "ok \<Longrightarrow> \<exists>p\<in>set (ts_commands state). \<exists>u. fst (Command_Check (snd p) cmd args u) \<and>
      tl_terminalMap u = tl_terminalMap t \<and> tl_module u = tl_module t"
    using log_ok by auto
qed

lemma toMessage_terminal_ok:
  assumes "toMessage_terminal msg n t = (r, t')"
  shows "terminal_ok root t \<Longrightarrow> terminal_ok root t'" "tl_state t' = tl_state t" "tl_terminalMap t' = tl_terminalMap t"
    "tl_console t' = tl_console t" "tl_module t' = tl_module t"
  using assms by (auto simp: toMessage_terminal_def Module_toMessage_def terminal_ok_def plain_terminal_def split: option.splits)

lemma SetTermName_ok:
  assumes "console_ok c" "plain n" "SetTermName n c = Some d"
  shows "console_ok d \<and> co_termName d = n"
  using assms by (auto simp: SetTermName_def console_ok_def split: if_splits)

lemma setCurrentState_ok:
  assumes t: "terminal_ok root t" and "setCurrentState s t = Some t'" and s: "state_ok root (snd ` set (tl_terminalMap t)) s"
    "om_inv fst (ts_commands s)" "list_all (plain \<circ> command_name \<circ> snd) (ts_commands s)"
  shows "terminal_ok root t' \<and> tl_terminalMap t' = tl_terminalMap t \<and> tl_state t' = s"
proof -
  obtain c where c: "SetTermName (GetTerminalName s) (tl_console t) = Some c" "t' = t\<lparr>tl_state := s, tl_console := c\<rparr>"
    using assms(2) by (auto simp: setCurrentState_def)
  have "plain (GetTerminalName s)" using s(1) t
    by (cases s) (auto simp: terminal_ok_def plain_terminal_def list_all_iff root_state_def)
  then have "console_ok c \<and> co_termName c = GetTerminalName s" using SetTermName_ok t c(1) by (auto simp: terminal_ok_def)
  then show ?thesis using t s by (simp add: c(2) terminal_ok_def plain_terminal_def)
qed

lemma root_commands: "ts_commands (root_state root) = [(root, UseCommand)]" "state_ok root names (root_state root)"
  by (simp_all add: root_state_def)

lemma TerminalState_Exit_ok:
  assumes "terminal_ok root t" "TerminalState_Exit (tl_state t) t = Some t'"
  shows "terminal_ok root t' \<and> tl_terminalMap t' = tl_terminalMap t \<and> tl_state t' = root_state root"
proof (cases "tl_state t")
  case (UseTerminal cs)
  then show ?thesis using assms terminal_okD(4)[OF assms(1)] by simp
next
  case (TerminalCommands name cs parent)
  then have "parent = root_state root" using terminal_okD(4)[OF assms(1)] by simp
  then have "setCurrentState (root_state root) t = Some t'" using assms(2) TerminalCommands by simp
  then show ?thesis using setCurrentState_ok[OF assms(1)] by (simp add: root_commands om_inv_def)
qed

lemma AddCommand_set: "set (AddCommand p cs) \<subseteq> insert p (set cs)"
  by (simp add: AddCommand_def set_AddObject)

lemma AddCommand_inv: "om_inv fst cs \<Longrightarrow> om_inv fst (AddCommand p cs)"
  unfolding AddCommand_def by (rule cmds.add_inv)

text \<open>Running the commands of a terminal's state leaves the terminal in it.\<close>

lemma Execute_terminal:
  assumes "\<forall>c\<in>snd ` set cs. c = ExitCommand \<or> (\<exists>cmd args. c = TerminalCommand cmd args name)"
    and "terminal_ok root t" "ProcessingObjects (ExecuteCommand a state cmd args) cs (Some t) = Some t'"
  shows "terminal_ok root t'"
  using assms
proof (induction cs arbitrary: t)
  case (Cons p cs)
  have none: "ProcessingObjects (ExecuteCommand a state cmd args) cs None = None" for cs
    by (induction cs) simp_all
  obtain u where u: "ExecuteCommand a state cmd args p (Some t) = Some u"
    using Cons.prems(3) none by (cases "ExecuteCommand a state cmd args p (Some t)") auto
  have "terminal_ok root u"
  proof (cases "command_name (snd p) = cmd")
    case True
    then obtain cmd1 args1 where p: "snd p = TerminalCommand cmd1 args1 name"
      using Cons.prems(1) u by (auto split: option.splits)
    obtain r v where v: "toMessage_terminal (Command_Message cmd1 args) name t = (r, v)" by fastforce
    then have "terminal_ok root v" using toMessage_terminal_ok(1) Cons.prems(2) by blast
    then show ?thesis using u p v True log_ok by (cases r) auto
  qed (use u Cons.prems(2) in simp)
  then show ?case using Cons.IH[of u] Cons.prems(1,3) u by simp
qed simp

lemma Execute_root:
  assumes t: "terminal_ok root t" and n: "n \<in> snd ` set (tl_terminalMap t)"
    and e: "ExecuteCommand a state cmd [n] (root, UseCommand) (Some t) = Some t'" and s: "tl_state t = root_state root"
  shows "terminal_ok root t'"
proof (cases "cmd = ''use''")
  case True
  obtain s' u where u: "TerminalCommands_new a n (tl_state t) t = Some (s', u)" "setCurrentState s' u = Some t'"
    using e True by (auto split: option.splits)
  obtain r where r: "toMessage_terminal Get_Command_List n t = (r, u)"
      "s' = TerminalCommands n (AddCommand (a, ExitCommand) []) (tl_state t)"
    using u(1) by (cases "toMessage_terminal Get_Command_List n t") (auto simp: TerminalCommands_new_def split: if_splits)
  have cs: "AddCommand (a, ExitCommand) [] = [(a, ExitCommand)]"
    by (simp add: AddCommand_def AddObject_def lower_bound_def)
  have "terminal_ok root u" using toMessage_terminal_ok(1)[OF r(1)] t by blast
  then show ?thesis using setCurrentState_ok[OF _ u(2)] n s toMessage_terminal_ok(3)[OF r(1)]
    by (simp add: r(2) cs om_inv_def)
qed (use e t in simp)

lemma Terminal_run_ok:
  assumes t: "terminal_ok root t" and run: "Terminal_run a line t = Some t'"
  shows "terminal_ok root t'"
proof -
  obtain parts where parts: "DelimitQString line '' '' = Some parts"
    using run by (auto simp: Terminal_run_def split: option.splits)
  show ?thesis
  proof (cases parts)
    case Nil
    then show ?thesis using run parts t by (simp add: Terminal_run_def)
  next
    case (Cons cmd args)
    obtain ok u where c: "TerminalState_Check (tl_state t) cmd args t = (ok, u)" by fastforce
    note u = Check_ok[OF t c]
    show ?thesis
    proof (cases ok)
      case False
      then show ?thesis using run parts Cons c u(1) by (simp add: Terminal_run_def)
    next
      case True
      then have e: "TerminalState_Execute a (tl_state u) cmd args u = Some t'"
        using run parts Cons c by (simp add: Terminal_run_def)
      show ?thesis
      proof (cases "tl_state t")
        case (UseTerminal cs)
        then have s: "tl_state t = root_state root" using terminal_okD(4)[OF t] by simp
        obtain v where v: "fst (Command_Check UseCommand cmd args v)" "tl_terminalMap v = tl_terminalMap t"
          using u(5)[OF True] s by (auto simp: root_commands)
        then obtain n where "args = [n]" "n \<in> snd ` set (tl_terminalMap u)"
          using u(3) by (cases args) (auto simp: getTerminalNames_def module_getTerminalNames_def split: if_splits)
        then show ?thesis using Execute_root[OF u(1)] e u(2) s
          by (simp add: TerminalState_Execute_def root_commands)
      next
        case (TerminalCommands name cs parent)
        then show ?thesis using Execute_terminal[OF _ u(1)] e u(2) terminal_okD(4)[OF t]
          by (auto simp: TerminalState_Execute_def)
      qed
    qed
  qed
qed

subsection \<open>Reading\<close>

lemma show_words_name [simp]: "co_termName (show_words ws c) = co_termName c"
  by (simp add: show_words_def Let_def)

lemma autoComplete_name: "autoComplete t s c = Some (r, d) \<Longrightarrow> co_termName d = co_termName c"
  by (auto simp: autoComplete_def Let_def split: option.splits if_splits)

lemma apply_key_name: "apply_key k c = Some c' \<Longrightarrow> co_termName c' = co_termName c"
  by (cases k) (auto simp: show_history_def Let_def split: if_splits)

lemma useChar_keeps:
  assumes t: "plain_terminal t" and ok: "console_ok c" and u: "useChar (autoComplete t) ch c = Some (r, c')"
  shows "console_ok c' \<and> co_termName c' = co_termName c"
proof (cases "kind_of ch = K_Tab")
  case False
  then have "ch \<noteq> CHR 0x09" by (auto simp: kind_of_def)
  then have "co_termName c' = co_termName c" using u by (auto simp: useChar_def Let_def split: if_splits)
  then show ?thesis using plain_useChar[OF ok False u] by blast
next
  case True
  show ?thesis
  proof (cases "co_tab c")
    case False
    then show ?thesis using u ok useChar_kinds(1)[OF True, of c] by (auto simp: console_ok_def)
  next
    case tab: True
    let ?c = "c\<lparr>co_tab := False\<rparr>"
    obtain a d where a: "autoComplete t (take (co_carpos c) (co_command c)) ?c = Some (a, d)"
      using u useChar_kinds(2)[OF True tab, of "autoComplete t"] by (auto split: option.splits)
    have "console_ok ?c" "plain (take (co_carpos c) (co_command c))" using ok by (simp_all add: console_ok_def)
    note kept = autoComplete_ok(1,3)[OF t this a]
    have name: "co_termName d = co_termName c" using autoComplete_name[OF a] by simp
    show ?thesis
    proof (cases a)
      case None
      then show ?thesis using u a kept(1) name useChar_kinds(2)[OF True tab, of "autoComplete t"] by simp
    next
      case (Some w)
      then have c': "c' = print (c_str w) ((printName (clearLine d))\<lparr>co_command := w, co_carpos := length w\<rparr>)"
        using u a useChar_kinds(2)[OF True tab, of "autoComplete t"] by simp
      show ?thesis using kept(1) name kept(2)[OF Some] unfolding c' by (simp add: console_ok_def)
    qed
  qed
qed

lemma accumchars_ok: "console_ok (c\<lparr>co_accumchars := s\<rparr>) = console_ok c"
  by (simp add: console_ok_def)

lemma read_loop_keeps:
  "plain_terminal t \<Longrightarrow> console_ok c \<Longrightarrow> read_loop (autoComplete t) s c = Some (r, c') \<Longrightarrow>
     console_ok c' \<and> co_termName c' = co_termName c"
proof (induction "length s" arbitrary: s c rule: less_induct)
  case less
  obtain x k where k: "checkAccumeChars s = (x, k)" by fastforce
  note unfolded = read_loop.simps[of "autoComplete t" s c]
  show ?case
  proof (cases k)
    case None
    then show ?thesis
    proof (cases s)
      case (Cons ch rest)
      then have "useChar (autoComplete t) ch (c\<lparr>co_accumchars := rest\<rparr>) = Some (r, c')"
        using less(4) k None unfolded by simp
      then show ?thesis using useChar_keeps[OF less(2), of "c\<lparr>co_accumchars := rest\<rparr>"] less(3) by (simp add: accumchars_ok)
    qed (use less(3,4) k None unfolded accumchars_ok in auto)
  next
    case (Some key)
    obtain d where d: "apply_key key c = Some d" using less(4) k Some unfolded by (auto split: option.splits)
    then have ok: "console_ok d" "co_termName d = co_termName c"
      using plain_apply_key less(3) apply_key_name by blast+
    let ?s = "drop (length (template_of key)) s"
    show ?thesis
    proof (cases "?s = []")
      case True
      then show ?thesis using less(4) k Some unfolded d ok accumchars_ok by auto
    next
      case False
      then have "read_loop (autoComplete t) ?s d = Some (r, c')"
        using less(4) k Some unfolded d by (simp add: Let_def)
      moreover have "length ?s < length s" using checkAccumeChars_shrinks k Some by simp
      ultimately show ?thesis using less(1)[of ?s d] less(2) ok by simp
    qed
  qed
qed

lemma Terminal_round_ok:
  assumes t: "terminal_ok root t" and round: "Terminal_round a t = Some t'"
  shows "terminal_ok root t'"
proof -
  obtain r c where c: "Console_Read (autoComplete t) (tl_console t) = Some (r, c)"
    using round by (auto simp: Terminal_round_def split: option.splits)
  then have "console_ok c \<and> co_termName c = co_termName (tl_console t)"
    using read_loop_keeps[OF terminal_okD(3,2)[OF t]] terminal_okD(2)[OF t] by (simp add: Console_Read_def console_ok_def)
  then have "terminal_ok root (t\<lparr>tl_console := c\<rparr>)" using terminal_ok_console[OF t] by blast
  then show ?thesis using round c Terminal_run_ok by (auto simp: Terminal_round_def split: option.splits)
qed

subsection \<open>Messages and events\<close>

lemma commands_added:
  assumes "terminal_ok root t" "GetTerminalName (tl_state t) \<noteq> ''''" "plain cmd"
  shows "terminal_ok root (t\<lparr>tl_state := add_to_state (a, TerminalCommand cmd args (GetTerminalName (tl_state t))) (tl_state t)\<rparr>)"
proof (cases "tl_state t")
  case (TerminalCommands name cs parent)
  let ?cs = "AddCommand (a, TerminalCommand cmd args name) cs"
  have cs: "set ?cs \<subseteq> insert (a, TerminalCommand cmd args name) (set cs)" by (rule AddCommand_set)
  moreover have "om_inv fst cs" "list_all (plain \<circ> command_name \<circ> snd) cs"
    using assms(1) TerminalCommands by (auto simp: terminal_ok_def plain_terminal_def)
  ultimately have "om_inv fst ?cs" "list_all (plain \<circ> command_name \<circ> snd) ?cs"
    using AddCommand_inv assms(3) by (auto simp: list_all_iff)
  moreover have "c = ExitCommand \<or> (\<exists>cmd args. c = TerminalCommand cmd args name)" if c: "c \<in> snd ` set ?cs" for c
  proof -
    have "c \<in> insert (TerminalCommand cmd args name) (snd ` set cs)" using c image_mono[OF cs, of snd] by auto
    then show ?thesis using terminal_okD(4)[OF assms(1)] TerminalCommands by auto
  qed
  then have "state_ok root (snd ` set (tl_terminalMap t)) (TerminalCommands name ?cs parent)"
    using terminal_okD(4)[OF assms(1)] TerminalCommands by simp
  ultimately show ?thesis using assms(1) TerminalCommands by (simp add: terminal_ok_def plain_terminal_def)
qed (use assms(2) in simp)

lemma GetTerminalName_add [simp]: "GetTerminalName (add_to_state p s) = GetTerminalName s"
  by (cases s) simp_all

lemma command_list_ok:
  "terminal_ok root t \<Longrightarrow> GetTerminalName (tl_state t) \<noteq> '''' \<Longrightarrow> list_all (\<lambda>(a, cmd, args). plain cmd) msg \<Longrightarrow>
     terminal_ok root (fold (\<lambda>(a, cmd, args) t.
       t\<lparr>tl_state := add_to_state (a, TerminalCommand cmd args (GetTerminalName (tl_state t))) (tl_state t)\<rparr>) msg t)"
proof (induction msg arbitrary: t)
  case (Cons x msg)
  obtain a cmd args where x: "x = (a, cmd, args)" by (cases x)
  show ?case using Cons.IH[OF commands_added[OF Cons.prems(1,2)]] Cons.prems(2,3) by (simp add: x)
qed simp

lemma term_name_ok:
  assumes t: "terminal_ok root t" and "plain name"
  shows "terminal_ok root (onMessage_term_name name path t)"
proof -
  let ?m = "map_insert path name (tl_terminalMap t)"
  have "set (insort_key fst (path, name) m) = insert (path, name) (set m)" for m :: "(ipc_name \<times> string) list"
    by (rule set_insort_key)
  then have m: "set (tl_terminalMap t) \<subseteq> set ?m" "set ?m \<subseteq> insert (path, name) (set (tl_terminalMap t))"
    by (auto simp: map_insert_def insort_insert_key_def)
  then have "list_all (plain \<circ> snd) ?m" using t assms(2) by (auto simp: terminal_ok_def plain_terminal_def list_all_iff)
  moreover have "state_ok root (snd ` set ?m) (tl_state t)"
    using terminal_okD(4)[OF t] m(1) by (cases "tl_state t") (auto simp: root_state_def)
  moreover have "map_ok ?m" using t by (auto simp: terminal_ok_def)
  ultimately have "terminal_ok root (t\<lparr>tl_terminalMap := ?m\<rparr>)" using t by (simp add: terminal_ok_def plain_terminal_def)
  then show ?thesis unfolding onMessage_term_name_def by (rule log_ok)
qed

lemma disconnected_ok:
  assumes t: "terminal_ok root t" and d: "OnModuleDisconnected_terminal path t = Some t'"
  shows "terminal_ok root t'"
proof (cases "map_of (tl_terminalMap t) path")
  case None
  then show ?thesis using d t by (simp add: OnModuleDisconnected_terminal_def)
next
  case (Some name)
  let ?m = "map_erase path (tl_terminalMap t)"
  obtain u where u: "onTerminalDisconnected name t = Some u" "t' = u\<lparr>tl_terminalMap := map_erase path (tl_terminalMap u)\<rparr>"
    using d Some by (auto simp: OnModuleDisconnected_terminal_def)
  have "terminal_ok root u \<and> tl_terminalMap u = tl_terminalMap t \<and>
      (tl_state u = root_state root \<or> tl_state u = tl_state t \<and> GetTerminalName (tl_state t) \<noteq> name)"
    using u(1) TerminalState_Exit_ok[OF t] t by (auto simp: onTerminalDisconnected_def split: if_splits)
  then have ok: "terminal_ok root u" and m: "tl_terminalMap u = tl_terminalMap t"
    and s: "tl_state u = root_state root \<or> tl_state u = tl_state t \<and> GetTerminalName (tl_state t) \<noteq> name" by auto
  have entry: "(path, name) \<in> set (tl_terminalMap t)" using Some by (rule map_of_SomeD)
  have "distinct (map fst (tl_terminalMap t))" using t by (simp add: terminal_ok_def map_ok_distinct)
  then have others: "x \<in> snd ` set ?m" if "x \<in> snd ` set (tl_terminalMap t)" "x \<noteq> name" for x
    using that entry by (force simp: map_erase_def image_iff dest: eq_key_imp_eq_value)
  have "state_ok root (snd ` set ?m) (tl_state u)"
    using s
  proof
    assume "tl_state u = tl_state t \<and> GetTerminalName (tl_state t) \<noteq> name"
    then show ?thesis using terminal_okD(4)[OF t] others by (cases "tl_state t") (auto simp: root_state_def)
  qed (simp add: root_commands)
  moreover have "list_all (plain \<circ> snd) ?m" using ok by (auto simp: terminal_ok_def plain_terminal_def list_all_iff map_erase_def m)
  moreover have "map_ok ?m" using t by (auto simp: terminal_ok_def)
  ultimately show ?thesis using ok by (simp add: u(2) m terminal_ok_def plain_terminal_def)
qed

lemma terminal_step_ok:
  assumes "terminal_ok root t" "event_ok e t" "terminal_step e t = Some t'"
  shows "terminal_ok root t'"
proof (cases e)
  case (Round a)
  then show ?thesis using assms(1,3) Terminal_round_ok by simp
next
  case (Byte ch)
  have "terminal_ok root (t\<lparr>tl_console := Console_input ch (tl_console t)\<rparr>)"
    by (rule terminal_ok_console[OF assms(1)])
      (use terminal_okD(2)[OF assms(1)] in \<open>simp_all add: Console_input_def accumchars_ok\<close>)
  then show ?thesis using Byte assms(3) by simp
next
  case (Command_List msg path)
  then show ?thesis using assms command_list_ok[of root t msg]
    by (auto simp: onMessage_command_list_def split: if_splits)
qed (use assms term_name_ok log_ok disconnected_ok in \<open>auto simp: onMessage_log_def\<close>)

end
