(* ===== verification/Terminal_Typing.thy ===== *)
theory Terminal_Typing
  imports Terminal_Session
begin

text \<open>A command that is typed in the state of a terminal, from its bytes to its message.\<close>

section \<open>Typing a line\<close>

fun terminal_rounds :: "nat list \<Rightarrow> terminal \<Rightarrow> terminal option" where
  "terminal_rounds [] t = Some t"
| "terminal_rounds (a # as) t = Option.bind (Terminal_round a t) (terminal_rounds as)"

lemma terminal_rounds_append:
  "terminal_rounds (as @ bs) t = Option.bind (terminal_rounds as t) (terminal_rounds bs)"
proof (induction as arbitrary: t)
  case (Cons a as)
  then show ?case by (cases "Terminal_round a t") simp_all
qed simp

lemma read_first:
  assumes "co_stream c" "co_accumchars c = ch # rest" "ch \<noteq> CHR 0x1B"
  shows "Console_Read ac c = useChar ac ch (c\<lparr>co_accumchars := rest\<rparr>)"
  using read_decodes_keys[of "[]" "ch # rest" ac c] assms by (simp add: Console_Read_def)

lemma printable_kind: "printable ch \<Longrightarrow> kind_of ch = K_Printable \<and> ch \<noteq> CHR 0x1B"
  by (auto simp: kind_of_def printable_def)

lemma typed_characters:
  "console_ok (tl_console t) \<Longrightarrow> list_all printable w \<Longrightarrow> co_accumchars (tl_console t) = w @ rest \<Longrightarrow>
     co_carpos (tl_console t) = length (co_command (tl_console t)) \<Longrightarrow> length as = length w \<Longrightarrow>
     \<exists>c. terminal_rounds as t = Some (t\<lparr>tl_console := c\<rparr>) \<and> console_ok c \<and>
       co_command c = co_command (tl_console t) @ w \<and> co_carpos c = length (co_command c) \<and> co_accumchars c = rest \<and>
       co_termName c = co_termName (tl_console t)"
proof (induction w arbitrary: t as)
  case Nil
  then show ?case by (intro exI[of _ "tl_console t"]) simp
next
  case (Cons ch w)
  let ?c = "(tl_console t)\<lparr>co_accumchars := w @ rest\<rparr>"
  have ch: "kind_of ch = K_Printable" "ch \<noteq> CHR 0x1B" using Cons.prems(2) printable_kind by auto
  obtain a as' where as: "as = a # as'" "length as' = length w" using Cons.prems(5) by (cases as) auto
  obtain d where d: "useChar (autoComplete t) ch ?c = Some (None, d)" "co_command d = co_command (tl_console t) @ [ch]"
      "co_carpos d = length (co_command d)" "co_accumchars d = w @ rest" "co_termName d = co_termName (tl_console t)"
    using useChar_printable[OF ch(1), of "autoComplete t" ?c] Cons.prems(4) by auto
  have "console_ok ?c" using Cons.prems(1) by (simp add: accumchars_ok)
  then have ok: "console_ok d" using plain_useChar[OF _ _ d(1)] ch(1) by simp
  have "Console_Read (autoComplete t) (tl_console t) = Some (None, d)"
    using read_first[of "tl_console t" ch "w @ rest"] console_okD(1)[OF Cons.prems(1)] Cons.prems(3) ch(2) d(1) by simp
  then have round: "Terminal_round a t = Some (t\<lparr>tl_console := d\<rparr>)" by (simp add: Terminal_round_def)
  obtain e where "terminal_rounds as' (t\<lparr>tl_console := d\<rparr>) = Some (t\<lparr>tl_console := e\<rparr>)" "console_ok e"
      "co_command e = co_command d @ w" "co_carpos e = length (co_command e)" "co_accumchars e = rest" "co_termName e = co_termName d"
    using Cons.IH[of "t\<lparr>tl_console := d\<rparr>" as'] ok Cons.prems(2) d as(2) by auto
  then show ?case using round as(1) d(2,5) by (intro exI[of _ e]) simp
qed

section \<open>Running the line\<close>

lemma Check_terminal_commands:
  assumes "\<forall>c\<in>snd ` set cs. c \<noteq> UseCommand"
  shows "ProcessingObjects (CheckCommand cmd args) cs (f, t) = (f \<or> (\<exists>p\<in>set cs. command_name (snd p) = cmd), t)"
  using assms
proof (induction cs arbitrary: f)
  case (Cons p cs)
  have "Command_Check (snd p) cmd args t = (command_name (snd p) = cmd, t)"
    using Cons.prems by (cases "snd p") auto
  then show ?case using Cons by (simp add: disj_assoc)
qed simp

lemma Execute_terminal_commands:
  assumes "\<forall>c\<in>snd ` set cs. c = ExitCommand \<or> (\<exists>cmd args. c = TerminalCommand cmd args name)" "cmd \<noteq> ''exit''"
    and "List.find (\<lambda>(m, x). x = name) (tl_terminalMap t) = Some (m, name)"
  shows "ProcessingObjects (ExecuteCommand a state cmd args) cs (Some t) =
    Some (t\<lparr>tl_sent := tl_sent t @ replicate (length (filter (\<lambda>p. command_name (snd p) = cmd) cs)) (m, Command_Message cmd args)\<rparr>)"
  using assms(1,3)
proof (induction cs arbitrary: t)
  case (Cons p cs)
  show ?case
  proof (cases "command_name (snd p) = cmd")
    case True
    then obtain args1 where p: "snd p = TerminalCommand cmd args1 name" using Cons.prems(1) assms(2) by auto
    let ?t = "t\<lparr>tl_sent := tl_sent t @ [(m, Command_Message cmd args)]\<rparr>"
    have "ExecuteCommand a state cmd args p (Some t) = Some ?t"
      using Cons.prems(2) by (simp add: p toMessage_terminal_def Module_toMessage_def)
    then show ?thesis using Cons.IH[of ?t] Cons.prems True by simp
  next
    case False
    then show ?thesis using Cons.IH[of t] Cons.prems by simp
  qed
qed simp

lemma registered_terminal:
  assumes "name \<in> snd ` set m"
  shows "\<exists>p. List.find (\<lambda>(p, x). x = name) m = Some (p, name)"
  using assms by (induction m) auto

lemma Terminal_run_command:
  assumes t: "terminal_ok root t" and s: "tl_state t = TerminalCommands name cs parent"
    and line: "DelimitQString line '' '' = Some (cmd # args)" "cmd \<noteq> ''exit''"
    and m: "List.find (\<lambda>(m, x). x = name) (tl_terminalMap t) = Some (m, name)"
  shows "\<exists>t'. Terminal_run a line t = Some t' \<and> tl_state t' = tl_state t \<and>
    tl_sent t' = tl_sent t @ replicate (length (filter (\<lambda>p. command_name (snd p) = cmd) cs)) (m, Command_Message cmd args)"
proof -
  have cs: "\<forall>c\<in>snd ` set cs. c = ExitCommand \<or> (\<exists>cmd args. c = TerminalCommand cmd args name)"
    using terminal_okD(4)[OF t] s by simp
  then have "\<forall>c\<in>snd ` set cs. c \<noteq> UseCommand" by auto
  note check = Check_terminal_commands[OF this, of cmd args False t]
  show ?thesis
  proof (cases "\<exists>p\<in>set cs. command_name (snd p) = cmd")
    case True
    then have "TerminalState_Check (tl_state t) cmd args t = (True, t)" using check s by (simp add: TerminalState_Check_def)
    then have "Terminal_run a line t = ProcessingObjects (ExecuteCommand a (tl_state t) cmd args) cs (Some t)"
      using line(1) s by (simp add: Terminal_run_def TerminalState_Execute_def)
    then show ?thesis using Execute_terminal_commands[OF cs line(2) m, of a "tl_state t" args] by simp
  next
    case False
    then have none: "filter (\<lambda>p. command_name (snd p) = cmd) cs = []" by (simp add: filter_empty_conv)
    have "fst (TerminalState_Check (tl_state t) cmd args t) = False" "tl_sent (snd (TerminalState_Check (tl_state t) cmd args t)) = tl_sent t"
        "tl_state (snd (TerminalState_Check (tl_state t) cmd args t)) = tl_state t"
      using check s False by (simp_all add: TerminalState_Check_def)
    then have "Terminal_run a line t = Some (snd (TerminalState_Check (tl_state t) cmd args t))"
      using line(1) by (cases "TerminalState_Check (tl_state t) cmd args t") (simp add: Terminal_run_def)
    then show ?thesis using none \<open>tl_sent (snd _) = _\<close> \<open>tl_state (snd _) = _\<close> by simp
  qed
qed


definition example_terminal :: terminal where
  "example_terminal = \<lparr>tl_console = (Console_Init Console)\<lparr>co_termName := ''tv'', co_accumchars := ''on 1'' @ [CHR 0x0A]\<rparr>,
     tl_state = TerminalCommands ''tv'' [(3, ExitCommand), (5, TerminalCommand ''on'' [] ''tv'')] (root_state 0),
     tl_module = True, tl_terminalMap = [(IPCName ''home'' ''h'' ''1'', ''tv'')], tl_sent = []\<rparr>"

lemma example_terminal_ok: "terminal_ok 0 example_terminal"
  by (simp add: terminal_ok_def example_terminal_def console_ok_def Console_Init_def Console_def printName_def print_def
      plain_terminal_def map_ok_def om_inv_def)


section \<open>What can come in\<close>


fun terminal_events :: "terminal_event list \<Rightarrow> terminal \<Rightarrow> terminal option" where
  "terminal_events [] t = Some t"
| "terminal_events (e # es) t = (if event_ok e t then Option.bind (terminal_step e t) (terminal_events es) else None)"

lemma terminal_events_run: "terminal_run root t \<Longrightarrow> terminal_events es t = Some t' \<Longrightarrow> terminal_run root t'"
proof (induction es arbitrary: t)
  case (Cons e es)
  then obtain u where "event_ok e t" "terminal_step e t = Some u" "terminal_events es u = Some t'"
    by (auto split: if_splits bind_splits)
  then show ?case using Cons.IH Cons.prems(1) terminal_run.step by blast
qed simp

definition use_tv :: "terminal_event list" where
  "use_tv = Term_Name ''tv'' (IPCName ''home'' ''h'' ''1'') # map Byte (''use tv'' @ [CHR 0x0A]) @ replicate 7 (Round 7)"

lemma use_tv_entered:
  "map_option tl_state (terminal_events use_tv (Terminal_start (addTerminalModule (Terminal_new 0)))) =
     Some (TerminalCommands ''tv'' [(7, ExitCommand)] (root_state 0))"
  by code_simp


section \<open>Where the terminal fails\<close>

text \<open>The command \<open>exit\<close> deletes the state whose commands are being gone through.\<close>

lemma exit_uses_deleted_state:
  assumes "tl_state t = TerminalCommands name [(a, ExitCommand)] parent"
  shows "Terminal_run b ''exit'' t = None"
proof -
  have "DelimitQString ''exit'' '' '' = Some [''exit'']" by code_simp
  then show ?thesis using assms
    by (auto simp: Terminal_run_def TerminalState_Check_def TerminalState_Execute_def split: option.splits)
qed

text \<open>A module that has not said its name adds commands to the root state.\<close>

lemma commands_of_unnamed_modules:
  "tl_state (onMessage_command_list [(5, ''use'', [])] path (Terminal_new 0)) =
     UseTerminal [(0, UseCommand), (5, TerminalCommand ''use'' [] '''')]"
  by (simp add: onMessage_command_list_def Terminal_new_def terminal_of_def AddCommand_def AddObject_def
      lower_bound_def)

end
