(* ===== verification/App_Module.thy ===== *)
theory App_Module
  imports Twainet_Api
begin

text \<open>
  The class applications derive their modules from (\<open>include/module.h\<close>): the messages a module has
  handlers for, the clients it knows of (\<open>include/client_module_name.h\<close>) on the side of the server
  and on that of a client, and the configuration that is passed between them. What the module asks
  the library for is recorded in \<open>mo_trace\<close>; what the library answers is an argument.
\<close>

section \<open>Names of clients\<close>

record client_module_name =
  cm_moduleName :: string
  cm_hostClient :: string

definition ClientModuleName :: "string \<Rightarrow> string \<Rightarrow> client_module_name" where
  "ClientModuleName moduleName hostClient = \<lparr>cm_moduleName = moduleName, cm_hostClient = hostClient\<rparr>"

definition ClientModuleName_eq :: "client_module_name \<Rightarrow> client_module_name \<Rightarrow> bool" where
  "ClientModuleName_eq a b \<longleftrightarrow> cm_hostClient a = cm_hostClient b"

definition ClientModuleName_lt :: "client_module_name \<Rightarrow> client_module_name \<Rightarrow> bool" where
  "ClientModuleName_lt a b \<longleftrightarrow> cm_hostClient a < cm_hostClient b"

interpretation cmns: ordered_object ClientModuleName_lt ClientModuleName_eq cm_hostClient
  by unfold_locales (simp_all add: ClientModuleName_lt_def ClientModuleName_eq_def)

abbreviation cm_add :: "client_module_name \<Rightarrow> client_module_name list \<Rightarrow> client_module_name list \<times> bool" where
  "cm_add \<equiv> AddObject ClientModuleName_lt ClientModuleName_eq"

abbreviation cm_update :: "client_module_name \<Rightarrow> client_module_name list \<Rightarrow> client_module_name list \<times> bool" where
  "cm_update \<equiv> UpdateObject ClientModuleName_lt ClientModuleName_eq"

abbreviation cm_remove :: "client_module_name \<Rightarrow> client_module_name list \<Rightarrow> client_module_name list \<times> bool" where
  "cm_remove \<equiv> RemoveObject ClientModuleName_lt ClientModuleName_eq"

section \<open>Messages\<close>

record plugin =
  pl_description :: string
  pl_name_modules :: "string list"
  pl_path :: string

record set_config =
  sc_local_port :: int
  sc_trusted_modules :: "string list"
  sc_plugins :: "plugin list"

text \<open>The messages every module knows, and a message of the application's own, by type and content.\<close>

datatype app_message =
    App_LocalServerAttributes int string string
  | App_ClientNameList "(string \<times> string) list"
  | App_ClientName string string
  | App_SetConfig set_config
  | App_GetConfig
  | App_InstallPlugin string
  | App_Own string string

fun app_type :: "app_message \<Rightarrow> string" where
  "app_type (App_LocalServerAttributes _ _ _) = ''deamon.LocalServerAttributes''"
| "app_type (App_ClientNameList _) = ''deamon.ClientNameList''"
| "app_type (App_ClientName _ _) = ''deamon.ClientName''"
| "app_type (App_SetConfig _) = ''deamon.SetConfig''"
| "app_type App_GetConfig = ''deamon.GetConfig''"
| "app_type (App_InstallPlugin _) = ''deamon.InstallPlugin''"
| "app_type (App_Own type _) = type"

datatype app_effect =
    App_SendMessage ipc_name app_message
  | App_ConnectToServer string int string string
  | App_OnConfig set_config
  | App_OnConfigChanged set_config
  | App_OnInstallPluginRequest string
  | App_OnMessage string string ipc_name

record app_module =
  mo_module :: "nat option"
  mo_moduleName :: string
  mo_isCoord :: bool
  mo_messages :: "string set"
  mo_clientsOnServer :: "client_module_name list"
  mo_clientsOnClient :: "client_module_name list"
  mo_config :: set_config
  mo_trace :: "app_effect list"

definition app_emit :: "app_effect \<Rightarrow> app_module \<Rightarrow> app_module" where
  "app_emit e m = m\<lparr>mo_trace := mo_trace m @ [e]\<rparr>"

definition AddMessage_app :: "string \<Rightarrow> app_module \<Rightarrow> app_module" where
  "AddMessage_app type m = m\<lparr>mo_messages := insert type (mo_messages m)\<rparr>"

definition Module_app :: "string \<Rightarrow> bool \<Rightarrow> app_module" where
  "Module_app moduleName isCoord =
     fold AddMessage_app [''deamon.LocalServerAttributes'', ''deamon.ClientNameList'', ''deamon.ClientName'',
         ''deamon.SetConfig'', ''deamon.GetConfig'', ''deamon.InstallPlugin'']
       \<lparr>mo_module = None, mo_moduleName = moduleName, mo_isCoord = isCoord, mo_messages = {},
        mo_clientsOnServer = [], mo_clientsOnClient = [],
        mo_config = \<lparr>sc_local_port = 0, sc_trusted_modules = [], sc_plugins = []\<rparr>, mo_trace = []\<rparr>"

text \<open>\<open>Create\<close>; the library makes the module at address \<open>p\<close>.\<close>

definition Create_app :: "nat \<Rightarrow> library \<Rightarrow> app_module \<Rightarrow> app_module \<times> library" where
  "Create_app p l m = (case CreateModule p (mo_moduleName m) (mo_isCoord m) l of (h, l) \<Rightarrow> (m\<lparr>mo_module := h\<rparr>, l))"

text \<open>
  \<open>toMessage\<close>: \<open>ser\<close> is protobuf's \<open>SerializeToArray\<close>, \<^const>\<open>None\<close> when it fails. What is handed
  to the library is \<open>api_message_of\<close>.
\<close>

definition api_message_of :: "(app_message \<Rightarrow> string option) \<Rightarrow> app_message \<Rightarrow> ipc_name \<Rightarrow> api_message option" where
  "api_message_of ser msg path =
     map_option (\<lambda>data. \<lparr>am_target = path, am_typeMessage = app_type msg, am_data = data\<rparr>) (ser msg)"

definition toMessage_app :: "(app_message \<Rightarrow> string option) \<Rightarrow> app_message \<Rightarrow> ipc_name \<Rightarrow> app_module \<Rightarrow> bool \<times> app_module" where
  "toMessage_app ser msg path m =
     (case api_message_of ser msg path of
        None \<Rightarrow> (False, m)
      | Some _ \<Rightarrow> (True, app_emit (App_SendMessage path msg) m))"

section \<open>Callbacks\<close>

text \<open>\<open>name\<close> is what \<open>GetModuleName\<close> answers; a session that does not fit its array is \<^const>\<open>None\<close>.\<close>

definition OnServerConnected_app :: "(app_message \<Rightarrow> string option) \<Rightarrow> ipc_name \<Rightarrow> string \<Rightarrow> app_module \<Rightarrow> app_module option" where
  "OnServerConnected_app ser name sessionId m =
     map_option (\<lambda>host. snd (toMessage_app ser (App_ClientName (mod_name name) sessionId) (IPCName ''Server'' host []) m))
       (strcpy sessionId)"

text \<open>\<open>names\<close> are the modules that exist: the clients among them stay in either list.\<close>

fun forget_clients :: "ipc_name list \<Rightarrow> client_module_name list \<Rightarrow> client_module_name list \<Rightarrow> client_module_name list" where
  "forget_clients names [] xs = xs"
| "forget_clients names (c # cs) xs =
     (let bFind = (\<exists>n\<in>set names. cm_hostClient c = host_name n)
      in forget_clients names cs (if \<not> bFind then fst (cm_remove c xs) else xs))"

definition OnModuleListChanged_app :: "ipc_name list \<Rightarrow> app_module \<Rightarrow> app_module" where
  "OnModuleListChanged_app names m =
     (let m = m\<lparr>mo_clientsOnServer := forget_clients names (mo_clientsOnServer m) (mo_clientsOnServer m)\<rparr>
      in m\<lparr>mo_clientsOnClient := forget_clients names (mo_clientsOnClient m) (mo_clientsOnClient m)\<rparr>)"

section \<open>Handlers\<close>

definition onMessage_SetConfig :: "set_config \<Rightarrow> ipc_name \<Rightarrow> app_module \<Rightarrow> app_module" where
  "onMessage_SetConfig msg path m =
     (let m = (if mod_name path \<noteq> ''Client'' then app_emit (App_OnConfig msg) m else app_emit (App_OnConfigChanged msg) m)
      in m\<lparr>mo_config := msg\<rparr>)"

definition onMessage_GetConfig :: "(app_message \<Rightarrow> string option) \<Rightarrow> ipc_name \<Rightarrow> app_module \<Rightarrow> app_module" where
  "onMessage_GetConfig ser path m = snd (toMessage_app ser (App_SetConfig (mo_config m)) path m)"

definition onMessage_InstallPlugin :: "string \<Rightarrow> ipc_name \<Rightarrow> app_module \<Rightarrow> app_module" where
  "onMessage_InstallPlugin url path m = app_emit (App_OnInstallPluginRequest url) m"

definition onMessage_LocalServerAttributes :: "int \<Rightarrow> string \<Rightarrow> string \<Rightarrow> ipc_name \<Rightarrow> app_module \<Rightarrow> app_module option" where
  "onMessage_LocalServerAttributes port username password path m =
     (case (strcpy username, strcpy password) of
        (Some user, Some pass) \<Rightarrow> Some (app_emit (App_ConnectToServer ''localhost'' port user pass) m)
      | _ \<Rightarrow> None)"

definition onMessage_ClientNameList :: "(string \<times> string) list \<Rightarrow> ipc_name \<Rightarrow> app_module \<Rightarrow> app_module" where
  "onMessage_ClientNameList name_list path m =
     m\<lparr>mo_clientsOnClient := fold (\<lambda>(n, h) xs. fst (cm_add (ClientModuleName n h) xs))
         name_list (mo_clientsOnClient m)\<rparr>"

fun tell_clients :: "(app_message \<Rightarrow> string option) \<Rightarrow> app_message \<Rightarrow> ipc_name list \<Rightarrow> app_module \<Rightarrow> app_module" where
  "tell_clients ser msg [] m = m"
| "tell_clients ser msg (n # names) m =
     tell_clients ser msg names
       (if host_name n = [] \<or> mod_name n \<noteq> ''Client'' then m else snd (toMessage_app ser msg n m))"

definition onMessage_ClientName ::
    "(app_message \<Rightarrow> string option) \<Rightarrow> ipc_name list \<Rightarrow> string \<Rightarrow> string \<Rightarrow> ipc_name \<Rightarrow> app_module \<Rightarrow> app_module" where
  "onMessage_ClientName ser names n h path m =
     (let clientName = ClientModuleName n h;
          (xs, added) = cm_add clientName (mo_clientsOnServer m);
          xs = (if \<not> added then fst (cm_update clientName xs) else xs);
          m = m\<lparr>mo_clientsOnServer := xs\<rparr>;
          cnlMsg = App_ClientNameList (map (\<lambda>c. (cm_moduleName c, cm_hostClient c)) xs)
      in tell_clients ser cnlMsg names m)"

text \<open>\<open>UserMessage\<close> hands what was parsed, with the path it came by, to the handler.\<close>

fun onMessage_app ::
    "(app_message \<Rightarrow> string option) \<Rightarrow> ipc_name list \<Rightarrow> app_message \<Rightarrow> ipc_name \<Rightarrow> app_module \<Rightarrow> app_module option" where
  "onMessage_app ser names (App_LocalServerAttributes port user pass) path m = onMessage_LocalServerAttributes port user pass path m"
| "onMessage_app ser names (App_ClientNameList xs) path m = Some (onMessage_ClientNameList xs path m)"
| "onMessage_app ser names (App_ClientName n h) path m = Some (onMessage_ClientName ser names n h path m)"
| "onMessage_app ser names (App_SetConfig c) path m = Some (onMessage_SetConfig c path m)"
| "onMessage_app ser names App_GetConfig path m = Some (onMessage_GetConfig ser path m)"
| "onMessage_app ser names (App_InstallPlugin url) path m = Some (onMessage_InstallPlugin url path m)"
| "onMessage_app ser names (App_Own type data) path m = Some (app_emit (App_OnMessage type data path) m)"

text \<open>
  \<open>onData\<close>: \<open>parse type data\<close> is what the message object of that type holds after
  \<open>ParseFromArray\<close>, whose result is not looked at.
\<close>

definition onData_app ::
    "(string \<Rightarrow> string \<Rightarrow> app_message) \<Rightarrow> (app_message \<Rightarrow> string option) \<Rightarrow> ipc_name list \<Rightarrow>
     string \<Rightarrow> ipc_name \<Rightarrow> string \<Rightarrow> int \<Rightarrow> app_module \<Rightarrow> (bool \<times> app_module) option" where
  "onData_app parse ser names type path data len m =
     (if type \<in> mo_messages m \<and> 0 \<le> len
      then map_option (Pair True) (onMessage_app ser names (parse type data) path m)
      else Some (False, m))"

definition OnMessageRecv_app ::
    "(string \<Rightarrow> string \<Rightarrow> app_message) \<Rightarrow> (app_message \<Rightarrow> string option) \<Rightarrow> ipc_name list \<Rightarrow>
     ipc_name \<Rightarrow> string \<Rightarrow> string \<Rightarrow> int \<Rightarrow> app_module \<Rightarrow> app_module option" where
  "OnMessageRecv_app parse ser names target typeMessage data dataLen m =
     map_option snd (onData_app parse ser names typeMessage target data dataLen m)"

section \<open>What the lists hold\<close>

lemma forget_clients_filter:
  "om_inv cm_hostClient xs \<Longrightarrow>
     (\<forall>k. om_lookup cm_hostClient (forget_clients names cs xs) k =
        (if k \<in> cm_hostClient ` set cs \<and> k \<notin> host_name ` set names then None else om_lookup cm_hostClient xs k)) \<and>
     om_inv cm_hostClient (forget_clients names cs xs)"
proof (induction cs arbitrary: xs)
  case (Cons c cs)
  let ?xs = "if \<not> (\<exists>n\<in>set names. cm_hostClient c = host_name n) then fst (cm_remove c xs) else xs"
  have inv: "om_inv cm_hostClient ?xs" using Cons.prems by (auto intro: cmns.remove_inv)
  have look: "om_lookup cm_hostClient ?xs = (if cm_hostClient c \<notin> host_name ` set names
      then (om_lookup cm_hostClient xs)(cm_hostClient c := None) else om_lookup cm_hostClient xs)"
    using cmns.remove_lookup[OF Cons.prems, of c] by (auto simp: image_iff)
  have "(\<forall>k. om_lookup cm_hostClient (forget_clients names cs ?xs) k =
        (if k \<in> cm_hostClient ` set cs \<and> k \<notin> host_name ` set names then None else om_lookup cm_hostClient ?xs k)) \<and>
     om_inv cm_hostClient (forget_clients names cs ?xs)"
    by (rule Cons.IH[OF inv])
  then show ?case unfolding look by (auto simp: Let_def)
qed simp

end
