(* ===== verification/App_Framework.thy ===== *)
theory App_Framework
  imports App_Module
begin

text \<open>
  Applications (\<open>include/default_app.h\<close>, \<open>include/appinterface.h\<close>): the callbacks of the library
  are handed to the module they are about, and the application starts and ends the library. And what
  the modules of several applications do together: the clients of a server learn each other's names.
\<close>

section \<open>Clients learn each other's names\<close>

lemma om_lookup_map_of: "om_lookup key xs k = map_of (map (\<lambda>x. (key x, x)) xs) k"
  by (simp add: om_lookup_def)

lemma ClientModuleName_id: "ClientModuleName (cm_moduleName c) (cm_hostClient c) = c"
  by (simp add: ClientModuleName_def)

lemma fold_add_lookup:
  "om_inv cm_hostClient xs \<Longrightarrow>
     om_inv cm_hostClient (fold (\<lambda>c xs. fst (cm_add c xs)) cs xs) \<and>
     (\<forall>k. om_lookup cm_hostClient (fold (\<lambda>c xs. fst (cm_add c xs)) cs xs) k =
       (case om_lookup cm_hostClient xs k of Some c \<Rightarrow> Some c | None \<Rightarrow> om_lookup cm_hostClient cs k))"
proof (induction cs arbitrary: xs)
  case (Cons c cs)
  have "om_inv cm_hostClient (fst (cm_add c xs))" using Cons.prems by (rule cmns.add_inv)
  from Cons.IH[OF this] show ?case
    by (auto simp: cmns.add_lookup[OF Cons.prems] split: option.split)
qed (simp split: option.split)

lemma onMessage_ClientNameList_lookup:
  assumes "om_inv cm_hostClient (mo_clientsOnClient m)"
  shows "om_inv cm_hostClient (mo_clientsOnClient (onMessage_ClientNameList (map (\<lambda>c. (cm_moduleName c, cm_hostClient c)) cs) path m)) \<and>
    (\<forall>k. om_lookup cm_hostClient (mo_clientsOnClient (onMessage_ClientNameList (map (\<lambda>c. (cm_moduleName c, cm_hostClient c)) cs) path m)) k =
       (case om_lookup cm_hostClient (mo_clientsOnClient m) k of Some c \<Rightarrow> Some c | None \<Rightarrow> om_lookup cm_hostClient cs k))"
proof -
  have "fold (\<lambda>(n, h) xs. fst (cm_add (ClientModuleName n h) xs)) (map (\<lambda>c. (cm_moduleName c, cm_hostClient c)) cs) =
      fold (\<lambda>c xs. fst (cm_add c xs)) cs"
    by (simp add: fold_map comp_def ClientModuleName_id)
  then show ?thesis using fold_add_lookup[OF assms, of cs] by (simp add: onMessage_ClientNameList_def)
qed

definition is_client :: "ipc_name \<Rightarrow> bool" where
  "is_client n \<longleftrightarrow> host_name n \<noteq> [] \<and> mod_name n = ''Client''"

lemma tell_clients_sends:
  assumes "ser msg \<noteq> None"
  shows "tell_clients ser msg names m =
    m\<lparr>mo_trace := mo_trace m @ map (\<lambda>n. App_SendMessage n msg) (filter is_client names)\<rparr>"
proof (induction names arbitrary: m)
  case (Cons n names)
  have "toMessage_app ser msg n m = (True, app_emit (App_SendMessage n msg) m)"
    using assms by (auto simp: toMessage_app_def api_message_of_def)
  then show ?case using Cons by (auto simp: is_client_def app_emit_def)
qed simp

definition app_module_ok :: "app_module \<Rightarrow> bool" where
  "app_module_ok m \<longleftrightarrow> om_inv cm_hostClient (mo_clientsOnServer m) \<and> om_inv cm_hostClient (mo_clientsOnClient m)"

text \<open>
  C34: When a server is told a client's name, its list has that name for the client and is otherwise
  unchanged, and goes to every client that is connected; a client that gets it knows, besides what it
  knew before, every client of the server.
\<close>

theorem client_names_spread:
  assumes "app_module_ok s" "app_module_ok k" "\<And>msg. ser msg \<noteq> None"
  shows "\<exists>cs. om_lookup cm_hostClient cs = (om_lookup cm_hostClient (mo_clientsOnServer s))(h \<mapsto> ClientModuleName n h) \<and>
    mo_clientsOnServer (onMessage_ClientName ser names n h path s) = cs \<and>
    (let list = map (\<lambda>c. (cm_moduleName c, cm_hostClient c)) cs
     in mo_trace (onMessage_ClientName ser names n h path s) =
          mo_trace s @ map (\<lambda>c. App_SendMessage c (App_ClientNameList list)) (filter is_client names) \<and>
        app_module_ok (onMessage_ClientNameList list from k) \<and>
        (\<forall>x. om_lookup cm_hostClient (mo_clientsOnClient (onMessage_ClientNameList list from k)) x =
          (case om_lookup cm_hostClient (mo_clientsOnClient k) x of Some c \<Rightarrow> Some c | None \<Rightarrow> om_lookup cm_hostClient cs x)))"
proof -
  have inv: "om_inv cm_hostClient (mo_clientsOnServer s)" "om_inv cm_hostClient (mo_clientsOnClient k)"
    using assms(1,2) by (simp_all add: app_module_ok_def)
  define cs where "cs = (if snd (cm_add (ClientModuleName n h) (mo_clientsOnServer s))
    then fst (cm_add (ClientModuleName n h) (mo_clientsOnServer s))
    else fst (cm_update (ClientModuleName n h) (fst (cm_add (ClientModuleName n h) (mo_clientsOnServer s)))))"
  have cs: "om_lookup cm_hostClient cs = (om_lookup cm_hostClient (mo_clientsOnServer s))(h \<mapsto> ClientModuleName n h)"
    unfolding cs_def using cmns.add_or_update_lookup[OF inv(1), of "ClientModuleName n h"] by (simp add: ClientModuleName_def)
  have "onMessage_ClientName ser names n h path s =
      tell_clients ser (App_ClientNameList (map (\<lambda>c. (cm_moduleName c, cm_hostClient c)) cs)) names (s\<lparr>mo_clientsOnServer := cs\<rparr>)"
    by (simp add: onMessage_ClientName_def cs_def Let_def split: prod.split)
  then have s': "onMessage_ClientName ser names n h path s = s\<lparr>mo_clientsOnServer := cs, mo_trace := mo_trace s @
      map (\<lambda>c. App_SendMessage c (App_ClientNameList (map (\<lambda>c. (cm_moduleName c, cm_hostClient c)) cs))) (filter is_client names)\<rparr>"
    by (simp add: tell_clients_sends[OF assms(3)])
  have "mo_clientsOnServer (onMessage_ClientNameList xs from k) = mo_clientsOnServer k" for xs
    by (simp add: onMessage_ClientNameList_def)
  then show ?thesis using cs onMessage_ClientNameList_lookup[OF inv(2), of cs "from"] assms(2)
    by (intro exI[of _ cs]) (simp add: s' Let_def app_module_ok_def)
qed

theorem client_names_spread_witness:
  "\<exists>list. mo_trace (onMessage_ClientName (\<lambda>_. Some []) [IPCName ''Client'' ''7'' [], IPCName ''db'' [] []] ''shop'' ''7''
       (IPCName ''Client'' ''7'' []) (Module_app ''server'' False)) =
     [App_SendMessage (IPCName ''Client'' ''7'' []) (App_ClientNameList list)]"
proof -
  have ok: "app_module_ok (Module_app ''server'' False)" "mo_trace (Module_app ''server'' False) = []"
    by (simp_all add: app_module_ok_def Module_app_def AddMessage_app_def)
  show ?thesis
    using client_names_spread[OF ok(1) ok(1), of "\<lambda>_. Some []" "''7''" "''shop''" "[IPCName ''Client'' ''7'' [], IPCName ''db'' [] []]"]
    by (auto simp: Let_def is_client_def ok(2))
qed

text \<open>When the modules change, exactly the clients whose sessions exist stay in the lists.\<close>

lemma OnModuleListChanged_keeps:
  assumes "app_module_ok m"
  shows "app_module_ok (OnModuleListChanged_app names m)"
    and "om_lookup cm_hostClient (mo_clientsOnServer (OnModuleListChanged_app names m)) k =
      (if k \<in> host_name ` set names then om_lookup cm_hostClient (mo_clientsOnServer m) k else None)"
    and "om_lookup cm_hostClient (mo_clientsOnClient (OnModuleListChanged_app names m)) k =
      (if k \<in> host_name ` set names then om_lookup cm_hostClient (mo_clientsOnClient m) k else None)"
proof -
  have absent: "k \<notin> cm_hostClient ` set xs \<Longrightarrow> om_lookup cm_hostClient xs k = None" for xs
    by (simp add: om_lookup_None_iff)
  note f = forget_clients_filter[of "mo_clientsOnServer m" names "mo_clientsOnServer m"]
    forget_clients_filter[of "mo_clientsOnClient m" names "mo_clientsOnClient m"]
  show "app_module_ok (OnModuleListChanged_app names m)"
    using assms f by (simp add: app_module_ok_def OnModuleListChanged_app_def Let_def)
  show "om_lookup cm_hostClient (mo_clientsOnServer (OnModuleListChanged_app names m)) k =
      (if k \<in> host_name ` set names then om_lookup cm_hostClient (mo_clientsOnServer m) k else None)"
    "om_lookup cm_hostClient (mo_clientsOnClient (OnModuleListChanged_app names m)) k =
      (if k \<in> host_name ` set names then om_lookup cm_hostClient (mo_clientsOnClient m) k else None)"
    using assms f absent by (auto simp: app_module_ok_def OnModuleListChanged_app_def Let_def)
qed

text \<open>A client that has changed its name keeps the old one at the clients that knew it.\<close>

lemma old_name_stays:
  assumes "app_module_ok k" "om_lookup cm_hostClient (mo_clientsOnClient k) h = Some c"
  shows "om_lookup cm_hostClient (mo_clientsOnClient (onMessage_ClientNameList [(n, h)] from k)) h = Some c"
  using onMessage_ClientNameList_lookup[of k "[ClientModuleName n h]" "from"] assms
  by (simp add: app_module_ok_def ClientModuleName_def)

section \<open>The application\<close>

text \<open>The modules by their pointers, with whether the module has been deleted.\<close>

record default_app =
  da_modules :: "(app_module \<times> bool) list"
  da_bInited :: bool
  da_bInit :: bool
  da_semafor :: nat

definition IApplication :: "library \<Rightarrow> default_app" where
  "IApplication l = \<lparr>da_modules = [], da_bInited = IsLibraryInited l, da_bInit = False, da_semafor = 0\<rparr>"

definition AddModule :: "nat \<Rightarrow> app_module \<Rightarrow> default_app \<times> library \<Rightarrow> default_app \<times> library" where
  "AddModule p module al =
     (case al of (a, l) \<Rightarrow> case Create_app p l module of (module, l) \<Rightarrow> (a\<lparr>da_modules := da_modules a @ [(module, False)]\<rparr>, l))"

text \<open>Each module deletes itself, and with it the library's module; the pointers stay.\<close>

fun free_modules :: "(app_module \<times> bool) list \<Rightarrow> library \<Rightarrow> ((app_module \<times> bool) list \<times> library) option" where
  "free_modules [] l = Some ([], l)"
| "free_modules ((m, deleted) # ms) l =
     (if deleted then None
      else case DeleteModule (mo_module m) l of
             None \<Rightarrow> None
           | Some l \<Rightarrow> map_option (\<lambda>(ms, l). ((m, True) # ms, l)) (free_modules ms l))"

definition ShutdownApplication :: "default_app \<times> library \<Rightarrow> (default_app \<times> library) option" where
  "ShutdownApplication al = (case al of (a, l) \<Rightarrow> map_option (\<lambda>(ms, l). (a\<lparr>da_modules := ms\<rparr>, l)) (free_modules (da_modules a) l))"

text \<open>\<open>Init\<close>, \<open>DeInit\<close> and \<open>Stop\<close>; \<open>initialize\<close> is the application's \<open>InitializeApplication\<close>.\<close>

definition Init_app :: "(default_app \<times> library \<Rightarrow> default_app \<times> library) \<Rightarrow> default_app \<times> library \<Rightarrow> default_app \<times> library" where
  "Init_app initialize al =
     (case al of (a, l) \<Rightarrow>
        if \<not> da_bInit a then
          let l = (if \<not> da_bInited a then InitLibrary (\<lambda>_. True) l else l);
              (a, l) = initialize (a, l)
          in (a\<lparr>da_bInit := True\<rparr>, l)
        else (a, l))"

definition DeInit_app :: "default_app \<times> library \<Rightarrow> (default_app \<times> library) option" where
  "DeInit_app al =
     (if da_bInit (fst al) then
        map_option (\<lambda>(a, l). (a\<lparr>da_bInit := False\<rparr>, if \<not> da_bInited a then CloseLibrary_begin l else l))
          (ShutdownApplication al)
      else Some al)"

definition Stop_app :: "default_app \<Rightarrow> default_app" where
  "Stop_app a = a\<lparr>da_semafor := Semaphore_Set (da_semafor a)\<rparr>"

text \<open>\<open>Run\<close> up to its wait, and after it.\<close>

definition Run_end :: "default_app \<times> library \<Rightarrow> (default_app \<times> library) option" where
  "Run_end al =
     (case Semaphore_Wait INFINITE (da_semafor (fst al)) of
        None \<Rightarrow> None
      | Some (_, s) \<Rightarrow> DeInit_app ((fst al)\<lparr>da_semafor := s\<rparr>, snd al))"

section \<open>Callbacks\<close>

text \<open>The callbacks that \<open>Module\<close> gives a meaning; the others are empty for applications to fill.\<close>

definition module_callback ::
    "(string \<Rightarrow> string \<Rightarrow> app_message) \<Rightarrow> (app_message \<Rightarrow> string option) \<Rightarrow> ipc_name list \<Rightarrow> ipc_name \<Rightarrow>
     callback_call \<Rightarrow> app_module \<Rightarrow> app_module option" where
  "module_callback parse ser names name c m =
     (case (cl_callback c, cl_arg c) of
        (Cb_OnServerConnected, A_Session s) \<Rightarrow> OnServerConnected_app ser name s m
      | (Cb_OnMessageRecv, A_Message target type data len) \<Rightarrow> OnMessageRecv_app parse ser names target type data len m
      | (Cb_OnModuleListChanged, _) \<Rightarrow> Some (OnModuleListChanged_app names m)
      | _ \<Rightarrow> Some m)"

text \<open>Every callback of \<open>DefaultApplication\<close> looks for the module; a deleted one is asked as well.\<close>

fun dispatch_callback :: "(app_module \<Rightarrow> app_module option) \<Rightarrow> nat \<Rightarrow> (app_module \<times> bool) list \<Rightarrow> (app_module \<times> bool) list option" where
  "dispatch_callback f module [] = Some []"
| "dispatch_callback f module ((m, deleted) # ms) =
     (if deleted then None
      else if mo_module m = Some module then map_option (\<lambda>m. (m, deleted) # ms) (f m)
      else map_option ((#) (m, deleted)) (dispatch_callback f module ms))"

definition DefaultApplication_callback ::
    "(string \<Rightarrow> string \<Rightarrow> app_message) \<Rightarrow> (app_message \<Rightarrow> string option) \<Rightarrow> ipc_name list \<Rightarrow> ipc_name \<Rightarrow>
     callback_call \<Rightarrow> default_app \<Rightarrow> default_app option" where
  "DefaultApplication_callback parse ser names name c a =
     (if cl_callback c \<in> {Cb_OnModuleCreationFailed, Cb_OnServerCreationFailed} then Some a
      else case cl_module c of
             None \<Rightarrow> None
           | Some module \<Rightarrow>
               map_option (\<lambda>ms. a\<lparr>da_modules := ms\<rparr>)
                 (dispatch_callback (module_callback parse ser names name c) module (da_modules a)))"

text \<open>A message the library delivers reaches the handler of the module it is for, with its sender.\<close>

lemma dispatch_first:
  assumes "\<forall>m\<in>set ms. \<not> snd m \<and> mo_module (fst m) \<noteq> Some p" "mo_module m = Some p"
  shows "dispatch_callback f p (ms @ (m, False) # rest) = map_option (\<lambda>m'. ms @ (m', False) # rest) (f m)"
  using assms(1)
proof (induction ms)
  case Nil
  then show ?case using assms(2) by simp
next
  case (Cons x ms)
  then show ?case by (cases x) (auto simp: option.map_comp comp_def)
qed

lemma message_reaches_module:
  assumes "da_modules a = ms @ (m, False) # rest" "\<forall>m\<in>set ms. \<not> snd m \<and> mo_module (fst m) \<noteq> Some p" "mo_module m = Some p"
    and "type \<in> mo_messages m" "parse type data = msg" "0 \<le> len"
  shows "DefaultApplication_callback parse ser names name
      \<lparr>cl_callback = Cb_OnMessageRecv, cl_module = Some p, cl_arg = A_Message target type data len\<rparr> a =
    map_option (\<lambda>m'. a\<lparr>da_modules := ms @ (m', False) # rest\<rparr>) (onMessage_app ser names msg target m)"
  using dispatch_first[OF assms(2,3)] assms(1,4-6)
  by (simp add: DefaultApplication_callback_def module_callback_def OnMessageRecv_app_def onData_app_def option.map_comp comp_def)

text \<open>An application that is run a second time uses the modules it has deleted.\<close>

lemma second_shutdown_faults:
  assumes "(m, True) \<in> set (da_modules a)" "da_bInit a"
  shows "DeInit_app (a, l) = None"
proof -
  have "(m, True) \<in> set ms \<Longrightarrow> free_modules ms l = None" for ms l
    by (induction ms arbitrary: l) (auto split: option.splits)
  then show ?thesis using assms by (simp add: DeInit_app_def ShutdownApplication_def)
qed

end
