(* ===== verification/Config_Files.thy ===== *)
theory Config_Files
  imports Common_Utils
begin

text \<open>
  The daemon's lists in files (\<open>apps/deamon/application/config.cpp\<close>, \<open>configs.cpp\<close>) over the paths
  of \<open>utils/path_parser.cpp\<close> and \<open>common/file.cpp\<close>. The files are a map from paths to contents.
\<close>

section \<open>Paths\<close>

text \<open>\<open>find_last_of\<close> one character.\<close>

definition find_last_of :: "string \<Rightarrow> char \<Rightarrow> nat option" where
  "find_last_of s c = List.find (\<lambda>i. s ! i = c) (rev [0..<length s])"

record path_parser =
  pp_folder :: string
  pp_file :: string
  pp_nameFile :: string
  pp_extension :: string

definition PathParser :: "string \<Rightarrow> path_parser" where
  "PathParser filePath =
     (let path = map (\<lambda>c. if c = CHR 0x5C then CHR 0x2F else c) filePath;
          pos = (case find_last_of path CHR 0x2F of None \<Rightarrow> 0 | Some pos \<Rightarrow> pos);
          folder = take pos path;
          file = (if folder = [] then drop pos path else drop (pos + 1) path)
      in case find_last_of file CHR ''.'' of
           Some pos \<Rightarrow> \<lparr>pp_folder = folder, pp_file = file, pp_nameFile = take pos file, pp_extension = drop (pos + 1) file\<rparr>
         | None \<Rightarrow> \<lparr>pp_folder = folder, pp_file = file, pp_nameFile = file, pp_extension = []\<rparr>)"

text \<open>The path a \<open>File\<close> opens.\<close>

definition File_path :: "string \<Rightarrow> string" where
  "File_path filePath = pp_folder (PathParser filePath) @ ''/'' @ pp_file (PathParser filePath)"

lemma find_last_of_snoc: "find_last_of (s @ [x]) c = (if x = c then Some (length s) else find_last_of s c)"
proof -
  have "find (\<lambda>i. (s @ [x]) ! i = c) (rev [0..<length s]) = find (\<lambda>i. s ! i = c) (rev [0..<length s])"
    by (rule find_cong) (auto simp: nth_append)
  then show ?thesis by (simp add: find_last_of_def)
qed

lemma find_last_of_none: "c \<notin> set s \<Longrightarrow> find_last_of s c = None"
  by (induction s rule: rev_induct) (auto simp: find_last_of_snoc, simp add: find_last_of_def)

lemma find_last_of_append: "c \<notin> set t \<Longrightarrow> find_last_of (s @ c # t) c = Some (length s)"
proof (induction t rule: rev_induct)
  case Nil
  then show ?case using find_last_of_snoc[of s c c] by simp
next
  case (snoc x t)
  then show ?case using find_last_of_snoc[of "s @ c # t" x c] by auto
qed

definition plain_path :: "string \<Rightarrow> bool" where
  "plain_path s \<longleftrightarrow> CHR 0x5C \<notin> set s"

lemma plain_path_map: "plain_path s \<Longrightarrow> map (\<lambda>c. if c = CHR 0x5C then CHR 0x2F else c) s = s"
  by (rule map_idI) (auto simp: plain_path_def)

lemma PathParser_folder_file:
  "pp_folder (PathParser p) = take (case find_last_of (map (\<lambda>c. if c = CHR 0x5C then CHR 0x2F else c) p) CHR 0x2F of None \<Rightarrow> 0 | Some pos \<Rightarrow> pos)
      (map (\<lambda>c. if c = CHR 0x5C then CHR 0x2F else c) p)"
  "pp_file (PathParser p) = (let path = map (\<lambda>c. if c = CHR 0x5C then CHR 0x2F else c) p;
      pos = (case find_last_of path CHR 0x2F of None \<Rightarrow> 0 | Some pos \<Rightarrow> pos)
    in if take pos path = [] then drop pos path else drop (pos + 1) path)"
  by (simp_all add: PathParser_def Let_def split: option.split)

text \<open>A path with a folder is opened as it is; a name alone is opened in the root folder.\<close>

lemma File_path_folder:
  assumes "plain_path d" "plain_path f" "d \<noteq> []" "CHR 0x2F \<notin> set f"
  shows "File_path (d @ ''/'' @ f) = d @ ''/'' @ f"
proof -
  have "plain_path (d @ ''/'' @ f)" using assms(1,2) by (simp add: plain_path_def)
  moreover have "find_last_of (d @ CHR 0x2F # f) CHR 0x2F = Some (length d)" using assms(4) by (rule find_last_of_append)
  ultimately show ?thesis using assms(3) unfolding File_path_def PathParser_folder_file
    by (simp add: plain_path_map[OF assms(1)] plain_path_map[OF assms(2)] Let_def)
qed

lemma File_path_name:
  assumes "plain_path f" "CHR 0x2F \<notin> set f"
  shows "File_path f = ''/'' @ f"
  unfolding File_path_def PathParser_folder_file
  using assms by (simp add: plain_path_map Let_def find_last_of_none)

section \<open>Lists of lines\<close>

text \<open>
  The lines of one piece of the file. A line that is empty is asked for its last character, which
  is out of range.
\<close>

fun config_lines :: "string list \<Rightarrow> string list option" where
  "config_lines [] = Some []"
| "config_lines (line # lines) =
     (if line = [] then None
      else let line = (if last line = CHR 0x0D then butlast line else line)
           in if line = [] \<or> hd line = CHR ''#'' then config_lines lines
              else map_option ((#) line) (config_lines lines))"

definition MAX_CONFIG_BUFFER :: nat where
  "MAX_CONFIG_BUFFER = 1024"

text \<open>
  \<open>Read\<close> goes through the file in pieces as long as its buffer, and takes each as a C string: a piece
  that fills the buffer has no terminator.
\<close>

function FileConfig_Read_loop :: "string \<Rightarrow> string list option" where
  "FileConfig_Read_loop file =
     (if file = [] then Some []
      else let data = take MAX_CONFIG_BUFFER file
           in if length data = MAX_CONFIG_BUFFER \<and> CHR 0x00 \<notin> set data then None
              else case Option.bind (DelimitString (c_str data) [CHR 0x0A]) config_lines of
                     None \<Rightarrow> None
                   | Some lines \<Rightarrow> map_option ((@) lines) (FileConfig_Read_loop (drop MAX_CONFIG_BUFFER file)))"
  by pat_completeness auto
termination
  by (relation "measure length") (auto simp: MAX_CONFIG_BUFFER_def)

declare FileConfig_Read_loop.simps [simp del]

type_synonym files = "string \<Rightarrow> string option"

definition FileConfig_Read :: "string \<Rightarrow> files \<Rightarrow> string list option" where
  "FileConfig_Read filePath fs =
     (case fs (File_path filePath) of None \<Rightarrow> Some [] | Some file \<Rightarrow> FileConfig_Read_loop file)"

text \<open>\<open>Write\<close> ends its first line with two bytes of the literal, a newline and the terminator.\<close>

definition FileConfig_text :: "string \<Rightarrow> string list \<Rightarrow> string" where
  "FileConfig_text description data =
     ''# '' @ description @ [CHR 0x0A, CHR 0x00] @ concat (map (\<lambda>s. s @ [CHR 0x0A]) data)"

definition FileConfig_Write :: "string \<Rightarrow> string \<Rightarrow> string list \<Rightarrow> files \<Rightarrow> files" where
  "FileConfig_Write filePath description data fs = fs(File_path filePath \<mapsto> FileConfig_text description data)"

text \<open>The two lists: read by the constructor, written by the destructor.\<close>

definition TrustedConfig :: "string \<Rightarrow> files \<Rightarrow> string list option" where
  "TrustedConfig filePath fs = FileConfig_Read filePath fs"

definition TrustedConfig_destroy :: "string \<Rightarrow> string list \<Rightarrow> files \<Rightarrow> files" where
  "TrustedConfig_destroy filePath = FileConfig_Write filePath ''Module names that will get local server credentials''"

definition PluginsConfig :: "string \<Rightarrow> files \<Rightarrow> string list option" where
  "PluginsConfig filePath fs = FileConfig_Read filePath fs"

definition PluginsConfig_destroy :: "string \<Rightarrow> string list \<Rightarrow> files \<Rightarrow> files" where
  "PluginsConfig_destroy filePath = FileConfig_Write filePath ''Plugin pathes''"

text \<open>Of a file that \<open>Write\<close> has written only the first line is seen, and reading it goes out of range.\<close>

lemma take_past: "length s < n \<Longrightarrow> take n (s @ x # r) = s @ x # take (n - Suc (length s)) r"
  by (auto dest!: less_imp_Suc_add simp: Suc_diff_le)

lemma written_text_seen:
  assumes "CHR 0x00 \<notin> set description" "length description + 4 \<le> MAX_CONFIG_BUFFER"
  shows "c_str (take MAX_CONFIG_BUFFER (FileConfig_text description data)) = ''# '' @ description @ [CHR 0x0A]"
proof -
  let ?s = "''# '' @ description @ [CHR 0x0A]"
  have "FileConfig_text description data = ?s @ CHR 0x00 # concat (map (\<lambda>s. s @ [CHR 0x0A]) data)"
    by (simp add: FileConfig_text_def)
  moreover have "length ?s < MAX_CONFIG_BUFFER" using assms(2) by simp
  then have "take MAX_CONFIG_BUFFER (?s @ CHR 0x00 # r) = ?s @ CHR 0x00 # take (MAX_CONFIG_BUFFER - Suc (length ?s)) r" for r
    by (rule take_past)
  moreover have "c_str (?s @ CHR 0x00 # rest) = ?s" for rest
    using assms(1) by (auto simp: c_str_def takeWhile_append)
  ultimately show ?thesis by metis
qed

lemma written_file_faults:
  assumes "CHR 0x00 \<notin> set description" "CHR 0x0A \<notin> set description" "length description + 4 \<le> MAX_CONFIG_BUFFER"
  shows "FileConfig_Read_loop (FileConfig_text description data) = None"
proof -
  let ?s = "''# '' @ description"
  have "CHR 0x0A \<notin> set ?s" using assms(2) by simp
  then have "split_on CHR 0x0A (?s @ CHR 0x0A # []) = [?s, []]" by (subst split_on_append) simp_all
  then have "DelimitString (''# '' @ description @ [CHR 0x0A]) [CHR 0x0A] = Some [?s, []]"
    by (simp add: DelimitString_single)
  moreover have "config_lines [?s, []] = None" by (auto simp: Let_def)
  ultimately have "Option.bind (DelimitString (c_str (take MAX_CONFIG_BUFFER (FileConfig_text description data))) [CHR 0x0A]) config_lines = None"
    unfolding written_text_seen[OF assms(1,3)] by simp
  moreover have "FileConfig_text description data \<noteq> []" by (simp add: FileConfig_text_def)
  ultimately show ?thesis by (subst FileConfig_Read_loop.simps) (simp add: Let_def)
qed

text \<open>A file that does not end with a newline is read line by line, without comments.\<close>

definition config_entry :: "string \<Rightarrow> bool" where
  "config_entry s \<longleftrightarrow> s \<noteq> [] \<and> CHR 0x0A \<notin> set s \<and> CHR 0x00 \<notin> set s \<and> last s \<noteq> CHR 0x0D"

lemma config_lines_entries:
  "list_all config_entry ls \<Longrightarrow> config_lines ls = Some (filter (\<lambda>s. hd s \<noteq> CHR ''#'') ls)"
  by (induction ls) (auto simp: config_entry_def Let_def)

lemma config_file_read:
  assumes "ls \<noteq> []" "list_all config_entry ls" "length (last ls) \<noteq> 1" "length (ConcatString ls [CHR 0x0A]) < MAX_CONFIG_BUFFER"
  shows "FileConfig_Read_loop (ConcatString ls [CHR 0x0A]) = Some (filter (\<lambda>s. hd s \<noteq> CHR ''#'') ls)"
proof -
  let ?file = "ConcatString ls [CHR 0x0A]"
  have split: "split_on CHR 0x0A ?file = ls"
    by (rule split_on_ConcatString) (use assms(1,2) in \<open>auto simp: list_all_iff config_entry_def\<close>)
  have "set ?file \<subseteq> insert CHR 0x0A (\<Union>(set ` set ls))"
    using assms(1) by (cases ls) (auto simp: ConcatString_Cons c_str_def dest!: set_takeWhileD)
  then have "CHR 0x00 \<notin> set ?file" using assms(2) by (auto simp: list_all_iff config_entry_def)
  then have c: "c_str ?file = ?file" by (rule c_str_id)
  have "filter (\<lambda>p. p \<noteq> []) (butlast ls) @ [last ls] = ls"
  proof -
    have "filter (\<lambda>p. p \<noteq> []) (butlast ls) = butlast ls"
      using assms(2) by (auto simp: filter_id_conv list_all_iff config_entry_def dest: in_set_butlastD)
    then show ?thesis using assms(1) by simp
  qed
  then have "DelimitString ?file [CHR 0x0A] = Some ls"
    using assms(3) split by (simp add: DelimitString_single)
  then have d: "Option.bind (DelimitString (c_str ?file) [CHR 0x0A]) config_lines = Some (filter (\<lambda>s. hd s \<noteq> CHR ''#'') ls)"
    using config_lines_entries[OF assms(2)] c by simp
  have "?file \<noteq> []" using assms(1,2) by (cases ls) (auto simp: ConcatString_Cons config_entry_def c_str_id)
  then show ?thesis using assms(4) d
    by (subst FileConfig_Read_loop.simps) (simp add: Let_def FileConfig_Read_loop.simps[of "[]"])
qed

end
