(* ===== verification/Daemon.thy ===== *)
theory Daemon
  imports App_Framework Config_Files
begin

text \<open>
  The daemon (\<open>apps/deamon\<close>): the coordinator of a host, with a local server whose credentials it
  gives to the modules that are in the file of trusted ones (\<open>module/deamon_module.cpp\<close>). The names of
  the files and the port are of the configuration, an ini file.
\<close>

section \<open>State\<close>

datatype deamon_effect = Deamon_SetUsersList string string | Deamon_CreateServer int

record deamon_config =
  cf_dir :: string
  cf_trustedFileName :: string
  cf_pluginsFileName :: string
  cf_localPort :: int

record deamon_module =
  dm_module :: app_module
  dm_trustedModules :: "string list"
  dm_pluginPaths :: "string list"
  dm_user :: string
  dm_pass :: string
  dm_trace :: "deamon_effect list"

definition COORDINATOR_NAME :: string where
  "COORDINATOR_NAME = ''twndeamon''"

definition DeamonModule :: deamon_module where
  "DeamonModule =
     \<lparr>dm_module = AddMessage_app ''deamon.Test'' (Module_app COORDINATOR_NAME True), dm_trustedModules = [], dm_pluginPaths = [],
      dm_user = [], dm_pass = [], dm_trace = []\<rparr>"

section \<open>Operations\<close>

text \<open>The lists are written again when the objects that have read them are destroyed, the last one first.\<close>

definition ReadConfig :: "deamon_config \<Rightarrow> files \<times> deamon_module \<Rightarrow> (files \<times> deamon_module) option" where
  "ReadConfig cfg fd =
     (case fd of (fs, d) \<Rightarrow>
        let trustedPath = cf_dir cfg @ ''/'' @ cf_trustedFileName cfg;
            pluginsPath = cf_dir cfg @ ''/'' @ cf_pluginsFileName cfg
        in case TrustedConfig trustedPath fs of
             None \<Rightarrow> None
           | Some trusted \<Rightarrow>
               (case PluginsConfig pluginsPath fs of
                  None \<Rightarrow> None
                | Some plugins \<Rightarrow>
                    Some (TrustedConfig_destroy trustedPath trusted (PluginsConfig_destroy pluginsPath plugins fs),
                          d\<lparr>dm_trustedModules := trusted, dm_pluginPaths := plugins\<rparr>)))"

text \<open>\<open>guid1\<close> and \<open>guid2\<close> are the fresh GUIDs of the credentials.\<close>

definition DeamonModule_Init ::
    "deamon_config \<Rightarrow> string \<Rightarrow> string \<Rightarrow> files \<times> deamon_module \<Rightarrow> (files \<times> deamon_module) option" where
  "DeamonModule_Init cfg guid1 guid2 fd =
     (case ReadConfig cfg fd of
        None \<Rightarrow> None
      | Some (fs, d) \<Rightarrow>
          let m = dm_module d; c = mo_config m;
              c = c\<lparr>sc_local_port := cf_localPort cfg,
                    sc_trusted_modules := sc_trusted_modules c @ dm_trustedModules d,
                    sc_plugins := sc_plugins c @ map (\<lambda>p. \<lparr>pl_description = [], pl_name_modules = [], pl_path = p\<rparr>) (dm_pluginPaths d)\<rparr>
          in case (strcpy guid1, strcpy guid2) of
               (Some user, Some pass) \<Rightarrow>
                 Some (fs, d\<lparr>dm_module := m\<lparr>mo_config := c\<rparr>, dm_user := user, dm_pass := pass,
                   dm_trace := dm_trace d @ [Deamon_SetUsersList user pass, Deamon_CreateServer (cf_localPort cfg)]\<rparr>)
             | _ \<Rightarrow> None)"

text \<open>The buffer of a string of \<open>sizeName\<close> characters has room for the terminator.\<close>

definition DeamonModule_OnModuleConnected ::
    "(app_message \<Rightarrow> string option) \<Rightarrow> deamon_config \<Rightarrow> ipc_name \<Rightarrow> deamon_module \<Rightarrow> deamon_module option" where
  "DeamonModule_OnModuleConnected ser cfg moduleName d =
     (if host_name moduleName \<noteq> [] then Some d
      else case GetModuleNameString_api moduleName [] 0 of
             None \<Rightarrow> None
           | Some (_, sizeName, _) \<Rightarrow>
               (case GetModuleNameString_api moduleName (replicate (nat sizeName + 1) CHR 0x00) sizeName of
                  None \<Rightarrow> None
                | Some (str, _, _) \<Rightarrow>
                    let strModuleName = take (nat sizeName) str
                    in Some (if strModuleName \<in> set (dm_trustedModules d)
                             then d\<lparr>dm_module := snd (toMessage_app ser
                                 (App_LocalServerAttributes (cf_localPort cfg) (dm_user d) (dm_pass d)) moduleName (dm_module d))\<rparr>
                             else d)))"

text \<open>Here the files are named without the folder.\<close>

definition DeamonModule_OnConfigChanged ::
    "set_config \<Rightarrow> deamon_config \<times> files \<times> deamon_module \<Rightarrow> (deamon_config \<times> files \<times> deamon_module) option" where
  "DeamonModule_OnConfigChanged msg cfd =
     (case cfd of (cfg, fs, d) \<Rightarrow>
        let cfg = cfg\<lparr>cf_localPort := sc_local_port msg\<rparr>;
            d = d\<lparr>dm_trustedModules := sc_trusted_modules msg, dm_pluginPaths := map pl_path (sc_plugins msg)\<rparr>
        in case (TrustedConfig (cf_trustedFileName cfg) fs, PluginsConfig (cf_pluginsFileName cfg) fs) of
             (Some _, Some _) \<Rightarrow>
               Some (cfg, TrustedConfig_destroy (cf_trustedFileName cfg) (dm_trustedModules d)
                 (PluginsConfig_destroy (cf_pluginsFileName cfg) (dm_pluginPaths d) fs), d)
           | _ \<Rightarrow> None)"

section \<open>Properties\<close>

lemma name_string_read:
  assumes "c_name n" "GetModuleNameString n \<noteq> []"
  shows "\<exists>r. GetModuleNameString_api n [] 0 = Some ([], int (length (GetModuleNameString n)), 0) \<and>
    GetModuleNameString_api n (replicate (length (GetModuleNameString n) + 1) CHR 0x00) (int (length (GetModuleNameString n))) =
      Some (GetModuleNameString n @ [CHR 0x00], r)"
  using assms by (simp add: GetModuleNameString_api_def Let_def)

text \<open>
  C35: The daemon gives the credentials of its local server to a module that connects exactly when
  it is a module of this host whose printed name is in the list of trusted modules, and does nothing
  else for it.
\<close>

theorem credentials_to_trusted_modules:
  assumes "c_name n" "GetModuleNameString n \<noteq> []" "\<And>msg. ser msg \<noteq> None"
  shows "DeamonModule_OnModuleConnected ser cfg n d =
    Some (if host_name n = [] \<and> GetModuleNameString n \<in> set (dm_trustedModules d)
          then d\<lparr>dm_module := app_emit (App_SendMessage n
            (App_LocalServerAttributes (cf_localPort cfg) (dm_user d) (dm_pass d))) (dm_module d)\<rparr>
          else d)"
proof -
  obtain r where r: "GetModuleNameString_api n [] 0 = Some ([], int (length (GetModuleNameString n)), 0)"
    "GetModuleNameString_api n (replicate (length (GetModuleNameString n) + 1) CHR 0x00) (int (length (GetModuleNameString n))) =
      Some (GetModuleNameString n @ [CHR 0x00], r)"
    using name_string_read[OF assms(1,2)] by blast
  moreover have "toMessage_app ser msg n m = (True, app_emit (App_SendMessage n msg) m)" for msg m
    using assms(3)[of msg] by (auto simp: toMessage_app_def api_message_of_def)
  ultimately show ?thesis by (cases r) (auto simp: DeamonModule_OnModuleConnected_def)
qed

theorem credentials_to_trusted_modules_witness:
  "DeamonModule_OnModuleConnected (\<lambda>_. Some []) \<lparr>cf_dir = [], cf_trustedFileName = [], cf_pluginsFileName = [], cf_localPort = 2486\<rparr>
     (IPCName ''shop'' [] []) (DeamonModule\<lparr>dm_trustedModules := [''shop'']\<rparr>) =
   Some (DeamonModule\<lparr>dm_trustedModules := [''shop''],
     dm_module := app_emit (App_SendMessage (IPCName ''shop'' [] []) (App_LocalServerAttributes 2486 [] [])) (dm_module DeamonModule)\<rparr>)"
proof -
  have "c_name (IPCName ''shop'' [] [])" by (simp add: c_name_def MAX_NAME_LENGTH_def)
  moreover have "GetModuleNameString (IPCName ''shop'' [] []) = ''shop''" by simp
  ultimately show ?thesis
    using credentials_to_trusted_modules[of "IPCName ''shop'' [] []" "\<lambda>_. Some []"] by (simp add: DeamonModule_def)
qed


definition no_files_config :: deamon_config where
  "no_files_config = \<lparr>cf_dir = ''/etc'', cf_trustedFileName = ''t'', cf_pluginsFileName = ''p'', cf_localPort = 2486\<rparr>"


text \<open>A configuration that is changed is not written where it is read.\<close>

lemma changed_config_elsewhere:
  assumes "plain_path (cf_trustedFileName cfg)" "CHR 0x2F \<notin> set (cf_trustedFileName cfg)"
    and "plain_path (cf_dir cfg)" "cf_dir cfg \<noteq> []"
  shows "File_path (cf_trustedFileName cfg) = ''/'' @ cf_trustedFileName cfg \<and>
    File_path (cf_dir cfg @ ''/'' @ cf_trustedFileName cfg) = cf_dir cfg @ ''/'' @ cf_trustedFileName cfg"
  using assms File_path_name File_path_folder by simp

end
