(* ===== verification/Internal_Connector.thy ===== *)
theory Internal_Connector
  imports Ipc_Connector Framing
begin

text \<open>
  The connectors of internal connections (\<open>ipc_lib/connector/internal_connector.cpp\<close>): a socket of an
  application whose bytes are carried, as messages of the connection between two modules, to a socket
  at the other side. Sockets are the functions \<open>send\<close> and \<open>recv\<close> on a state.
\<close>

section \<open>The connector\<close>

record 'k internal_connector =
  il_id :: string
  il_socket :: 'k
  il_closed :: bool

definition InternalConnector :: "string \<Rightarrow> 'k \<Rightarrow> 'k internal_connector" where
  "InternalConnector i socket = \<lparr>il_id = i, il_socket = socket, il_closed = False\<rparr>"

text \<open>
  \<open>ThreadFunc\<close>: \<open>stops\<close> are the answers of \<open>IsStop\<close>, and the loop goes on when they are used up;
  the result has the data signalled. \<open>recv\<close> gives no bytes at the end and on errors.
\<close>

fun InternalConnector_ThreadFunc ::
    "(nat \<Rightarrow> 'k \<Rightarrow> string \<times> 'k) \<Rightarrow> nat \<Rightarrow> bool list \<Rightarrow> 'k \<Rightarrow> ('k \<times> string list) option" where
  "InternalConnector_ThreadFunc recv sizedata [] k = None"
| "InternalConnector_ThreadFunc recv sizedata (stop # stops) k =
     (if stop then Some (k, [])
      else case recv sizedata k of
             (data, k) \<Rightarrow>
               if data = [] then Some (k, [])
               else map_option (\<lambda>(k, datas). (k, data # datas)) (InternalConnector_ThreadFunc recv sizedata stops k))"

text \<open>A socket that cannot send is closed.\<close>

definition onInternalConnectionDataMessage ::
    "(string \<Rightarrow> 'k \<Rightarrow> int \<times> 'k) \<Rightarrow> string \<Rightarrow> string \<Rightarrow> 'k internal_connector \<Rightarrow> 'k internal_connector" where
  "onInternalConnectionDataMessage send i data c =
     (if i = il_id c then
        (case TCPSocket_Send send (il_closed c) data (il_socket c) of
           (ok, k) \<Rightarrow> c\<lparr>il_socket := k, il_closed := il_closed c \<or> \<not> ok\<rparr>)
      else c)"

section \<open>From socket to socket\<close>

lemma ThreadFunc_reads:
  assumes "recv_contract recv stream"
  shows "InternalConnector_ThreadFunc recv sizedata stops k = Some (k', datas) \<Longrightarrow> stream k = concat datas @ stream k'"
proof (induction stops arbitrary: k datas)
  case (Cons stop stops)
  show ?case
  proof (cases stop)
    case False
    obtain data k1 where r: "recv sizedata k = (data, k1)" by fastforce
    have k1: "stream k = data @ stream k1" using recv_contractD(2)[OF assms r] .
    show ?thesis
    proof (cases "data = []")
      case True
      then show ?thesis using Cons.prems r k1 False by simp
    next
      case ne: False
      then obtain ds where "InternalConnector_ThreadFunc recv sizedata stops k1 = Some (k', ds)" "datas = data # ds"
        using Cons.prems r False by auto
      then show ?thesis using Cons.IH[of k1 ds] k1 by simp
    qed
  qed (use Cons.prems in simp)
qed simp

text \<open>The thread ends as soon as it is asked to, or the socket gives nothing.\<close>

lemma ThreadFunc_ends: "True \<in> set stops \<Longrightarrow> InternalConnector_ThreadFunc recv sizedata stops k \<noteq> None"
  by (induction stops arbitrary: k) (auto split: prod.split)

lemma data_to_messages:
  "c_trace (nd_self (fold (onInternalConnectionDataSignal i) datas n)) =
     c_trace (nd_self n) @ map (\<lambda>d. ToMessage (M_InternalConnectionData i d)) datas"
  by (induction datas arbitrary: n) (simp_all add: onInternalConnectionDataSignal_def self_def c_emit_def)

lemma messages_to_signals:
  "c_trace (nd_self (fold (onMessage_InternalConnectionData i) datas n)) =
     c_trace (nd_self n) @ map (InternalData i) datas"
  by (induction datas arbitrary: n) (simp_all add: onMessage_InternalConnectionData_def self_def c_emit_def)

lemma Send_prefix:
  assumes "send_contract send wire" "TCPSocket_Send send closed data k = (ok, k')"
  shows "\<exists>n. wire k' = wire k @ take n data \<and> (ok \<longrightarrow> take n data = data) \<and> (closed \<longrightarrow> \<not> ok \<and> n = 0)"
proof (cases closed)
  case True
  then show ?thesis using assms(2) by (auto simp: TCPSocket_Send_def)
next
  case False
  then show ?thesis using Send_loop_wire[OF assms(1), of "int (length data)" data k ok k'] assms(2)
    by (auto simp: TCPSocket_Send_def)
qed

lemma signals_to_socket:
  assumes "send_contract send wire" "il_id c = i"
  shows "\<exists>n. wire (il_socket (fold (onInternalConnectionDataMessage send i) datas c)) = wire (il_socket c) @ take n (concat datas) \<and>
    (\<not> il_closed (fold (onInternalConnectionDataMessage send i) datas c) \<longrightarrow> take n (concat datas) = concat datas) \<and>
    (il_closed c \<longrightarrow> n = 0 \<and> il_closed (fold (onInternalConnectionDataMessage send i) datas c))"
  using assms(2)
proof (induction datas arbitrary: c)
  case Nil
  then show ?case by (intro exI[of _ 0]) simp
next
  case (Cons data datas)
  obtain ok k where s: "TCPSocket_Send send (il_closed c) data (il_socket c) = (ok, k)" by fastforce
  let ?c = "c\<lparr>il_socket := k, il_closed := il_closed c \<or> \<not> ok\<rparr>"
  have c: "onInternalConnectionDataMessage send i data c = ?c" using s Cons.prems by (simp add: onInternalConnectionDataMessage_def)
  obtain n where n: "wire k = wire (il_socket c) @ take n data" "ok \<Longrightarrow> take n data = data" "il_closed c \<Longrightarrow> \<not> ok \<and> n = 0"
    using Send_prefix[OF assms(1) s] by blast
  obtain n' where n': "wire (il_socket (fold (onInternalConnectionDataMessage send i) datas ?c)) = wire k @ take n' (concat datas)"
      "\<not> il_closed (fold (onInternalConnectionDataMessage send i) datas ?c) \<Longrightarrow> take n' (concat datas) = concat datas"
      "il_closed ?c \<Longrightarrow> n' = 0 \<and> il_closed (fold (onInternalConnectionDataMessage send i) datas ?c)"
    using Cons.IH[of ?c] Cons.prems by auto
  show ?case
  proof (cases "il_closed ?c")
    case True
    then have "n' = 0" "il_closed (fold (onInternalConnectionDataMessage send i) datas ?c)" using n'(3) by blast+
    moreover have "take (min n (length data)) (data @ concat datas) = take n data" by (simp add: min_def)
    ultimately show ?thesis using n(1,3) n'(1) c by (intro exI[of _ "min n (length data)"]) auto
  next
    case False
    then have "take n data = data" using n(2) by simp
    then show ?thesis using n(1) n'(1,2) c False
      by (intro exI[of _ "length data + n'"]) auto
  qed
qed

lemma signals_of_others: "il_id c \<noteq> i \<Longrightarrow> fold (onInternalConnectionDataMessage send i) datas c = c"
  by (induction datas) (simp_all add: onInternalConnectionDataMessage_def)


definition stream_recv :: "nat \<Rightarrow> string \<Rightarrow> string \<times> string" where
  "stream_recv n s = (take n s, drop n s)"

definition wire_send :: "string \<Rightarrow> string \<Rightarrow> int \<times> string" where
  "wire_send bytes w = (int (length bytes), w @ bytes)"

lemma stream_recv_contract: "recv_contract stream_recv (\<lambda>s. s)"
  by (auto simp: recv_contract_def stream_recv_def)

lemma wire_send_contract: "send_contract wire_send (\<lambda>w. w)"
  by (auto simp: send_contract_def wire_send_def)


end
