(* ===== verification/Relay_Thread.thy ===== *)
theory Relay_Thread
  imports Tunnel_Connector Managers
begin

text \<open>
  The thread of a relay (\<open>TunnelServerConnector\<close>, \<open>tunnel_server_connector.cpp\<close>) with the threads of
  its two connectors: it waits until either has ended, and its end stops both.
\<close>

record relay_life =
  rf_relay :: thread
  rf_one :: thread
  rf_two :: thread

text \<open>Before every round the rest of the program makes a move; \<^const>\<open>None\<close> when it goes on.\<close>

fun TunnelServerConnector_ThreadFunc ::
    "(relay_life \<Rightarrow> relay_life) list \<Rightarrow> relay_life \<Rightarrow> (relay_life \<times> (relay_life \<Rightarrow> relay_life) list) option" where
  "TunnelServerConnector_ThreadFunc [] r = None"
| "TunnelServerConnector_ThreadFunc (move # moves) r =
     (let r = move r
      in if IsStop (rf_relay r) then Some (r, moves)
         else if WaitStop 50 (rf_one r) = Some True \<or> WaitStop 50 (rf_two r) = Some True then Some (r, moves)
         else TunnelServerConnector_ThreadFunc moves r)"

text \<open>The destructor hands both connectors to the thread manager, which deletes them.\<close>

definition TunnelServerConnector_destroy :: "nat \<Rightarrow> nat \<Rightarrow> thread_manager \<Rightarrow> thread_manager" where
  "TunnelServerConnector_destroy one two g = AddThread two (AddThread one g)"

definition relay_done :: "relay_life \<Rightarrow> bool" where
  "relay_done r \<longleftrightarrow> IsStop (rf_relay r) \<or> WaitStop 50 (rf_one r) = Some True \<or> WaitStop 50 (rf_two r) = Some True"

text \<open>The loop ends in the first round in which the relay is asked to stop or a connector has ended.\<close>

lemma relay_thread_ends:
  assumes "\<And>n. n < length moves \<Longrightarrow> \<not> relay_done (fold (\<lambda>f. f) (take (Suc n) moves) r)"
    and "relay_done (move (fold (\<lambda>f. f) moves r))"
  shows "TunnelServerConnector_ThreadFunc (moves @ move # rest) r = Some (move (fold (\<lambda>f. f) moves r), rest)"
  using assms
proof (induction moves arbitrary: r)
  case Nil
  then show ?case by (auto simp: relay_done_def Let_def)
next
  case (Cons m moves)
  have "\<not> relay_done (m r)" using Cons.prems(1)[of 0] by simp
  moreover have "\<not> relay_done (fold (\<lambda>f. f) (take (Suc n) moves) (m r))" if "n < length moves" for n
    using Cons.prems(1)[of "Suc n"] that by simp
  ultimately show ?case using Cons.IH[of "m r"] Cons.prems(2) by (simp add: relay_done_def Let_def)
qed

lemma connector_end_ends_relay: "IsStopped (rf_one r) \<or> IsStopped (rf_two r) \<Longrightarrow> relay_done r"
  by (auto simp: relay_done_def WaitStop_def)

end
