(* ===== verification/Sockets.thy ===== *)
theory Sockets
  imports Framing Proxy_Socket
begin

text \<open>
  The socket classes (\<open>connector_lib/socket\<close>): over TCP (\<open>tcp_socket.cpp\<close>), UDP (\<open>udp_socket.cpp\<close>) and
  UDT (\<open>udt_socket.cpp\<close>), and the factories that make them (\<open>socket_factories.cpp\<close>). The calls an
  operation makes to the system and to UDT are part of its result; what they answer is an argument.
  \<^const>\<open>None\<close> is a write out of bounds, or memory that is handed on uninitialised.
\<close>

section \<open>Addresses and calls\<close>

datatype ip_version = IPV4 | IPV6

record sockaddr =
  ad_family :: ip_version
  ad_addr :: string
  ad_port :: int

abbreviation INVALID_SOCKET :: int where
  "INVALID_SOCKET \<equiv> -1"

text \<open>A system or UDT descriptor.\<close>

datatype descriptor = Fd int | Udt int

datatype sys_call =
    Sys_socket descriptor
  | Sys_getaddrinfo "ip_version option" string string
  | Sys_bind descriptor sockaddr
  | Sys_bind_udp int int
  | Sys_rendezvous int
  | Sys_listen descriptor int
  | Sys_accept descriptor
  | Sys_connect descriptor sockaddr
  | Sys_shutdown int
  | Sys_close descriptor

text \<open>The zero address of a family, which is the one that stands for any, and port 0.\<close>

definition zero_address :: "ip_version \<Rightarrow> sockaddr" where
  "zero_address ipv = \<lparr>ad_family = ipv, ad_addr = replicate (if ipv = IPV4 then 4 else 16) CHR 0x00, ad_port = 0\<rparr>"

definition htons :: "int \<Rightarrow> int" where
  "htons port = port mod 2 ^ 16"

text \<open>A port is printed into an array of ten characters.\<close>

definition port_string :: "int \<Rightarrow> string option" where
  "port_string port = (if length (dec_int port) < 10 then Some (dec_int port) else None)"

text \<open>
  The loop over what \<open>getaddrinfo\<close> answers (\<^const>\<open>None\<close> for an error): the last address of the
  family is taken, and what was there before stays when there is none.
\<close>

fun addr_loop :: "ip_version \<Rightarrow> sockaddr list \<Rightarrow> 'a \<Rightarrow> (sockaddr \<Rightarrow> 'a) \<Rightarrow> 'a" where
  "addr_loop ipv [] si f = si"
| "addr_loop ipv (a # result) si f = addr_loop ipv result (if ad_family a = ipv then f a else si) f"

definition resolved :: "ip_version \<Rightarrow> sockaddr list option \<Rightarrow> 'a \<Rightarrow> (sockaddr \<Rightarrow> 'a) \<Rightarrow> 'a" where
  "resolved ipv answer si f = (case answer of None \<Rightarrow> si | Some result \<Rightarrow> addr_loop ipv result si f)"

text \<open>
  \<open>inet_ntop\<close> leaves the array as it is when the size it is told is too small. \<open>ntop\<close> is the printed
  form of an address, \<open>garbage\<close> what is in the array.
\<close>

definition inet_ntop :: "(sockaddr \<Rightarrow> string) \<Rightarrow> sockaddr \<Rightarrow> nat \<Rightarrow> string \<Rightarrow> string" where
  "inet_ntop ntop a len garbage = (if length (ntop a) < len then ntop a else garbage)"

definition addrstrlen :: "ip_version \<Rightarrow> nat" where
  "addrstrlen ipv = (if ipv = IPV4 then 16 else 46)"

section \<open>TCP\<close>

record tcp_socket =
  tk_ipv :: ip_version
  tk_socket :: int

definition TCPSocket_new :: "ip_version \<Rightarrow> int \<Rightarrow> tcp_socket \<times> sys_call list" where
  "TCPSocket_new ipv fd = (\<lparr>tk_ipv = ipv, tk_socket = fd\<rparr>, [Sys_socket (Fd fd)])"

text \<open>A socket for a descriptor has the family of the name the system gives for it.\<close>

definition TCPSocket_of :: "int \<Rightarrow> sockaddr option \<Rightarrow> tcp_socket option" where
  "TCPSocket_of fd name = map_option (\<lambda>a. \<lparr>tk_ipv = ad_family a, tk_socket = fd\<rparr>) name"

text \<open>\<open>answer\<close> is that of \<open>getaddrinfo\<close>, \<open>ok\<close> whether \<open>bind\<close> succeeds.\<close>

definition TCPSocket_Bind ::
    "sockaddr list option \<Rightarrow> bool \<Rightarrow> string \<Rightarrow> int \<Rightarrow> tcp_socket \<Rightarrow> (bool \<times> sys_call list) option" where
  "TCPSocket_Bind answer ok host port s =
     (if tk_socket s = INVALID_SOCKET then Some (False, [])
      else let si = zero_address (tk_ipv s)
           in if host = [] then Some (ok, [Sys_bind (Fd (tk_socket s)) (si\<lparr>ad_port := htons port\<rparr>)])
              else case port_string port of
                     None \<Rightarrow> None
                   | Some portstr \<Rightarrow>
                       Some (ok, [Sys_getaddrinfo (Some (tk_ipv s)) host portstr,
                         Sys_bind (Fd (tk_socket s)) (resolved (tk_ipv s) answer si (\<lambda>a. a))]))"

definition TCPSocket_Listen :: "bool \<Rightarrow> int \<Rightarrow> tcp_socket \<Rightarrow> bool \<times> sys_call list" where
  "TCPSocket_Listen ok limit s =
     (if tk_socket s = INVALID_SOCKET then (False, []) else (ok, [Sys_listen (Fd (tk_socket s)) limit]))"

text \<open>
  \<open>accept\<close> answers a descriptor and an address; \<open>ip\<close> and \<open>port\<close> are what the caller's variables hold
  before. The size \<open>inet_ntop\<close> is told is always 0.
\<close>

definition TCPSocket_Accept ::
    "(sockaddr \<Rightarrow> string) \<Rightarrow> string \<Rightarrow> int \<times> sockaddr \<Rightarrow> string \<times> int \<Rightarrow> tcp_socket \<Rightarrow> (int \<times> string \<times> int) \<times> sys_call list" where
  "TCPSocket_Accept ntop garbage answer ipport s =
     (if tk_socket s = INVALID_SOCKET then ((INVALID_SOCKET, ipport), [])
      else case answer of
             (sock, si) \<Rightarrow>
               let lenaddr = 0
               in ((sock, inet_ntop ntop si lenaddr garbage, ad_port si), [Sys_accept (Fd (tk_socket s))]))"

text \<open>Without an address of the family, \<open>Connect\<close> hands its uninitialised one to the system.\<close>

definition TCPSocket_Connect ::
    "sockaddr list option \<Rightarrow> bool \<Rightarrow> string \<Rightarrow> int \<Rightarrow> tcp_socket \<Rightarrow> (bool \<times> sys_call list) option" where
  "TCPSocket_Connect answer ok host port s =
     (if tk_socket s = INVALID_SOCKET \<or> host = [] then Some (False, [])
      else case port_string port of
             None \<Rightarrow> None
           | Some portstr \<Rightarrow>
               map_option (\<lambda>si. (ok, [Sys_getaddrinfo None host portstr, Sys_connect (Fd (tk_socket s)) si]))
                 (resolved (tk_ipv s) answer None Some))"

text \<open>\<open>Close\<close> leaves the descriptor in the object, and the destructor calls it again.\<close>

definition TCPSocket_Close :: "bool \<Rightarrow> tcp_socket \<Rightarrow> bool \<times> sys_call list" where
  "TCPSocket_Close ok s =
     (if tk_socket s = INVALID_SOCKET then (False, [])
      else (ok, [Sys_shutdown (tk_socket s), Sys_close (Fd (tk_socket s))]))"

text \<open>\<open>name\<close> is the answer of \<open>getsockname\<close>, \<^const>\<open>None\<close> for an error.\<close>

definition TCPSocket_GetIPPort ::
    "(sockaddr \<Rightarrow> string) \<Rightarrow> string \<Rightarrow> sockaddr option \<Rightarrow> string \<times> int \<Rightarrow> tcp_socket \<Rightarrow> string \<times> int" where
  "TCPSocket_GetIPPort ntop garbage name ipport s =
     (case name of None \<Rightarrow> ipport | Some a \<Rightarrow> (inet_ntop ntop a (addrstrlen (tk_ipv s)) garbage, ad_port a))"

text \<open>The sizes of the two buffers, \<^const>\<open>None\<close> where the system does not tell.\<close>

definition buffer_size :: "bool \<Rightarrow> int option \<Rightarrow> int option \<Rightarrow> int" where
  "buffer_size invalid sndsize rcvsize =
     (if invalid then 0
      else case (sndsize, rcvsize) of
             (Some n, Some m) \<Rightarrow> if n < m then n else m
           | _ \<Rightarrow> 0)"

definition TCPSocket_GetMaxBufferSize :: "int option \<Rightarrow> int option \<Rightarrow> tcp_socket \<Rightarrow> int" where
  "TCPSocket_GetMaxBufferSize sndsize rcvsize s = buffer_size (tk_socket s = INVALID_SOCKET) sndsize rcvsize"

text \<open>Reconnecting to a proxy makes a new descriptor \<open>fd\<close> for the object.\<close>

definition ProxyTCPSocket_ReConnect ::
    "int \<Rightarrow> bool \<Rightarrow> sockaddr list option \<Rightarrow> bool \<Rightarrow> string \<Rightarrow> int \<Rightarrow> tcp_socket \<Rightarrow> (bool \<times> tcp_socket \<times> sys_call list) option" where
  "ProxyTCPSocket_ReConnect fd bind_ok answer ok ip port s =
     (let closed = snd (TCPSocket_Close True s);
          (s, made) = TCPSocket_new (tk_ipv s) fd
      in case TCPSocket_Bind None bind_ok [] 0 s of
           None \<Rightarrow> None
         | Some (_, bound) \<Rightarrow>
             map_option (\<lambda>(r, cs). (r, s, closed @ made @ bound @ cs)) (TCPSocket_Connect answer ok ip port s))"

section \<open>UDP\<close>

record udp_socket =
  uk_ipv :: ip_version
  uk_socket :: int
  uk_host :: string
  uk_port :: int

definition UDPSocket_new :: "ip_version \<Rightarrow> int \<Rightarrow> udp_socket \<times> sys_call list" where
  "UDPSocket_new ipv fd = (\<lparr>uk_ipv = ipv, uk_socket = fd, uk_host = [], uk_port = 0\<rparr>, [Sys_socket (Fd fd)])"

definition UDPSocket_of :: "int \<Rightarrow> sockaddr option \<Rightarrow> udp_socket option" where
  "UDPSocket_of fd name = map_option (\<lambda>a. \<lparr>uk_ipv = ad_family a, uk_socket = fd, uk_host = [], uk_port = 0\<rparr>) name"

text \<open>Without a host the port is not put into the address.\<close>

definition UDPSocket_Bind ::
    "sockaddr list option \<Rightarrow> bool \<Rightarrow> string \<Rightarrow> int \<Rightarrow> udp_socket \<Rightarrow> (bool \<times> sys_call list) option" where
  "UDPSocket_Bind answer ok host port s =
     (if uk_socket s = INVALID_SOCKET then Some (False, [])
      else let si = zero_address (uk_ipv s)
           in if host = [] then Some (ok, [Sys_bind (Fd (uk_socket s)) si])
              else case port_string port of
                     None \<Rightarrow> None
                   | Some portstr \<Rightarrow>
                       Some (ok, [Sys_getaddrinfo (Some (uk_ipv s)) host portstr,
                         Sys_bind (Fd (uk_socket s)) (resolved (uk_ipv s) answer si (\<lambda>a. a))]))"

definition UDPSocket_Listen :: "bool \<Rightarrow> int \<Rightarrow> udp_socket \<Rightarrow> bool \<times> sys_call list" where
  "UDPSocket_Listen ok limit s = (False, [])"

definition UDPSocket_Accept ::
    "(sockaddr \<Rightarrow> string) \<Rightarrow> string \<Rightarrow> int \<times> sockaddr \<Rightarrow> string \<times> int \<Rightarrow> udp_socket \<Rightarrow> (int \<times> string \<times> int) \<times> sys_call list" where
  "UDPSocket_Accept ntop garbage answer ipport s = ((0, ipport), [])"

definition UDPSocket_Connect ::
    "sockaddr list option \<Rightarrow> bool \<Rightarrow> string \<Rightarrow> int \<Rightarrow> udp_socket \<Rightarrow> (bool \<times> sys_call list) option" where
  "UDPSocket_Connect answer ok host port s = Some (False, [])"

definition SetSendAddr :: "string \<Rightarrow> int \<Rightarrow> udp_socket \<Rightarrow> udp_socket" where
  "SetSendAddr host port s = s\<lparr>uk_host := host, uk_port := port\<rparr>"

text \<open>The loop of \<open>Send\<close> is that of TCP, over \<open>sendto\<close> the address that was set.\<close>

definition UDPSocket_Send ::
    "(sockaddr \<Rightarrow> string \<Rightarrow> 'k \<Rightarrow> int \<times> 'k) \<Rightarrow> sockaddr list option \<Rightarrow> string \<Rightarrow> udp_socket \<Rightarrow> 'k \<Rightarrow> (bool \<times> 'k) option" where
  "UDPSocket_Send sendto answer data s k =
     (if uk_socket s = INVALID_SOCKET \<or> uk_host s = [] then Some (False, k)
      else case port_string (uk_port s) of
             None \<Rightarrow> None
           | Some _ \<Rightarrow>
               map_option (\<lambda>si. TCPSocket_Send_loop (sendto si) data (int (length data)) k)
                 (resolved (uk_ipv s) answer None Some))"

definition UDPSocket_Recv :: "(nat \<Rightarrow> 'k \<Rightarrow> string \<times> 'k) \<Rightarrow> int \<Rightarrow> udp_socket \<Rightarrow> 'k \<Rightarrow> string option \<times> 'k" where
  "UDPSocket_Recv recvfrom len s k =
     (if uk_socket s = INVALID_SOCKET then (None, k) else TCPSocket_Recv_loop recvfrom len [] k)"

definition UDPSocket_Close :: "bool \<Rightarrow> udp_socket \<Rightarrow> bool \<times> sys_call list" where
  "UDPSocket_Close ok s =
     (if uk_socket s = INVALID_SOCKET then (False, [])
      else (ok, [Sys_shutdown (uk_socket s), Sys_close (Fd (uk_socket s))]))"

definition UDPSocket_GetIPPort ::
    "(sockaddr \<Rightarrow> string) \<Rightarrow> string \<Rightarrow> sockaddr option \<Rightarrow> string \<times> int \<Rightarrow> udp_socket \<Rightarrow> string \<times> int" where
  "UDPSocket_GetIPPort ntop garbage name ipport s =
     (case name of None \<Rightarrow> ipport | Some a \<Rightarrow> (inet_ntop ntop a (addrstrlen (uk_ipv s)) garbage, ad_port a))"

definition UDPSocket_GetMaxBufferSize :: "int option \<Rightarrow> int option \<Rightarrow> udp_socket \<Rightarrow> int" where
  "UDPSocket_GetMaxBufferSize sndsize rcvsize s = buffer_size (uk_socket s = INVALID_SOCKET) sndsize rcvsize"

section \<open>UDT\<close>

text \<open>A UDT socket may be over a UDP socket that exists.\<close>

record udt_socket =
  dk_ipv :: ip_version
  dk_udpSocket :: int
  dk_socket :: int

definition UDTSocket_new :: "ip_version \<Rightarrow> int \<Rightarrow> udt_socket \<times> sys_call list" where
  "UDTSocket_new ipv fd = (\<lparr>dk_ipv = ipv, dk_udpSocket = INVALID_SOCKET, dk_socket = fd\<rparr>, [Sys_socket (Udt fd)])"

definition UDTSocket_with :: "int \<Rightarrow> ip_version \<Rightarrow> bool \<Rightarrow> int \<Rightarrow> udt_socket \<times> sys_call list" where
  "UDTSocket_with socket ipv isUdp fd =
     (if isUdp then (\<lparr>dk_ipv = ipv, dk_udpSocket = socket, dk_socket = fd\<rparr>, [Sys_socket (Udt fd)])
      else (\<lparr>dk_ipv = ipv, dk_udpSocket = INVALID_SOCKET, dk_socket = socket\<rparr>, []))"

definition UDTSocket_of :: "int \<Rightarrow> int \<Rightarrow> sockaddr option \<Rightarrow> udt_socket option" where
  "UDTSocket_of udpSocket socket name =
     map_option (\<lambda>a. \<lparr>dk_ipv = ad_family a, dk_udpSocket = udpSocket, dk_socket = socket\<rparr>) name"

text \<open>Over a UDP socket the address is that socket's; \<open>ok2\<close> is the answer for the rendezvous option.\<close>

definition UDTSocket_Bind ::
    "sockaddr list option \<Rightarrow> bool \<Rightarrow> bool \<Rightarrow> string \<Rightarrow> int \<Rightarrow> udt_socket \<Rightarrow> (bool \<times> sys_call list) option" where
  "UDTSocket_Bind answer ok ok2 host port s =
     (if dk_socket s = INVALID_SOCKET then Some (False, [])
      else if dk_udpSocket s = INVALID_SOCKET then
        let si = zero_address (dk_ipv s)
        in if host = [] then Some (ok, [Sys_bind (Udt (dk_socket s)) si])
           else case port_string port of
                  None \<Rightarrow> None
                | Some portstr \<Rightarrow>
                    Some (ok, [Sys_getaddrinfo (Some (dk_ipv s)) host portstr,
                      Sys_bind (Udt (dk_socket s)) (resolved (dk_ipv s) answer si (\<lambda>a. a))])
      else if \<not> ok then Some (False, [Sys_bind_udp (dk_socket s) (dk_udpSocket s)])
      else Some (ok2, [Sys_bind_udp (dk_socket s) (dk_udpSocket s), Sys_rendezvous (dk_socket s)]))"

definition UDTSocket_Listen :: "bool \<Rightarrow> int \<Rightarrow> udt_socket \<Rightarrow> bool \<times> sys_call list" where
  "UDTSocket_Listen ok limit s =
     (if dk_socket s = INVALID_SOCKET then (False, []) else (ok, [Sys_listen (Udt (dk_socket s)) limit]))"

definition UDTSocket_Accept ::
    "(sockaddr \<Rightarrow> string) \<Rightarrow> string \<Rightarrow> int \<times> sockaddr \<Rightarrow> string \<times> int \<Rightarrow> udt_socket \<Rightarrow> (int \<times> string \<times> int) \<times> sys_call list" where
  "UDTSocket_Accept ntop garbage answer ipport s =
     (if dk_socket s = INVALID_SOCKET then ((0, ipport), [])
      else case answer of
             (sock, si) \<Rightarrow>
               let lenaddr = 0
               in ((sock, inet_ntop ntop si lenaddr garbage, ad_port si), [Sys_accept (Udt (dk_socket s))]))"

definition UDTSocket_Connect ::
    "sockaddr list option \<Rightarrow> bool \<Rightarrow> string \<Rightarrow> int \<Rightarrow> udt_socket \<Rightarrow> (bool \<times> sys_call list) option" where
  "UDTSocket_Connect answer ok host port s =
     (if dk_socket s = INVALID_SOCKET \<or> host = [] then Some (False, [])
      else case port_string port of
             None \<Rightarrow> None
           | Some portstr \<Rightarrow>
               map_option (\<lambda>si. (ok, [Sys_getaddrinfo None host portstr, Sys_connect (Udt (dk_socket s)) si]))
                 (resolved (dk_ipv s) answer None Some))"

definition UDTSocket_Send :: "(string \<Rightarrow> 'k \<Rightarrow> int \<times> 'k) \<Rightarrow> string \<Rightarrow> udt_socket \<Rightarrow> 'k \<Rightarrow> bool \<times> 'k" where
  "UDTSocket_Send send data s k =
     (if dk_socket s = INVALID_SOCKET then (False, k) else TCPSocket_Send_loop send data (int (length data)) k)"

definition UDTSocket_Recv :: "(nat \<Rightarrow> 'k \<Rightarrow> string \<times> 'k) \<Rightarrow> int \<Rightarrow> udt_socket \<Rightarrow> 'k \<Rightarrow> string option \<times> 'k" where
  "UDTSocket_Recv recv len s k =
     (if dk_socket s = INVALID_SOCKET then (None, k) else TCPSocket_Recv_loop recv len [] k)"

definition UDTSocket_Close :: "bool \<Rightarrow> udt_socket \<Rightarrow> bool \<times> sys_call list" where
  "UDTSocket_Close ok s =
     (if dk_socket s = INVALID_SOCKET then (False, [])
      else (ok, (if dk_udpSocket s \<noteq> INVALID_SOCKET then [Sys_shutdown (dk_udpSocket s), Sys_close (Fd (dk_udpSocket s))] else [])
             @ [Sys_close (Udt (dk_socket s))]))"

text \<open>\<open>name\<close> is the system's answer for the UDP socket, \<open>udtname\<close> UDT's.\<close>

definition UDTSocket_GetIPPort ::
    "(sockaddr \<Rightarrow> string) \<Rightarrow> string \<Rightarrow> sockaddr option \<Rightarrow> sockaddr option \<Rightarrow> string \<times> int \<Rightarrow> udt_socket \<Rightarrow> string \<times> int" where
  "UDTSocket_GetIPPort ntop garbage name udtname ipport s =
     (if dk_socket s = INVALID_SOCKET then ipport
      else let addr = (if dk_udpSocket s \<noteq> INVALID_SOCKET \<and> name \<noteq> None then name else udtname)
           in case addr of None \<Rightarrow> ipport | Some a \<Rightarrow> (inet_ntop ntop a (addrstrlen (dk_ipv s)) garbage, ad_port a))"

definition UDTSocket_GetMaxBufferSize :: "int option \<Rightarrow> int option \<Rightarrow> udt_socket \<Rightarrow> int" where
  "UDTSocket_GetMaxBufferSize sndsize rcvsize s = buffer_size (dk_socket s = INVALID_SOCKET) sndsize rcvsize"

section \<open>Factories\<close>

text \<open>The last argument is the descriptor that is made, or the name of the one that is given.\<close>

definition TCPSocketFactory_CreateSocket :: "ip_version \<Rightarrow> int \<Rightarrow> tcp_socket \<times> sys_call list" where
  "TCPSocketFactory_CreateSocket ipv fd = TCPSocket_new ipv fd"

definition TCPSocketFactory_CreateSocket_of :: "int \<Rightarrow> sockaddr option \<Rightarrow> tcp_socket option" where
  "TCPSocketFactory_CreateSocket_of socket name = TCPSocket_of socket name"

definition UDPSocketFactory_CreateSocket :: "ip_version \<Rightarrow> int \<Rightarrow> udp_socket \<times> sys_call list" where
  "UDPSocketFactory_CreateSocket ipv fd = UDPSocket_new ipv fd"

definition UDPSocketFactory_CreateSocket_of :: "int \<Rightarrow> sockaddr option \<Rightarrow> udp_socket option" where
  "UDPSocketFactory_CreateSocket_of socket name = UDPSocket_of socket name"

record udt_factory =
  uf_udpSocket :: int
  uf_ipv :: ip_version

definition UDTSocketFactory :: "ip_version \<Rightarrow> udt_factory" where
  "UDTSocketFactory ipv = \<lparr>uf_udpSocket = INVALID_SOCKET, uf_ipv = ipv\<rparr>"

definition SetUdpSocket :: "int \<Rightarrow> udt_factory \<Rightarrow> udt_factory" where
  "SetUdpSocket udpSocket f = f\<lparr>uf_udpSocket := udpSocket\<rparr>"

definition UDTSocketFactory_CreateSocket :: "udt_factory \<Rightarrow> int \<Rightarrow> udt_socket \<times> sys_call list" where
  "UDTSocketFactory_CreateSocket f fd =
     (if uf_udpSocket f \<noteq> INVALID_SOCKET then UDTSocket_new (uf_ipv f) fd
      else UDTSocket_with (uf_udpSocket f) (uf_ipv f) True fd)"

definition UDTSocketFactory_CreateSocket_of :: "udt_factory \<Rightarrow> int \<Rightarrow> sockaddr option \<Rightarrow> udt_socket option" where
  "UDTSocketFactory_CreateSocket_of f socket name =
     (if uf_udpSocket f \<noteq> INVALID_SOCKET then Some (fst (UDTSocket_with socket (uf_ipv f) False 0))
      else UDTSocket_of (uf_udpSocket f) socket name)"

text \<open>The secure factory makes sockets of a derived class, with the same descriptors.\<close>

definition UDTSecureSocketFactory_CreateSocket :: "udt_factory \<Rightarrow> int \<Rightarrow> udt_socket \<times> sys_call list" where
  "UDTSecureSocketFactory_CreateSocket f fd =
     (if uf_udpSocket f = INVALID_SOCKET then UDTSocket_new (uf_ipv f) fd
      else UDTSocket_with (uf_udpSocket f) (uf_ipv f) True fd)"

definition UDTSecureSocketFactory_CreateSocket_of :: "udt_factory \<Rightarrow> int \<Rightarrow> sockaddr option \<Rightarrow> udt_socket option" where
  "UDTSecureSocketFactory_CreateSocket_of f socket name =
     (if uf_udpSocket f = INVALID_SOCKET then Some (fst (UDTSocket_with socket (uf_ipv f) False 0))
      else UDTSocket_of (uf_udpSocket f) socket name)"

definition UDTSocketFactory_Clone :: "udt_factory \<Rightarrow> udt_factory" where
  "UDTSocketFactory_Clone f =
     (let factory = UDTSocketFactory (uf_ipv f)
      in if uf_udpSocket f \<noteq> INVALID_SOCKET then SetUdpSocket (uf_udpSocket f) factory else factory)"

section \<open>What the operations ask for\<close>

text \<open>The address taken is the last one of the family.\<close>

lemma addr_loop_last:
  "addr_loop ipv result si f = (case filter (\<lambda>a. ad_family a = ipv) result of [] \<Rightarrow> si | xs \<Rightarrow> f (last xs))"
  by (induction result arbitrary: si) (auto split: list.splits)

definition family_addresses :: "ip_version \<Rightarrow> sockaddr list option \<Rightarrow> sockaddr list" where
  "family_addresses ipv answer = (case answer of None \<Rightarrow> [] | Some result \<Rightarrow> filter (\<lambda>a. ad_family a = ipv) result)"

lemma resolved_last: "resolved ipv answer si f = (case family_addresses ipv answer of [] \<Rightarrow> si | xs \<Rightarrow> f (last xs))"
  by (cases answer) (simp_all add: resolved_def family_addresses_def addr_loop_last)

definition bound_to :: "(bool \<times> sys_call list) option \<Rightarrow> (descriptor \<times> sockaddr) list" where
  "bound_to r = (case r of None \<Rightarrow> [] | Some (_, cs) \<Rightarrow> concat (map (\<lambda>c. case c of Sys_bind d a \<Rightarrow> [(d, a)] | _ \<Rightarrow> []) cs))"

text \<open>
  Where the sockets of the three classes are bound: with a host whose name has an address of the
  family, to the last such address; with a host that has none, to any address and any port, as if
  nothing had been asked for; without a host, to any address, and to the port only over TCP.
\<close>

lemma bound_address:
  assumes "port_string port = Some portstr" "fd \<noteq> INVALID_SOCKET"
  shows "bound_to (TCPSocket_Bind answer ok host port \<lparr>tk_ipv = ipv, tk_socket = fd\<rparr>) =
      [(Fd fd, if host = [] then (zero_address ipv)\<lparr>ad_port := htons port\<rparr>
               else if family_addresses ipv answer = [] then zero_address ipv else last (family_addresses ipv answer))] \<and>
    bound_to (UDPSocket_Bind answer ok host port \<lparr>uk_ipv = ipv, uk_socket = fd, uk_host = h, uk_port = p\<rparr>) =
      [(Fd fd, if host = [] \<or> family_addresses ipv answer = [] then zero_address ipv else last (family_addresses ipv answer))] \<and>
    bound_to (UDTSocket_Bind answer ok ok2 host port \<lparr>dk_ipv = ipv, dk_udpSocket = INVALID_SOCKET, dk_socket = fd\<rparr>) =
      [(Udt fd, if host = [] \<or> family_addresses ipv answer = [] then zero_address ipv else last (family_addresses ipv answer))]"
  using assms by (auto simp: bound_to_def TCPSocket_Bind_def UDPSocket_Bind_def UDTSocket_Bind_def resolved_last split: list.split)

text \<open>What is not an address of the family is never connected to, but then the address is uninitialised.\<close>

lemma Connect_needs_address:
  assumes "tk_socket s \<noteq> INVALID_SOCKET" "host \<noteq> []" "family_addresses (tk_ipv s) answer = []"
  shows "TCPSocket_Connect answer ok host port s = None"
  using assms by (simp add: TCPSocket_Connect_def resolved_last split: option.split)

text \<open>The address of a peer is lost: what \<open>Accept\<close> gives does not depend on it.\<close>

lemma Accept_loses_ip:
  assumes "tk_socket s \<noteq> INVALID_SOCKET"
  shows "fst (TCPSocket_Accept ntop garbage (sock, si) ipport s) = (sock, garbage, ad_port si)"
  using assms by (simp add: TCPSocket_Accept_def inet_ntop_def)

text \<open>
  The secure factory makes its sockets over the UDP socket it has been given; the other one tests for
  the opposite, and never uses it.
\<close>

lemma secure_factory_uses_udp:
  "dk_udpSocket (fst (UDTSecureSocketFactory_CreateSocket (SetUdpSocket udp f) fd)) = udp"
  by (simp add: UDTSecureSocketFactory_CreateSocket_def SetUdpSocket_def UDTSocket_new_def UDTSocket_with_def)

lemma factory_never_uses_udp:
  "dk_udpSocket (fst (UDTSocketFactory_CreateSocket f fd)) = INVALID_SOCKET"
  "UDTSocketFactory_CreateSocket_of f socket name = Some s \<Longrightarrow> dk_udpSocket s = INVALID_SOCKET"
  by (auto simp: UDTSocketFactory_CreateSocket_def UDTSocketFactory_CreateSocket_of_def UDTSocket_new_def UDTSocket_with_def UDTSocket_of_def
      split: if_splits)

lemma Clone_same: "UDTSocketFactory_Clone f = f"
  by (cases f) (simp add: UDTSocketFactory_Clone_def UDTSocketFactory_def SetUdpSocket_def Let_def)

end
