(* ===== verification/Socket_Lifetime.thy ===== *)
theory Socket_Lifetime
  imports Sockets
begin

text \<open>
  What happens to the descriptor of a socket: the interface \<open>any_socket.h\<close> of the socket classes, the
  threads that hold a socket while they listen and connect (\<open>connector_lib/thread\<close>), with other
  threads stopping them at any time, and the connector that gets it (\<open>connector/connector.cpp\<close>).
\<close>

section \<open>The interface\<close>

text \<open>The virtual functions of \<open>AnySocket\<close> on the objects of a class.\<close>

record 's any_socket =
  as_Bind :: "sockaddr list option \<Rightarrow> bool \<Rightarrow> bool \<Rightarrow> string \<Rightarrow> int \<Rightarrow> 's \<Rightarrow> (bool \<times> sys_call list) option"
  as_Listen :: "bool \<Rightarrow> int \<Rightarrow> 's \<Rightarrow> bool \<times> sys_call list"
  as_Accept :: "(sockaddr \<Rightarrow> string) \<Rightarrow> string \<Rightarrow> int \<times> sockaddr \<Rightarrow> string \<times> int \<Rightarrow> 's \<Rightarrow> (int \<times> string \<times> int) \<times> sys_call list"
  as_Connect :: "sockaddr list option \<Rightarrow> bool \<Rightarrow> string \<Rightarrow> int \<Rightarrow> 's \<Rightarrow> (bool \<times> sys_call list) option"
  as_Close :: "bool \<Rightarrow> 's \<Rightarrow> bool \<times> sys_call list"

definition tcp_class :: "tcp_socket any_socket" where
  "tcp_class = \<lparr>as_Bind = \<lambda>answer ok ok2. TCPSocket_Bind answer ok, as_Listen = TCPSocket_Listen, as_Accept = TCPSocket_Accept,
     as_Connect = TCPSocket_Connect, as_Close = TCPSocket_Close\<rparr>"

definition udp_class :: "udp_socket any_socket" where
  "udp_class = \<lparr>as_Bind = \<lambda>answer ok ok2. UDPSocket_Bind answer ok, as_Listen = UDPSocket_Listen, as_Accept = UDPSocket_Accept,
     as_Connect = UDPSocket_Connect, as_Close = UDPSocket_Close\<rparr>"

definition udt_class :: "udt_socket any_socket" where
  "udt_class = \<lparr>as_Bind = UDTSocket_Bind, as_Listen = UDTSocket_Listen, as_Accept = UDTSocket_Accept,
     as_Connect = UDTSocket_Connect, as_Close = UDTSocket_Close\<rparr>"

definition closed_by :: "sys_call list \<Rightarrow> descriptor list" where
  "closed_by cs = concat (map (\<lambda>c. case c of Sys_close d \<Rightarrow> [d] | _ \<Rightarrow> []) cs)"

lemma closed_by_simps [simp]:
  "closed_by [] = []"
  "closed_by (c # cs) = (case c of Sys_close d \<Rightarrow> [d] | _ \<Rightarrow> []) @ closed_by cs"
  "closed_by (cs @ ds) = closed_by cs @ closed_by ds"
  by (simp_all add: closed_by_def)

text \<open>Only \<open>Close\<close> closes descriptors: those of the object, each time it is called.\<close>

locale socket_class =
  fixes V :: "'s any_socket" and owns :: "'s \<Rightarrow> descriptor list"
  assumes Bind_keeps: "as_Bind V answer ok ok2 host port s = Some (b, cs) \<Longrightarrow> closed_by cs = []"
    and Listen_keeps: "closed_by (snd (as_Listen V ok limit s)) = []"
    and Accept_keeps: "closed_by (snd (as_Accept V ntop garbage accepted ipport s)) = []"
    and Connect_keeps: "as_Connect V answer ok host port s = Some (b, cs) \<Longrightarrow> closed_by cs = []"
    and Close_closes: "closed_by (snd (as_Close V ok s)) = owns s"

definition tcp_owns :: "tcp_socket \<Rightarrow> descriptor list" where
  "tcp_owns s = (if tk_socket s = INVALID_SOCKET then [] else [Fd (tk_socket s)])"

definition udp_owns :: "udp_socket \<Rightarrow> descriptor list" where
  "udp_owns s = (if uk_socket s = INVALID_SOCKET then [] else [Fd (uk_socket s)])"

definition udt_owns :: "udt_socket \<Rightarrow> descriptor list" where
  "udt_owns s = (if dk_socket s = INVALID_SOCKET then []
     else (if dk_udpSocket s = INVALID_SOCKET then [] else [Fd (dk_udpSocket s)]) @ [Udt (dk_socket s)])"

interpretation tcp: socket_class tcp_class tcp_owns
  by unfold_locales
    (auto simp: tcp_class_def tcp_owns_def TCPSocket_Bind_def TCPSocket_Listen_def TCPSocket_Accept_def TCPSocket_Connect_def
      TCPSocket_Close_def Let_def split: if_splits option.splits prod.splits)

interpretation udp: socket_class udp_class udp_owns
  by unfold_locales
    (auto simp: udp_class_def udp_owns_def UDPSocket_Bind_def UDPSocket_Listen_def UDPSocket_Accept_def UDPSocket_Connect_def
      UDPSocket_Close_def Let_def split: if_splits option.splits prod.splits)

interpretation udt: socket_class udt_class udt_owns
  by unfold_locales
    (auto simp: udt_class_def udt_owns_def UDTSocket_Bind_def UDTSocket_Listen_def UDTSocket_Accept_def UDTSocket_Connect_def
      UDTSocket_Close_def Let_def split: if_splits option.splits prod.splits)

section \<open>The threads\<close>

datatype socket_pc = PC_Create | PC_Bind | PC_Listen | PC_Test | PC_Accept | PC_Connect | PC_Ended | PC_Destroyed

record 's socket_thread =
  st_socket :: "'s option"
  st_stop :: bool
  st_count :: int
  st_pc :: socket_pc
  st_accepted :: "(int \<times> string \<times> int) list"
  st_handed :: "'s option"
  st_calls :: "sys_call list"

definition socket_thread_new :: "'s socket_thread" where
  "socket_thread_new = \<lparr>st_socket = None, st_stop = False, st_count = 0, st_pc = PC_Create, st_accepted = [],
     st_handed = None, st_calls = []\<rparr>"

text \<open>The steps of the thread, with what it is answered, and what other threads do to it.\<close>

datatype 's socket_event =
    SE_Create 's "sys_call list"
  | SE_Bind "sockaddr list option" bool bool
  | SE_Listen bool
  | SE_Test
  | SE_Accept "sockaddr \<Rightarrow> string" string "int \<times> sockaddr"
  | SE_Connect "sockaddr list option" bool
  | SE_Stop bool
  | SE_Destroy

definition st_emit :: "sys_call list \<Rightarrow> 's socket_thread \<Rightarrow> 's socket_thread" where
  "st_emit cs t = t\<lparr>st_calls := st_calls t @ cs\<rparr>"

text \<open>The destructors of the sockets call \<open>Close\<close>.\<close>

definition delete_socket :: "'s any_socket \<Rightarrow> 's socket_thread \<Rightarrow> 's socket_thread" where
  "delete_socket V t =
     (case st_socket t of None \<Rightarrow> t | Some s \<Rightarrow> (st_emit (snd (as_Close V True s)) t)\<lparr>st_socket := None\<rparr>)"

definition close_socket :: "'s any_socket \<Rightarrow> bool \<Rightarrow> 's socket_thread \<Rightarrow> 's socket_thread" where
  "close_socket V ok t = (case st_socket t of None \<Rightarrow> t | Some s \<Rightarrow> st_emit (snd (as_Close V ok s)) t)"

text \<open>\<open>ListenThread\<close>; a step that is not the thread's next one is \<^const>\<open>None\<close>.\<close>

fun ListenThread_step ::
    "'s any_socket \<Rightarrow> string \<Rightarrow> int \<Rightarrow> int \<Rightarrow> int \<Rightarrow> 's socket_event \<Rightarrow> 's socket_thread \<Rightarrow> 's socket_thread option" where
  "ListenThread_step V localIP localPort acceptCount somaxconn (SE_Create s cs) t =
     (if st_pc t = PC_Create then Some ((st_emit cs t)\<lparr>st_socket := Some s, st_pc := PC_Bind\<rparr>) else None)"
| "ListenThread_step V localIP localPort acceptCount somaxconn (SE_Bind answer ok ok2) t =
     (case (st_pc t, st_socket t) of
        (PC_Bind, Some s) \<Rightarrow>
          map_option (\<lambda>(r, cs). if r then (st_emit cs t)\<lparr>st_pc := PC_Listen\<rparr>
              else (delete_socket V (st_emit cs t))\<lparr>st_pc := PC_Ended\<rparr>)
            (as_Bind V answer ok ok2 localIP localPort s)
      | _ \<Rightarrow> None)"
| "ListenThread_step V localIP localPort acceptCount somaxconn (SE_Listen ok) t =
     (case (st_pc t, st_socket t) of
        (PC_Listen, Some s) \<Rightarrow>
          (case as_Listen V ok somaxconn s of
             (r, cs) \<Rightarrow> Some (if r then (st_emit cs t)\<lparr>st_count := acceptCount, st_pc := PC_Test\<rparr>
                else (delete_socket V (st_emit cs t))\<lparr>st_pc := PC_Ended\<rparr>))
      | _ \<Rightarrow> None)"
| "ListenThread_step V localIP localPort acceptCount somaxconn SE_Test t =
     (if st_pc t = PC_Test then Some (t\<lparr>st_pc := (if st_stop t then PC_Ended else PC_Accept)\<rparr>) else None)"
| "ListenThread_step V localIP localPort acceptCount somaxconn (SE_Accept ntop garbage answer) t =
     (case (st_pc t, st_socket t) of
        (PC_Accept, Some s) \<Rightarrow>
          (case as_Accept V ntop garbage answer ([], 0) s of
             ((sock, ip, port), cs) \<Rightarrow>
               let t = st_emit cs t
               in Some (if sock \<noteq> INVALID_SOCKET then
                    let t = t\<lparr>st_accepted := st_accepted t @ [(sock, ip, port)]\<rparr>
                    in if acceptCount \<noteq> -1 \<and> st_count t - 1 \<le> 0 then (delete_socket V t)\<lparr>st_pc := PC_Ended\<rparr>
                       else t\<lparr>st_count := st_count t - 1, st_pc := PC_Test\<rparr>
                  else (delete_socket V t)\<lparr>st_pc := PC_Ended\<rparr>))
      | _ \<Rightarrow> None)"
| "ListenThread_step V localIP localPort acceptCount somaxconn (SE_Connect answer ok) t = None"
| "ListenThread_step V localIP localPort acceptCount somaxconn (SE_Stop ok) t =
     (if st_pc t = PC_Destroyed then None else Some (close_socket V ok (t\<lparr>st_stop := True\<rparr>)))"
| "ListenThread_step V localIP localPort acceptCount somaxconn SE_Destroy t =
     (if st_pc t = PC_Create \<or> st_pc t = PC_Ended then Some ((delete_socket V t)\<lparr>st_pc := PC_Destroyed\<rparr>) else None)"

text \<open>\<open>ConnectThread\<close>; \<open>Bind\<close> is not looked at, and a socket that is connected goes to the connector.\<close>

fun ConnectThread_step ::
    "'s any_socket \<Rightarrow> string \<Rightarrow> int \<Rightarrow> string \<Rightarrow> int \<Rightarrow> 's socket_event \<Rightarrow> 's socket_thread \<Rightarrow> 's socket_thread option" where
  "ConnectThread_step V localIP localPort ip port (SE_Create s cs) t =
     (if st_pc t = PC_Create then Some ((st_emit cs t)\<lparr>st_socket := Some s, st_pc := PC_Bind\<rparr>) else None)"
| "ConnectThread_step V localIP localPort ip port (SE_Bind answer ok ok2) t =
     (case (st_pc t, st_socket t) of
        (PC_Bind, Some s) \<Rightarrow>
          map_option (\<lambda>(r, cs). (st_emit cs t)\<lparr>st_pc := PC_Connect\<rparr>) (as_Bind V answer ok ok2 localIP localPort s)
      | _ \<Rightarrow> None)"
| "ConnectThread_step V localIP localPort ip port (SE_Connect answer ok) t =
     (case (st_pc t, st_socket t) of
        (PC_Connect, Some s) \<Rightarrow>
          map_option (\<lambda>(r, cs). if r then (st_emit cs t)\<lparr>st_handed := Some s, st_socket := None, st_pc := PC_Ended\<rparr>
              else (delete_socket V (st_emit cs t))\<lparr>st_pc := PC_Ended\<rparr>)
            (as_Connect V answer ok ip port s)
      | _ \<Rightarrow> None)"
| "ConnectThread_step V localIP localPort ip port (SE_Stop ok) t =
     (if st_pc t = PC_Destroyed then None else Some (close_socket V ok t))"
| "ConnectThread_step V localIP localPort ip port SE_Destroy t =
     (if st_pc t = PC_Create \<or> st_pc t = PC_Ended then Some ((delete_socket V t)\<lparr>st_pc := PC_Destroyed\<rparr>) else None)"
| "ConnectThread_step V localIP localPort ip port _ t = None"

fun socket_run :: "('s socket_event \<Rightarrow> 's socket_thread \<Rightarrow> 's socket_thread option) \<Rightarrow> 's socket_event list \<Rightarrow> 's socket_thread \<Rightarrow> 's socket_thread option" where
  "socket_run step [] t = Some t"
| "socket_run step (e # es) t = (case step e t of None \<Rightarrow> None | Some t \<Rightarrow> socket_run step es t)"

text \<open>How often the thread is stopped while it has its socket.\<close>

fun is_stop :: "'s socket_event \<Rightarrow> bool" where
  "is_stop (SE_Stop ok) = True"
| "is_stop _ = False"

fun socket_stops :: "('s socket_event \<Rightarrow> 's socket_thread \<Rightarrow> 's socket_thread option) \<Rightarrow> 's socket_event list \<Rightarrow> 's socket_thread \<Rightarrow> nat" where
  "socket_stops step [] t = 0"
| "socket_stops step (e # es) t =
     (if is_stop e \<and> st_socket t \<noteq> None then 1 else 0) + (case step e t of None \<Rightarrow> 0 | Some t \<Rightarrow> socket_stops step es t)"

section \<open>How often a descriptor is closed\<close>

text \<open>What the threads do with the socket they hold: keep it, hand it over, or delete it.\<close>

locale socket_holder =
  fixes step :: "'s socket_event \<Rightarrow> 's socket_thread \<Rightarrow> 's socket_thread option" and owns :: "'s \<Rightarrow> descriptor list"
  assumes leaves_create: "step e t = Some t' \<Longrightarrow> st_pc t \<noteq> PC_Create \<Longrightarrow> st_pc t' \<noteq> PC_Create"
    and without_socket: "step e t = Some t' \<Longrightarrow> st_pc t \<noteq> PC_Create \<Longrightarrow> st_socket t = None \<Longrightarrow>
      st_socket t' = None \<and> closed_by (st_calls t') = closed_by (st_calls t) \<and> st_handed t' = st_handed t"
    and with_socket: "step e t = Some t' \<Longrightarrow> st_pc t \<noteq> PC_Create \<Longrightarrow> st_socket t = Some s \<Longrightarrow>
      (if is_stop e then st_socket t' = Some s \<and> closed_by (st_calls t') = closed_by (st_calls t) @ owns s \<and> st_handed t' = st_handed t
       else st_socket t' = Some s \<and> closed_by (st_calls t') = closed_by (st_calls t) \<and> st_handed t' = st_handed t
         \<or> st_socket t' = None \<and> closed_by (st_calls t') = closed_by (st_calls t) @ owns s \<and> st_handed t' = st_handed t
         \<or> st_socket t' = None \<and> closed_by (st_calls t') = closed_by (st_calls t) \<and> st_handed t' = Some s)"
begin

lemma run_without:
  "socket_run step es t = Some t' \<Longrightarrow> st_pc t \<noteq> PC_Create \<Longrightarrow> st_socket t = None \<Longrightarrow>
     st_socket t' = None \<and> closed_by (st_calls t') = closed_by (st_calls t) \<and> st_handed t' = st_handed t \<and> socket_stops step es t = 0"
proof (induction es arbitrary: t)
  case (Cons e es)
  then obtain u where u: "step e t = Some u" "socket_run step es u = Some t'" by (auto split: option.splits)
  show ?case using Cons.IH[OF u(2)] leaves_create[OF u(1)] without_socket[OF u(1)] Cons.prems(2,3) u(1) by simp
qed simp

lemma run_with:
  "socket_run step es t = Some t' \<Longrightarrow> st_pc t \<noteq> PC_Create \<Longrightarrow> st_socket t = Some s \<Longrightarrow> st_handed t = None \<Longrightarrow>
     closed_by (st_calls t') = closed_by (st_calls t) @
       concat (replicate (socket_stops step es t + (if st_socket t' = None \<and> st_handed t' = None then 1 else 0)) (owns s)) \<and>
     (st_socket t' = Some s \<and> st_handed t' = None \<or> st_socket t' = None \<and> st_handed t' \<in> {None, Some s})"
proof (induction es arbitrary: t)
  case (Cons e es)
  then obtain u where u: "step e t = Some u" "socket_run step es u = Some t'" by (auto split: option.splits)
  note pc = leaves_create[OF u(1) Cons.prems(2)] and w = with_socket[OF u(1) Cons.prems(2,3)]
  show ?case
  proof (cases "st_socket u")
    case None
    then have no: "\<not> is_stop e" using w by (auto split: if_splits)
    from run_without[OF u(2) pc None] w None no u(1) Cons.prems(4) show ?thesis by auto
  next
    case (Some s')
    then have s': "s' = s" "st_handed u = None"
        "closed_by (st_calls u) = closed_by (st_calls t) @ (if is_stop e then owns s else [])"
      using w Cons.prems(4) by (auto split: if_splits)
    from Cons.IH[OF u(2) pc Some[unfolded s'(1)] s'(2)] s'(3) u(1) Cons.prems(3) show ?thesis by auto
  qed
qed simp

end

lemma delete_socket_simps:
  "st_socket (delete_socket V t) = None" "st_handed (delete_socket V t) = st_handed t" "st_pc (delete_socket V t) = st_pc t"
  by (auto simp: delete_socket_def st_emit_def split: option.split)

context socket_class
begin

lemma delete_closes: "closed_by (st_calls (delete_socket V t)) = closed_by (st_calls t) @ (case st_socket t of None \<Rightarrow> [] | Some s \<Rightarrow> owns s)"
  by (auto simp: delete_socket_def st_emit_def Close_closes split: option.split)

lemma close_closes:
  "closed_by (st_calls (close_socket V ok t)) = closed_by (st_calls t) @ (case st_socket t of None \<Rightarrow> [] | Some s \<Rightarrow> owns s)"
  "st_socket (close_socket V ok t) = st_socket t" "st_handed (close_socket V ok t) = st_handed t" "st_pc (close_socket V ok t) = st_pc t"
  by (auto simp: close_socket_def st_emit_def Close_closes split: option.split)

lemmas holder_simps = delete_socket_simps delete_closes close_closes st_emit_def

text \<open>What a step may do to a thread that holds \<open>s\<close>.\<close>

definition holds_step :: "bool \<Rightarrow> 's \<Rightarrow> 's socket_thread \<Rightarrow> 's socket_thread \<Rightarrow> bool" where
  "holds_step stop s t t' \<longleftrightarrow>
     (if stop then st_socket t' = Some s \<and> closed_by (st_calls t') = closed_by (st_calls t) @ owns s \<and> st_handed t' = st_handed t
      else st_socket t' = Some s \<and> closed_by (st_calls t') = closed_by (st_calls t) \<and> st_handed t' = st_handed t
         \<or> st_socket t' = None \<and> closed_by (st_calls t') = closed_by (st_calls t) @ owns s \<and> st_handed t' = st_handed t
         \<or> st_socket t' = None \<and> closed_by (st_calls t') = closed_by (st_calls t) \<and> st_handed t' = Some s)"

lemma holds_keep:
  assumes "st_socket t = Some s" "closed_by cs = []" "st_socket t' = Some s" "st_calls t' = st_calls t @ cs" "st_handed t' = st_handed t"
  shows "holds_step False s t t'"
  using assms by (simp add: holds_step_def)

lemma holds_delete:
  assumes "st_socket t = Some s" "closed_by cs = []" "st_socket u = Some s" "st_calls u = st_calls t @ cs" "st_handed u = st_handed t"
  shows "holds_step False s t ((delete_socket V u)\<lparr>st_pc := pc\<rparr>)"
  using assms by (simp add: holds_step_def holder_simps)

lemma listen_holds:
  assumes "ListenThread_step V localIP localPort acceptCount somaxconn e t = Some t'" "st_pc t \<noteq> PC_Create" "st_socket t = Some s"
  shows "holds_step (is_stop e) s t t'"
proof (cases e)
  case (SE_Bind answer ok ok2)
  then obtain r cs where b: "as_Bind V answer ok ok2 localIP localPort s = Some (r, cs)"
    "t' = (if r then (st_emit cs t)\<lparr>st_pc := PC_Listen\<rparr> else (delete_socket V (st_emit cs t))\<lparr>st_pc := PC_Ended\<rparr>)"
    using assms(1,3) by (auto split: socket_pc.splits)
  then show ?thesis using Bind_keeps[OF b(1)] assms(3)
    by (auto intro: holds_keep[of t s cs] holds_delete[of t s cs] simp: SE_Bind st_emit_def)
next
  case (SE_Listen ok)
  obtain r cs where b: "as_Listen V ok somaxconn s = (r, cs)" by fastforce
  then have "t' = (if r then (st_emit cs t)\<lparr>st_count := acceptCount, st_pc := PC_Test\<rparr> else (delete_socket V (st_emit cs t))\<lparr>st_pc := PC_Ended\<rparr>)"
    using assms(1,3) SE_Listen by (auto split: socket_pc.splits)
  then show ?thesis using Listen_keeps[of ok somaxconn s] b assms(3)
    by (auto intro: holds_keep[of t s cs] holds_delete[of t s cs] simp: SE_Listen st_emit_def)
next
  case (SE_Accept ntop garbage answer)
  obtain sock ip port cs where b: "as_Accept V ntop garbage answer ([], 0) s = ((sock, ip, port), cs)" by (metis surj_pair)
  then have "closed_by cs = []" using Accept_keeps[of ntop garbage answer "([], 0)" s] by simp
  moreover have "st_pc t = PC_Accept" using assms(1) SE_Accept by (auto split: socket_pc.splits option.splits)
  ultimately show ?thesis using assms(1,3) b
    by (auto intro!: holds_keep[of t s cs] holds_delete[of t s cs] simp: SE_Accept st_emit_def Let_def split: if_splits)
qed (use assms in \<open>auto simp: holds_step_def holder_simps split: if_splits\<close>)

lemma connect_holds:
  assumes "ConnectThread_step V localIP localPort ip port e t = Some t'" "st_pc t \<noteq> PC_Create" "st_socket t = Some s"
  shows "holds_step (is_stop e) s t t'"
proof (cases e)
  case (SE_Bind answer ok ok2)
  then obtain r cs where b: "as_Bind V answer ok ok2 localIP localPort s = Some (r, cs)" "t' = (st_emit cs t)\<lparr>st_pc := PC_Connect\<rparr>"
    using assms(1,3) by (auto split: socket_pc.splits)
  then show ?thesis using Bind_keeps[OF b(1)] assms(3)
    by (auto intro: holds_keep[of t s cs] simp: SE_Bind st_emit_def)
next
  case (SE_Connect answer ok)
  then obtain r cs where b: "as_Connect V answer ok ip port s = Some (r, cs)"
    "t' = (if r then (st_emit cs t)\<lparr>st_handed := Some s, st_socket := None, st_pc := PC_Ended\<rparr>
           else (delete_socket V (st_emit cs t))\<lparr>st_pc := PC_Ended\<rparr>)"
    using assms(1,3) by (auto split: socket_pc.splits)
  show ?thesis
  proof (cases r)
    case True
    then show ?thesis using b Connect_keeps[OF b(1)] by (simp add: SE_Connect holds_step_def st_emit_def)
  next
    case False
    then show ?thesis using b Connect_keeps[OF b(1)] assms(3)
      by (auto intro: holds_delete[of t s cs] simp: SE_Connect st_emit_def)
  qed
qed (use assms in \<open>auto simp: holds_step_def holder_simps split: if_splits\<close>)

lemma listen_without:
  assumes "ListenThread_step V localIP localPort acceptCount somaxconn e t = Some t'" "st_pc t \<noteq> PC_Create" "st_socket t = None"
  shows "st_socket t' = None \<and> closed_by (st_calls t') = closed_by (st_calls t) \<and> st_handed t' = st_handed t"
  using assms by (cases e) (auto simp: holder_simps split: if_splits socket_pc.splits)

lemma connect_without:
  assumes "ConnectThread_step V localIP localPort ip port e t = Some t'" "st_pc t \<noteq> PC_Create" "st_socket t = None"
  shows "st_socket t' = None \<and> closed_by (st_calls t') = closed_by (st_calls t) \<and> st_handed t' = st_handed t"
  using assms by (cases e) (auto simp: holder_simps split: if_splits socket_pc.splits)

lemma listen_created:
  assumes "ListenThread_step V localIP localPort acceptCount somaxconn e t = Some t'" "st_pc t \<noteq> PC_Create"
  shows "st_pc t' \<noteq> PC_Create"
proof (cases e)
  case (SE_Accept ntop garbage answer)
  then show ?thesis using assms
    by (auto simp: Let_def holder_simps split: if_splits socket_pc.splits option.splits prod.splits)
qed (use assms in \<open>auto simp: holder_simps split: if_splits socket_pc.splits option.splits prod.splits\<close>)

lemma listen_hands_nothing:
  "socket_run (ListenThread_step V localIP localPort acceptCount somaxconn) es t = Some t' \<Longrightarrow> st_handed t' = st_handed t"
proof (induction es arbitrary: t)
  case (Cons e es)
  then obtain u where u: "ListenThread_step V localIP localPort acceptCount somaxconn e t = Some u"
    "socket_run (ListenThread_step V localIP localPort acceptCount somaxconn) es u = Some t'"
    by (auto split: option.splits)
  have "st_handed u = st_handed t"
    using u(1) by (cases e) (auto simp: holder_simps Let_def split: if_splits socket_pc.splits option.splits prod.splits)
  then show ?case using Cons.IH[OF u(2)] by simp
qed simp

lemma connect_created:
  assumes "ConnectThread_step V localIP localPort ip port e t = Some t'" "st_pc t \<noteq> PC_Create"
  shows "st_pc t' \<noteq> PC_Create"
  using assms by (cases e) (auto simp: holder_simps split: if_splits socket_pc.splits option.splits prod.splits)

end

sublocale socket_class \<subseteq> listen: socket_holder "ListenThread_step V localIP localPort acceptCount somaxconn" owns
  for localIP localPort acceptCount somaxconn
  using listen_created listen_without listen_holds by unfold_locales (blast, blast, simp add: holds_step_def)

sublocale socket_class \<subseteq> connect: socket_holder "ConnectThread_step V localIP localPort ip port" owns
  for localIP localPort ip port
  using connect_created connect_without connect_holds by unfold_locales (blast, blast, simp add: holds_step_def)

section \<open>The connector\<close>

text \<open>\<open>Stop\<close> closes the socket; the destructor does the same and then deletes the socket.\<close>

definition Connector_Stop :: "'s any_socket \<Rightarrow> bool \<Rightarrow> 's socket_thread \<Rightarrow> 's socket_thread" where
  "Connector_Stop V ok c = close_socket V ok c"

definition Connector_destroy :: "'s any_socket \<Rightarrow> bool \<Rightarrow> 's socket_thread \<Rightarrow> 's socket_thread" where
  "Connector_destroy V ok c = delete_socket V (Connector_Stop V ok c)"

definition Connector_of :: "'s \<Rightarrow> 's socket_thread" where
  "Connector_of s = socket_thread_new\<lparr>st_socket := Some s\<rparr>"

context socket_class
begin

lemma stops_close:
  "closed_by (st_calls (fold (Connector_Stop V) oks c)) = closed_by (st_calls c) @
     (case st_socket c of None \<Rightarrow> [] | Some s \<Rightarrow> concat (replicate (length oks) (owns s))) \<and>
   st_socket (fold (Connector_Stop V) oks c) = st_socket c"
proof (induction oks arbitrary: c)
  case (Cons ok oks)
  then show ?case using Cons.IH[of "Connector_Stop V ok c"]
    by (auto simp: Connector_Stop_def close_closes split: option.split)
qed (simp split: option.split)

lemma replicate_twice: "concat (replicate n xs) @ xs @ xs = concat (replicate (n + 2) xs)"
  by (induction n) auto

lemma connector_closes:
  "closed_by (st_calls (Connector_destroy V ok (fold (Connector_Stop V) oks (Connector_of s)))) =
     concat (replicate (length oks + 2) (owns s))"
  unfolding replicate_twice[symmetric]
  using stops_close[of oks "Connector_of s"]
  by (simp add: Connector_destroy_def Connector_Stop_def delete_closes close_closes Connector_of_def socket_thread_new_def)

end

section \<open>Properties\<close>

lemma concat_replicate_single: "concat (replicate n [x]) = replicate n x"
  by (induction n) auto

lemma run_created:
  assumes "socket_run step (SE_Create s cs # es) socket_thread_new = Some t"
    and "step (SE_Create s cs) socket_thread_new = Some ((st_emit cs socket_thread_new)\<lparr>st_socket := Some s, st_pc := PC_Bind\<rparr>)"
  shows "socket_run step es ((st_emit cs socket_thread_new)\<lparr>st_socket := Some s, st_pc := PC_Bind\<rparr>) = Some t"
    and "socket_stops step (SE_Create s cs # es) socket_thread_new =
      socket_stops step es ((st_emit cs socket_thread_new)\<lparr>st_socket := Some s, st_pc := PC_Bind\<rparr>)"
  using assms by simp_all



end
