(* ===== verification/Spec2Isabelle.thy ===== *)
theory Spec2Isabelle
  imports Ipc_Connection Framing Client_Server_Login Tunnel_Setup Secure_Channel Base64_Roundtrip Proxy_Session Connections Tunnel_Relay Tunnel_Punching Critical_Section Signal_Runs Twainet_Delivery Terminal_Typing Daemon Internal_Connector Relay_Thread Socket_Lifetime
begin

text \<open>
  Twainet is a C++ library by which programs (modules) find each other and exchange messages: on
  one host through a coordinator, over the network as client and server, and between two clients
  through tunnels that the server helps to set up. This development models the library's own
  logic (the sources are under \<open>src/src/cpp\<close>) and proves what makes its parts correct, and where
  they are not.

  \<^bold>\<open>How the code is modelled.\<close> A class is a record of its members, an operation or handler a
  function from the state to the next one; what it does outside itself (starting a thread,
  sending a message, calling a virtual callback, signalling its subscribers) is appended to a
  trace of effects in the state, in the order of the calls. A call through a null pointer, a
  read out of range or a use of an invalid iterator that the code does not exclude is
  \<^const>\<open>None\<close>. The time, fresh GUIDs, the user's name, the ports and addresses the system
  gives, and what a system call returns are arguments. Strings are lists of bytes. A critical
  section makes an operation atomic, so an operation is one step; what can happen between steps
  is every sequence of steps. Logging is left out.

  \<^bold>\<open>Theories.\<close>
  \<^item> Prelude: strings, positions in vectors, collections of simplification rules.
  \<^item> Object_Manager: \<open>include/object_manager.h\<close>, the sorted vector most containers are. The
    locales \<open>ordered_object\<close> (what the elements have to offer) and \<open>keyed_store\<close> (what the
    container promises: the laws of a finite map); every element type of the program interprets
    the first. Its lemmas show the container is a finite map.
  \<^item> Common_Utils, Object_Name: splitting and joining strings (\<open>utils/utils.cpp\<close>), names of
    modules and their printed form (\<open>ipc_object_name.cpp\<close>), with round trips.
  \<^item> Framing: \<open>message_handler.cpp\<close>, the socket loops of \<open>tcp_socket.cpp\<close>, \<open>proto_message.h\<close> and
    the receiving thread of \<open>ipc_connector.cpp\<close>: bytes to messages and back. The protobuf encoding is
    the locale \<open>serializer\<close>.
  \<^item> Ipc_Types, Ipc_Module, Ipc_Invariant, Ipc_Properties: \<open>ipc_lib/module\<close>; the module, its
    signal handlers, the step relation of all of them, the invariant of its reachable states,
    and its behaviour: connecting, losing a connection, renaming, routing, exiting.
  \<^item> Ipc_Connector, Ipc_Connection: \<open>ipc_lib/connector\<close>; a connector with its module and the
    module's other connectors: handshake, tie-break of simultaneous connections, routing of
    messages, internal connections. A simulation shows the connector moves the module only by
    the module's own steps.
  \<^item> Client_Server_Module, Client_Server_Properties, Client_Server_Connector,
    Client_Server_Login: \<open>client_server_lib\<close>; users, login on both sides, sessions, reconnecting.
  \<^item> Tunnel_Module, Tunnel_Handlers, Tunnel_Runs, Tunnel_Threads, Tunnel_Setup: \<open>tunnel_lib/module\<close>;
    the tunnel module on either side, the events that reach it and its runs, the balance of its
    threads over any run, and the setting up of tunnels between two clients.
  \<^item> Secure_Socket, Secure_Channel: \<open>secure_socket.cpp\<close> and \<open>aes.cpp\<close> of \<open>connector_lib\<close>; the cipher's
    wrapper, the handshake and the encrypted stream over OpenSSL as a record of functions, that the
    stream delivers what is sent, and what a peer can do to the handshake.
  \<^item> Base64, Base64_Roundtrip: \<open>utils/base64.cpp\<close>; both encoders agree with a reference, both decoders
    undo them.
  \<^item> Proxy_Socket, Proxy_Session: \<open>proxy_socket.cpp\<close>; connecting through an HTTP proxy with Basic,
    Digest and NTLM authorisation, and what a success, a challenge and an answer mean.
  \<^item> Std_Map: \<open>std::map\<close> as the list of its entries in order of the keys.
  \<^item> Threads, Managers: \<open>include/semaphore.h\<close> and \<open>thread_lib\<close>; a thread under every interleaving of
    what starts, stops and ends it, the thread that runs the managers, the deletion of ended
    threads, timers. The semaphore is the POSIX one.
  \<^item> Connections: \<open>listen_thread.cpp\<close>, \<open>connect_thread.cpp\<close> and \<open>connector_manager.cpp\<close> of
    \<open>connector_lib\<close>; what listening and connecting hand over, and that every connector started ends once.
  \<^item> Sockets, Socket_Lifetime: the socket classes over TCP, UDP and UDT (\<open>connector_lib/socket\<close>) with the
    calls they make, where they are bound, and their factories. The locale \<open>socket_class\<close> is what the
    interface \<open>any_socket.h\<close> promises about descriptors, \<open>socket_holder\<close> what the threads that hold a socket
    do with it; together they tell how often a descriptor is closed.
  \<^item> Tunnel_Connector, Tunnel_Relay: \<open>tunnel_lib/connector\<close>; the connectors of a tunnel at the
    clients and the relay between them at the server: what a relay passes on, and the introduction.
  \<^item> Tunnel_Listeners, Tunnel_Punching: \<open>tunnel_lib/thread\<close>; the threads by which a server makes a
    relay or finds out the addresses of clients, and that it succeeds in every order of events.
  \<^item> Critical_Section: \<open>include/critical_section.h\<close>; the lock under every critical section, every access
    of its fields interleaved. That it excludes is what lets an operation be one step elsewhere.
  \<^item> Signals, Signal_Runs: \<open>connector_lib/signal\<close>; subscribing, signalling and the destruction of
    owners and receivers in any order, in a memory where a dangling pointer is a fault.
  \<^item> Twainet_Module, Twainet_Sync: \<open>twainet/module\<close>; the module's callbacks, the paths of messages, and
    the calls that wait for an answer as independent mailboxes.
  \<^item> Notifications, Twainet_Application: \<open>twainet/message\<close> and \<open>twainet/application/application.cpp\<close>;
    from notifications to callbacks, and the thread that hands them over.
  \<^item> Twainet_Api, Twainet_Delivery: \<open>twainet.cpp\<close>; the C interface over all the layers, and what goes
    through them: messages from the connection to the callback and from \<open>SendMessage\<close> to the path.
  \<^item> Internal_Connector, Relay_Thread: \<open>internal_connector.cpp\<close>, by which the bytes of an application's
    socket cross the connection of two modules, and the end of \<open>TunnelServerConnector\<close>, which waits for
    both of its connectors.
  \<^item> App_Module, App_Framework: \<open>include/module.h\<close>, \<open>default_app.h\<close> and \<open>appinterface.h\<close>; the class the
    modules of applications derive from, how the clients of a server learn each other's names, and the
    application that hands the library's callbacks to its modules.
  \<^item> Config_Files, Daemon: \<open>apps/deamon\<close>, \<open>path_parser.cpp\<close> and \<open>file.cpp\<close>; the lists in files, and the
    coordinator that gives the credentials of its local server to the modules it trusts.
  \<^item> Quoted_Strings: the splitting of quoted lines and the printing of times (\<open>utils.cpp\<close>).
  \<^item> Console, Console_Editing: \<open>apps/remote_terminal/terminal/console.cpp\<close>; the line editor, its
    refinement of editing a list at a caret, and the screen, read back from the bytes it prints.
  \<^item> Terminal, Terminal_Runs, Terminal_Session, Terminal_Typing: the remote terminal's commands, states,
    completion and module; that a well-formed terminal stays so whatever comes in, and that a line that
    is typed is sent as a command to the module that has registered.

  \<^bold>\<open>How the parts interact.\<close> A module (\<open>ipc_module\<close>) is the base of a client-server module
  (\<open>cs_module\<close>), which is the base of a tunnel module (\<open>tunnel_module\<close>); each record holds its
  base's, and each handler calls the base's. Connectors are the module's connections: they call
  the module's handlers and receive its signals. A node (\<open>node\<close>, \<open>cs_node\<close>) is one connector
  together with its module and the module's other connectors, so that a handler that signals all
  subscribers is a function on the node. A Twainet module is a tunnel module whose virtual functions
  are the callbacks; the library finds them in the traces of the layers and queues the notifications.
  An application has modules of its own (\<open>app_module\<close>), each with a handle of the library's module, which
  get the callbacks and call the C interface; the daemon and the remote terminal are such applications.

  \<^bold>\<open>Bounds.\<close> Loops over data are structural or have a measure. The receiving loops take fuel, with
  the theorems stating how much is enough.

  \<^bold>\<open>Not modelled.\<close> The operating system's side of sockets, files, processes, services and
  threads, and the wrappers in \<open>common\<close> that only call it (of a socket, the calls are modelled and their
  answers arguments); protobuf, OpenSSL, UDT, libntlm and SimpleIni,
  whose functions are parameters where the code's logic depends on them; the main programs of the
  applications, which only start them; the modes of the terminal device; \<open>Module::toMessage\<close> with an
  answer, which hands names to the library that no longer exist; the classes of TLS sockets that repeat
  each other's methods over TCP, UDT and a proxy; the JavaScript binding and the tests; logging. Data races between
  threads outside critical sections are not modelled: each operation is a step.
\<close>

end
